(* ===== verification/GoPrelude.thy ===== *)
theory GoPrelude
  imports
    Main
    "HOL-Library.Word"
    "HOL-Library.Char_ord"
    "HOL-Library.List_Lexorder"
    "HOL-Library.Product_Lexorder"
    "HOL-Library.Finite_Map"
begin

text \<open>
  The vocabulary every other theory uses: Go's fixed-width integers as words, Go strings and byte
  slices as lists of 8-bit characters, the parts of the Go standard library the sources call
  (\<^verbatim>\<open>encoding/binary\<close>, \<^verbatim>\<open>encoding/hex\<close>, \<^verbatim>\<open>fmt.Sprintf("%d")\<close>, \<^verbatim>\<open>strings\<close>), the transaction
  context, and the record \<open>env\<close> of what the sources take from code outside the repository.
\<close>

section \<open>Integers, strings, events\<close>

text \<open>
  Go's \<^verbatim>\<open>uint64\<close> and \<^verbatim>\<open>int64\<close> are both 64-bit words; a conversion between them keeps the bits, so
  it is the identity here, and a signed comparison is written with \<open><s\<close> and \<open>\<le>s\<close>.  Addition wraps
  as in Go.  \<^verbatim>\<open>len\<close> of a string is its number of bytes, a \<open>nat\<close>; \<^verbatim>\<open>uint32(len(s))\<close> truncates
  (\<open>u32_len\<close>).
\<close>

type_synonym uint64 = "64 word"
type_synonym int64 = "64 word"
type_synonym uint32 = "32 word"
type_synonym bytes = string

definition u32_len :: "'a list \<Rightarrow> uint32" where
  "u32_len xs = word_of_nat (length xs)"

text \<open>An emitted SDK event: its type and its attributes in order.\<close>

datatype event = Event string "(string \<times> string) list"

text \<open>
  What the handlers read from \<^verbatim>\<open>sdk.Context\<close>: \<^verbatim>\<open>BlockHeight()\<close>, \<^verbatim>\<open>BlockTime().Unix()\<close> and
  \<^verbatim>\<open>TxBytes()\<close>.
\<close>

record sdk_ctx =
  BlockHeight :: int64
  BlockTimeUnix :: int64
  TxBytes :: bytes

section \<open>Collection keys and the environment\<close>

text \<open>
  \<open>ckey\<close> is the shape of a \<^verbatim>\<open>cosmossdk.io/collections\<close> key after its key codec: a string, a
  uint64, or a pair of keys.  \<open>env\<close> gathers the code that is not in the repository: the hash
  functions, bech32 decoding, and the two ways the storage layer can fail an operation, namely
  rejecting a write (with a message) and failing to decode a stored value.  Nothing is assumed
  about any field unless a theorem says so.
\<close>

datatype ckey = KUnit | KStr string | KU64 uint64 | KPair ckey ckey

record env =
  keccak256 :: "bytes \<Rightarrow> bytes"
  sha256 :: "bytes \<Rightarrow> bytes"
  AccAddressFromBech32 :: "string \<Rightarrow> string + bytes"
  write_fault :: "string \<Rightarrow> ckey \<Rightarrow> string option"
  decode_fault :: "string \<Rightarrow> ckey \<Rightarrow> bool"

text \<open>A storage layer that never fails, the normal case.\<close>

definition healthy :: "env \<Rightarrow> bool" where
  "healthy E \<longleftrightarrow> write_fault E = (\<lambda>_ _. None) \<and> decode_fault E = (\<lambda>_ _. False)"

lemma healthyD [simp]:
  "healthy E \<Longrightarrow> write_fault E c k = None"
  "healthy E \<Longrightarrow> decode_fault E c k = False"
  by (simp_all add: healthy_def)

text \<open>Documented behaviour of \<^verbatim>\<open>AccAddressFromBech32\<close>: the empty string is not an address.\<close>

definition rejects_empty :: "env \<Rightarrow> bool" where
  "rejects_empty E \<longleftrightarrow> (\<exists>e. AccAddressFromBech32 E [] = Inl e)"

section \<open>Big-endian bytes\<close>

text \<open>\<^verbatim>\<open>binary.BigEndian\<close>: \<open>be_bytes n v\<close> are the \<open>n\<close> low bytes of \<open>v\<close>, most significant first.\<close>

fun be_bytes :: "nat \<Rightarrow> nat \<Rightarrow> bytes" where
  "be_bytes 0 v = []"
| "be_bytes (Suc n) v = char_of (v div 256 ^ n) # be_bytes n v"

definition from_be :: "bytes \<Rightarrow> nat" where
  "from_be bs = foldl (\<lambda>acc c. acc * 256 + of_char c) 0 bs"

definition PutUint32 :: "uint32 \<Rightarrow> bytes" where
  "PutUint32 v = be_bytes 4 (unat v)"

definition PutUint64 :: "uint64 \<Rightarrow> bytes" where
  "PutUint64 v = be_bytes 8 (unat v)"

definition BE_Uint32 :: "bytes \<Rightarrow> uint32" where
  "BE_Uint32 bz = word_of_nat (from_be (take 4 bz))"

definition BE_Uint64 :: "bytes \<Rightarrow> uint64" where
  "BE_Uint64 bz = word_of_nat (from_be (take 8 bz))"

lemma length_be_bytes [simp]: "length (be_bytes n v) = n"
  by (induction n) auto

lemma foldl_be_acc:
  "foldl (\<lambda>acc c. acc * 256 + of_char c) a (be_bytes n v) = a * 256 ^ n + v mod 256 ^ n"
proof (induction n arbitrary: a)
  case 0
  show ?case by simp
next
  case (Suc n)
  have "(a * 256 + v div 256 ^ n mod 256) * 256 ^ n + v mod 256 ^ n
      = a * 256 ^ Suc n + (v div 256 ^ n mod 256 * 256 ^ n + v mod 256 ^ n)"
    by (simp add: algebra_simps)
  also have "v div 256 ^ n mod 256 * 256 ^ n + v mod 256 ^ n = v mod 256 ^ Suc n"
    by (metis mod_mult2_eq mult.commute power_Suc power_Suc2)
  finally show ?case
    by (simp add: Suc.IH)
qed

lemma from_be_be_bytes: "from_be (be_bytes n v) = v mod 256 ^ n"
  by (simp add: from_be_def foldl_be_acc)

lemma be_bytes_inject:
  "v < 256 ^ n \<Longrightarrow> w < 256 ^ n \<Longrightarrow> be_bytes n v = be_bytes n w \<longleftrightarrow> v = w"
  by (metis from_be_be_bytes mod_less)

lemma BE_Uint32_PutUint32 [simp]: "BE_Uint32 (PutUint32 v) = v"
proof -
  have "unat v < 256 ^ 4"
    using unsigned_less [of v] by simp
  then show ?thesis
    by (simp add: BE_Uint32_def PutUint32_def from_be_be_bytes)
qed

lemma BE_Uint64_PutUint64 [simp]: "BE_Uint64 (PutUint64 v) = v"
proof -
  have "unat v < 256 ^ 8"
    using unsigned_less [of v] by simp
  then show ?thesis
    by (simp add: BE_Uint64_def PutUint64_def from_be_be_bytes)
qed

lemma length_PutUint32 [simp]: "length (PutUint32 v) = 4"
  by (simp add: PutUint32_def)

lemma length_PutUint64 [simp]: "length (PutUint64 v) = 8"
  by (simp add: PutUint64_def)

lemma PutUint64_inject [simp]: "PutUint64 v = PutUint64 w \<longleftrightarrow> v = w"
  by (metis BE_Uint64_PutUint64)

section \<open>Chains of error checks\<close>

text \<open>A check that returns its error first and otherwise goes on succeeds when both parts do.\<close>

lemma case_error_None [simp]:
  "(case x of None \<Rightarrow> y | Some e \<Rightarrow> Some (f e)) = None \<longleftrightarrow> x = None \<and> y = None"
  by (cases x) auto

section \<open>Case analysis used by pairwise recursions\<close>

lemma list_pair_cases:
  obtains "xs = []" | a where "xs = [a]" | a b rest where "xs = a # b # rest"
  by (cases xs rule: remdups_adj.cases) auto

section \<open>Incrementing without wrapping\<close>

lemma unat_inc: "(n :: 'a::len word) + 1 \<noteq> 0 \<Longrightarrow> unat (n + 1) = Suc (unat n)"
  using unatSuc [of n] by (simp add: add.commute)

lemma inc_nonzero:
  assumes "unat (n :: uint64) + 1 < 2 ^ 64"
  shows "n + 1 \<noteq> 0"
proof
  assume "n + 1 = 0"
  moreover have "unat (n + 1) = unat n + 1" using assms by (simp add: unat_word_ariths)
  ultimately show False by simp
qed

lemma unat_word_of_nat: "n < 2 ^ LENGTH('a) \<Longrightarrow> unat (word_of_nat n :: 'a::len word) = n"
  by (simp add: unsigned_of_nat take_bit_nat_eq_self)

lemma word_of_nat_unat: "unat (w :: 'a::len word) = n \<Longrightarrow> w = word_of_nat n"
  by auto

section \<open>Signers and transactions\<close>

text \<open>\<^verbatim>\<open>GetSigners\<close> ignores the decoding error, and the address is then empty.\<close>

definition signer_of :: "env \<Rightarrow> string \<Rightarrow> bytes list" where
  "signer_of E addr = [case AccAddressFromBech32 E addr of Inl _ \<Rightarrow> [] | Inr a \<Rightarrow> a]"

text \<open>
  The transaction runner of the SDK: the state a handler leaves is kept when it succeeds and
  discarded when it fails.
\<close>

definition commit_if :: "('e + 'a) \<times> 's \<Rightarrow> 's \<Rightarrow> 's" where
  "commit_if res st = (case res of (Inl _, _) \<Rightarrow> st | (Inr _, st') \<Rightarrow> st')"

definition succeeds :: "('e + 'a) \<times> 's \<Rightarrow> bool" where
  "succeeds res \<longleftrightarrow> (case fst res of Inl _ \<Rightarrow> False | Inr _ \<Rightarrow> True)"

lemma commit_if_cases:
  obtains "\<not> succeeds res" "commit_if res st = st" | x st' where "res = (Inr x, st')" "succeeds res" "commit_if res st = st'"
  by (cases res; cases "fst res") (auto simp: succeeds_def commit_if_def)

end
