(* ===== verification/CollStore.thy ===== *)
theory CollStore
  imports GoPrelude "HOL-Library.Sublist"
begin

text \<open>
  The containers of \<^verbatim>\<open>cosmossdk.io/collections\<close> as the keepers use them: \<^verbatim>\<open>Item\<close>, \<^verbatim>\<open>Sequence\<close>,
  \<^verbatim>\<open>Map\<close> and \<^verbatim>\<open>KeySet\<close>.  The library is not in the repository: its persistent content is a finite
  map (a finite set for a \<^verbatim>\<open>KeySet\<close>), its failures are the two oracles of \<open>env\<close>, and \<^verbatim>\<open>Walk\<close> visits
  the entries in ascending key order, which for strings is byte order, for pairs lexicographic and
  for uint64 numeric, and stops when the callback says so.  The locale \<open>kv_map\<close> is the contract the
  keepers rely on; \<open>fm\<close> interprets it.
\<close>

section \<open>Handles\<close>

text \<open>
  A collection as \<^verbatim>\<open>NewMap\<close> and its kin declare it: the one-byte prefix, the schema name and the
  key codec.
\<close>

record 'k coll =
  c_prefix :: nat
  c_name :: string
  c_key :: "'k \<Rightarrow> ckey"

datatype coll_err = ErrNotFound | ErrDecode | ErrStore string

definition StringKey :: "string \<Rightarrow> ckey" where
  "StringKey s = KStr s"

definition Uint64Key :: "uint64 \<Rightarrow> ckey" where
  "Uint64Key n = KU64 n"

definition PairKeyCodec :: "('a \<Rightarrow> ckey) \<Rightarrow> ('b \<Rightarrow> ckey) \<Rightarrow> 'a \<times> 'b \<Rightarrow> ckey" where
  "PairKeyCodec f g p = KPair (f (fst p)) (g (snd p))"

definition ItemKey :: "unit \<Rightarrow> ckey" where
  "ItemKey u = KUnit"

section \<open>Operations\<close>

text \<open>
  A read misses with \<open>ErrNotFound\<close>, fails with \<open>ErrDecode\<close>, or returns the value.  A write returns
  its error, if any, and the new content (the old content when it fails).
\<close>

definition map_Get :: "env \<Rightarrow> 'k coll \<Rightarrow> ('k, 'v) fmap \<Rightarrow> 'k \<Rightarrow> coll_err + 'v" where
  "map_Get E c m k =
     (case fmlookup m k of
        None \<Rightarrow> Inl ErrNotFound
      | Some v \<Rightarrow> if decode_fault E (c_name c) (c_key c k) then Inl ErrDecode else Inr v)"

definition map_Has :: "('k, 'v) fmap \<Rightarrow> 'k \<Rightarrow> bool" where
  "map_Has m k \<longleftrightarrow> fmlookup m k \<noteq> None"

definition map_Set :: "env \<Rightarrow> 'k coll \<Rightarrow> ('k, 'v) fmap \<Rightarrow> 'k \<Rightarrow> 'v \<Rightarrow> coll_err option \<times> ('k, 'v) fmap" where
  "map_Set E c m k v =
     (case write_fault E (c_name c) (c_key c k) of
        Some e \<Rightarrow> (Some (ErrStore e), m)
      | None \<Rightarrow> (None, fmupd k v m))"

definition map_Remove :: "env \<Rightarrow> 'k coll \<Rightarrow> ('k, 'v) fmap \<Rightarrow> 'k \<Rightarrow> coll_err option \<times> ('k, 'v) fmap" where
  "map_Remove E c m k =
     (case write_fault E (c_name c) (c_key c k) of
        Some e \<Rightarrow> (Some (ErrStore e), m)
      | None \<Rightarrow> (None, fmdrop k m))"

definition set_Set :: "env \<Rightarrow> 'k coll \<Rightarrow> 'k fset \<Rightarrow> 'k \<Rightarrow> coll_err option \<times> 'k fset" where
  "set_Set E c s k =
     (case write_fault E (c_name c) (c_key c k) of
        Some e \<Rightarrow> (Some (ErrStore e), s)
      | None \<Rightarrow> (None, finsert k s))"

definition set_Remove :: "env \<Rightarrow> 'k coll \<Rightarrow> 'k fset \<Rightarrow> 'k \<Rightarrow> coll_err option \<times> 'k fset" where
  "set_Remove E c s k =
     (case write_fault E (c_name c) (c_key c k) of
        Some e \<Rightarrow> (Some (ErrStore e), s)
      | None \<Rightarrow> (None, fminus s {|k|}))"

definition item_Get :: "env \<Rightarrow> unit coll \<Rightarrow> 'v option \<Rightarrow> coll_err + 'v" where
  "item_Get E c i =
     (case i of
        None \<Rightarrow> Inl ErrNotFound
      | Some v \<Rightarrow> if decode_fault E (c_name c) (c_key c ()) then Inl ErrDecode else Inr v)"

definition item_Set :: "env \<Rightarrow> unit coll \<Rightarrow> 'v option \<Rightarrow> 'v \<Rightarrow> coll_err option \<times> 'v option" where
  "item_Set E c i v =
     (case write_fault E (c_name c) (c_key c ()) of
        Some e \<Rightarrow> (Some (ErrStore e), i)
      | None \<Rightarrow> (None, Some v))"

text \<open>\<^verbatim>\<open>Sequence\<close>: \<^verbatim>\<open>Peek\<close> reads the number, 0 when never set; \<^verbatim>\<open>Next\<close> returns it and stores its successor.\<close>

definition seq_Peek :: "env \<Rightarrow> unit coll \<Rightarrow> uint64 option \<Rightarrow> coll_err + uint64" where
  "seq_Peek E c i =
     (case item_Get E c i of
        Inl ErrNotFound \<Rightarrow> Inr 0
      | Inl e \<Rightarrow> Inl e
      | Inr n \<Rightarrow> Inr n)"

definition seq_Next :: "env \<Rightarrow> unit coll \<Rightarrow> uint64 option \<Rightarrow> (coll_err + uint64) \<times> uint64 option" where
  "seq_Next E c i =
     (case seq_Peek E c i of
        Inl e \<Rightarrow> (Inl e, i)
      | Inr n \<Rightarrow>
          (case item_Set E c i (n + 1) of
             (Some e, i') \<Rightarrow> (Inl e, i')
           | (None, i') \<Rightarrow> (Inr n, i')))"

text \<open>
  The entries in iteration order, and \<^verbatim>\<open>Walk\<close>: the callback gets key, value and its accumulated
  state and returns whether to stop.  An undecodable value ends the walk with an error, after the
  entries before it have been seen.
\<close>

definition entries :: "('k::linorder, 'v) fmap \<Rightarrow> ('k \<times> 'v) list" where
  "entries m = map (\<lambda>k. (k, the (fmlookup m k))) (sorted_list_of_fset (fmdom m))"

definition keys :: "'k::linorder fset \<Rightarrow> 'k list" where
  "keys s = sorted_list_of_fset s"

fun Walk_list :: "('k \<Rightarrow> bool) \<Rightarrow> ('k \<times> 'v) list \<Rightarrow> ('k \<Rightarrow> 'v \<Rightarrow> 'a \<Rightarrow> bool \<times> 'a) \<Rightarrow> 'a \<Rightarrow> coll_err option \<times> 'a" where
  "Walk_list bad [] f a = (None, a)"
| "Walk_list bad ((k, v) # es) f a =
     (if bad k then (Some ErrDecode, a)
      else case f k v a of (stop, a') \<Rightarrow> if stop then (None, a') else Walk_list bad es f a')"

definition map_Walk :: "env \<Rightarrow> ('k::linorder) coll \<Rightarrow> ('k, 'v) fmap \<Rightarrow> ('k \<Rightarrow> bool) \<Rightarrow> ('k \<Rightarrow> 'v \<Rightarrow> 'a \<Rightarrow> bool \<times> 'a) \<Rightarrow> 'a \<Rightarrow> coll_err option \<times> 'a" where
  "map_Walk E c m rng f a =
     Walk_list (\<lambda>k. decode_fault E (c_name c) (c_key c k)) (filter (\<lambda>(k, v). rng k) (entries m)) f a"

text \<open>A \<^verbatim>\<open>KeySet\<close> has no values to decode, so its walk does not fail.\<close>

definition set_Walk :: "'k::linorder fset \<Rightarrow> ('k \<Rightarrow> bool) \<Rightarrow> ('k \<Rightarrow> 'a \<Rightarrow> bool \<times> 'a) \<Rightarrow> 'a \<Rightarrow> coll_err option \<times> 'a" where
  "set_Walk s rng f a =
     Walk_list (\<lambda>k. False) (map (\<lambda>k. (k, ())) (filter rng (keys s))) (\<lambda>k _ a. f k a) a"

text \<open>The range \<^verbatim>\<open>nil\<close>, which admits every key.\<close>

definition no_range :: "'k \<Rightarrow> bool" where
  "no_range k = True"

section \<open>Facts about the containers\<close>

named_theorems coll_defs \<open>operations of the containers\<close>

lemmas coll_op_defs [coll_defs] =
  map_Get_def map_Set_def map_Has_def map_Remove_def set_Set_def set_Remove_def
  item_Get_def item_Set_def seq_Peek_def seq_Next_def

lemma set_entries: "(k, v) \<in> set (entries m) \<longleftrightarrow> fmlookup m k = Some v"
  by (auto simp: entries_def fmlookup_dom_iff intro!: image_eqI)

lemma entries_ball:
  "(\<forall>(k, v) \<in> set (entries m). P k v) \<longleftrightarrow> (\<forall>k v. fmlookup m k = Some v \<longrightarrow> P k v)"
  by (auto simp: set_entries)

lemma fst_entries: "map fst (entries m) = sorted_list_of_fset (fmdom m)"
  by (simp add: entries_def comp_def)

lemma sorted_entries: "sorted (map fst (entries m))"
  by (simp add: fst_entries sorted_list_of_fset.rep_eq)

lemma distinct_entries: "distinct (map fst (entries m))"
  by (simp add: fst_entries sorted_list_of_fset.rep_eq)

lemma set_keys [simp]: "set (keys s) = fset s"
  by (simp add: keys_def)

lemma entries_fmempty [simp]: "entries fmempty = []"
  by (simp add: entries_def sorted_list_of_fset.rep_eq)

lemma keys_fempty [simp]: "keys {||} = []"
  by (simp add: keys_def sorted_list_of_fset.rep_eq)

text \<open>Evaluation on explicit contents: inserting a key keeps the list sorted.\<close>

lemma keys_finsert: "x |\<notin>| s \<Longrightarrow> keys (finsert x s) = insort x (keys s)"
  by (simp add: keys_def sorted_list_of_fset.rep_eq sorted_list_of_set_insert)

lemma map_Get_Inr: "map_Get E c m k = Inr v \<Longrightarrow> fmlookup m k = Some v"
  by (auto simp: map_Get_def split: option.splits if_splits)

lemma map_Get_healthy [simp]:
  "healthy E \<Longrightarrow> map_Get E c m k = (case fmlookup m k of None \<Rightarrow> Inl ErrNotFound | Some v \<Rightarrow> Inr v)"
  by (simp add: map_Get_def split: option.split)

lemma seq_Peek_healthy [simp]:
  "healthy E \<Longrightarrow> seq_Peek E c i = Inr (case i of None \<Rightarrow> 0 | Some n \<Rightarrow> n)"
  by (cases i) (simp_all add: seq_Peek_def item_Get_def)

text \<open>
  A walk whose callback only collects, without stopping, is a fold, and on a healthy store it
  collects every entry of the range.
\<close>

lemma Walk_list_collect:
  assumes "\<And>k v a. f k v a = (False, g k v a)" and "\<And>k. \<not> bad k"
  shows "Walk_list bad es f a = (None, fold (\<lambda>(k, v). g k v) es a)"
  using assms(2) by (induction es arbitrary: a) (auto simp: assms(1))

lemma fold_append_values: "fold (\<lambda>(k, v) out. out @ [v]) es acc = acc @ map snd es"
  by (induction es arbitrary: acc) auto

text \<open>
  An invariant of the accumulator: what holds at the start and is kept by every callback on an
  entry of the content holds at the end, wherever the walk stops.
\<close>

lemma Walk_list_inv:
  assumes "P a" and "\<And>k v a. (k, v) \<in> set es \<Longrightarrow> P a \<Longrightarrow> P (snd (f k v a))"
  shows "P (snd (Walk_list bad es f a))"
  using assms
proof (induction es arbitrary: a)
  case (Cons e es)
  obtain k v where e: "e = (k, v)" by (cases e)
  obtain stop a' where f: "f k v a = (stop, a')" by (cases "f k v a")
  have "P a'"
    using Cons.prems(2) [of k v a] Cons.prems(1) e f by simp
  then show ?case
    using Cons e f by auto
qed simp

text \<open>
  The shape of the invariant walks: the callback appends a message for each violating entry and may
  stop only after it has found one.  On a store that decodes, the walk ends with no message exactly
  when no entry violates.
\<close>

lemma Walk_list_violations:
  assumes app: "\<And>k v a. snd (f k v a) = (if viol k v then a @ [msg k v] else a)"
    and go: "\<And>k v. \<not> viol k v \<Longrightarrow> \<not> fst (f k v [])"
    and ok: "\<And>k. \<not> bad k"
  shows "snd (Walk_list bad es f []) = [] \<longleftrightarrow> (\<forall>(k, v) \<in> set es. \<not> viol k v)"
    and "fst (Walk_list bad es f a0) = None"
proof -
  have bad: "bad = (\<lambda>_. False)" using ok by auto
  have grow: "a \<noteq> [] \<Longrightarrow> snd (Walk_list bad es f a) \<noteq> []" for a es
    by (rule Walk_list_inv) (auto simp: app)
  show "snd (Walk_list bad es f []) = [] \<longleftrightarrow> (\<forall>(k, v) \<in> set es. \<not> viol k v)"
    using grow unfolding bad
  proof (induction es)
    case (Cons e es)
    obtain k v where e: "e = (k, v)" by (cases e)
    obtain stop a' where f: "f k v [] = (stop, a')" by (cases "f k v []")
    show ?case
    proof (cases "viol k v")
      case True
      then have "a' = [msg k v]" using app [of k v "[]"] f by simp
      then show ?thesis using True e f Cons.prems [of "[msg k v]" es] by auto
    next
      case False
      then have "a' = []" "\<not> stop" using app [of k v "[]"] go [of k v] f by auto
      then show ?thesis using False e f Cons by auto
    qed
  qed simp
  show "fst (Walk_list bad es f a0) = None"
    using ok by (induction es arbitrary: a0) (auto split: prod.split)
qed

text \<open>A walk that collects values and stops at a limit returns the first \<open>n\<close> of them.\<close>

lemma Walk_list_capped:
  "length a < n \<Longrightarrow> snd (Walk_list (\<lambda>_. False) es (\<lambda>_ v out. let out' = out @ [v] in (n \<le> length out', out')) a)
     = a @ take (n - length a) (map snd es)"
proof (induction es arbitrary: a)
  case (Cons e es)
  obtain k v where e: "e = (k, v)" by (cases e)
  show ?case
  proof (cases "n \<le> Suc (length a)")
    case True
    then have "n - length a = 1" using Cons.prems by simp
    then show ?thesis using e True by (simp add: Let_def)
  next
    case False
    then have "n - length a = Suc (n - Suc (length a))" by simp
    then show ?thesis using e False Cons.IH [of "a @ [v]"] by (simp add: Let_def)
  qed
qed simp

lemma map_Walk_capped:
  "healthy E \<Longrightarrow> 0 < n \<Longrightarrow>
     snd (map_Walk E c m rng (\<lambda>_ v out. let out' = out @ [v] in (n \<le> length out', out')) []) =
       take n (map snd (filter (\<lambda>(k, v). rng k) (entries m)))"
  unfolding map_Walk_def by (simp only: healthyD Walk_list_capped list.size append_Nil diff_zero)

lemma map_Walk_values:
  "healthy E \<Longrightarrow> map_Walk E c m no_range (\<lambda>_ v out. (False, out @ [v])) [] = (None, map snd (entries m))"
  unfolding map_Walk_def
  by (subst Walk_list_collect [where g = "\<lambda>_ v out. out @ [v]"]) (auto simp: no_range_def fold_append_values)

text \<open>
  An invariant walk over a map of a healthy store reports nothing exactly when no entry violates.
\<close>

lemma map_Walk_violations:
  assumes "healthy E" and app: "\<And>k v a. snd (f k v a) = (if viol k v then a @ [msg k v] else a)"
    and go: "\<And>k v. \<not> viol k v \<Longrightarrow> \<not> fst (f k v [])"
  shows "\<exists>vs. map_Walk E c m no_range f [] = (None, vs) \<and> (vs = [] \<longleftrightarrow> (\<forall>k v. fmlookup m k = Some v \<longrightarrow> \<not> viol k v))"
proof -
  obtain e vs where w: "map_Walk E c m no_range f [] = (e, vs)" by fastforce
  have eq: "map_Walk E c m no_range f [] = Walk_list (\<lambda>_. False) (entries m) f []"
    using assms(1) by (simp add: map_Walk_def no_range_def)
  have "fst (Walk_list (\<lambda>_. False) (entries m) f []) = None"
    by (rule Walk_list_violations(2) [where viol = viol and msg = msg]) (use app go in simp_all)
  then have "e = None" using w eq by simp
  moreover have "snd (Walk_list (\<lambda>_. False) (entries m) f []) = [] \<longleftrightarrow> (\<forall>(k, v) \<in> set (entries m). \<not> viol k v)"
    by (rule Walk_list_violations(1) [where viol = viol and msg = msg]) (use app go in simp_all)
  then have "vs = [] \<longleftrightarrow> (\<forall>(k, v) \<in> set (entries m). \<not> viol k v)" using w eq by simp
  ultimately show ?thesis using w by (auto simp: set_entries)
qed

section \<open>The contract of a map, and reloading its export\<close>

text \<open>
  What the keepers rely on: a lookup after a write, and an enumeration that lists exactly the
  content, each key once.  From it: writing an enumeration back into an empty container restores
  every lookup, which is what an export followed by an import does.
\<close>

locale kv_map =
  fixes get :: "'s \<Rightarrow> 'k \<Rightarrow> 'v option"
    and put :: "'k \<Rightarrow> 'v \<Rightarrow> 's \<Rightarrow> 's"
    and ents :: "'s \<Rightarrow> ('k \<times> 'v) list"
  assumes get_put: "get (put k v s) k' = (if k' = k then Some v else get s k')"
    and ents_iff: "(k, v) \<in> set (ents s) \<longleftrightarrow> get s k = Some v"
    and ents_distinct: "distinct (map fst (ents s))"
begin

lemma put_other: "k' \<noteq> k \<Longrightarrow> get (put k v s) k' = get s k'"
  by (simp add: get_put)

lemma put_all_not_in: "k \<notin> fst ` set es \<Longrightarrow> get (fold (\<lambda>(k, v). put k v) es s) k = get s k"
  by (induction es arbitrary: s) (auto simp: get_put)

lemma put_all_in:
  assumes "distinct (map fst es)" and "(k, v) \<in> set es"
  shows "get (fold (\<lambda>(k, v). put k v) es s) k = Some v"
  using assms
proof (induction es arbitrary: s)
  case (Cons e es)
  show ?case
  proof (cases "e = (k, v)")
    case True
    then show ?thesis using Cons.prems by (auto simp: put_all_not_in get_put)
  next
    case False
    then show ?thesis using Cons by auto
  qed
qed simp

lemma reload:
  assumes "\<And>k. get s0 k = None"
  shows "get (fold (\<lambda>(k, v). put k v) (ents s) s0) k = get s k"
proof (cases "get s k")
  case None
  then have "k \<notin> fst ` set (ents s)" by (force simp: ents_iff)
  then show ?thesis using None assms by (simp add: put_all_not_in)
next
  case (Some v)
  then show ?thesis using put_all_in [OF ents_distinct] by (simp add: ents_iff)
qed

end

interpretation fm: kv_map fmlookup fmupd entries
  by unfold_locales (auto simp: set_entries distinct_entries)

lemma entries_reload: "fold (\<lambda>(k, v). fmupd k v) (entries m) fmempty = m"
  by (rule fmap_ext) (simp add: fm.reload)

text \<open>Records written one by one under their own keys.\<close>

lemma fold_fmupd_lookup:
  "fmlookup (fold (\<lambda>d. fmupd (f d) d) ds m) i = Some d \<Longrightarrow> (d \<in> set ds \<and> f d = i) \<or> fmlookup m i = Some d"
  by (induction ds arbitrary: m) (fastforce split: if_splits)+

lemma fold_fmupd_in:
  "distinct (map f ds) \<Longrightarrow> d \<in> set ds \<Longrightarrow> fmlookup (fold (\<lambda>d. fmupd (f d) d) ds m) (f d) = Some d"
proof (induction ds arbitrary: m)
  case (Cons x ds)
  have "fmlookup (fold (\<lambda>d. fmupd (f d) d) ds m') k = fmlookup m' k" if "k \<notin> f ` set ds" for m' k
    using that by (induction ds arbitrary: m') auto
  then show ?case using Cons by auto
qed simp

lemma fold_fmupd_entries:
  assumes "\<And>i d. fmlookup m i = Some d \<Longrightarrow> f d = i"
  shows "fold (\<lambda>d. fmupd (f d) d) (map snd (entries m)) fmempty = m"
proof -
  have "fold (\<lambda>d. fmupd (f d) d) (map snd es) m0 = fold (\<lambda>(k, v). fmupd k v) es m0"
    if "\<forall>(k, v) \<in> set es. f v = k" for es m0
    using that by (induction es arbitrary: m0) auto
  moreover have "\<forall>(k, v) \<in> set (entries m). f v = k"
    using assms by (auto simp: set_entries)
  ultimately show ?thesis by (simp add: entries_reload)
qed

lemma index_determined:
  assumes "\<And>f i. (f, i) |\<in>| a \<longleftrightarrow> P f i" and "\<And>f i. (f, i) |\<in>| b \<longleftrightarrow> P f i"
  shows "a = b"
  by (rule fset_eqI) (use assms in auto)

section \<open>The contract of a secondary index\<close>

text \<open>
  A primary store of records and an index of \<^verbatim>\<open>(field, id)\<close> pairs, written together.  \<open>consistent\<close>:
  every index entry points to a record with that field; \<open>complete\<close>: every record is indexed.
\<close>

locale field_index =
  fixes rec_of :: "'s \<Rightarrow> 'id \<Rightarrow> 'r option"
    and idx :: "'s \<Rightarrow> ('f \<times> 'id) fset"
    and store :: "'r \<Rightarrow> 's \<Rightarrow> 's"
    and rid :: "'r \<Rightarrow> 'id"
    and rfield :: "'r \<Rightarrow> 'f"
  assumes rec_store: "rec_of (store r s) i = (if i = rid r then Some r else rec_of s i)"
    and idx_store: "idx (store r s) = finsert (rfield r, rid r) (idx s)"
begin

definition consistent :: "'s \<Rightarrow> bool" where
  "consistent s \<longleftrightarrow> (\<forall>f i. (f, i) |\<in>| idx s \<longrightarrow> (\<exists>r. rec_of s i = Some r \<and> rfield r = f))"

definition complete :: "'s \<Rightarrow> bool" where
  "complete s \<longleftrightarrow> (\<forall>i r. rec_of s i = Some r \<longrightarrow> (rfield r, i) |\<in>| idx s)"

text \<open>A write keeps the index consistent when the id is new or its record keeps its field.\<close>

lemma store_consistent:
  assumes "consistent s" and "\<And>r'. rec_of s (rid r) = Some r' \<Longrightarrow> rfield r' = rfield r"
  shows "consistent (store r s)"
  using assms unfolding consistent_def rec_store idx_store by fastforce

lemma store_complete: "complete s \<Longrightarrow> complete (store r s)"
  unfolding complete_def rec_store idx_store by auto

text \<open>Otherwise the old entry stays behind, and the index is no longer consistent.\<close>

lemma store_stale:
  assumes "complete s" and "rec_of s (rid r) = Some r'" and "rfield r' \<noteq> rfield r"
  shows "\<not> consistent (store r s)"
proof
  assume "consistent (store r s)"
  moreover have "(rfield r', rid r) |\<in>| idx (store r s)"
    using assms(1,2) by (auto simp: complete_def idx_store)
  ultimately obtain q where "rec_of (store r s) (rid r) = Some q" and "rfield q = rfield r'"
    unfolding consistent_def by blast
  then show False using assms(3) by (simp add: rec_store)
qed

lemma index_lookup:
  assumes "consistent s" and "complete s"
  shows "(f, i) |\<in>| idx s \<longleftrightarrow> (\<exists>r. rec_of s i = Some r \<and> rfield r = f)"
  using assms unfolding consistent_def complete_def by blast

lemma store_all_consistent:
  assumes "consistent s" and "distinct (map rid rs)" and "\<And>r. r \<in> set rs \<Longrightarrow> rec_of s (rid r) = None"
  shows "consistent (fold store rs s)"
  using assms
proof (induction rs arbitrary: s)
  case (Cons r rs)
  have "consistent (store r s)"
    using Cons.prems by (intro store_consistent) auto
  moreover have "rec_of (store r s) (rid q) = None" if "q \<in> set rs" for q
    using Cons.prems that by (auto simp: rec_store image_iff)
  ultimately show ?case
    using Cons.prems Cons.IH [of "store r s"] by simp
qed simp

lemma store_all_complete: "complete s \<Longrightarrow> complete (fold store rs s)"
  by (induction rs arbitrary: s) (auto intro: store_complete)

end

section \<open>The contract of pagination\<close>

text \<open>
  What the query servers rely on in \<^verbatim>\<open>query.CollectionPaginate\<close> with a prefix option: a page, when
  there is one, is the callback applied to some of the keys with that prefix, in key order and each
  at most once.
\<close>

definition paginates :: "(('a \<times> 'b) list \<Rightarrow> 'req \<Rightarrow> 'a \<Rightarrow> ('a \<times> 'b \<Rightarrow> 'r) \<Rightarrow> string + 'r list \<times> bytes) \<Rightarrow> bool" where
  "paginates paginate \<longleftrightarrow>
     (\<forall>ks req pfx cb page next. paginate ks req pfx cb = Inr (page, next) \<longrightarrow>
        (\<exists>ks'. subseq ks' (filter (\<lambda>k. fst k = pfx) ks) \<and> page = map cb ks'))"

definition whole_page :: "('a \<times> 'b) list \<Rightarrow> 'req \<Rightarrow> 'a \<Rightarrow> ('a \<times> 'b \<Rightarrow> 'r) \<Rightarrow> string + 'r list \<times> bytes" where
  "whole_page ks req pfx cb = Inr (map cb (filter (\<lambda>k. fst k = pfx) ks), [])"

lemma whole_page_paginates: "paginates whole_page"
  by (auto simp: paginates_def whole_page_def)

text \<open>
  A page over an index that is consistent with the records it points to lists records with the
  asked field, each once.
\<close>

lemma paginates_page:
  assumes "paginates paginate" and "paginate (keys s) req pfx cb = Inr (page, next)"
    and "\<And>i. (pfx, i) |\<in>| s \<Longrightarrow> P i (cb (pfx, i))"
  shows "\<exists>is. distinct is \<and> (\<forall>i \<in> set is. (pfx, i) |\<in>| s) \<and> page = map (\<lambda>i. cb (pfx, i)) is \<and> list_all2 P is page"
proof -
  obtain ks where ks: "subseq ks (filter (\<lambda>k. fst k = pfx) (keys s))" "page = map cb ks"
    using assms(1,2) unfolding paginates_def by blast
  let ?is = "map snd ks"
  have sub: "set ks \<subseteq> {k \<in> fset s. fst k = pfx}"
  proof
    fix k assume "k \<in> set ks"
    from list_emb_set [OF ks(1) this] show "k \<in> {k \<in> fset s. fst k = pfx}" by auto
  qed
  have pfx: "k = (pfx, snd k)" if "k \<in> set ks" for k
    using sub that by (cases k) auto
  have "distinct (filter (\<lambda>k. fst k = pfx) (keys s))"
    by (simp add: keys_def sorted_list_of_fset.rep_eq)
  then have "distinct ks" using ks(1) by (auto simp: subseq_conv_nths)
  then have "distinct ?is"
    using pfx unfolding distinct_map inj_on_def by metis
  moreover have mem: "(pfx, i) |\<in>| s" if "i \<in> set ?is" for i
    using that sub by auto
  moreover have page: "page = map (\<lambda>i. cb (pfx, i)) ?is"
    using ks(2) pfx by auto
  moreover have "list_all2 P ?is page"
    unfolding page using mem assms(3) by (auto simp: list_all2_conv_all_nth)
  ultimately show ?thesis by blast
qed

end
