(* ===== verification/RateLimit.thy ===== *)
theory RateLimit
  imports GoPrelude
begin

text \<open>
  The contract of a per-block rate limiter: a check that admits a caller and counts it, or refuses
  it once its count has reached the limit, a limit of 0 admitting everyone.  The energy keeper
  (\<^verbatim>\<open>CheckAndIncrSubmitCount\<close>) and the audit keeper (\<^verbatim>\<open>CheckAndIncrAuditCount\<close>) implement it over a
  transient store of big-endian uint32 counters; each interprets the locale in its own theory.
\<close>

section \<open>The transient counter\<close>

text \<open>
  The transient KV store: raw bytes under raw keys, emptied between blocks.  \<open>counter_at\<close> is what
  the keepers read from it: \<^verbatim>\<open>binary.BigEndian.Uint32\<close> of the value when there is one of at least
  four bytes, and 0 otherwise.
\<close>

type_synonym tstore = "(bytes, bytes) fmap"

definition counter_at :: "tstore \<Rightarrow> bytes \<Rightarrow> uint32" where
  "counter_at ts k =
     (case fmlookup ts k of
        None \<Rightarrow> 0
      | Some bz \<Rightarrow> if 4 \<le> length bz then BE_Uint32 bz else 0)"

lemma counter_at_empty [simp]: "counter_at fmempty k = 0"
  by (simp add: counter_at_def)

lemma counter_at_upd [simp]:
  "counter_at (fmupd k (PutUint32 v) ts) k' = (if k' = k then v else counter_at ts k')"
  by (simp add: counter_at_def)

lemma unat_Suc_below:
  fixes c l :: uint32
  assumes "c < l"
  shows "unat (c + 1) = Suc (unat c)"
proof -
  have "unat c < unat l" using assms by (simp add: word_less_nat_alt)
  moreover have "unat l < 2 ^ 32" using unsigned_less [of l] by simp
  ultimately show ?thesis by (simp add: unat_word_ariths)
qed

section \<open>The contract\<close>

locale rate_limiter =
  fixes check :: "'a \<Rightarrow> 's \<Rightarrow> 's option"
    and count :: "'s \<Rightarrow> 'a \<Rightarrow> nat"
    and limit :: "'s \<Rightarrow> nat"
  assumes check_off: "limit s = 0 \<Longrightarrow> check a s = Some s"
    and check_full: "0 < limit s \<Longrightarrow> limit s \<le> count s a \<Longrightarrow> check a s = None"
    and check_free: "0 < limit s \<Longrightarrow> count s a < limit s \<Longrightarrow> \<exists>s'. check a s = Some s'"
    and check_count: "0 < limit s \<Longrightarrow> check a s = Some s' \<Longrightarrow>
      count s' b = (if b = a then Suc (count s a) else count s b)"
    and check_limit: "check a s = Some s' \<Longrightarrow> limit s' = limit s"
begin

text \<open>The callers admitted when a block makes these calls in this order; a refused call changes nothing.\<close>

fun admitted :: "'a list \<Rightarrow> 's \<Rightarrow> 'a list" where
  "admitted [] s = []"
| "admitted (a # as) s =
     (case check a s of None \<Rightarrow> admitted as s | Some s' \<Rightarrow> a # admitted as s')"

text \<open>
  Each caller is admitted exactly up to the room it has left, whatever the interleaving with other
  callers.
\<close>

lemma admitted_count:
  assumes "0 < limit s" and "count s a \<le> limit s"
  shows "count_list (admitted as s) a = min (count_list as a) (limit s - count s a)"
  using assms
proof (induction as arbitrary: s)
  case (Cons b as)
  show ?case
  proof (cases "check b s")
    case None
    then have full: "limit s \<le> count s b"
      using check_free [of s b] Cons.prems(1) by fastforce
    show ?thesis
      using None full Cons by (cases "b = a") auto
  next
    case (Some s')
    then have free: "count s b < limit s"
      using check_full [of s b] Cons.prems(1) by fastforce
    have "limit s' = limit s" using Some by (rule check_limit)
    moreover have "count s' a = (if a = b then Suc (count s b) else count s a)"
      using check_count [OF Cons.prems(1) Some] by simp
    ultimately show ?thesis
      using Some free Cons by (cases "b = a") auto
  qed
qed simp

lemma admitted_off: "limit s = 0 \<Longrightarrow> admitted as s = as"
  by (induction as arbitrary: s) (simp_all add: check_off)

end

end
