(* ===== verification/GoStrings.thy ===== *)
theory GoStrings
  imports GoPrelude
begin

text \<open>
  The string functions of the Go standard library that the sources call: hexadecimal and decimal
  printing, \<^verbatim>\<open>strings.ToLower\<close>, \<^verbatim>\<open>strings.TrimPrefix\<close>, \<^verbatim>\<open>strings.HasPrefix\<close> and
  \<^verbatim>\<open>strings.TrimSpace\<close>, with the facts about them the components need (injectivity, alphabet,
  round trips).  \<open>ToLower\<close> and \<open>TrimSpace\<close> are given on ASCII.
\<close>

section \<open>Hexadecimal\<close>

definition hex_digit :: "nat \<Rightarrow> char" where
  "hex_digit n = ''0123456789abcdef'' ! n"

text \<open>\<^verbatim>\<open>hex.EncodeToString\<close>: two lower-case digits per byte.\<close>

fun EncodeToString :: "bytes \<Rightarrow> string" where
  "EncodeToString [] = []"
| "EncodeToString (c # cs) =
     hex_digit (of_char c div 16) # hex_digit (of_char c mod 16) # EncodeToString cs"

lemma hex_digit_inject [simp]:
  assumes "a < 16" and "b < 16"
  shows "hex_digit a = hex_digit b \<longleftrightarrow> a = b"
proof -
  have "distinct ''0123456789abcdef''" by simp
  then show ?thesis
    using assms by (simp add: hex_digit_def nth_eq_iff_index_eq del: nth_Cons_numeral)
qed

lemma of_char_lt_256 [simp]: "of_char c < (256::nat)"
  by (simp add: of_char_def)

lemma hex_byte_bounds: "(of_char c :: nat) div 16 < 16" "(of_char c :: nat) mod 16 < 16"
  using of_char_lt_256 [of c] by linarith+

lemma EncodeToString_inject [simp]: "EncodeToString a = EncodeToString b \<longleftrightarrow> a = b"
proof (induction a arbitrary: b)
  case Nil
  show ?case by (cases b) auto
next
  case (Cons c a)
  show ?case
  proof (cases b)
    case Nil
    then show ?thesis by simp
  next
    case (Cons d b')
    have "(of_char c :: nat) = of_char d"
      if "(of_char c :: nat) div 16 = of_char d div 16"
        and "(of_char c :: nat) mod 16 = of_char d mod 16"
      using that by (metis div_mult_mod_eq)
    then show ?thesis
      using Cons Cons.IH by (auto simp: hex_byte_bounds)
  qed
qed

lemma length_EncodeToString [simp]: "length (EncodeToString a) = 2 * length a"
  by (induction a) auto

lemma set_EncodeToString: "set (EncodeToString a) \<subseteq> set ''0123456789abcdef''"
proof (induction a)
  case (Cons c a)
  have "hex_digit n \<in> set ''0123456789abcdef''" if "n < 16" for n
    unfolding hex_digit_def using that by (intro nth_mem) simp
  then show ?case
    using Cons hex_byte_bounds [of c] by simp
qed simp

section \<open>Case folding and prefixes\<close>

definition lower_char :: "char \<Rightarrow> char" where
  "lower_char c = (if CHR ''A'' \<le> c \<and> c \<le> CHR ''Z'' then char_of (of_char c + 32 :: nat) else c)"

definition ToLower :: "string \<Rightarrow> string" where
  "ToLower s = map lower_char s"

fun HasPrefix :: "string \<Rightarrow> string \<Rightarrow> bool" where
  "HasPrefix s [] = True"
| "HasPrefix [] (p # ps) = False"
| "HasPrefix (c # cs) (p # ps) = (c = p \<and> HasPrefix cs ps)"

definition TrimPrefix :: "string \<Rightarrow> string \<Rightarrow> string" where
  "TrimPrefix s p = (if HasPrefix s p then drop (length p) s else s)"

lemma HasPrefix_iff: "HasPrefix s p \<longleftrightarrow> take (length p) s = p"
  by (induction s p rule: HasPrefix.induct) auto

lemma HasPrefix_append [simp]: "HasPrefix (p @ s) p"
  by (simp add: HasPrefix_iff)

lemma TrimPrefix_append [simp]: "TrimPrefix (p @ s) p = s"
  by (simp add: TrimPrefix_def)

definition is_space :: "char \<Rightarrow> bool" where
  "is_space c \<longleftrightarrow> c \<in> {CHR '' '', CHR 0x09, CHR 0x0A, CHR 0x0B, CHR 0x0C, CHR 0x0D}"

definition TrimSpace :: "string \<Rightarrow> string" where
  "TrimSpace s = rev (dropWhile is_space (rev (dropWhile is_space s)))"

lemma lower_char_hex: "c \<in> set ''0123456789abcdef'' \<Longrightarrow> lower_char c = c"
  by (auto simp: lower_char_def less_eq_char_def)

lemma ToLower_EncodeToString [simp]: "ToLower (EncodeToString a) = EncodeToString a"
  unfolding ToLower_def
  by (rule map_idI) (meson lower_char_hex set_EncodeToString subsetD)

lemma lower_char_idem [simp]: "lower_char (lower_char c) = lower_char c"
  by (cases "CHR ''A'' \<le> c \<and> c \<le> CHR ''Z''")
    (auto simp: lower_char_def less_eq_char_def)

lemma EncodeToString_no_0x [simp]: "\<not> HasPrefix (EncodeToString a) ''0x''"
proof (cases a)
  case (Cons c cs)
  have "hex_digit n \<noteq> CHR ''x''" if "n < 16" for n
  proof -
    have "hex_digit n \<in> set ''0123456789abcdef''"
      unfolding hex_digit_def using that by (intro nth_mem) simp
    then show ?thesis by auto
  qed
  then show ?thesis
    using Cons hex_byte_bounds [of c] by auto
qed simp

section \<open>Decimal\<close>

definition dec_digit :: "nat \<Rightarrow> char" where
  "dec_digit n = char_of (48 + n)"

text \<open>\<^verbatim>\<open>fmt.Sprintf("%d", n)\<close> of a non-negative integer.\<close>

fun Sprint_d :: "nat \<Rightarrow> string" where
  "Sprint_d n = (if n < 10 then [dec_digit n] else Sprint_d (n div 10) @ [dec_digit (n mod 10)])"

declare Sprint_d.simps [simp del]

definition is_digit :: "char \<Rightarrow> bool" where
  "is_digit c \<longleftrightarrow> 48 \<le> (of_char c :: nat) \<and> (of_char c :: nat) \<le> 57"

lemma of_char_dec_digit [simp]: "n < 10 \<Longrightarrow> (of_char (dec_digit n) :: nat) = 48 + n"
  by (simp add: dec_digit_def)

lemma is_digit_dec_digit [simp]: "n < 10 \<Longrightarrow> is_digit (dec_digit n)"
  by (simp add: is_digit_def)

lemma Sprint_d_small: "n < 10 \<Longrightarrow> Sprint_d n = [dec_digit n]"
  by (subst Sprint_d.simps) simp

lemma Sprint_d_examples:
  "Sprint_d 0 = ''0''" "Sprint_d (Suc 0) = ''1''" "Sprint_d 2 = ''2''" "Sprint_d 3 = ''3''" "Sprint_d 10 = ''10''"
  by code_simp+

lemma Sprint_d_nonempty [simp]: "Sprint_d n \<noteq> []"
  by (subst Sprint_d.simps) simp

lemma Sprint_d_digits: "c \<in> set (Sprint_d n) \<Longrightarrow> is_digit c"
proof (induction n rule: Sprint_d.induct)
  case (1 n)
  show ?case
  proof (cases "n < 10")
    case True
    then show ?thesis using "1.prems" by (subst (asm) Sprint_d.simps) auto
  next
    case False
    have "c \<in> set (Sprint_d (n div 10)) \<or> c = dec_digit (n mod 10)"
      using "1.prems" False by (subst (asm) Sprint_d.simps) auto
    then show ?thesis
      using "1.IH" [OF False] by (elim disjE) (simp_all only: is_digit_dec_digit mod_less_divisor zero_less_numeral)
  qed
qed

text \<open>The value a decimal string denotes, and that printing is its right inverse.\<close>

definition dec_value :: "string \<Rightarrow> nat" where
  "dec_value s = foldl (\<lambda>n c. n * 10 + (of_char c - 48)) 0 s"

lemma dec_value_Sprint_d [simp]: "dec_value (Sprint_d n) = n"
proof (induction n rule: Sprint_d.induct)
  case (1 n)
  then show ?case
    by (cases "n < 10") (simp_all add: Sprint_d.simps [of n] dec_value_def)
qed

lemma Sprint_d_inject [simp]: "Sprint_d m = Sprint_d n \<longleftrightarrow> m = n"
  by (metis dec_value_Sprint_d)

text \<open>\<^verbatim>\<open>%d\<close> of an int64.\<close>

definition Sprint_int64 :: "int64 \<Rightarrow> string" where
  "Sprint_int64 w = (if w <s 0 then CHR ''-'' # Sprint_d (unat (- w)) else Sprint_d (unat w))"

text \<open>\<^verbatim>\<open>%X\<close> of a byte slice: hexadecimal with capital letters.\<close>

definition upper_char :: "char \<Rightarrow> char" where
  "upper_char c = (if 97 \<le> (of_char c :: nat) \<and> (of_char c :: nat) \<le> 122 then char_of ((of_char c :: nat) - 32) else c)"

definition Sprint_X :: "bytes \<Rightarrow> string" where
  "Sprint_X b = map upper_char (EncodeToString b)"

end
