(* ===== verification/EnergyTypes.thy ===== *)
theory EnergyTypes
  imports GoStrings
begin

text \<open>
  \<^verbatim>\<open>x/energy/types\<close>: the stored records, the messages, the module parameters with their bounds, the
  genesis state with its validation, and the stateless \<^verbatim>\<open>ValidateBasic\<close> of every message.  A Go
  \<^verbatim>\<open>error\<close> result is an option (\<open>None\<close> is \<^verbatim>\<open>nil\<close>); each error carries the values its message prints.
\<close>

section \<open>Records\<close>

record EnergyData =
  ed_ID :: string
  ed_Category :: string
  ed_Submitter :: string
  ed_DataHash :: string
  ed_Metadata :: string
  ed_BlockHeight :: int64
  ed_Timestamp :: int64

definition zero_EnergyData :: EnergyData where
  "zero_EnergyData = \<lparr>ed_ID = [], ed_Category = [], ed_Submitter = [], ed_DataHash = [],
     ed_Metadata = [], ed_BlockHeight = 0, ed_Timestamp = 0\<rparr>"

record BatchSubmission =
  bs_ID :: string
  bs_Submitter :: string
  bs_Category :: string
  bs_DataCount :: uint32
  bs_MerkleRoot :: string
  bs_Timestamp :: int64

definition zero_BatchSubmission :: BatchSubmission where
  "zero_BatchSubmission = \<lparr>bs_ID = [], bs_Submitter = [], bs_Category = [], bs_DataCount = 0,
     bs_MerkleRoot = [], bs_Timestamp = 0\<rparr>"

record energy_Params =
  ep_MaxBatchSize :: uint32
  ep_AllowedSubmitters :: "string list"
  ep_Permissionless :: bool
  ep_MaxMetadataSize :: uint32
  ep_MaxSubmissionsPerBlockPerSubmitter :: uint32

record BatchItem =
  bi_DataHash :: string
  bi_Metadata :: string

record MsgSubmitEnergyData =
  ms_Submitter :: string
  ms_Category :: string
  ms_DataHash :: string
  ms_Metadata :: string

record MsgBatchSubmit =
  mb_Submitter :: string
  mb_Category :: string
  mb_Items :: "BatchItem list"
  mb_MerkleRoot :: string

record MsgBatchSubmitResponse =
  mbr_BatchID :: string
  mbr_DataCount :: uint32

record energy_MsgUpdateParams =
  eu_Authority :: string
  eu_Params :: energy_Params

record energy_GenesisState =
  eg_Params :: energy_Params
  eg_DataRecords :: "EnergyData list"
  eg_Batches :: "BatchSubmission list"
  eg_NextID :: uint64

section \<open>Parameters\<close>

definition MaxBatchSizeUpperBound :: uint32 where "MaxBatchSizeUpperBound = 10000"
definition MaxMetadataSizeLowerBound :: uint32 where "MaxMetadataSizeLowerBound = 128"
definition MaxMetadataSizeUpperBound :: uint32 where "MaxMetadataSizeUpperBound = 65536"
definition MaxSubmissionsPerBlockUpper :: uint32 where "MaxSubmissionsPerBlockUpper = 10000"
definition DefaultMaxMetadataSize :: uint32 where "DefaultMaxMetadataSize = 4096"
definition DefaultMaxSubmissionsPerAddr :: uint32 where "DefaultMaxSubmissionsPerAddr = 100"

lemmas energy_bounds =
  MaxBatchSizeUpperBound_def MaxMetadataSizeLowerBound_def MaxMetadataSizeUpperBound_def
  MaxSubmissionsPerBlockUpper_def DefaultMaxMetadataSize_def DefaultMaxSubmissionsPerAddr_def

definition energy_DefaultParams :: energy_Params where
  "energy_DefaultParams = \<lparr>
     ep_MaxBatchSize = 100,
     ep_AllowedSubmitters = [],
     ep_Permissionless = True,
     ep_MaxMetadataSize = DefaultMaxMetadataSize,
     ep_MaxSubmissionsPerBlockPerSubmitter = DefaultMaxSubmissionsPerAddr\<rparr>"

datatype energy_param_error =
    MaxBatchSizeNotPositive
  | MaxBatchSizeExceeds uint32 uint32
  | MaxMetadataSizeBelow uint32 uint32
  | MaxMetadataSizeExceeds uint32 uint32
  | MaxSubmissionsExceeds uint32 uint32

definition energy_Params_Validate :: "energy_Params \<Rightarrow> energy_param_error option" where
  "energy_Params_Validate p =
     (if ep_MaxBatchSize p = 0 then Some MaxBatchSizeNotPositive
      else if ep_MaxBatchSize p > MaxBatchSizeUpperBound
        then Some (MaxBatchSizeExceeds (ep_MaxBatchSize p) MaxBatchSizeUpperBound)
      else if ep_MaxMetadataSize p < MaxMetadataSizeLowerBound
        then Some (MaxMetadataSizeBelow (ep_MaxMetadataSize p) MaxMetadataSizeLowerBound)
      else if ep_MaxMetadataSize p > MaxMetadataSizeUpperBound
        then Some (MaxMetadataSizeExceeds (ep_MaxMetadataSize p) MaxMetadataSizeUpperBound)
      else if ep_MaxSubmissionsPerBlockPerSubmitter p > MaxSubmissionsPerBlockUpper
        then Some (MaxSubmissionsExceeds (ep_MaxSubmissionsPerBlockPerSubmitter p) MaxSubmissionsPerBlockUpper)
      else None)"

section \<open>Genesis\<close>

definition energy_DefaultGenesis :: energy_GenesisState where
  "energy_DefaultGenesis = \<lparr>
     eg_Params = energy_DefaultParams,
     eg_DataRecords = [],
     eg_Batches = [],
     eg_NextID = 0\<rparr>"

datatype energy_genesis_error =
    EGInvalidParams energy_param_error
  | EGDataEmptyID nat
  | EGDataDuplicateID string
  | EGDataEmptyCategory string
  | EGDataEmptyHash string
  | EGDataEmptySubmitter string
  | EGDataMetadataSize string nat uint32
  | EGBatchEmptyID nat
  | EGBatchDuplicateID string

text \<open>The two loops of \<^verbatim>\<open>GenesisState.Validate\<close>: \<open>i\<close> is the loop index, \<open>ids\<close> the map of ids seen.\<close>

fun validate_data_records :: "uint32 \<Rightarrow> nat \<Rightarrow> string set \<Rightarrow> EnergyData list \<Rightarrow> energy_genesis_error option" where
  "validate_data_records cap i ids [] = None"
| "validate_data_records cap i ids (d # ds) =
     (if ed_ID d = [] then Some (EGDataEmptyID i)
      else if ed_ID d \<in> ids then Some (EGDataDuplicateID (ed_ID d))
      else if ed_Category d = [] then Some (EGDataEmptyCategory (ed_ID d))
      else if ed_DataHash d = [] then Some (EGDataEmptyHash (ed_ID d))
      else if ed_Submitter d = [] then Some (EGDataEmptySubmitter (ed_ID d))
      else if u32_len (ed_Metadata d) > cap
        then Some (EGDataMetadataSize (ed_ID d) (length (ed_Metadata d)) cap)
      else validate_data_records cap (Suc i) (insert (ed_ID d) ids) ds)"

fun validate_batches :: "nat \<Rightarrow> string set \<Rightarrow> BatchSubmission list \<Rightarrow> energy_genesis_error option" where
  "validate_batches i ids [] = None"
| "validate_batches i ids (b # bs) =
     (if bs_ID b = [] then Some (EGBatchEmptyID i)
      else if bs_ID b \<in> ids then Some (EGBatchDuplicateID (bs_ID b))
      else validate_batches (Suc i) (insert (bs_ID b) ids) bs)"

definition energy_Genesis_Validate :: "energy_GenesisState \<Rightarrow> energy_genesis_error option" where
  "energy_Genesis_Validate gs =
     (case energy_Params_Validate (eg_Params gs) of
        Some e \<Rightarrow> Some (EGInvalidParams e)
      | None \<Rightarrow>
          (case validate_data_records (ep_MaxMetadataSize (eg_Params gs)) 0 {} (eg_DataRecords gs) of
             Some e \<Rightarrow> Some e
           | None \<Rightarrow> validate_batches 0 {} (eg_Batches gs)))"

section \<open>Stateless message checks\<close>

datatype energy_basic_error =
    EInvalidSubmitter string
  | ECategoryEmpty
  | EDataHashEmpty
  | EBatchEmpty
  | EMerkleRootEmpty
  | EItemDataHashEmpty nat
  | EInvalidAuthority string
  | EInvalidParams energy_param_error

definition NewMsgSubmitEnergyData :: "string \<Rightarrow> string \<Rightarrow> string \<Rightarrow> string \<Rightarrow> MsgSubmitEnergyData" where
  "NewMsgSubmitEnergyData submitter category dataHash metadata =
     \<lparr>ms_Submitter = submitter, ms_Category = category, ms_DataHash = dataHash, ms_Metadata = metadata\<rparr>"

definition MsgSubmitEnergyData_ValidateBasic :: "env \<Rightarrow> MsgSubmitEnergyData \<Rightarrow> energy_basic_error option" where
  "MsgSubmitEnergyData_ValidateBasic E msg =
     (case AccAddressFromBech32 E (ms_Submitter msg) of
        Inl e \<Rightarrow> Some (EInvalidSubmitter e)
      | Inr _ \<Rightarrow>
          if ms_Category msg = [] then Some ECategoryEmpty
          else if ms_DataHash msg = [] then Some EDataHashEmpty
          else None)"

definition MsgSubmitEnergyData_GetSigners :: "env \<Rightarrow> MsgSubmitEnergyData \<Rightarrow> bytes list" where
  "MsgSubmitEnergyData_GetSigners E msg = signer_of E (ms_Submitter msg)"

definition NewMsgBatchSubmit :: "string \<Rightarrow> string \<Rightarrow> BatchItem list \<Rightarrow> string \<Rightarrow> MsgBatchSubmit" where
  "NewMsgBatchSubmit submitter category items merkleRoot =
     \<lparr>mb_Submitter = submitter, mb_Category = category, mb_Items = items, mb_MerkleRoot = merkleRoot\<rparr>"

fun first_empty_hash :: "nat \<Rightarrow> BatchItem list \<Rightarrow> energy_basic_error option" where
  "first_empty_hash i [] = None"
| "first_empty_hash i (it # items) =
     (if bi_DataHash it = [] then Some (EItemDataHashEmpty i) else first_empty_hash (Suc i) items)"

definition MsgBatchSubmit_ValidateBasic :: "env \<Rightarrow> MsgBatchSubmit \<Rightarrow> energy_basic_error option" where
  "MsgBatchSubmit_ValidateBasic E msg =
     (case AccAddressFromBech32 E (mb_Submitter msg) of
        Inl e \<Rightarrow> Some (EInvalidSubmitter e)
      | Inr _ \<Rightarrow>
          if mb_Category msg = [] then Some ECategoryEmpty
          else if mb_Items msg = [] then Some EBatchEmpty
          else if mb_MerkleRoot msg = [] then Some EMerkleRootEmpty
          else first_empty_hash 0 (mb_Items msg))"

definition MsgBatchSubmit_GetSigners :: "env \<Rightarrow> MsgBatchSubmit \<Rightarrow> bytes list" where
  "MsgBatchSubmit_GetSigners E msg = signer_of E (mb_Submitter msg)"

definition energy_MsgUpdateParams_ValidateBasic :: "env \<Rightarrow> energy_MsgUpdateParams \<Rightarrow> energy_basic_error option" where
  "energy_MsgUpdateParams_ValidateBasic E msg =
     (case AccAddressFromBech32 E (eu_Authority msg) of
        Inl e \<Rightarrow> Some (EInvalidAuthority e)
      | Inr _ \<Rightarrow> map_option EInvalidParams (energy_Params_Validate (eu_Params msg)))"

definition energy_MsgUpdateParams_GetSigners :: "env \<Rightarrow> energy_MsgUpdateParams \<Rightarrow> bytes list" where
  "energy_MsgUpdateParams_GetSigners E msg = signer_of E (eu_Authority msg)"

section \<open>What validation guarantees\<close>

lemma energy_DefaultParams_valid: "energy_Params_Validate energy_DefaultParams = None"
  by (simp add: energy_Params_Validate_def energy_DefaultParams_def energy_bounds)

lemma energy_Params_Validate_iff:
  "energy_Params_Validate p = None \<longleftrightarrow>
     0 < ep_MaxBatchSize p \<and> ep_MaxBatchSize p \<le> 10000 \<and>
     128 \<le> ep_MaxMetadataSize p \<and> ep_MaxMetadataSize p \<le> 65536 \<and>
     ep_MaxSubmissionsPerBlockPerSubmitter p \<le> 10000"
  by (auto simp: energy_Params_Validate_def energy_bounds word_gt_0 not_less)

lemma validate_data_records_None:
  "validate_data_records cap i ids ds = None \<longleftrightarrow>
     distinct (map ed_ID ds) \<and> set (map ed_ID ds) \<inter> ids = {} \<and>
     (\<forall>d \<in> set ds. ed_ID d \<noteq> [] \<and> ed_Category d \<noteq> [] \<and> ed_DataHash d \<noteq> [] \<and>
        ed_Submitter d \<noteq> [] \<and> u32_len (ed_Metadata d) \<le> cap)"
  by (induction cap i ids ds rule: validate_data_records.induct) (auto simp: not_less)

lemma validate_batches_None:
  "validate_batches i ids bs = None \<longleftrightarrow>
     distinct (map bs_ID bs) \<and> set (map bs_ID bs) \<inter> ids = {} \<and> (\<forall>b \<in> set bs. bs_ID b \<noteq> [])"
  by (induction i ids bs rule: validate_batches.induct) auto

lemma energy_Genesis_Validate_None:
  "energy_Genesis_Validate gs = None \<longleftrightarrow>
     energy_Params_Validate (eg_Params gs) = None \<and>
     distinct (map ed_ID (eg_DataRecords gs)) \<and>
     (\<forall>d \<in> set (eg_DataRecords gs). ed_ID d \<noteq> [] \<and> ed_Category d \<noteq> [] \<and> ed_DataHash d \<noteq> [] \<and>
        ed_Submitter d \<noteq> [] \<and> u32_len (ed_Metadata d) \<le> ep_MaxMetadataSize (eg_Params gs)) \<and>
     distinct (map bs_ID (eg_Batches gs)) \<and> (\<forall>b \<in> set (eg_Batches gs). bs_ID b \<noteq> [])"
  by (auto simp: energy_Genesis_Validate_def validate_data_records_None validate_batches_None)

lemma first_empty_hash_None: "first_empty_hash i items = None \<longleftrightarrow> (\<forall>it \<in> set items. bi_DataHash it \<noteq> [])"
  by (induction i items rule: first_empty_hash.induct) auto

end
