(* ===== verification/EnergyKeeper.thy ===== *)
theory EnergyKeeper
  imports CollStore RateLimit EnergyTypes
begin

text \<open>
  \<^verbatim>\<open>x/energy/keeper/keeper.go\<close>: the state of the energy module and every keeper operation on it.
  An operation that changes state takes the state and returns its result with the new state, also
  when it fails half-way; a Go panic is an error value whose constructor starts with \<open>EPanic\<close>.
\<close>

section \<open>State\<close>

text \<open>
  The collections of the keeper, the transient store of rate-limit counters, and the events the
  current transaction has emitted.
\<close>

record energy_state =
  es_Params :: "energy_Params option"
  es_IDSequence :: "uint64 option"
  es_EnergyData :: "(string, EnergyData) fmap"
  es_ByCategory :: "(string \<times> string) fset"
  es_BySubmitter :: "(string \<times> string) fset"
  es_Batches :: "(string, BatchSubmission) fmap"
  es_transient :: tstore
  es_events :: "event list"

definition energy_empty :: energy_state where
  "energy_empty = \<lparr>es_Params = None, es_IDSequence = None, es_EnergyData = fmempty, es_ByCategory = {||},
     es_BySubmitter = {||}, es_Batches = fmempty, es_transient = fmempty, es_events = []\<rparr>"

text \<open>The collection handles as \<^verbatim>\<open>NewKeeper\<close> declares them.\<close>

definition energy_coll_params :: "unit coll" where
  "energy_coll_params = \<lparr>c_prefix = 0, c_name = ''params'', c_key = ItemKey\<rparr>"
definition energy_coll_sequence :: "unit coll" where
  "energy_coll_sequence = \<lparr>c_prefix = 5, c_name = ''id_sequence'', c_key = ItemKey\<rparr>"
definition energy_coll_data :: "string coll" where
  "energy_coll_data = \<lparr>c_prefix = 1, c_name = ''energy_data'', c_key = StringKey\<rparr>"
definition energy_coll_by_category :: "(string \<times> string) coll" where
  "energy_coll_by_category = \<lparr>c_prefix = 2, c_name = ''by_category'', c_key = PairKeyCodec StringKey StringKey\<rparr>"
definition energy_coll_by_submitter :: "(string \<times> string) coll" where
  "energy_coll_by_submitter = \<lparr>c_prefix = 3, c_name = ''by_submitter'', c_key = PairKeyCodec StringKey StringKey\<rparr>"
definition energy_coll_batches :: "string coll" where
  "energy_coll_batches = \<lparr>c_prefix = 4, c_name = ''batches'', c_key = StringKey\<rparr>"

definition energy_schema :: "(nat \<times> string) list" where
  "energy_schema =
     [(c_prefix energy_coll_params, c_name energy_coll_params),
      (c_prefix energy_coll_sequence, c_name energy_coll_sequence),
      (c_prefix energy_coll_data, c_name energy_coll_data),
      (c_prefix energy_coll_by_category, c_name energy_coll_by_category),
      (c_prefix energy_coll_by_submitter, c_name energy_coll_by_submitter),
      (c_prefix energy_coll_batches, c_name energy_coll_batches)]"

definition GetSubmitCountByAddrKey :: "string \<Rightarrow> bytes" where
  "GetSubmitCountByAddrKey addr = CHR 0x10 # addr"

section \<open>Errors\<close>

datatype energy_error =
    EStoreData coll_err
  | EIndexCategory coll_err
  | EIndexSubmitter coll_err
  | EStoreBatch coll_err
  | EStoreParams coll_err
  | ERateLimited string uint32
  | EGenesisParams energy_error
  | EGenesisData nat energy_error
  | EGenesisBatch nat energy_error
  | EPanicAdvanceSequence coll_err
  | EPanicSetSequence coll_err

section \<open>Identifiers\<close>

definition energy_GenerateID :: "env \<Rightarrow> energy_state \<Rightarrow> (energy_error + string) \<times> energy_state" where
  "energy_GenerateID E st =
     (case seq_Next E energy_coll_sequence (es_IDSequence st) of
        (Inl e, s) \<Rightarrow> (Inl (EPanicAdvanceSequence e), st\<lparr>es_IDSequence := s\<rparr>)
      | (Inr seq, s) \<Rightarrow> (Inr (''energy-'' @ Sprint_d (unat (seq + 1))), st\<lparr>es_IDSequence := s\<rparr>))"

definition energy_GetCurrentID :: "env \<Rightarrow> energy_state \<Rightarrow> uint64" where
  "energy_GetCurrentID E st =
     (case seq_Peek E energy_coll_sequence (es_IDSequence st) of Inl _ \<Rightarrow> 0 | Inr seq \<Rightarrow> seq)"

definition energy_SetCurrentID :: "env \<Rightarrow> uint64 \<Rightarrow> energy_state \<Rightarrow> energy_error option \<times> energy_state" where
  "energy_SetCurrentID E seq st =
     (case item_Set E energy_coll_sequence (es_IDSequence st) seq of
        (Some e, s) \<Rightarrow> (Some (EPanicSetSequence e), st\<lparr>es_IDSequence := s\<rparr>)
      | (None, s) \<Rightarrow> (None, st\<lparr>es_IDSequence := s\<rparr>))"

text \<open>\<^verbatim>\<open>parseEnergyID\<close>: the number after \<^verbatim>\<open>energy-\<close>, computed in \<^verbatim>\<open>uint64\<close>; \<open>None\<close> is \<^verbatim>\<open>(0, false)\<close>.\<close>

fun parse_digits :: "uint64 \<Rightarrow> string \<Rightarrow> uint64 option" where
  "parse_digits n [] = Some n"
| "parse_digits n (c # cs) =
     (if is_digit c then parse_digits (n * 10 + word_of_nat (of_char c - 48)) cs else None)"

definition parseEnergyID :: "string \<Rightarrow> uint64 option" where
  "parseEnergyID ident =
     (if length ident \<le> length ''energy-'' \<or> take (length ''energy-'') ident \<noteq> ''energy-'' then None
      else parse_digits 0 (drop (length ''energy-'') ident))"

section \<open>Energy data\<close>

definition keeper_SubmitEnergyData :: "env \<Rightarrow> EnergyData \<Rightarrow> energy_state \<Rightarrow> energy_error option \<times> energy_state" where
  "keeper_SubmitEnergyData E data st =
     (case map_Set E energy_coll_data (es_EnergyData st) (ed_ID data) data of
        (Some e, m) \<Rightarrow> (Some (EStoreData e), st\<lparr>es_EnergyData := m\<rparr>)
      | (None, m) \<Rightarrow>
          let st1 = st\<lparr>es_EnergyData := m\<rparr> in
          (case set_Set E energy_coll_by_category (es_ByCategory st1) (ed_Category data, ed_ID data) of
             (Some e, c) \<Rightarrow> (Some (EIndexCategory e), st1\<lparr>es_ByCategory := c\<rparr>)
           | (None, c) \<Rightarrow>
               let st2 = st1\<lparr>es_ByCategory := c\<rparr> in
               (case set_Set E energy_coll_by_submitter (es_BySubmitter st2) (ed_Submitter data, ed_ID data) of
                  (Some e, s) \<Rightarrow> (Some (EIndexSubmitter e), st2\<lparr>es_BySubmitter := s\<rparr>)
                | (None, s) \<Rightarrow> (None, st2\<lparr>es_BySubmitter := s\<rparr>))))"

text \<open>A miss and a decoding failure (logged by the code) both give the zero record and false.\<close>

definition energy_GetEnergyData :: "env \<Rightarrow> energy_state \<Rightarrow> string \<Rightarrow> EnergyData \<times> bool" where
  "energy_GetEnergyData E st ident =
     (case map_Get E energy_coll_data (es_EnergyData st) ident of
        Inl _ \<Rightarrow> (zero_EnergyData, False)
      | Inr data \<Rightarrow> (data, True))"

definition energy_getAllDataUnbounded :: "env \<Rightarrow> energy_state \<Rightarrow> EnergyData list" where
  "energy_getAllDataUnbounded E st =
     snd (map_Walk E energy_coll_data (es_EnergyData st) no_range (\<lambda>_ v out. (False, out @ [v])) [])"

definition energy_IterateEnergyData :: "env \<Rightarrow> energy_state \<Rightarrow> EnergyData list" where
  "energy_IterateEnergyData E st = energy_getAllDataUnbounded E st"

section \<open>Batches\<close>

definition keeper_SubmitBatch :: "env \<Rightarrow> BatchSubmission \<Rightarrow> energy_state \<Rightarrow> energy_error option \<times> energy_state" where
  "keeper_SubmitBatch E batch st =
     (case map_Set E energy_coll_batches (es_Batches st) (bs_ID batch) batch of
        (Some e, m) \<Rightarrow> (Some (EStoreBatch e), st\<lparr>es_Batches := m\<rparr>)
      | (None, m) \<Rightarrow> (None, st\<lparr>es_Batches := m\<rparr>))"

definition energy_GetBatch :: "env \<Rightarrow> energy_state \<Rightarrow> string \<Rightarrow> BatchSubmission \<times> bool" where
  "energy_GetBatch E st ident =
     (case map_Get E energy_coll_batches (es_Batches st) ident of
        Inl _ \<Rightarrow> (zero_BatchSubmission, False)
      | Inr batch \<Rightarrow> (batch, True))"

definition energy_getAllBatchesUnbounded :: "env \<Rightarrow> energy_state \<Rightarrow> BatchSubmission list" where
  "energy_getAllBatchesUnbounded E st =
     snd (map_Walk E energy_coll_batches (es_Batches st) no_range (\<lambda>_ v out. (False, out @ [v])) [])"

section \<open>Parameters\<close>

definition energy_SetParams :: "env \<Rightarrow> energy_Params \<Rightarrow> energy_state \<Rightarrow> energy_error option \<times> energy_state" where
  "energy_SetParams E params st =
     (case item_Set E energy_coll_params (es_Params st) params of
        (Some e, i) \<Rightarrow> (Some (EStoreParams e), st\<lparr>es_Params := i\<rparr>)
      | (None, i) \<Rightarrow> (None, st\<lparr>es_Params := i\<rparr>))"

definition energy_GetParams :: "env \<Rightarrow> energy_state \<Rightarrow> energy_Params" where
  "energy_GetParams E st =
     (case item_Get E energy_coll_params (es_Params st) of
        Inl _ \<Rightarrow> energy_DefaultParams
      | Inr params \<Rightarrow> params)"

definition IsAllowedSubmitter :: "env \<Rightarrow> energy_state \<Rightarrow> string \<Rightarrow> bool" where
  "IsAllowedSubmitter E st address =
     (let params = energy_GetParams E st in
      if ep_Permissionless params then True
      else list_ex (\<lambda>allowed. allowed = address) (ep_AllowedSubmitters params))"

section \<open>Rate limit\<close>

definition CheckAndIncrSubmitCount :: "env \<Rightarrow> string \<Rightarrow> energy_state \<Rightarrow> energy_error option \<times> energy_state" where
  "CheckAndIncrSubmitCount E addr st =
     (let limit = ep_MaxSubmissionsPerBlockPerSubmitter (energy_GetParams E st) in
      if limit = 0 then (None, st)
      else
        let key = GetSubmitCountByAddrKey addr;
            count = counter_at (es_transient st) key
        in if count \<ge> limit then (Some (ERateLimited addr limit), st)
           else (None, st\<lparr>es_transient := fmupd key (PutUint32 (count + 1)) (es_transient st)\<rparr>))"

section \<open>Genesis\<close>

fun energy_restore_data :: "env \<Rightarrow> nat \<Rightarrow> EnergyData list \<Rightarrow> energy_state \<Rightarrow> energy_error option \<times> energy_state" where
  "energy_restore_data E i [] st = (None, st)"
| "energy_restore_data E i (d # ds) st =
     (case keeper_SubmitEnergyData E d st of
        (Some e, st') \<Rightarrow> (Some (EGenesisData i e), st')
      | (None, st') \<Rightarrow> energy_restore_data E (Suc i) ds st')"

fun energy_restore_batches :: "env \<Rightarrow> nat \<Rightarrow> BatchSubmission list \<Rightarrow> energy_state \<Rightarrow> energy_error option \<times> energy_state" where
  "energy_restore_batches E i [] st = (None, st)"
| "energy_restore_batches E i (b # bs) st =
     (case keeper_SubmitBatch E b st of
        (Some e, st') \<Rightarrow> (Some (EGenesisBatch i e), st')
      | (None, st') \<Rightarrow> energy_restore_batches E (Suc i) bs st')"

text \<open>The running maximum over the ids that parse, kept in \<^verbatim>\<open>highest\<close>.\<close>

definition raise_to :: "string \<Rightarrow> uint64 \<Rightarrow> uint64" where
  "raise_to ident highest =
     (case parseEnergyID ident of Some n \<Rightarrow> if n > highest then n else highest | None \<Rightarrow> highest)"

definition energy_highest :: "energy_GenesisState \<Rightarrow> uint64" where
  "energy_highest gs =
     fold (\<lambda>b h. raise_to (bs_ID b) h) (eg_Batches gs)
       (fold (\<lambda>d h. raise_to (ed_ID d) h) (eg_DataRecords gs) (eg_NextID gs))"

definition energy_InitGenesis :: "env \<Rightarrow> energy_GenesisState \<Rightarrow> energy_state \<Rightarrow> energy_error option \<times> energy_state" where
  "energy_InitGenesis E gs st =
     (case energy_SetParams E (eg_Params gs) st of
        (Some e, st1) \<Rightarrow> (Some (EGenesisParams e), st1)
      | (None, st1) \<Rightarrow>
          (case energy_restore_data E 0 (eg_DataRecords gs) st1 of
             (Some e, st2) \<Rightarrow> (Some e, st2)
           | (None, st2) \<Rightarrow>
               (case energy_restore_batches E 0 (eg_Batches gs) st2 of
                  (Some e, st3) \<Rightarrow> (Some e, st3)
                | (None, st3) \<Rightarrow>
                    let highest = energy_highest gs in
                    if highest > 0 then energy_SetCurrentID E highest st3 else (None, st3))))"

definition energy_ExportGenesis :: "env \<Rightarrow> energy_state \<Rightarrow> energy_GenesisState" where
  "energy_ExportGenesis E st = \<lparr>
     eg_Params = energy_GetParams E st,
     eg_DataRecords = energy_getAllDataUnbounded E st,
     eg_Batches = energy_getAllBatchesUnbounded E st,
     eg_NextID = energy_GetCurrentID E st\<rparr>"

end
