(* ===== verification/SampleEnv.thy ===== *)
theory SampleEnv
  imports GoPrelude
begin

text \<open>
  A concrete environment for the witnesses: a storage layer that never fails, an address decoder
  that rejects only the empty string, and a 32-byte digest of length and content.
\<close>

definition sample_digest :: "bytes \<Rightarrow> bytes" where
  "sample_digest x = take 32 (be_bytes 4 (length x) @ x @ replicate 32 (char_of (0 :: nat)))"

definition sample_env :: env where
  "sample_env = \<lparr>
     keccak256 = sample_digest,
     sha256 = sample_digest,
     AccAddressFromBech32 = (\<lambda>s. if s = [] then Inl ''empty address string is not allowed'' else Inr s),
     write_fault = (\<lambda>_ _. None),
     decode_fault = (\<lambda>_ _. False)\<rparr>"

lemma sample_healthy [simp]: "healthy sample_env"
  by (simp add: healthy_def sample_env_def)

lemma sample_rejects_empty [simp]: "rejects_empty sample_env"
  by (simp add: rejects_empty_def sample_env_def)

lemma sample_keccak_length [simp]: "length (keccak256 sample_env x) = 32"
  by (simp add: sample_env_def sample_digest_def)

text \<open>The digest tells inputs of different lengths apart, and short inputs of the same length.\<close>

lemma sample_digest_length:
  assumes "sample_digest x = sample_digest y" and "length x < 256 ^ 4" and "length y < 256 ^ 4"
  shows "length x = length y"
proof -
  have "be_bytes 4 (length x) = be_bytes 4 (length y)"
    using arg_cong [OF assms(1), of "take 4"] by (simp add: sample_digest_def)
  then show ?thesis using assms(2,3) be_bytes_inject by blast
qed

lemma sample_digest_short:
  assumes "sample_digest x = sample_digest y" and "length x = length y" and "length x \<le> 28"
  shows "x = y"
  using arg_cong [OF assms(1), of "\<lambda>z. take (length x) (drop 4 z)"] assms(2,3)
  by (simp add: sample_digest_def drop_take min_def)

definition sample_ctx :: sdk_ctx where
  "sample_ctx = \<lparr>BlockHeight = 7, BlockTimeUnix = 1700000000, TxBytes = ''tx''\<rparr>"

end
