(* ===== verification/Merkle.thy ===== *)
theory Merkle
  imports EnergyTypes SampleEnv
begin

text \<open>
  The Merkle commitment of a batch (\<^verbatim>\<open>verifyMerkleRoot\<close>, \<^verbatim>\<open>computeMerkleRoot\<close>, \<^verbatim>\<open>hashPair\<close> of
  \<^verbatim>\<open>x/energy/keeper/msg_server.go\<close>).  The hash is the field \<open>keccak256\<close> of the environment, so every
  statement holds for any function; the binding theorem says what an accepted root commits to,
  unless a hash collision is exhibited.
\<close>

section \<open>The code\<close>

text \<open>\<^verbatim>\<open>hashPair\<close> orders its arguments by their hexadecimal strings.\<close>

definition hashPair :: "env \<Rightarrow> bytes \<Rightarrow> bytes \<Rightarrow> bytes" where
  "hashPair E a b =
     (if EncodeToString a \<le> EncodeToString b then keccak256 E (a @ b) else keccak256 E (b @ a))"

text \<open>One level up: the pairs in order, an odd last node paired with itself.\<close>

fun next_level :: "env \<Rightarrow> bytes list \<Rightarrow> bytes list" where
  "next_level E [] = []"
| "next_level E [a] = [hashPair E a a]"
| "next_level E (a # b # rest) = hashPair E a b # next_level E rest"

lemma length_next_level [simp]: "length (next_level E ls) = (length ls + 1) div 2"
  by (induction E ls rule: next_level.induct) auto

text \<open>
  \<^verbatim>\<open>computeMerkleRoot\<close> recurses until one node is left; on no leaves at all it would recurse
  forever, which \<open>None\<close> says here.  Its caller never passes an empty slice.
\<close>

partial_function (option) computeMerkleRoot :: "env \<Rightarrow> bytes list \<Rightarrow> bytes option" where
  "computeMerkleRoot E leaves =
     (case leaves of [l] \<Rightarrow> Some l | _ \<Rightarrow> computeMerkleRoot E (next_level E leaves))"

datatype merkle_error = NoItems | RootMismatch string string | NotReturning

definition merkle_leaf :: "env \<Rightarrow> nat \<Rightarrow> BatchItem \<Rightarrow> bytes" where
  "merkle_leaf E i item = keccak256 E (PutUint64 (word_of_nat i) @ bi_DataHash item)"

definition merkle_leaves :: "env \<Rightarrow> BatchItem list \<Rightarrow> bytes list" where
  "merkle_leaves E items = map (\<lambda>(i, item). merkle_leaf E i item) (enumerate 0 items)"

definition verifyMerkleRoot :: "env \<Rightarrow> BatchItem list \<Rightarrow> string \<Rightarrow> merkle_error option" where
  "verifyMerkleRoot E items declaredRoot =
     (if items = [] then Some NoItems
      else case computeMerkleRoot E (merkle_leaves E items) of
             None \<Rightarrow> Some NotReturning
           | Some root \<Rightarrow>
               let computed = EncodeToString root;
                   normalized = TrimPrefix (ToLower declaredRoot) ''0x''
               in if computed \<noteq> normalized then Some (RootMismatch computed declaredRoot) else None)"

section \<open>The recursion returns\<close>

text \<open>\<open>mdepth n\<close> is the number of levels above \<open>n\<close> leaves.\<close>

function mdepth :: "nat \<Rightarrow> nat" where
  "mdepth n = (if n \<le> 1 then 0 else Suc (mdepth ((n + 1) div 2)))"
  by pat_completeness auto
termination
  by (relation "measure id") auto

declare mdepth.simps [simp del]

lemma mdepth_small [simp]: "n \<le> 1 \<Longrightarrow> mdepth n = 0"
  by (subst mdepth.simps) simp

lemma mdepth_step: "\<not> n \<le> 1 \<Longrightarrow> mdepth n = Suc (mdepth ((n + 1) div 2))"
  by (subst mdepth.simps) simp

lemma computeMerkleRoot_single [simp]: "computeMerkleRoot E [l] = Some l"
  by (subst computeMerkleRoot.simps) simp

lemma computeMerkleRoot_step:
  "\<not> length ls \<le> 1 \<Longrightarrow> computeMerkleRoot E ls = computeMerkleRoot E (next_level E ls)"
  by (subst computeMerkleRoot.simps) (auto split: list.split)

lemma next_level_nonempty [simp]: "next_level E ls = [] \<longleftrightarrow> ls = []"
  by (cases ls rule: list_pair_cases) auto

lemma computeMerkleRoot_levels:
  "ls \<noteq> [] \<Longrightarrow> \<exists>r. (next_level E ^^ mdepth (length ls)) ls = [r] \<and> computeMerkleRoot E ls = Some r"
proof (induction "length ls" arbitrary: ls rule: less_induct)
  case less
  show ?case
  proof (cases "length ls \<le> 1")
    case True
    then obtain l where "ls = [l]" using less.prems by (cases ls) auto
    then show ?thesis by simp
  next
    case False
    then have "length (next_level E ls) < length ls" by simp
    then obtain r where r: "(next_level E ^^ mdepth (length (next_level E ls))) (next_level E ls) = [r]"
        "computeMerkleRoot E (next_level E ls) = Some r"
      using less.hyps less.prems by (metis next_level_nonempty)
    have "mdepth (length ls) = Suc (mdepth (length (next_level E ls)))"
      using False by (simp add: mdepth_step [of "length ls"])
    moreover have "computeMerkleRoot E ls = computeMerkleRoot E (next_level E ls)"
      using False by (rule computeMerkleRoot_step)
    ultimately show ?thesis using r by (simp add: funpow_swap1)
  qed
qed

lemma merkle_leaves_Nil [simp]: "merkle_leaves E items = [] \<longleftrightarrow> items = []"
  by (cases items) (simp_all add: merkle_leaves_def)

lemma length_merkle_leaves [simp]: "length (merkle_leaves E items) = length items"
  by (simp add: merkle_leaves_def)

lemma verifyMerkleRoot_iff:
  "verifyMerkleRoot E items root = None \<longleftrightarrow>
     items \<noteq> [] \<and>
     (\<exists>r. computeMerkleRoot E (merkle_leaves E items) = Some r \<and>
        TrimPrefix (ToLower root) ''0x'' = EncodeToString r)"
proof (cases "items = []")
  case False
  then obtain r where "computeMerkleRoot E (merkle_leaves E items) = Some r"
    using computeMerkleRoot_levels [of "merkle_leaves E items" E] by auto
  then show ?thesis
    using False by (auto simp: verifyMerkleRoot_def Let_def)
qed (simp add: verifyMerkleRoot_def)

section \<open>Agreement with a top-down tree\<close>

text \<open>
  The reference: a tree of a given depth over at most \<open>2 ^ d\<close> leaves, whose right half, when there
  is nothing in it, repeats the left one.
\<close>

fun tree_root :: "env \<Rightarrow> nat \<Rightarrow> bytes list \<Rightarrow> bytes" where
  "tree_root E 0 ls = hd ls"
| "tree_root E (Suc d) ls =
     (let l = tree_root E d (take (2 ^ d) ls)
      in hashPair E l (if length ls \<le> 2 ^ d then l else tree_root E d (drop (2 ^ d) ls)))"

lemma next_level_append: "even (length xs) \<Longrightarrow> next_level E (xs @ ys) = next_level E xs @ next_level E ys"
  by (induction E xs rule: next_level.induct) auto

lemma next_level_take: "next_level E (take (2 * k) ls) = take k (next_level E ls)"
proof (induction k arbitrary: ls)
  case (Suc k)
  then show ?case by (cases ls rule: list_pair_cases) auto
qed simp

lemma next_level_drop: "next_level E (drop (2 * k) ls) = drop k (next_level E ls)"
proof (induction k arbitrary: ls)
  case (Suc k)
  then show ?case by (cases ls rule: list_pair_cases) auto
qed simp

lemma tree_root_next_level:
  "ls \<noteq> [] \<Longrightarrow> length ls \<le> 2 ^ Suc d \<Longrightarrow> tree_root E (Suc d) ls = tree_root E d (next_level E ls)"
proof (induction d arbitrary: ls)
  case 0
  then show ?case by (cases ls rule: list_pair_cases) auto
next
  case (Suc d)
  note unfold = tree_root.simps(2) [of E "Suc d" ls] tree_root.simps(2) [of E d "next_level E ls"] Let_def
  have L: "tree_root E (Suc d) (take (2 ^ Suc d) ls) = tree_root E d (take (2 ^ d) (next_level E ls))"
    using Suc.prems by (subst Suc.IH) (auto simp: next_level_take)
  have N: "length (next_level E ls) \<le> 2 ^ d \<longleftrightarrow> length ls \<le> 2 ^ Suc d"
    by simp linarith
  show ?case
  proof (cases "length ls \<le> 2 ^ Suc d")
    case True
    then show ?thesis by (simp only: unfold L N if_True)
  next
    case False
    then have R: "tree_root E (Suc d) (drop (2 ^ Suc d) ls) = tree_root E d (drop (2 ^ d) (next_level E ls))"
      using Suc.prems by (subst Suc.IH) (auto simp: next_level_drop)
    show ?thesis using False by (simp only: unfold L N R if_False)
  qed
qed

lemma mdepth_bound: "0 < n \<Longrightarrow> n \<le> 2 ^ mdepth n"
proof (induction n rule: mdepth.induct)
  case (1 n)
  show ?case
  proof (cases "n \<le> 1")
    case False
    then have "(n + 1) div 2 \<le> 2 ^ mdepth ((n + 1) div 2)" using 1 by simp
    then show ?thesis using False by (simp add: mdepth_step)
  qed (use 1 in simp)
qed

lemma computeMerkleRoot_tree:
  "ls \<noteq> [] \<Longrightarrow> computeMerkleRoot E ls = Some (tree_root E (mdepth (length ls)) ls)"
proof (induction "length ls" arbitrary: ls rule: less_induct)
  case less
  show ?case
  proof (cases "length ls \<le> 1")
    case True
    then obtain l where "ls = [l]" using less.prems by (cases ls) auto
    then show ?thesis by simp
  next
    case False
    let ?n = "next_level E ls"
    have "computeMerkleRoot E ls = computeMerkleRoot E ?n"
      using False by (rule computeMerkleRoot_step)
    also have "\<dots> = Some (tree_root E (mdepth (length ?n)) ?n)"
      using False less.hyps less.prems by simp
    also have "tree_root E (mdepth (length ?n)) ?n = tree_root E (Suc (mdepth (length ?n))) ls"
    proof (rule tree_root_next_level [symmetric])
      have "length ls \<le> 2 ^ mdepth (length ls)"
        using less.prems by (intro mdepth_bound) simp
      then show "length ls \<le> 2 ^ Suc (mdepth (length ?n))"
        using False by (simp add: mdepth_step [of "length ls"])
    qed (use less.prems in simp)
    also have "Suc (mdepth (length ?n)) = mdepth (length ls)"
      using False by (simp add: mdepth_step [of "length ls"])
    finally show ?thesis .
  qed
qed

section \<open>What an accepted root commits to\<close>

text \<open>
  The inputs the code hashes for a batch: one per leaf, and one per pair on every level.  The
  binding theorem assumes that the hash has no collision among the inputs hashed for the two
  batches it compares.
\<close>

fun pairs :: "'a list \<Rightarrow> ('a \<times> 'a) list" where
  "pairs [] = []"
| "pairs [a] = [(a, a)]"
| "pairs (a # b # rest) = (a, b) # pairs rest"

definition pair_input :: "bytes \<times> bytes \<Rightarrow> bytes" where
  "pair_input p = (if EncodeToString (fst p) \<le> EncodeToString (snd p) then fst p @ snd p else snd p @ fst p)"

definition level_inputs :: "bytes list \<Rightarrow> bytes list" where
  "level_inputs ls = map pair_input (pairs ls)"

definition tree_inputs :: "env \<Rightarrow> bytes list \<Rightarrow> bytes list" where
  "tree_inputs E ls = concat (map (\<lambda>j. level_inputs ((next_level E ^^ j) ls)) [0..<mdepth (length ls)])"

definition leaf_inputs :: "BatchItem list \<Rightarrow> bytes list" where
  "leaf_inputs items = map (\<lambda>(i, item). PutUint64 (word_of_nat i) @ bi_DataHash item) (enumerate 0 items)"

definition merkle_inputs :: "env \<Rightarrow> BatchItem list \<Rightarrow> bytes list" where
  "merkle_inputs E items = leaf_inputs items @ tree_inputs E (merkle_leaves E items)"

lemma next_level_pairs: "next_level E ls = map (keccak256 E) (level_inputs ls)"
  by (induction E ls rule: next_level.induct) (auto simp: level_inputs_def pair_input_def hashPair_def)

lemma merkle_leaves_inputs: "merkle_leaves E items = map (keccak256 E) (leaf_inputs items)"
  by (simp add: merkle_leaves_def leaf_inputs_def merkle_leaf_def split_def)

lemma pairs_cover: "x \<in> set ls \<longleftrightarrow> (\<exists>p \<in> set (pairs ls). x = fst p \<or> x = snd p)"
  by (induction ls rule: pairs.induct) auto

lemma pair_input_same_set:
  assumes "pair_input p = pair_input q" and "\<And>x. x \<in> {fst p, snd p, fst q, snd q} \<Longrightarrow> length x = 32"
  shows "{fst p, snd p} = {fst q, snd q}"
  using assms by (auto simp: pair_input_def split: if_splits)

lemma level_down:
  assumes sets: "set (next_level E ls) = set (next_level E ls')"
    and inj: "inj_on (keccak256 E) I"
    and "set (level_inputs ls) \<subseteq> I" and "set (level_inputs ls') \<subseteq> I"
    and len: "\<And>x. x \<in> set ls \<union> set ls' \<Longrightarrow> length x = 32"
  shows "set ls = set ls'"
proof -
  have sub: "set xs \<subseteq> set ys"
    if "set (level_inputs xs) = set (level_inputs ys)" and "set xs \<union> set ys \<subseteq> set ls \<union> set ls'" for xs ys
  proof
    fix x assume "x \<in> set xs"
    then obtain p where p: "p \<in> set (pairs xs)" "x = fst p \<or> x = snd p"
      using pairs_cover [of x xs] by blast
    then have "pair_input p \<in> pair_input ` set (pairs ys)"
      using that(1) by (metis image_eqI level_inputs_def set_map)
    then obtain q where q: "q \<in> set (pairs ys)" "pair_input p = pair_input q"
      by (rule imageE)
    have "{fst p, snd p} \<subseteq> set xs" "{fst q, snd q} \<subseteq> set ys"
      using p(1) q(1) pairs_cover by fastforce+
    then have "{fst p, snd p, fst q, snd q} \<subseteq> set ls \<union> set ls'"
      using that(2) by auto
    then have "length z = 32" if "z \<in> {fst p, snd p, fst q, snd q}" for z
      using that by (intro len) (rule subsetD)
    with q(2) have "{fst p, snd p} = {fst q, snd q}" by (rule pair_input_same_set)
    then have "x \<in> {fst q, snd q}" using p(2) by blast
    then show "x \<in> set ys" using \<open>{fst q, snd q} \<subseteq> set ys\<close> by (rule subsetD [rotated])
  qed
  have "set (level_inputs ls) = set (level_inputs ls')"
    using sets assms(3,4) inj by (simp add: next_level_pairs inj_on_image_eq_iff)
  then show ?thesis using sub [of ls ls'] sub [of ls' ls] by auto
qed

lemma levels_down:
  assumes "set ((next_level E ^^ k) ls) = set ((next_level E ^^ k) ls')"
    and inj: "inj_on (keccak256 E) I"
    and "\<And>j. j < k \<Longrightarrow> set (level_inputs ((next_level E ^^ j) ls)) \<subseteq> I"
    and "\<And>j. j < k \<Longrightarrow> set (level_inputs ((next_level E ^^ j) ls')) \<subseteq> I"
    and len: "\<And>x. length (keccak256 E x) = 32"
    and "\<And>x. x \<in> set ls \<union> set ls' \<Longrightarrow> length x = 32"
  shows "set ls = set ls'"
  using assms(1,3,4,6)
proof (induction k arbitrary: ls ls')
  case (Suc k)
  have below: "set (level_inputs ((next_level E ^^ j) (next_level E xs))) \<subseteq> I"
    if "j < k" and "xs = ls \<or> xs = ls'" for j xs
    using that Suc.prems(2,3) [of "Suc j"] by (auto simp: funpow_swap1)
  have "set (next_level E ls) = set (next_level E ls')"
  proof (rule Suc.IH)
    show "set ((next_level E ^^ k) (next_level E ls)) = set ((next_level E ^^ k) (next_level E ls'))"
      using Suc.prems(1) by (simp add: funpow_swap1)
    show "x \<in> set (next_level E ls) \<union> set (next_level E ls') \<Longrightarrow> length x = 32" for x
      using len by (auto simp: next_level_pairs)
  qed (use below in blast)+
  then show ?case
  proof (rule level_down [OF _ inj])
    show "set (level_inputs ls) \<subseteq> I" using Suc.prems(2) [of 0] by simp
    show "set (level_inputs ls') \<subseteq> I" using Suc.prems(3) [of 0] by simp
  qed (rule Suc.prems(4))
qed simp

lemma leaf_inputs_subset:
  assumes "set (leaf_inputs xs) \<subseteq> set (leaf_inputs ys)"
    and "length xs < 2 ^ 64" and "length ys < 2 ^ 64" and "i < length xs"
  shows "i < length ys \<and> bi_DataHash (xs ! i) = bi_DataHash (ys ! i)"
proof -
  have "PutUint64 (word_of_nat i) @ bi_DataHash (xs ! i) \<in> set (leaf_inputs xs)"
    using assms(4) by (force simp: leaf_inputs_def in_set_enumerate_eq)
  then obtain j where j: "j < length ys"
      "PutUint64 (word_of_nat i) @ bi_DataHash (xs ! i) = PutUint64 (word_of_nat j) @ bi_DataHash (ys ! j)"
    using assms(1) by (force simp: leaf_inputs_def in_set_enumerate_eq)
  then have "word_of_nat i = (word_of_nat j :: uint64)" and dh: "bi_DataHash (xs ! i) = bi_DataHash (ys ! j)"
    by (simp_all add: append_eq_append_conv)
  then have "i = j"
    using assms(2-4) j(1) by (simp add: word_of_nat_eq_iff take_bit_nat_eq_self)
  then show ?thesis using j dh by simp
qed

lemma tree_inputs_level: "j < mdepth (length ls) \<Longrightarrow> set (level_inputs ((next_level E ^^ j) ls)) \<subseteq> set (tree_inputs E ls)"
  by (auto simp: tree_inputs_def)

lemma merkle_level_inputs:
  "j < mdepth (length its) \<Longrightarrow> set (level_inputs ((next_level E ^^ j) (merkle_leaves E its))) \<subseteq> set (merkle_inputs E its)"
  using tree_inputs_level [of j "merkle_leaves E its" E] by (auto simp: merkle_inputs_def)

lemma merkle_node_length:
  "\<lbrakk>\<And>x. length (keccak256 E x) = 32; x \<in> set ((next_level E ^^ k) (merkle_leaves E its))\<rbrakk> \<Longrightarrow> length x = 32"
  by (cases k) (auto simp: merkle_leaves_inputs next_level_pairs)

lemma level_input_length:
  assumes "v \<in> set (level_inputs ls)" and "\<And>x. x \<in> set ls \<Longrightarrow> length x = 32"
  shows "length v = 64"
proof -
  obtain p where p: "p \<in> set (pairs ls)" "v = pair_input p" using assms(1) by (auto simp: level_inputs_def)
  then show ?thesis
    using assms(2) [of "fst p"] assms(2) [of "snd p"] pairs_cover by (fastforce simp: pair_input_def)
qed

text \<open>A leaf of one tree is not an inner node of another: their inputs have different lengths.\<close>

lemma leaf_not_inner:
  assumes len32: "\<And>x. length (keccak256 E x) = 32"
    and inj: "inj_on (keccak256 E) (set (merkle_inputs E xs) \<union> set (merkle_inputs E ys))"
    and "it \<in> set xs" and "length (bi_DataHash it) \<noteq> 56" and "k < mdepth (length ys)"
    and leaves: "set (merkle_leaves E xs) \<subseteq> set ((next_level E ^^ Suc k) (merkle_leaves E ys))"
  shows False
proof -
  obtain i where i: "i < length xs" "xs ! i = it" using assms(3) by (meson in_set_conv_nth)
  let ?u = "PutUint64 (word_of_nat i) @ bi_DataHash it"
  have u: "?u \<in> set (leaf_inputs xs)" using i by (force simp: leaf_inputs_def in_set_enumerate_eq)
  then have "keccak256 E ?u \<in> set (next_level E ((next_level E ^^ k) (merkle_leaves E ys)))"
    using leaves by (auto simp: merkle_leaves_inputs)
  then obtain v where v: "v \<in> set (level_inputs ((next_level E ^^ k) (merkle_leaves E ys)))"
      "keccak256 E ?u = keccak256 E v"
    by (auto simp: next_level_pairs)
  have "?u = v"
    using inj_onD [OF inj v(2)] u v(1) merkle_level_inputs [OF assms(5)] by (auto simp: merkle_inputs_def)
  moreover have "length v = 64"
    by (rule level_input_length [OF v(1)]) (rule merkle_node_length [OF len32])
  ultimately have "length ?u = 64" by (rule subst [of v ?u, OF sym])
  then show False using assms(4) by simp
qed

text \<open>The shallower tree cannot be matched against inner nodes of the deeper one.\<close>

lemma merkle_depth_le:
  assumes len32: "\<And>x. length (keccak256 E x) = 32"
    and inj: "inj_on (keccak256 E) (set (merkle_inputs E xs) \<union> set (merkle_inputs E ys))"
    and no56: "\<And>it. it \<in> set xs \<Longrightarrow> length (bi_DataHash it) \<noteq> 56"
    and ne: "xs \<noteq> []"
    and root: "set ((next_level E ^^ m) (merkle_leaves E xs)) = set ((next_level E ^^ n) (merkle_leaves E ys))"
    and m: "m = mdepth (length xs)" and n: "n = mdepth (length ys)"
    and "m \<le> n"
  shows "m = n \<and> set (leaf_inputs xs) = set (leaf_inputs ys)"
proof -
  let ?low = "(next_level E ^^ (n - m)) (merkle_leaves E ys)"
  have leaves: "set (merkle_leaves E xs) = set ?low"
  proof (rule levels_down [OF _ inj, where k = m])
    have "(next_level E ^^ m) ?low = (next_level E ^^ n) (merkle_leaves E ys)"
      using \<open>m \<le> n\<close> by (metis comp_apply funpow_add le_add_diff_inverse)
    then show "set ((next_level E ^^ m) (merkle_leaves E xs)) = set ((next_level E ^^ m) ?low)"
      using root by simp
    show "j < m \<Longrightarrow> set (level_inputs ((next_level E ^^ j) ?low)) \<subseteq> set (merkle_inputs E xs) \<union> set (merkle_inputs E ys)" for j
    proof -
      assume "j < m"
      then have "j + (n - m) < mdepth (length ys)" using n \<open>m \<le> n\<close> by linarith
      from merkle_level_inputs [OF this] show ?thesis by (auto simp: funpow_add simp del: Nat.add_diff_assoc)
    qed
    show "x \<in> set (merkle_leaves E xs) \<union> set ?low \<Longrightarrow> length x = 32" for x
      using merkle_node_length [OF len32, where k = 0] merkle_node_length [OF len32, where k = "n - m"] by auto
  qed (use merkle_level_inputs m len32 in auto)
  have "m = n"
  proof (rule ccontr)
    assume "m \<noteq> n"
    then obtain k where k: "n - m = Suc k" "k < n" using \<open>m \<le> n\<close> by (cases "n - m") auto
    obtain it where it: "it \<in> set xs" using ne by (cases xs) auto
    show False by (rule leaf_not_inner [OF len32 inj it no56 [OF it]]) (use k n leaves in auto)
  qed
  moreover have "set (leaf_inputs xs) = set (leaf_inputs ys)" if "m = n"
  proof -
    have "keccak256 E ` set (leaf_inputs xs) = keccak256 E ` set (leaf_inputs ys)"
      using leaves that by (simp add: merkle_leaves_inputs)
    then show ?thesis
      using inj by (subst (asm) inj_on_image_eq_iff) (auto simp: merkle_inputs_def)
  qed
  ultimately show ?thesis by simp
qed

lemma leaf_inputs_determine:
  assumes "set (leaf_inputs xs) = set (leaf_inputs ys)" and "length xs < 2 ^ 64" and "length ys < 2 ^ 64"
  shows "map bi_DataHash xs = map bi_DataHash ys"
proof -
  have "i < length xs \<longleftrightarrow> i < length ys" for i
    using assms leaf_inputs_subset [of xs ys i] leaf_inputs_subset [of ys xs i] by auto
  then have "length xs = length ys" by (meson less_irrefl nat_neq_iff)
  then show ?thesis
    using assms leaf_inputs_subset [of xs ys] by (auto intro: nth_equalityI)
qed

text \<open>
  C4: an accepted Merkle root binds the batch: if the handler accepts the same declared root for two
  batches, then the batches have the same data hashes in the same order (hence the same number of
  items), provided the hash has 32 bytes and no collision among the inputs hashed for the two
  batches, and no data hash has the 56 bytes that would make a leaf look like an inner node.
\<close>
theorem merkle_root_binds:
  assumes "verifyMerkleRoot E xs root = None" and "verifyMerkleRoot E ys root = None"
    and len32: "\<And>x. length (keccak256 E x) = 32"
    and inj: "inj_on (keccak256 E) (set (merkle_inputs E xs) \<union> set (merkle_inputs E ys))"
    and no56: "\<And>it. it \<in> set xs \<union> set ys \<Longrightarrow> length (bi_DataHash it) \<noteq> 56"
    and "length xs < 2 ^ 64" and "length ys < 2 ^ 64"
  shows "map bi_DataHash xs = map bi_DataHash ys"
proof -
  let ?m = "mdepth (length xs)" and ?n = "mdepth (length ys)"
  have ne: "xs \<noteq> []" "ys \<noteq> []" and eq: "computeMerkleRoot E (merkle_leaves E xs) = computeMerkleRoot E (merkle_leaves E ys)"
    using assms(1,2) by (auto simp: verifyMerkleRoot_iff)
  have root: "(next_level E ^^ ?m) (merkle_leaves E xs) = (next_level E ^^ ?n) (merkle_leaves E ys)"
    using ne eq computeMerkleRoot_levels [of "merkle_leaves E xs" E] computeMerkleRoot_levels [of "merkle_leaves E ys" E]
    by auto
  have "set (leaf_inputs xs) = set (leaf_inputs ys)"
  proof (cases "?m \<le> ?n")
    case True
    have "?m = ?n \<and> set (leaf_inputs xs) = set (leaf_inputs ys)"
      by (rule merkle_depth_le [OF len32 inj _ ne(1) _ refl refl True]) (use no56 root in auto)
    then show ?thesis ..
  next
    case False
    have "?n = ?m \<and> set (leaf_inputs ys) = set (leaf_inputs xs)"
      by (rule merkle_depth_le [OF len32 _ _ ne(2) _ refl refl])
        (use no56 root inj False in \<open>auto simp: Un_commute\<close>)
    then show ?thesis by simp
  qed
  then show ?thesis using assms(6,7) by (rule leaf_inputs_determine)
qed

definition sample_leaves :: "string \<Rightarrow> BatchItem list" where
  "sample_leaves meta = [\<lparr>bi_DataHash = ''a'', bi_Metadata = meta\<rparr>, \<lparr>bi_DataHash = ''b'', bi_Metadata = meta\<rparr>]"

definition sample_merkle_root :: string where
  "sample_merkle_root = (case computeMerkleRoot sample_env (merkle_leaves sample_env (sample_leaves [])) of
     Some r \<Rightarrow> EncodeToString r | None \<Rightarrow> [])"

lemma sample_leaves_hashes: "merkle_leaves sample_env (sample_leaves m) = merkle_leaves sample_env (sample_leaves [])"
  by (simp add: merkle_leaves_def sample_leaves_def merkle_leaf_def)

lemma sample_merkle_accepts: "verifyMerkleRoot sample_env (sample_leaves m) sample_merkle_root = None"
proof -
  obtain r where "computeMerkleRoot sample_env (merkle_leaves sample_env (sample_leaves [])) = Some r"
    using computeMerkleRoot_levels [of "merkle_leaves sample_env (sample_leaves [])" sample_env]
    by (auto simp: sample_leaves_def)
  then show ?thesis
    by (simp add: verifyMerkleRoot_iff sample_leaves_hashes [of m] sample_merkle_root_def TrimPrefix_def)
      (simp add: sample_leaves_def)
qed

lemma sample_merkle_inputs: "set (merkle_inputs sample_env (sample_leaves m)) = set (merkle_inputs sample_env (sample_leaves []))"
  by (simp add: merkle_inputs_def sample_leaves_hashes [of m] leaf_inputs_def) (simp add: sample_leaves_def)

text \<open>The digest of the samples has no collision on the three inputs.\<close>

lemma sample_merkle_inj: "inj_on (keccak256 sample_env) (set (merkle_inputs sample_env (sample_leaves [])))"
proof -
  let ?ls = "merkle_leaves sample_env (sample_leaves [])"
  have leaf: "length x = 9" if "x \<in> set (leaf_inputs (sample_leaves []))" for x
    using that by (auto simp: leaf_inputs_def sample_leaves_def)
  obtain a b where ab: "?ls = [a, b]" "length a = 32" "length b = 32"
    by (simp add: merkle_leaves_def sample_leaves_def merkle_leaf_def)
  then have "tree_inputs sample_env ?ls = [pair_input (a, b)]"
    by (simp add: tree_inputs_def mdepth_step level_inputs_def)
  then have node: "length x = 64" if "x \<in> set (tree_inputs sample_env ?ls)" for x
    using that ab by (auto simp: pair_input_def)
  have one: "x = y" if "x \<in> set (tree_inputs sample_env ?ls)" "y \<in> set (tree_inputs sample_env ?ls)" for x y
    using that \<open>tree_inputs sample_env ?ls = [pair_input (a, b)]\<close> by simp
  show ?thesis
  proof (rule inj_onI)
    fix x y
    assume xy: "x \<in> set (merkle_inputs sample_env (sample_leaves []))" "y \<in> set (merkle_inputs sample_env (sample_leaves []))"
    then have len: "length x = 9 \<and> x \<in> set (leaf_inputs (sample_leaves [])) \<or> length x = 64 \<and> x \<in> set (tree_inputs sample_env ?ls)"
        "length y = 9 \<and> y \<in> set (leaf_inputs (sample_leaves [])) \<or> length y = 64 \<and> y \<in> set (tree_inputs sample_env ?ls)"
      using leaf node unfolding merkle_inputs_def set_append by blast+
    assume "keccak256 sample_env x = keccak256 sample_env y"
    then have eq: "sample_digest x = sample_digest y" by (simp add: sample_env_def)
    have "length x \<le> 64" "length y \<le> 64" using len by (elim disjE conjE; simp)+
    then have same: "length x = length y" by (intro sample_digest_length [OF eq]) simp_all
    show "x = y"
    proof (cases "length x = 9")
      case True
      then show ?thesis by (intro sample_digest_short [OF eq same]) simp
    next
      case False
      then have "x \<in> set (tree_inputs sample_env ?ls)" "y \<in> set (tree_inputs sample_env ?ls)"
        using len same by argo+
      then show ?thesis by (rule one)
    qed
  qed
qed

theorem merkle_root_binds_witness:
  "map bi_DataHash (sample_leaves ''x'') = map bi_DataHash (sample_leaves ''y'') \<and> sample_leaves ''x'' \<noteq> sample_leaves ''y''"
proof
  show "map bi_DataHash (sample_leaves ''x'') = map bi_DataHash (sample_leaves ''y'')"
  proof (rule merkle_root_binds [OF sample_merkle_accepts sample_merkle_accepts sample_keccak_length])
    show "inj_on (keccak256 sample_env) (set (merkle_inputs sample_env (sample_leaves ''x'')) \<union> set (merkle_inputs sample_env (sample_leaves ''y'')))"
      unfolding sample_merkle_inputs [of "''x''"] sample_merkle_inputs [of "''y''"] using sample_merkle_inj by (simp only: Un_absorb)
  qed (auto simp: sample_leaves_def)
qed (simp add: sample_leaves_def)

text \<open>
  C21: the pairwise bottom-up recursion of the code always returns, and computes the root of the
  top-down binary tree in which an absent right subtree repeats the left one; the handler accepts
  exactly the non-empty batches whose declared root, up to letter case and a \<^verbatim>\<open>0x\<close> prefix, is that
  root in hexadecimal.
\<close>
theorem merkle_accepts_tree:
  "verifyMerkleRoot E items root = None \<longleftrightarrow>
     items \<noteq> [] \<and> TrimPrefix (ToLower root) ''0x'' = EncodeToString (tree_root E (mdepth (length items)) (merkle_leaves E items))"
  by (cases "items = []") (simp_all add: verifyMerkleRoot_iff computeMerkleRoot_tree)

end
