(* ===== verification/TxHistory.thy ===== *)
theory TxHistory
  imports GoPrelude "HOL-Library.Sublist"
begin

text \<open>
  The interface of a module that runs transactions one after the other, and what follows for whole
  histories from what one transaction keeps.  Each of the four modules provides it; \<open>capped_history\<close>
  adds a bound on stored data that only parameter updates move.
\<close>

section \<open>Histories\<close>

locale tx_history =
  fixes deliver :: "'c \<Rightarrow> 't \<Rightarrow> 's \<Rightarrow> 's"
    and run :: "('c \<times> 't) list \<Rightarrow> 's \<Rightarrow> 's"
  assumes run_Nil: "run [] st = st"
    and run_Cons: "run ((c, t) # txs) st = run txs (deliver c t st)"
begin

lemma run_append: "run (xs @ ys) st = run ys (run xs st)"
  by (induction xs arbitrary: st) (auto simp: run_Nil run_Cons)

lemma run_snoc: "run (xs @ [(c, t)]) st = deliver c t (run xs st)"
  by (simp add: run_append run_Nil run_Cons)

lemma run_inv:
  assumes "P st" and "\<And>c t s. P s \<Longrightarrow> P (deliver c t s)"
  shows "P (run txs st)"
  using assms by (induction txs arbitrary: st) (auto simp: run_Nil run_Cons)

text \<open>A preorder that every transaction respects relates the ends of a history.\<close>

lemma run_related:
  assumes "P st" and "\<And>c t s. P s \<Longrightarrow> P (deliver c t s) \<and> R s (deliver c t s)"
    and "reflp R" and "transp R"
  shows "R st (run txs st)"
  using assms(1)
proof (induction txs arbitrary: st)
  case Nil
  show ?case using assms(3) by (simp add: run_Nil reflpD)
next
  case (Cons x txs)
  obtain c t where x: "x = (c, t)" by (cases x)
  have "R st (deliver c t st)" "R (deliver c t st) (run txs (deliver c t st))"
    using assms(2) [OF Cons.prems] Cons.IH by auto
  then show ?case using assms(4) unfolding x run_Cons by (rule transpD [rotated])
qed

text \<open>
  The same for an invariant that a transaction only keeps while a resource lasts: \<open>used\<close> units are
  gone and a transaction takes at most \<open>cost\<close> more.
\<close>

lemma run_within:
  assumes "P st" and "used st + sum_list (map (\<lambda>(c, t). cost t) txs) < (B :: nat)"
    and step: "\<And>c t s. P s \<Longrightarrow> used s + cost t < B \<Longrightarrow>
      P (deliver c t s) \<and> R s (deliver c t s) \<and> used (deliver c t s) \<le> used s + cost t"
    and "reflp R" and "transp R"
  shows "P (run txs st) \<and> R st (run txs st)"
  using assms(1,2)
proof (induction txs arbitrary: st)
  case Nil
  then show ?case using assms(4) by (simp add: run_Nil reflpD)
next
  case (Cons x txs)
  obtain c t where x: "x = (c, t)" by (cases x)
  have s: "P (deliver c t st)" "R st (deliver c t st)" "used (deliver c t st) \<le> used st + cost t"
    using step [OF Cons.prems(1), of t c] Cons.prems(2) x by auto
  then have "P (run txs (deliver c t st))" "R (deliver c t st) (run txs (deliver c t st))"
    using Cons.IH [of "deliver c t st"] Cons.prems(2) x by auto
  then show ?case using s(2) assms(5) unfolding x run_Cons by (auto dest: transpD)
qed

end

section \<open>Bounds that parameter updates move\<close>

text \<open>
  \<open>cap\<close> is the bound in force, \<open>asks t\<close> the new bound when \<open>t\<close> is an update, \<open>caps\<close> what the updates
  of a history ask for, and \<open>ok\<close> says that the data stored obeys the bound.  Data obeys it as long as no
  update lowers it.
\<close>

locale capped_history = tx_history deliver run
  for deliver :: "'c \<Rightarrow> 't \<Rightarrow> 's \<Rightarrow> 's" and run :: "('c \<times> 't) list \<Rightarrow> 's \<Rightarrow> 's" +
  fixes cap :: "'s \<Rightarrow> 'n::linorder"
    and asks :: "'t \<Rightarrow> 'n option"
    and caps :: "('c \<times> 't) list \<Rightarrow> 'n list"
    and ok :: "'s \<Rightarrow> bool"
  assumes caps_Nil: "caps [] = []"
    and caps_Cons: "caps ((c, t) # txs) = (case asks t of None \<Rightarrow> caps txs | Some n \<Rightarrow> n # caps txs)"
    and deliver_ok: "ok s \<Longrightarrow> (\<And>n. asks t = Some n \<Longrightarrow> cap s \<le> n) \<Longrightarrow> ok (deliver c t s)"
    and deliver_cap: "ok s \<Longrightarrow> cap (deliver c t s) = cap s \<or> asks t = Some (cap (deliver c t s))"
begin

lemma ok_run: "ok st \<Longrightarrow> sorted (cap st # caps txs) \<Longrightarrow> ok (run txs st)"
proof (induction txs arbitrary: st)
  case (Cons x txs)
  obtain c t where x: "x = (c, t)" by (cases x)
  have "ok (deliver c t st)"
    using Cons.prems x by (intro deliver_ok) (auto simp: caps_Cons)
  moreover have "sorted (cap (deliver c t st) # caps txs)"
    using deliver_cap [OF Cons.prems(1), of c t] Cons.prems(2) x by (auto simp: caps_Cons split: option.splits)
  ultimately show ?case using Cons.IH x by (simp add: run_Cons)
qed (simp add: run_Nil)

text \<open>What is asked for by part of a history is part of what the history asks for.\<close>

lemma caps_subseq: "subseq xs ys \<Longrightarrow> subseq (caps xs) (caps ys)"
proof (induction rule: list_emb.induct)
  case (list_emb_Nil ys)
  then show ?case by (simp add: caps_Nil)
next
  case (list_emb_Cons xs ys y)
  then show ?case by (cases y) (auto simp: caps_Cons split: option.split)
next
  case (list_emb_Cons2 x y xs ys)
  then show ?case by (cases y) (auto simp: caps_Cons split: option.split)
qed

lemma ok_run_part:
  assumes "ok st" and "sorted (cap st # caps ys)" and "subseq xs ys"
  shows "ok (run xs st)"
proof (rule ok_run [OF assms(1)])
  have "sorted_wrt (\<le>) (caps xs)"
    using caps_subseq [OF assms(3)] assms(2) by (auto simp: subseq_conv_nths sorted_nths)
  moreover have "set (caps xs) \<subseteq> set (caps ys)"
    using caps_subseq [OF assms(3)] by (auto dest: list_emb_set)
  ultimately show "sorted (cap st # caps xs)" using assms(2) by auto
qed

end

section \<open>Components\<close>

text \<open>
  A machine with a component: \<open>proj\<close> is the component's state within the whole, \<open>part\<close> what an event of
  the whole is for the component, if anything.  Then a history of the whole is, for the component, the
  history of its own parts.
\<close>

lemma subseq_concat_map: "subseq xs ys \<Longrightarrow> subseq (concat (map f xs)) (concat (map f ys))"
  by (induction rule: list_emb.induct) (auto intro: list_emb_append_mono list_emb_append2)

definition parts_of :: "('e \<Rightarrow> 't option) \<Rightarrow> ('c \<times> 'e) list \<Rightarrow> ('c \<times> 't) list" where
  "parts_of part es = concat (map (\<lambda>(c, e). case part e of None \<Rightarrow> [] | Some t \<Rightarrow> [(c, t)]) es)"

lemma parts_of_simps [simp]: "parts_of part [] = []"
  "parts_of part ((c, e) # es) = (case part e of None \<Rightarrow> parts_of part es | Some t \<Rightarrow> (c, t) # parts_of part es)"
  by (simp_all add: parts_of_def split: option.split)

lemma parts_of_append [simp]: "parts_of part (xs @ ys) = parts_of part xs @ parts_of part ys"
  by (simp add: parts_of_def)

lemma parts_of_subseq: "subseq xs ys \<Longrightarrow> subseq (parts_of part xs) (parts_of part ys)"
  unfolding parts_of_def by (rule subseq_concat_map)

lemma subseq_set: "subseq xs ys \<Longrightarrow> set xs \<subseteq> set ys"
  by (auto dest: list_emb_set)

lemma sum_list_subseq: "subseq xs ys \<Longrightarrow> sum_list (map f xs) \<le> (sum_list (map f ys) :: nat)"
  by (induction rule: list_emb.induct) auto

locale component_history =
  whole: tx_history deliver run + component: tx_history deliver' run'
  for deliver :: "'c \<Rightarrow> 'e \<Rightarrow> 's \<Rightarrow> 's" and run :: "('c \<times> 'e) list \<Rightarrow> 's \<Rightarrow> 's"
    and deliver' :: "'c \<Rightarrow> 't \<Rightarrow> 'u \<Rightarrow> 'u" and run' :: "('c \<times> 't) list \<Rightarrow> 'u \<Rightarrow> 'u" +
  fixes proj :: "'s \<Rightarrow> 'u"
    and part :: "'e \<Rightarrow> 't option"
  assumes deliver_part: "proj (deliver c e s) = (case part e of None \<Rightarrow> proj s | Some t \<Rightarrow> deliver' c t (proj s))"
begin

lemma run_parts: "proj (run es s) = run' (parts_of part es) (proj s)"
proof (induction es arbitrary: s)
  case (Cons x es)
  obtain c e where x: "x = (c, e)" by (cases x)
  show ?case
    unfolding x using Cons.IH [of "deliver c e s"]
    by (simp add: whole.run_Cons deliver_part component.run_Cons split: option.split)
qed (simp add: whole.run_Nil component.run_Nil)

end

end
