(* ===== verification/EnergyMsgServer.thy ===== *)
theory EnergyMsgServer
  imports EnergyKeeper Merkle TxHistory
begin

text \<open>
  The message and query servers of the energy module (\<^verbatim>\<open>x/energy/keeper/msg_server.go\<close>,
  \<^verbatim>\<open>query_server.go\<close>).  A handler returns its response or its error together with the state it
  leaves, which on an error may be half-written: discarding it is the transaction runner's job
  (\<open>energy_deliver\<close> below), not the handler's.
\<close>

section \<open>Messages\<close>

datatype energy_msg_error =
    ENotAllowedSubmitter string
  | EMetadataSize nat uint32
  | EBatchSize nat uint32
  | EItemMetadataSize nat nat uint32
  | EKeeper energy_error
  | EMerkle merkle_error
  | EStoringData energy_error
  | EStoringItem nat energy_error
  | EStoringBatch energy_error
  | EWrongAuthority string string
  | EParamsInvalid energy_param_error
  | ESettingParams energy_error

definition emit_energy :: "event \<Rightarrow> energy_state \<Rightarrow> energy_state" where
  "emit_energy ev st = st\<lparr>es_events := es_events st @ [ev]\<rparr>"

definition msg_SubmitEnergyData ::
  "env \<Rightarrow> sdk_ctx \<Rightarrow> MsgSubmitEnergyData \<Rightarrow> energy_state \<Rightarrow> (energy_msg_error + string) \<times> energy_state" where
  "msg_SubmitEnergyData E ctx msg st =
     (if \<not> IsAllowedSubmitter E st (ms_Submitter msg) then (Inl (ENotAllowedSubmitter (ms_Submitter msg)), st)
      else
        let params = energy_GetParams E st in
        if ep_MaxMetadataSize params > 0 \<and> u32_len (ms_Metadata msg) > ep_MaxMetadataSize params
        then (Inl (EMetadataSize (length (ms_Metadata msg)) (ep_MaxMetadataSize params)), st)
        else
          (case CheckAndIncrSubmitCount E (ms_Submitter msg) st of
             (Some e, st1) \<Rightarrow> (Inl (EKeeper e), st1)
           | (None, st1) \<Rightarrow>
               (case energy_GenerateID E st1 of
                  (Inl e, st2) \<Rightarrow> (Inl (EKeeper e), st2)
                | (Inr ident, st2) \<Rightarrow>
                    let data = \<lparr>ed_ID = ident, ed_Category = ms_Category msg, ed_Submitter = ms_Submitter msg,
                                ed_DataHash = ms_DataHash msg, ed_Metadata = ms_Metadata msg,
                                ed_BlockHeight = BlockHeight ctx, ed_Timestamp = BlockTimeUnix ctx\<rparr> in
                    (case keeper_SubmitEnergyData E data st2 of
                       (Some e, st3) \<Rightarrow> (Inl (EStoringData e), st3)
                     | (None, st3) \<Rightarrow>
                         (Inr ident, emit_energy (Event ''energy_data_submitted''
                            [(''id'', ident), (''submitter'', ms_Submitter msg),
                             (''category'', ms_Category msg), (''data_hash'', ms_DataHash msg),
                             (''metadata'', ms_Metadata msg)]) st3)))))"

text \<open>The two loops of \<^verbatim>\<open>BatchSubmit\<close>: the metadata check, and the storing of the items.\<close>

fun check_item_metadata :: "uint32 \<Rightarrow> nat \<Rightarrow> BatchItem list \<Rightarrow> energy_msg_error option" where
  "check_item_metadata cap i [] = None"
| "check_item_metadata cap i (it # items) =
     (if u32_len (bi_Metadata it) > cap then Some (EItemMetadataSize i (length (bi_Metadata it)) cap)
      else check_item_metadata cap (Suc i) items)"

fun store_items ::
  "env \<Rightarrow> sdk_ctx \<Rightarrow> MsgBatchSubmit \<Rightarrow> nat \<Rightarrow> BatchItem list \<Rightarrow> energy_state \<Rightarrow> energy_msg_error option \<times> energy_state" where
  "store_items E ctx msg i [] st = (None, st)"
| "store_items E ctx msg i (it # items) st =
     (case energy_GenerateID E st of
        (Inl e, st1) \<Rightarrow> (Some (EKeeper e), st1)
      | (Inr ident, st1) \<Rightarrow>
          let data = \<lparr>ed_ID = ident, ed_Category = mb_Category msg, ed_Submitter = mb_Submitter msg,
                      ed_DataHash = bi_DataHash it, ed_Metadata = bi_Metadata it,
                      ed_BlockHeight = BlockHeight ctx, ed_Timestamp = BlockTimeUnix ctx\<rparr> in
          (case keeper_SubmitEnergyData E data st1 of
             (Some e, st2) \<Rightarrow> (Some (EStoringItem i e), st2)
           | (None, st2) \<Rightarrow> store_items E ctx msg (Suc i) items st2))"

definition msg_BatchSubmit ::
  "env \<Rightarrow> sdk_ctx \<Rightarrow> MsgBatchSubmit \<Rightarrow> energy_state \<Rightarrow> (energy_msg_error + MsgBatchSubmitResponse) \<times> energy_state" where
  "msg_BatchSubmit E ctx msg st =
     (if \<not> IsAllowedSubmitter E st (mb_Submitter msg) then (Inl (ENotAllowedSubmitter (mb_Submitter msg)), st)
      else
        let params = energy_GetParams E st in
        if u32_len (mb_Items msg) > ep_MaxBatchSize params
        then (Inl (EBatchSize (length (mb_Items msg)) (ep_MaxBatchSize params)), st)
        else
          (case (if ep_MaxMetadataSize params > 0
                 then check_item_metadata (ep_MaxMetadataSize params) 0 (mb_Items msg) else None) of
             Some e \<Rightarrow> (Inl e, st)
           | None \<Rightarrow>
          (case CheckAndIncrSubmitCount E (mb_Submitter msg) st of
             (Some e, st1) \<Rightarrow> (Inl (EKeeper e), st1)
           | (None, st1) \<Rightarrow>
          (case verifyMerkleRoot E (mb_Items msg) (mb_MerkleRoot msg) of
             Some e \<Rightarrow> (Inl (EMerkle e), st1)
           | None \<Rightarrow>
          (case energy_GenerateID E st1 of
             (Inl e, st2) \<Rightarrow> (Inl (EKeeper e), st2)
           | (Inr batchID, st2) \<Rightarrow>
          (case store_items E ctx msg 0 (mb_Items msg) st2 of
             (Some e, st3) \<Rightarrow> (Inl e, st3)
           | (None, st3) \<Rightarrow>
               let batch = \<lparr>bs_ID = batchID, bs_Submitter = mb_Submitter msg, bs_Category = mb_Category msg,
                            bs_DataCount = u32_len (mb_Items msg), bs_MerkleRoot = mb_MerkleRoot msg,
                            bs_Timestamp = BlockTimeUnix ctx\<rparr> in
               (case keeper_SubmitBatch E batch st3 of
                  (Some e, st4) \<Rightarrow> (Inl (EStoringBatch e), st4)
                | (None, st4) \<Rightarrow>
                    (Inr \<lparr>mbr_BatchID = batchID, mbr_DataCount = u32_len (mb_Items msg)\<rparr>,
                     emit_energy (Event ''energy_batch_submitted''
                       [(''batch_id'', batchID), (''submitter'', mb_Submitter msg),
                        (''category'', mb_Category msg),
                        (''data_count'', Sprint_d (length (mb_Items msg))),
                        (''merkle_root'', mb_MerkleRoot msg)]) st4))))))))"

definition energy_UpdateParams ::
  "env \<Rightarrow> string \<Rightarrow> energy_MsgUpdateParams \<Rightarrow> energy_state \<Rightarrow> (energy_msg_error + unit) \<times> energy_state" where
  "energy_UpdateParams E authority msg st =
     (if eu_Authority msg \<noteq> authority then (Inl (EWrongAuthority authority (eu_Authority msg)), st)
      else
        (case energy_Params_Validate (eu_Params msg) of
           Some e \<Rightarrow> (Inl (EParamsInvalid e), st)
         | None \<Rightarrow>
             (case energy_SetParams E (eu_Params msg) st of
                (Some e, st1) \<Rightarrow> (Inl (ESettingParams e), st1)
              | (None, st1) \<Rightarrow> (Inr (), st1))))"

section \<open>Queries\<close>

datatype energy_query_error = EDataNotFound string | EBatchNotFound string | EPaginating string

definition energy_query_EnergyData :: "env \<Rightarrow> energy_state \<Rightarrow> string \<Rightarrow> energy_query_error + EnergyData" where
  "energy_query_EnergyData E st ident =
     (case energy_GetEnergyData E st ident of
        (data, found) \<Rightarrow> if \<not> found then Inl (EDataNotFound ident) else Inr data)"

text \<open>
  \<^verbatim>\<open>query.CollectionPaginate\<close> is the argument \<open>paginate\<close>: it gets the index in key order, the
  request, the prefix option and the callback, and returns a page of callback results with the page
  response, or an error.  The callback resolves an index entry to its record, or to a placeholder.
\<close>

type_synonym 'req paginate_pairs = "(string \<times> string) list \<Rightarrow> 'req \<Rightarrow> string \<Rightarrow> (string \<times> string \<Rightarrow> EnergyData) \<Rightarrow> string + EnergyData list \<times> bytes"

definition energy_resolve :: "env \<Rightarrow> energy_state \<Rightarrow> string \<times> string \<Rightarrow> EnergyData" where
  "energy_resolve E st key =
     (case energy_GetEnergyData E st (snd key) of
        (data, ok) \<Rightarrow> if \<not> ok then zero_EnergyData\<lparr>ed_ID := snd key\<rparr> else data)"

definition energy_query_ByCategory ::
  "env \<Rightarrow> 'req paginate_pairs \<Rightarrow> energy_state \<Rightarrow> string \<Rightarrow> 'req \<Rightarrow> energy_query_error + EnergyData list \<times> bytes" where
  "energy_query_ByCategory E paginate st category pageReq =
     (case paginate (keys (es_ByCategory st)) pageReq category (energy_resolve E st) of
        Inl e \<Rightarrow> Inl (EPaginating e)
      | Inr res \<Rightarrow> Inr res)"

definition energy_query_BySubmitter ::
  "env \<Rightarrow> 'req paginate_pairs \<Rightarrow> energy_state \<Rightarrow> string \<Rightarrow> 'req \<Rightarrow> energy_query_error + EnergyData list \<times> bytes" where
  "energy_query_BySubmitter E paginate st submitter pageReq =
     (case paginate (keys (es_BySubmitter st)) pageReq submitter (energy_resolve E st) of
        Inl e \<Rightarrow> Inl (EPaginating e)
      | Inr res \<Rightarrow> Inr res)"

definition energy_query_Batch :: "env \<Rightarrow> energy_state \<Rightarrow> string \<Rightarrow> energy_query_error + BatchSubmission" where
  "energy_query_Batch E st ident =
     (case energy_GetBatch E st ident of
        (batch, found) \<Rightarrow> if \<not> found then Inl (EBatchNotFound ident) else Inr batch)"

definition energy_query_Params :: "env \<Rightarrow> energy_state \<Rightarrow> energy_Params" where
  "energy_query_Params E st = energy_GetParams E st"

section \<open>Transactions and blocks\<close>

text \<open>
  How the module runs: a message whose handler succeeds commits, one whose handler fails leaves the
  state as it was, and at a block boundary the transient store is emptied.  Events belong to the
  transaction, so they are reset before each.
\<close>

datatype energy_tx =
    TxSubmit MsgSubmitEnergyData
  | TxBatch MsgBatchSubmit
  | TxUpdateParams energy_MsgUpdateParams
  | NextBlock

fun energy_deliver :: "env \<Rightarrow> string \<Rightarrow> sdk_ctx \<Rightarrow> energy_tx \<Rightarrow> energy_state \<Rightarrow> energy_state" where
  "energy_deliver E auth ctx (TxSubmit m) st = commit_if (msg_SubmitEnergyData E ctx m (st\<lparr>es_events := []\<rparr>)) st"
| "energy_deliver E auth ctx (TxBatch m) st = commit_if (msg_BatchSubmit E ctx m (st\<lparr>es_events := []\<rparr>)) st"
| "energy_deliver E auth ctx (TxUpdateParams m) st = commit_if (energy_UpdateParams E auth m (st\<lparr>es_events := []\<rparr>)) st"
| "energy_deliver E auth ctx NextBlock st = st\<lparr>es_transient := fmempty\<rparr>"

fun energy_run :: "env \<Rightarrow> string \<Rightarrow> (sdk_ctx \<times> energy_tx) list \<Rightarrow> energy_state \<Rightarrow> energy_state" where
  "energy_run E auth [] st = st"
| "energy_run E auth ((ctx, tx) # txs) st = energy_run E auth txs (energy_deliver E auth ctx tx st)"

interpretation energy_hist: tx_history "energy_deliver E auth" "energy_run E auth" for E auth
  by unfold_locales simp_all

text \<open>The number of identifiers a transaction may draw.\<close>

fun tx_ids :: "energy_tx \<Rightarrow> nat" where
  "tx_ids (TxSubmit m) = 1"
| "tx_ids (TxBatch m) = Suc (length (mb_Items m))"
| "tx_ids (TxUpdateParams m) = 0"
| "tx_ids NextBlock = 0"

end
