(* ===== verification/EnergyInvariants.thy ===== *)
theory EnergyInvariants
  imports EnergyMsgServer
begin

text \<open>
  The runtime invariants of the energy module (\<^verbatim>\<open>x/energy/keeper/invariants.go\<close>), and what each of
  their walks decides on a store that does not fail.
\<close>

section \<open>The registered invariants\<close>

text \<open>
  An \<^verbatim>\<open>sdk.Invariant\<close> returns a message and whether it is broken: \<open>None\<close> is not broken.  A walk
  stops after ten findings where the code does.
\<close>

datatype energy_broken =
    BrokenPeek coll_err
  | BrokenWalk string coll_err
  | BrokenSequence uint64 uint64
  | BrokenDangling string "(string \<times> string \<times> string option) list"
  | BrokenMetadata "(string \<times> nat \<times> uint32) list"

definition IDSequenceMonotonicInvariant :: "env \<Rightarrow> energy_state \<Rightarrow> energy_broken option" where
  "IDSequenceMonotonicInvariant E st =
     (case seq_Peek E energy_coll_sequence (es_IDSequence st) of
        Inl e \<Rightarrow> Some (BrokenPeek e)
      | Inr seq \<Rightarrow>
          (case map_Walk E energy_coll_data (es_EnergyData st) no_range (\<lambda>_ v maxSeen. (False, raise_to (ed_ID v) maxSeen)) 0 of
             (Some e, _) \<Rightarrow> Some (BrokenWalk ''EnergyData'' e)
           | (None, maxSeen) \<Rightarrow> if maxSeen > seq then Some (BrokenSequence seq maxSeen) else None))"

text \<open>
  The callback of both index walks, with \<open>field\<close> the record field the index is keyed on.  A missing
  record does not stop the walk, however many there are.
\<close>

definition index_callback ::
  "env \<Rightarrow> energy_state \<Rightarrow> (EnergyData \<Rightarrow> string) \<Rightarrow> string \<times> string \<Rightarrow> (string \<times> string \<times> string option) list \<Rightarrow>
     bool \<times> (string \<times> string \<times> string option) list" where
  "index_callback E st field key dangling =
     (case energy_GetEnergyData E st (snd key) of
        (data, found) \<Rightarrow>
          if \<not> found then (False, dangling @ [(fst key, snd key, None)])
          else
            let dangling' = (if field data \<noteq> fst key then dangling @ [(fst key, snd key, Some (field data))] else dangling)
            in (10 \<le> length dangling', dangling'))"

definition ByCategoryConsistencyInvariant :: "env \<Rightarrow> energy_state \<Rightarrow> energy_broken option" where
  "ByCategoryConsistencyInvariant E st =
     (case set_Walk (es_ByCategory st) no_range (index_callback E st ed_Category) [] of
        (Some e, _) \<Rightarrow> Some (BrokenWalk ''ByCategory'' e)
      | (None, dangling) \<Rightarrow> if dangling \<noteq> [] then Some (BrokenDangling ''by-category-consistent'' dangling) else None)"

definition BySubmitterConsistencyInvariant :: "env \<Rightarrow> energy_state \<Rightarrow> energy_broken option" where
  "BySubmitterConsistencyInvariant E st =
     (case set_Walk (es_BySubmitter st) no_range (index_callback E st ed_Submitter) [] of
        (Some e, _) \<Rightarrow> Some (BrokenWalk ''BySubmitter'' e)
      | (None, dangling) \<Rightarrow> if dangling \<noteq> [] then Some (BrokenDangling ''by-submitter-consistent'' dangling) else None)"

definition energy_MetadataWithinCapInvariant :: "env \<Rightarrow> energy_state \<Rightarrow> energy_broken option" where
  "energy_MetadataWithinCapInvariant E st =
     (let cap = ep_MaxMetadataSize (energy_GetParams E st) in
      if cap = 0 then None
      else
        (case map_Walk E energy_coll_data (es_EnergyData st) no_range
                (\<lambda>_ v violations.
                   if u32_len (ed_Metadata v) > cap
                   then let violations' = violations @ [(ed_ID v, length (ed_Metadata v), cap)]
                        in (10 \<le> length violations', violations')
                   else (False, violations)) [] of
           (Some e, _) \<Rightarrow> Some (BrokenWalk ''EnergyData'' e)
         | (None, violations) \<Rightarrow> if violations \<noteq> [] then Some (BrokenMetadata violations) else None))"

definition energy_AllInvariants :: "env \<Rightarrow> energy_state \<Rightarrow> energy_broken option" where
  "energy_AllInvariants E st =
     (case IDSequenceMonotonicInvariant E st of
        Some b \<Rightarrow> Some b
      | None \<Rightarrow>
     (case ByCategoryConsistencyInvariant E st of
        Some b \<Rightarrow> Some b
      | None \<Rightarrow>
     (case BySubmitterConsistencyInvariant E st of
        Some b \<Rightarrow> Some b
      | None \<Rightarrow> energy_MetadataWithinCapInvariant E st)))"

section \<open>What the walks decide\<close>

definition energy_seq :: "energy_state \<Rightarrow> uint64" where
  "energy_seq st = (case es_IDSequence st of None \<Rightarrow> 0 | Some n \<Rightarrow> n)"

lemma fold_raise_to_le:
  "fold (\<lambda>(k, v) h. raise_to (f v) h) es a \<le> m \<longleftrightarrow>
     a \<le> m \<and> (\<forall>(k, v) \<in> set es. \<forall>n. parseEnergyID (f v) = Some n \<longrightarrow> n \<le> m)"
proof (induction es arbitrary: a)
  case (Cons e es)
  obtain k v where e: "e = (k, v)" by (cases e)
  have "raise_to (f v) a \<le> m \<longleftrightarrow> a \<le> m \<and> (\<forall>n. parseEnergyID (f v) = Some n \<longrightarrow> n \<le> m)"
    by (auto simp: raise_to_def split: option.split)
  then show ?case using e Cons.IH by auto
qed simp

lemma IDSequenceMonotonic_iff:
  assumes "healthy E"
  shows "IDSequenceMonotonicInvariant E st = None \<longleftrightarrow>
    (\<forall>i d n. fmlookup (es_EnergyData st) i = Some d \<longrightarrow> parseEnergyID (ed_ID d) = Some n \<longrightarrow> n \<le> energy_seq st)"
proof -
  have "map_Walk E energy_coll_data (es_EnergyData st) no_range (\<lambda>_ v m. (False, raise_to (ed_ID v) m)) (0::uint64)
      = (None, fold (\<lambda>(k, v) h. raise_to (ed_ID v) h) (entries (es_EnergyData st)) 0)"
    unfolding map_Walk_def using assms by (subst Walk_list_collect) (auto simp: no_range_def split_def)
  then show ?thesis
    using assms fold_raise_to_le [of ed_ID "entries (es_EnergyData st)" 0 "energy_seq st"]
    unfolding entries_ball by (auto simp: IDSequenceMonotonicInvariant_def energy_seq_def not_less)
qed

lemma energy_GetEnergyData_healthy:
  "healthy E \<Longrightarrow> energy_GetEnergyData E st i =
     (case fmlookup (es_EnergyData st) i of None \<Rightarrow> (zero_EnergyData, False) | Some d \<Rightarrow> (d, True))"
  by (simp add: energy_GetEnergyData_def split: option.split)

lemma index_walk_ok:
  assumes "healthy E"
  shows "set_Walk s no_range (index_callback E st field) [] =
           (None, snd (set_Walk s no_range (index_callback E st field) []))"
    and "snd (set_Walk s no_range (index_callback E st field) []) = [] \<longleftrightarrow>
           (\<forall>f i. (f, i) |\<in>| s \<longrightarrow> (\<exists>d. fmlookup (es_EnergyData st) i = Some d \<and> field d = f))"
proof -
  define viol where "viol = (\<lambda>(f, i) (_::unit). \<not> (\<exists>d. fmlookup (es_EnergyData st) i = Some d \<and> field d = f))"
  define msg where "msg = (\<lambda>(f :: string, i) (_::unit). (f, i, map_option field (fmlookup (es_EnergyData st) i)))"
  have app: "snd ((\<lambda>k _ a. index_callback E st field k a) k v a) = (if viol k v then a @ [msg k v] else a)" for k v a
    using assms by (cases k)
      (auto simp: index_callback_def energy_GetEnergyData_healthy viol_def msg_def Let_def split: option.splits)
  have go: "\<not> viol k v \<Longrightarrow> \<not> fst ((\<lambda>k _ a. index_callback E st field k a) k v [])" for k v
    using assms by (cases k)
      (auto simp: index_callback_def energy_GetEnergyData_healthy viol_def Let_def split: option.splits)
  note W = Walk_list_violations [where viol = viol and msg = msg and bad = "\<lambda>_. False", OF app go]
  have "fst (set_Walk s no_range (index_callback E st field) []) = None"
    unfolding set_Walk_def by (rule W(2)) simp_all
  then show "set_Walk s no_range (index_callback E st field) [] = (None, snd (set_Walk s no_range (index_callback E st field) []))"
    by (metis prod.collapse)
  show "snd (set_Walk s no_range (index_callback E st field) []) = [] \<longleftrightarrow>
           (\<forall>f i. (f, i) |\<in>| s \<longrightarrow> (\<exists>d. fmlookup (es_EnergyData st) i = Some d \<and> field d = f))"
    unfolding set_Walk_def by (subst W(1)) (auto simp: viol_def no_range_def)
qed

lemma energy_MetadataWithinCap_iff:
  assumes "healthy E"
  shows "energy_MetadataWithinCapInvariant E st = None \<longleftrightarrow>
    (ep_MaxMetadataSize (energy_GetParams E st) = 0 \<or>
     (\<forall>i d. fmlookup (es_EnergyData st) i = Some d \<longrightarrow>
        u32_len (ed_Metadata d) \<le> ep_MaxMetadataSize (energy_GetParams E st)))"
proof -
  let ?cap = "ep_MaxMetadataSize (energy_GetParams E st)"
  let ?f = "\<lambda>_ v violations. if u32_len (ed_Metadata v) > ?cap
      then let violations' = violations @ [(ed_ID v, length (ed_Metadata v), ?cap)]
           in (10 \<le> length violations', violations')
      else (False, violations)"
  have "\<exists>vs. map_Walk E energy_coll_data (es_EnergyData st) no_range ?f [] = (None, vs) \<and>
      (vs = [] \<longleftrightarrow> (\<forall>k v. fmlookup (es_EnergyData st) k = Some v \<longrightarrow> \<not> u32_len (ed_Metadata v) > ?cap))"
    by (rule map_Walk_violations [OF assms, where msg = "\<lambda>_ v. (ed_ID v, length (ed_Metadata v), ?cap)"])
      (simp_all add: Let_def)
  then show ?thesis
    by (auto simp: energy_MetadataWithinCapInvariant_def Let_def not_less)
qed

end
