(* ===== verification/EnergyCorrect.thy ===== *)
theory EnergyCorrect
  imports EnergyInvariants
begin

text \<open>
  Correctness of the energy module: what a successful operation does to the state, the
  well-formedness every transaction keeps, and the interpretations of the library's interfaces
  (\<open>field_index\<close> for the two secondary indexes, \<open>rate_limiter\<close> for the submission counter).
\<close>

section \<open>The effect of a successful write\<close>

definition energy_store :: "EnergyData \<Rightarrow> energy_state \<Rightarrow> energy_state" where
  "energy_store d st = st\<lparr>
     es_EnergyData := fmupd (ed_ID d) d (es_EnergyData st),
     es_ByCategory := finsert (ed_Category d, ed_ID d) (es_ByCategory st),
     es_BySubmitter := finsert (ed_Submitter d, ed_ID d) (es_BySubmitter st)\<rparr>"

lemma keeper_SubmitEnergyData_ok:
  "keeper_SubmitEnergyData E d st = (None, st') \<Longrightarrow> st' = energy_store d st"
  by (auto simp: keeper_SubmitEnergyData_def energy_store_def coll_defs Let_def split: option.splits)

lemma keeper_SubmitEnergyData_healthy [simp]:
  "healthy E \<Longrightarrow> keeper_SubmitEnergyData E d st = (None, energy_store d st)"
  by (simp add: keeper_SubmitEnergyData_def energy_store_def coll_defs Let_def)

lemma keeper_SubmitBatch_ok:
  "keeper_SubmitBatch E b st = (None, st') \<Longrightarrow> st' = st\<lparr>es_Batches := fmupd (bs_ID b) b (es_Batches st)\<rparr>"
  by (auto simp: keeper_SubmitBatch_def coll_defs split: option.splits)

lemma keeper_SubmitBatch_healthy [simp]:
  "healthy E \<Longrightarrow> keeper_SubmitBatch E b st = (None, st\<lparr>es_Batches := fmupd (bs_ID b) b (es_Batches st)\<rparr>)"
  by (simp add: keeper_SubmitBatch_def coll_defs)

lemma energy_SetParams_ok:
  "energy_SetParams E p st = (None, st') \<Longrightarrow> st' = st\<lparr>es_Params := Some p\<rparr>"
  by (auto simp: energy_SetParams_def coll_defs split: option.splits)

lemma energy_SetParams_healthy [simp]:
  "healthy E \<Longrightarrow> energy_SetParams E p st = (None, st\<lparr>es_Params := Some p\<rparr>)"
  by (simp add: energy_SetParams_def coll_defs)

lemma energy_GenerateID_ok:
  "energy_GenerateID E st = (Inr i, st') \<Longrightarrow>
     i = ''energy-'' @ Sprint_d (unat (energy_seq st + 1)) \<and>
     st' = st\<lparr>es_IDSequence := Some (energy_seq st + 1)\<rparr>"
  by (auto simp: energy_GenerateID_def energy_seq_def coll_defs
      split: option.splits sum.splits prod.splits coll_err.splits if_splits)

lemma energy_GenerateID_healthy [simp]:
  "healthy E \<Longrightarrow> energy_GenerateID E st =
     (Inr (''energy-'' @ Sprint_d (unat (energy_seq st + 1))), st\<lparr>es_IDSequence := Some (energy_seq st + 1)\<rparr>)"
  by (simp add: energy_GenerateID_def energy_seq_def seq_Next_def item_Set_def)

lemma CheckAndIncrSubmitCount_ok:
  "CheckAndIncrSubmitCount E a st = (None, st') \<Longrightarrow> \<exists>ts. st' = st\<lparr>es_transient := ts\<rparr>"
  by (auto simp: CheckAndIncrSubmitCount_def Let_def split: if_splits)
    (metis energy_state.cases_scheme energy_state.update_convs(7))

section \<open>Identifiers\<close>

lemma parse_digits_value:
  "\<forall>c \<in> set s. is_digit c \<Longrightarrow>
     parse_digits (word_of_nat m) s = Some (word_of_nat (foldl (\<lambda>n c. n * 10 + (of_char c - 48)) m s))"
proof (induction s arbitrary: m)
  case (Cons c s)
  have "word_of_nat m * 10 + word_of_nat (of_char c - 48) = (word_of_nat (m * 10 + (of_char c - 48)) :: uint64)"
    by simp
  note eq = this
  show ?case
    using Cons unfolding parse_digits.simps eq by (simp del: of_nat_add of_nat_mult)
qed simp

lemma parseEnergyID_Sprint_d: "parseEnergyID (''energy-'' @ Sprint_d n) = Some (word_of_nat n)"
proof -
  have "parse_digits (word_of_nat 0) (Sprint_d n) = Some (word_of_nat n)"
    using Sprint_d_digits [of _ n] dec_value_Sprint_d [of n]
    by (subst parse_digits_value) (auto simp: dec_value_def)
  then show ?thesis
    by (simp add: parseEnergyID_def)
qed

lemma parseEnergyID_generated [simp]: "parseEnergyID (''energy-'' @ Sprint_d (unat n)) = Some n"
  by (simp add: parseEnergyID_Sprint_d del: append.simps)

section \<open>Index interfaces\<close>

interpretation energy_cat: field_index
  "\<lambda>st. fmlookup (es_EnergyData st)" es_ByCategory energy_store ed_ID ed_Category
  by unfold_locales (auto simp: energy_store_def)

interpretation energy_sub: field_index
  "\<lambda>st. fmlookup (es_EnergyData st)" es_BySubmitter energy_store ed_ID ed_Submitter
  by unfold_locales (auto simp: energy_store_def)

lemma ByCategory_iff: "healthy E \<Longrightarrow> ByCategoryConsistencyInvariant E st = None \<longleftrightarrow> energy_cat.consistent st"
  using index_walk_ok [of E "es_ByCategory st" st ed_Category]
  by (auto simp: ByCategoryConsistencyInvariant_def energy_cat.consistent_def split: option.splits prod.splits if_splits)

lemma BySubmitter_iff: "healthy E \<Longrightarrow> BySubmitterConsistencyInvariant E st = None \<longleftrightarrow> energy_sub.consistent st"
  using index_walk_ok [of E "es_BySubmitter st" st ed_Submitter]
  by (auto simp: BySubmitterConsistencyInvariant_def energy_sub.consistent_def split: option.splits prod.splits if_splits)

section \<open>Well-formed states\<close>

text \<open>
  Records and batches are stored under their own id, the indexes agree with the records in both
  directions, and no stored id is ahead of the sequence.
\<close>

definition ids_below :: "uint64 \<Rightarrow> (string, 'a) fmap \<Rightarrow> bool" where
  "ids_below n m \<longleftrightarrow> (\<forall>i v k. fmlookup m i = Some v \<longrightarrow> parseEnergyID i = Some k \<longrightarrow> k \<le> n)"

definition energy_wf :: "energy_state \<Rightarrow> bool" where
  "energy_wf st \<longleftrightarrow>
     (\<forall>i d. fmlookup (es_EnergyData st) i = Some d \<longrightarrow> ed_ID d = i) \<and>
     (\<forall>i b. fmlookup (es_Batches st) i = Some b \<longrightarrow> bs_ID b = i) \<and>
     energy_cat.consistent st \<and> energy_cat.complete st \<and>
     energy_sub.consistent st \<and> energy_sub.complete st \<and>
     ids_below (energy_seq st) (es_EnergyData st) \<and> ids_below (energy_seq st) (es_Batches st)"

lemma energy_wf_empty: "energy_wf energy_empty"
  by (simp add: energy_wf_def energy_empty_def energy_cat.consistent_def energy_cat.complete_def
      energy_sub.consistent_def energy_sub.complete_def ids_below_def)

lemma ids_below_mono: "ids_below n m \<Longrightarrow> n \<le> k \<Longrightarrow> ids_below k m"
  by (meson ids_below_def order_trans)

lemma ids_belowD: "ids_below n m \<Longrightarrow> fmlookup m i = Some v \<Longrightarrow> parseEnergyID i = Some k \<Longrightarrow> k \<le> n"
  by (auto simp: ids_below_def)

lemma ids_below_fresh:
  assumes "ids_below n m" and "n + 1 \<noteq> 0"
  shows "fmlookup m (''energy-'' @ Sprint_d (unat (n + 1))) = None"
proof (rule ccontr)
  assume "fmlookup m (''energy-'' @ Sprint_d (unat (n + 1))) \<noteq> None"
  then have "n + 1 \<le> n"
    using assms(1) parseEnergyID_generated [of "n + 1"] unfolding ids_below_def by blast
  then show False
    using unat_inc [OF assms(2)] by (simp add: word_le_nat_alt)
qed

lemma ids_below_fmupd:
  "ids_below n m \<Longrightarrow> (\<And>k. parseEnergyID i = Some k \<Longrightarrow> k \<le> n) \<Longrightarrow> ids_below n (fmupd i v m)"
  by (auto simp: ids_below_def)

section \<open>Drawing an identifier and storing a record under it\<close>

definition next_id :: "energy_state \<Rightarrow> string" where
  "next_id st = ''energy-'' @ Sprint_d (unat (energy_seq st + 1))"

definition bump_seq :: "energy_state \<Rightarrow> energy_state" where
  "bump_seq st = st\<lparr>es_IDSequence := Some (energy_seq st + 1)\<rparr>"

definition put_new :: "(string \<Rightarrow> EnergyData) \<Rightarrow> energy_state \<Rightarrow> energy_state" where
  "put_new mk st = energy_store (mk (next_id st)) (bump_seq st)"

lemma energy_seq_simps [simp]:
  "energy_seq (bump_seq st) = energy_seq st + 1"
  "energy_seq (energy_store d st) = energy_seq st"
  "energy_seq (st\<lparr>es_transient := t\<rparr>) = energy_seq st"
  "energy_seq (st\<lparr>es_events := ev\<rparr>) = energy_seq st"
  "energy_seq (st\<lparr>es_Params := p\<rparr>) = energy_seq st"
  "energy_seq (st\<lparr>es_Batches := b\<rparr>) = energy_seq st"
  by (simp_all add: energy_seq_def bump_seq_def energy_store_def)

text \<open>Well-formedness does not look at parameters, counters or events.\<close>

lemma energy_wf_frame [simp]:
  "energy_wf (st\<lparr>es_transient := t\<rparr>) = energy_wf st"
  "energy_wf (st\<lparr>es_events := ev\<rparr>) = energy_wf st"
  "energy_wf (st\<lparr>es_Params := p\<rparr>) = energy_wf st"
  by (simp_all add: energy_wf_def energy_cat.consistent_def energy_cat.complete_def
      energy_sub.consistent_def energy_sub.complete_def)

lemma energy_wf_bump: "energy_wf st \<Longrightarrow> energy_seq st + 1 \<noteq> 0 \<Longrightarrow> energy_wf (bump_seq st)"
proof -
  assume wf: "energy_wf st" and nz: "energy_seq st + 1 \<noteq> 0"
  have le: "energy_seq st \<le> energy_seq st + 1"
    using unat_inc [OF nz] by (simp add: word_le_nat_alt)
  have "ids_below (energy_seq st + 1) (es_EnergyData st)" "ids_below (energy_seq st + 1) (es_Batches st)"
    using wf le unfolding energy_wf_def by (blast intro: ids_below_mono)+
  then show ?thesis
    using wf unfolding energy_wf_def energy_cat.consistent_def energy_cat.complete_def
      energy_sub.consistent_def energy_sub.complete_def energy_seq_simps
    by (simp add: bump_seq_def)
qed

text \<open>A fresh record keeps the state well-formed: the index interfaces do the work.\<close>

lemma energy_wf_store:
  assumes "energy_wf st" and "fmlookup (es_EnergyData st) (ed_ID d) = None"
    and "\<And>k. parseEnergyID (ed_ID d) = Some k \<Longrightarrow> k \<le> energy_seq st"
  shows "energy_wf (energy_store d st)"
proof -
  have "energy_cat.consistent (energy_store d st)" "energy_cat.complete (energy_store d st)"
    "energy_sub.consistent (energy_store d st)" "energy_sub.complete (energy_store d st)"
    using assms(1,2) unfolding energy_wf_def
    by (auto intro: energy_cat.store_consistent energy_cat.store_complete
        energy_sub.store_consistent energy_sub.store_complete)
  moreover have "ids_below (energy_seq st) (es_EnergyData (energy_store d st))"
    using assms by (auto simp: energy_wf_def energy_store_def intro: ids_below_fmupd)
  ultimately show ?thesis
    using assms(1) by (auto simp: energy_wf_def) (auto simp: energy_store_def split: if_splits)
qed

lemma next_id_fresh:
  "energy_wf st \<Longrightarrow> energy_seq st + 1 \<noteq> 0 \<Longrightarrow>
     fmlookup (es_EnergyData st) (next_id st) = None \<and> fmlookup (es_Batches st) (next_id st) = None"
  unfolding energy_wf_def next_id_def by (intro conjI ids_below_fresh) simp_all

lemma put_new_wf:
  assumes "energy_wf st" and "energy_seq st + 1 \<noteq> 0" and "\<And>i. ed_ID (mk i) = i"
  shows "energy_wf (put_new mk st)"
  unfolding put_new_def
proof (rule energy_wf_store)
  show "energy_wf (bump_seq st)" using assms(1,2) by (rule energy_wf_bump)
  show "fmlookup (es_EnergyData (bump_seq st)) (ed_ID (mk (next_id st))) = None"
    using next_id_fresh [OF assms(1,2)] assms(3) by (simp add: bump_seq_def)
  show "k \<le> energy_seq (bump_seq st)" if "parseEnergyID (ed_ID (mk (next_id st))) = Some k" for k
    using that assms(3) by (simp add: next_id_def del: append.simps)
qed

text \<open>Nothing stored is changed or lost.\<close>

definition energy_extends :: "energy_state \<Rightarrow> energy_state \<Rightarrow> bool" where
  "energy_extends st st' \<longleftrightarrow>
     (\<forall>i d. fmlookup (es_EnergyData st) i = Some d \<longrightarrow> fmlookup (es_EnergyData st') i = Some d) \<and>
     (\<forall>i b. fmlookup (es_Batches st) i = Some b \<longrightarrow> fmlookup (es_Batches st') i = Some b)"

lemma energy_extends_refl [simp]: "energy_extends st st"
  by (simp add: energy_extends_def)

lemma energy_extends_trans: "energy_extends a b \<Longrightarrow> energy_extends b c \<Longrightarrow> energy_extends a c"
  by (simp add: energy_extends_def)

lemma put_new_extends:
  "energy_wf st \<Longrightarrow> energy_seq st + 1 \<noteq> 0 \<Longrightarrow> (\<And>i. ed_ID (mk i) = i) \<Longrightarrow> energy_extends st (put_new mk st)"
  using next_id_fresh [of st] by (auto simp: energy_extends_def put_new_def energy_store_def bump_seq_def)

lemma put_new_seq [simp]: "energy_seq (put_new mk st) = energy_seq st + 1"
  by (simp add: put_new_def)

lemma put_new_frame [simp]:
  "es_Batches (put_new mk st) = es_Batches st"
  "es_Params (put_new mk st) = es_Params st"
  "es_transient (put_new mk st) = es_transient st"
  by (simp_all add: put_new_def energy_store_def bump_seq_def)

section \<open>Storing the items of a batch\<close>

definition item_record :: "sdk_ctx \<Rightarrow> MsgBatchSubmit \<Rightarrow> BatchItem \<Rightarrow> string \<Rightarrow> EnergyData" where
  "item_record ctx msg it ident = \<lparr>ed_ID = ident, ed_Category = mb_Category msg, ed_Submitter = mb_Submitter msg,
     ed_DataHash = bi_DataHash it, ed_Metadata = bi_Metadata it,
     ed_BlockHeight = BlockHeight ctx, ed_Timestamp = BlockTimeUnix ctx\<rparr>"

definition put_items :: "sdk_ctx \<Rightarrow> MsgBatchSubmit \<Rightarrow> BatchItem list \<Rightarrow> energy_state \<Rightarrow> energy_state" where
  "put_items ctx msg items st = fold (\<lambda>it. put_new (item_record ctx msg it)) items st"

lemma ed_ID_item_record [simp]: "ed_ID (item_record ctx msg it i) = i"
  by (simp add: item_record_def)

lemma store_items_ok:
  "store_items E ctx msg i items st = (None, st') \<Longrightarrow> st' = put_items ctx msg items st"
proof (induction E ctx msg i items st rule: store_items.induct)
  case (2 E ctx msg i it items st)
  obtain ident st1 where g: "energy_GenerateID E st = (Inr ident, st1)"
    using "2.prems" by (auto split: prod.splits sum.splits)
  then have id: "ident = next_id st" "st1 = bump_seq st"
    by (auto dest!: energy_GenerateID_ok simp: next_id_def bump_seq_def)
  obtain st2 where s: "keeper_SubmitEnergyData E (item_record ctx msg it ident) st1 = (None, st2)"
    using "2.prems" g by (auto simp: Let_def item_record_def split: prod.splits option.splits)
  then have "store_items E ctx msg (Suc i) items st2 = (None, st')"
    using "2.prems" g by (simp add: Let_def item_record_def)
  then have "st' = put_items ctx msg items st2"
    using "2.IH" g s by (simp add: item_record_def)
  moreover have "st2 = put_new (item_record ctx msg it) st"
    using keeper_SubmitEnergyData_ok [OF s] id by (simp add: put_new_def)
  ultimately show ?case by (simp add: put_items_def)
qed (simp add: put_items_def)

lemma store_items_healthy:
  "healthy E \<Longrightarrow> store_items E ctx msg i items st = (None, put_items ctx msg items st)"
  by (induction items arbitrary: i st)
    (simp_all add: put_items_def put_new_def next_id_def bump_seq_def item_record_def Let_def)

lemma put_items_frame [simp]:
  "es_Batches (put_items ctx msg items st) = es_Batches st"
  "es_Params (put_items ctx msg items st) = es_Params st"
  "es_transient (put_items ctx msg items st) = es_transient st"
  by (induction items arbitrary: st) (simp_all add: put_items_def)

lemma put_items_seq [simp]: "energy_seq (put_items ctx msg items st) = energy_seq st + word_of_nat (length items)"
  by (induction items arbitrary: st) (simp_all add: put_items_def)

lemma put_items_wf:
  "energy_wf st \<Longrightarrow> unat (energy_seq st) + length items < 2 ^ 64 \<Longrightarrow>
     energy_wf (put_items ctx msg items st) \<and> energy_extends st (put_items ctx msg items st)"
proof (induction items arbitrary: st)
  case (Cons it items)
  let ?st = "put_new (item_record ctx msg it) st"
  have nz: "energy_seq st + 1 \<noteq> 0"
    using Cons.prems(2) by (intro inc_nonzero) simp
  have "energy_wf (put_items ctx msg items ?st) \<and> energy_extends ?st (put_items ctx msg items ?st)"
    using Cons.prems nz by (intro Cons.IH) (simp_all add: put_new_wf unat_inc)
  moreover have "energy_extends st ?st"
    using Cons.prems(1) nz by (simp add: put_new_extends)
  ultimately show ?case
    by (auto simp: put_items_def intro: energy_extends_trans)
qed (simp add: put_items_def)

end
