(* ===== verification/EnergyRun.thy ===== *)
theory EnergyRun
  imports EnergyCorrect
begin

text \<open>
  What the handlers of the energy module do when they succeed, the abstract ledger they implement,
  and the invariants of whole histories of transactions and blocks.
\<close>

section \<open>The effect of a successful handler\<close>

definition submit_record :: "sdk_ctx \<Rightarrow> MsgSubmitEnergyData \<Rightarrow> string \<Rightarrow> EnergyData" where
  "submit_record ctx msg ident = \<lparr>ed_ID = ident, ed_Category = ms_Category msg, ed_Submitter = ms_Submitter msg,
     ed_DataHash = ms_DataHash msg, ed_Metadata = ms_Metadata msg,
     ed_BlockHeight = BlockHeight ctx, ed_Timestamp = BlockTimeUnix ctx\<rparr>"

definition batch_record :: "sdk_ctx \<Rightarrow> MsgBatchSubmit \<Rightarrow> string \<Rightarrow> BatchSubmission" where
  "batch_record ctx msg ident = \<lparr>bs_ID = ident, bs_Submitter = mb_Submitter msg, bs_Category = mb_Category msg,
     bs_DataCount = u32_len (mb_Items msg), bs_MerkleRoot = mb_MerkleRoot msg, bs_Timestamp = BlockTimeUnix ctx\<rparr>"

definition put_batch :: "sdk_ctx \<Rightarrow> MsgBatchSubmit \<Rightarrow> energy_state \<Rightarrow> energy_state" where
  "put_batch ctx msg st = put_items ctx msg (mb_Items msg)
     ((bump_seq st)\<lparr>es_Batches := fmupd (next_id st) (batch_record ctx msg (next_id st)) (es_Batches st)\<rparr>)"

definition count_key :: "string \<Rightarrow> energy_state \<Rightarrow> uint32" where
  "count_key a st = counter_at (es_transient st) (GetSubmitCountByAddrKey a)"

definition energy_limit :: "env \<Rightarrow> energy_state \<Rightarrow> uint32" where
  "energy_limit E st = ep_MaxSubmissionsPerBlockPerSubmitter (energy_GetParams E st)"

text \<open>The state after the counter check: unchanged without a limit, else one more for the submitter.\<close>

definition counted :: "env \<Rightarrow> string \<Rightarrow> energy_state \<Rightarrow> energy_state" where
  "counted E a st =
     (if energy_limit E st = 0 then st
      else st\<lparr>es_transient := fmupd (GetSubmitCountByAddrKey a) (PutUint32 (count_key a st + 1)) (es_transient st)\<rparr>)"

lemma CheckAndIncr_cases:
  "CheckAndIncrSubmitCount E a st =
     (if energy_limit E st = 0 \<or> count_key a st < energy_limit E st then (None, counted E a st)
      else (Some (ERateLimited a (energy_limit E st)), st))"
  by (auto simp: CheckAndIncrSubmitCount_def Let_def counted_def energy_limit_def count_key_def not_less)

lemma counted_transient: "\<exists>t. counted E a st = st\<lparr>es_transient := t\<rparr>"
  unfolding counted_def by (cases "energy_limit E st = 0") (auto intro: exI [of _ "es_transient st"])

lemma bump_emit_frame [simp]:
  "es_Params (counted E a st) = es_Params st" "es_Params (emit_energy ev st) = es_Params st"
  "es_Params (bump_seq st) = es_Params st" "es_Params (energy_store d st) = es_Params st"
  "es_EnergyData (counted E a st) = es_EnergyData st" "es_EnergyData (emit_energy ev st) = es_EnergyData st"
  "es_EnergyData (bump_seq st) = es_EnergyData st"
  "es_Batches (counted E a st) = es_Batches st" "es_Batches (emit_energy ev st) = es_Batches st"
  "es_Batches (bump_seq st) = es_Batches st" "es_Batches (energy_store d st) = es_Batches st"
  "es_transient (bump_seq st) = es_transient st" "es_transient (emit_energy ev st) = es_transient st"
  "es_transient (energy_store d st) = es_transient st"
  "energy_seq (counted E a st) = energy_seq st" "energy_seq (emit_energy ev st) = energy_seq st"
  "energy_wf (counted E a st) = energy_wf st" "energy_wf (emit_energy ev st) = energy_wf st"
  using counted_transient [of E a st]
  by (auto simp: emit_energy_def bump_seq_def energy_store_def)

lemma GetParams_cong: "es_Params st' = es_Params st \<Longrightarrow> energy_GetParams E st' = energy_GetParams E st"
  by (simp add: energy_GetParams_def)

lemma next_id_counted [simp]: "next_id (counted E a st) = next_id st"
  by (simp add: next_id_def)

lemma energy_GenerateID_ok':
  "energy_GenerateID E st = (Inr i, st') \<Longrightarrow> i = next_id st \<and> st' = bump_seq st"
  by (auto dest!: energy_GenerateID_ok simp: next_id_def bump_seq_def)

lemma CheckAndIncr_ok:
  "CheckAndIncrSubmitCount E a st = (None, st') \<Longrightarrow>
     st' = counted E a st \<and> (energy_limit E st = 0 \<or> count_key a st < energy_limit E st)"
  by (auto simp: CheckAndIncr_cases split: if_splits)

definition submit_allowed :: "env \<Rightarrow> MsgSubmitEnergyData \<Rightarrow> energy_state \<Rightarrow> bool" where
  "submit_allowed E msg st \<longleftrightarrow>
     IsAllowedSubmitter E st (ms_Submitter msg) \<and>
     (ep_MaxMetadataSize (energy_GetParams E st) = 0 \<or>
        u32_len (ms_Metadata msg) \<le> ep_MaxMetadataSize (energy_GetParams E st)) \<and>
     (energy_limit E st = 0 \<or> count_key (ms_Submitter msg) st < energy_limit E st)"

lemma msg_SubmitEnergyData_ok:
  assumes "msg_SubmitEnergyData E ctx msg st = (Inr ident, st')"
  shows "submit_allowed E msg st \<and> ident = next_id st \<and>
    (\<exists>ev. st' = emit_energy ev (put_new (submit_record ctx msg) (counted E (ms_Submitter msg) st)))"
proof -
  let ?a = "ms_Submitter msg" and ?cap = "ep_MaxMetadataSize (energy_GetParams E st)"
  let ?st1 = "counted E ?a st"
  have who: "IsAllowedSubmitter E st ?a"
    using assms by (rule_tac ccontr) (simp add: msg_SubmitEnergyData_def)
  have size: "\<not> (?cap > 0 \<and> u32_len (ms_Metadata msg) > ?cap)"
    using assms who by (rule_tac notI) (simp add: msg_SubmitEnergyData_def Let_def)
  have room: "energy_limit E st = 0 \<or> count_key ?a st < energy_limit E st"
    using assms who size by (rule_tac ccontr) (simp add: msg_SubmitEnergyData_def Let_def CheckAndIncr_cases)
  have chk: "CheckAndIncrSubmitCount E ?a st = (None, ?st1)"
    using room by (simp add: CheckAndIncr_cases)
  note step1 = assms [unfolded msg_SubmitEnergyData_def Let_def, simplified who size chk, simplified]
  obtain r st2 where g: "energy_GenerateID E ?st1 = (r, st2)" by fastforce
  then obtain i where r: "r = Inr i"
    using step1 by (cases r) simp_all
  have i: "i = next_id st" "st2 = bump_seq ?st1"
    using energy_GenerateID_ok' [of E ?st1 i st2] g r by simp_all
  obtain w st3 where k: "keeper_SubmitEnergyData E (submit_record ctx msg i) st2 = (w, st3)" by fastforce
  have "w = None" "ident = i" "\<exists>ev. st' = emit_energy ev st3"
    using step1 g r k [unfolded submit_record_def] by (cases w; auto)+
  then show ?thesis
    using who size room i k
    by (auto dest!: keeper_SubmitEnergyData_ok simp: put_new_def submit_allowed_def not_less word_gt_0)
qed

text \<open>On a healthy store the handler succeeds exactly when the submission is allowed.\<close>

lemma msg_SubmitEnergyData_healthy:
  assumes "healthy E" and "submit_allowed E msg st"
  shows "\<exists>ev. msg_SubmitEnergyData E ctx msg st =
    (Inr (next_id st), emit_energy ev (put_new (submit_record ctx msg) (counted E (ms_Submitter msg) st)))"
proof -
  have "IsAllowedSubmitter E st (ms_Submitter msg)"
    and "\<not> (ep_MaxMetadataSize (energy_GetParams E st) > 0 \<and>
      u32_len (ms_Metadata msg) > ep_MaxMetadataSize (energy_GetParams E st))"
    and "CheckAndIncrSubmitCount E (ms_Submitter msg) st = (None, counted E (ms_Submitter msg) st)"
    using assms(2) by (auto simp: submit_allowed_def CheckAndIncr_cases not_less)
  moreover have "energy_GenerateID E (counted E (ms_Submitter msg) st) =
      (Inr (next_id st), bump_seq (counted E (ms_Submitter msg) st))"
    using assms(1) by (simp add: next_id_def bump_seq_def)
  ultimately show ?thesis
    unfolding msg_SubmitEnergyData_def Let_def
    using assms(1) by (auto simp: put_new_def submit_record_def)
qed

lemma check_item_metadata_None:
  "check_item_metadata cap i items = None \<longleftrightarrow> (\<forall>it \<in> set items. u32_len (bi_Metadata it) \<le> cap)"
  by (induction cap i items rule: check_item_metadata.induct) (auto simp: not_less)

definition batch_allowed :: "env \<Rightarrow> MsgBatchSubmit \<Rightarrow> energy_state \<Rightarrow> bool" where
  "batch_allowed E msg st \<longleftrightarrow>
     IsAllowedSubmitter E st (mb_Submitter msg) \<and>
     u32_len (mb_Items msg) \<le> ep_MaxBatchSize (energy_GetParams E st) \<and>
     (ep_MaxMetadataSize (energy_GetParams E st) = 0 \<or>
        (\<forall>it \<in> set (mb_Items msg). u32_len (bi_Metadata it) \<le> ep_MaxMetadataSize (energy_GetParams E st))) \<and>
     (energy_limit E st = 0 \<or> count_key (mb_Submitter msg) st < energy_limit E st) \<and>
     verifyMerkleRoot E (mb_Items msg) (mb_MerkleRoot msg) = None"

lemma put_items_Batches:
  "put_items ctx msg items (st\<lparr>es_Batches := B\<rparr>) = (put_items ctx msg items st)\<lparr>es_Batches := B\<rparr>"
proof (induction items arbitrary: st)
  case (Cons it items)
  have "put_new mk (st\<lparr>es_Batches := B\<rparr>) = (put_new mk st)\<lparr>es_Batches := B\<rparr>" for mk
    by (simp add: put_new_def energy_store_def bump_seq_def next_id_def)
  then show ?case using Cons.IH by (simp add: put_items_def)
qed (simp add: put_items_def)

lemma put_batch_alt:
  "put_batch ctx msg st = (put_items ctx msg (mb_Items msg) (bump_seq st))
     \<lparr>es_Batches := fmupd (next_id st) (batch_record ctx msg (next_id st)) (es_Batches st)\<rparr>"
  by (simp add: put_batch_def put_items_Batches)

lemma msg_BatchSubmit_ok:
  assumes "msg_BatchSubmit E ctx msg st = (Inr resp, st')"
  shows "batch_allowed E msg st \<and> resp = \<lparr>mbr_BatchID = next_id st, mbr_DataCount = u32_len (mb_Items msg)\<rparr> \<and>
    (\<exists>ev. st' = emit_energy ev (put_batch ctx msg (counted E (mb_Submitter msg) st)))"
proof -
  let ?a = "mb_Submitter msg" and ?cap = "ep_MaxMetadataSize (energy_GetParams E st)"
  let ?st1 = "counted E ?a st"
  have who: "IsAllowedSubmitter E st ?a"
    using assms by (rule_tac ccontr) (simp add: msg_BatchSubmit_def)
  have size: "\<not> u32_len (mb_Items msg) > ep_MaxBatchSize (energy_GetParams E st)"
    using assms who by (rule_tac notI) (simp add: msg_BatchSubmit_def Let_def)
  have meta: "(if ?cap > 0 then check_item_metadata ?cap 0 (mb_Items msg) else None) = None"
    (is "?m = None")
    using assms who size by (cases ?m) (simp_all add: msg_BatchSubmit_def Let_def del: if_split_asm)
  note s0 = assms [unfolded msg_BatchSubmit_def Let_def meta, simplified who size, simplified]
  have room: "energy_limit E st = 0 \<or> count_key ?a st < energy_limit E st"
    using s0 by (rule_tac ccontr) (simp add: CheckAndIncr_cases)
  have chk: "CheckAndIncrSubmitCount E ?a st = (None, ?st1)"
    using room by (simp add: CheckAndIncr_cases)
  note s1 = s0 [unfolded chk, simplified]
  have mr: "verifyMerkleRoot E (mb_Items msg) (mb_MerkleRoot msg) = None"
    using s1 by (cases "verifyMerkleRoot E (mb_Items msg) (mb_MerkleRoot msg)") simp_all
  note s2 = s1 [unfolded mr, simplified]
  obtain r st2 where g: "energy_GenerateID E ?st1 = (r, st2)" by fastforce
  then obtain i where r: "r = Inr i" using s2 by (cases r) simp_all
  have i: "i = next_id st" "st2 = bump_seq ?st1"
    using energy_GenerateID_ok' [of E ?st1 i st2] g r by simp_all
  obtain e st3 where it: "store_items E ctx msg 0 (mb_Items msg) st2 = (e, st3)" by fastforce
  then have e: "e = None" using s2 g r by (cases e) simp_all
  obtain w st4 where k: "keeper_SubmitBatch E (batch_record ctx msg i) st3 = (w, st4)" by fastforce
  have "w = None" "resp = \<lparr>mbr_BatchID = i, mbr_DataCount = u32_len (mb_Items msg)\<rparr>" "\<exists>ev. st' = emit_energy ev st4"
    using s2 g r it e k [unfolded batch_record_def] by (cases w; auto)+
  moreover have "batch_allowed E msg st"
    using who size meta room mr
    by (auto simp: batch_allowed_def check_item_metadata_None not_less word_gt_0 split: if_splits)
  ultimately show ?thesis
    using i k it e by (auto dest!: keeper_SubmitBatch_ok store_items_ok simp: put_batch_alt batch_record_def)
qed

lemma msg_BatchSubmit_healthy:
  assumes "healthy E" and "batch_allowed E msg st"
  shows "\<exists>ev. msg_BatchSubmit E ctx msg st =
    (Inr \<lparr>mbr_BatchID = next_id st, mbr_DataCount = u32_len (mb_Items msg)\<rparr>,
     emit_energy ev (put_batch ctx msg (counted E (mb_Submitter msg) st)))"
proof -
  let ?cap = "ep_MaxMetadataSize (energy_GetParams E st)" and ?st1 = "counted E (mb_Submitter msg) st"
  have "IsAllowedSubmitter E st (mb_Submitter msg)"
    and "\<not> u32_len (mb_Items msg) > ep_MaxBatchSize (energy_GetParams E st)"
    and "(if ?cap > 0 then check_item_metadata ?cap 0 (mb_Items msg) else None) = None"
    and "CheckAndIncrSubmitCount E (mb_Submitter msg) st = (None, ?st1)"
    and "verifyMerkleRoot E (mb_Items msg) (mb_MerkleRoot msg) = None"
    using assms(2) by (auto simp: batch_allowed_def CheckAndIncr_cases not_less check_item_metadata_None)
  moreover have "energy_GenerateID E ?st1 = (Inr (next_id st), bump_seq ?st1)"
    using assms(1) by (simp add: next_id_def bump_seq_def)
  ultimately show ?thesis
    unfolding msg_BatchSubmit_def Let_def
    using assms(1) by (auto simp: store_items_healthy put_batch_alt batch_record_def)
qed

end
