(* ===== verification/EnergyLedger.thy ===== *)
theory EnergyLedger
  imports EnergyRun
begin

text \<open>
  The abstract specification of the energy module: an append-only ledger whose n-th entry is the
  record or the batch with the identifier \<^verbatim>\<open>energy-(n+1)\<close>.  Every transaction appends the entries of
  \<open>tx_entries\<close> when its handler accepts it and nothing otherwise, and the store of the keeper,
  indexes included, is a function of the ledger (\<open>ledger_rel\<close>).
\<close>

section \<open>The ledger\<close>

datatype entry = LData EnergyData | LBatch BatchSubmission

definition entry_id :: "nat \<Rightarrow> string" where
  "entry_id n = ''energy-'' @ Sprint_d (Suc n)"

definition ledger_map :: "entry list \<Rightarrow> string \<Rightarrow> entry option" where
  "ledger_map log = map_of (zip (map entry_id [0..<length log]) log)"

fun data_of :: "entry option \<Rightarrow> EnergyData option" where
  "data_of (Some (LData d)) = Some d"
| "data_of _ = None"

fun batch_of :: "entry option \<Rightarrow> BatchSubmission option" where
  "batch_of (Some (LBatch b)) = Some b"
| "batch_of _ = None"

definition ledger_rel :: "entry list \<Rightarrow> energy_state \<Rightarrow> bool" where
  "ledger_rel log st \<longleftrightarrow>
     unat (energy_seq st) = length log \<and>
     (\<forall>i. fmlookup (es_EnergyData st) i = data_of (ledger_map log i)) \<and>
     (\<forall>i. fmlookup (es_Batches st) i = batch_of (ledger_map log i)) \<and>
     (\<forall>f i. (f, i) |\<in>| es_ByCategory st \<longleftrightarrow> (\<exists>d. ledger_map log i = Some (LData d) \<and> ed_Category d = f)) \<and>
     (\<forall>f i. (f, i) |\<in>| es_BySubmitter st \<longleftrightarrow> (\<exists>d. ledger_map log i = Some (LData d) \<and> ed_Submitter d = f))"

text \<open>What a transaction appends when it is accepted with \<open>n\<close> entries already in the ledger.\<close>

fun item_entries :: "sdk_ctx \<Rightarrow> MsgBatchSubmit \<Rightarrow> nat \<Rightarrow> BatchItem list \<Rightarrow> entry list" where
  "item_entries ctx msg n [] = []"
| "item_entries ctx msg n (it # items) = LData (item_record ctx msg it (entry_id n)) # item_entries ctx msg (Suc n) items"

fun tx_entries :: "sdk_ctx \<Rightarrow> energy_tx \<Rightarrow> nat \<Rightarrow> entry list" where
  "tx_entries ctx (TxSubmit m) n = [LData (submit_record ctx m (entry_id n))]"
| "tx_entries ctx (TxBatch m) n = LBatch (batch_record ctx m (entry_id n)) # item_entries ctx m (Suc n) (mb_Items m)"
| "tx_entries ctx (TxUpdateParams m) n = []"
| "tx_entries ctx NextBlock n = []"

fun energy_accepts :: "env \<Rightarrow> string \<Rightarrow> sdk_ctx \<Rightarrow> energy_tx \<Rightarrow> energy_state \<Rightarrow> bool" where
  "energy_accepts E auth ctx (TxSubmit m) st = succeeds (msg_SubmitEnergyData E ctx m (st\<lparr>es_events := []\<rparr>))"
| "energy_accepts E auth ctx (TxBatch m) st = succeeds (msg_BatchSubmit E ctx m (st\<lparr>es_events := []\<rparr>))"
| "energy_accepts E auth ctx (TxUpdateParams m) st = succeeds (energy_UpdateParams E auth m (st\<lparr>es_events := []\<rparr>))"
| "energy_accepts E auth ctx NextBlock st = True"

text \<open>The ledger of a history.\<close>

fun energy_ledger :: "env \<Rightarrow> string \<Rightarrow> (sdk_ctx \<times> energy_tx) list \<Rightarrow> energy_state \<Rightarrow> entry list \<Rightarrow> entry list" where
  "energy_ledger E auth [] st log = log"
| "energy_ledger E auth ((ctx, tx) # txs) st log =
     energy_ledger E auth txs (energy_deliver E auth ctx tx st)
       (log @ (if energy_accepts E auth ctx tx st then tx_entries ctx tx (length log) else []))"

section \<open>The effect of a transaction\<close>

text \<open>
  What the handlers of the module do to the ledger part of the state, once and for all: a
  transaction leaves the state as it was, or draws and stores as \<open>put_new\<close> and \<open>put_batch\<close> say, or
  writes parameters or the counters.
\<close>

lemma energy_UpdateParams_ok:
  assumes "energy_UpdateParams E auth m st = (Inr u, st')"
  shows "eu_Authority m = auth \<and> energy_Params_Validate (eu_Params m) = None \<and> st' = st\<lparr>es_Params := Some (eu_Params m)\<rparr>"
  using assms by (auto simp: energy_UpdateParams_def dest!: energy_SetParams_ok split: if_splits option.splits prod.splits)

lemma energy_deliver_cases:
  obtains
    (skip) "\<not> energy_accepts E auth ctx tx st" "energy_deliver E auth ctx tx st = st"
  | (submit) m ev where "tx = TxSubmit m" "energy_accepts E auth ctx tx st" "submit_allowed E m (st\<lparr>es_events := []\<rparr>)"
      "energy_deliver E auth ctx tx st = emit_energy ev (put_new (submit_record ctx m) (counted E (ms_Submitter m) (st\<lparr>es_events := []\<rparr>)))"
  | (batch) m ev where "tx = TxBatch m" "energy_accepts E auth ctx tx st" "batch_allowed E m (st\<lparr>es_events := []\<rparr>)"
      "energy_deliver E auth ctx tx st = emit_energy ev (put_batch ctx m (counted E (mb_Submitter m) (st\<lparr>es_events := []\<rparr>)))"
  | (params) m where "tx = TxUpdateParams m" "energy_accepts E auth ctx tx st" "eu_Authority m = auth"
      "energy_Params_Validate (eu_Params m) = None"
      "energy_deliver E auth ctx tx st = st\<lparr>es_events := [], es_Params := Some (eu_Params m)\<rparr>"
  | (block) "tx = NextBlock" "energy_accepts E auth ctx tx st" "energy_deliver E auth ctx tx st = st\<lparr>es_transient := fmempty\<rparr>"
proof (cases tx)
  case (TxSubmit m)
  show ?thesis
  proof (cases rule: commit_if_cases [of "msg_SubmitEnergyData E ctx m (st\<lparr>es_events := []\<rparr>)" st])
    case 1
    then show ?thesis using skip TxSubmit by simp
  next
    case (2 x st')
    then show ?thesis using submit TxSubmit msg_SubmitEnergyData_ok [OF 2(1)] by auto
  qed
next
  case (TxBatch m)
  show ?thesis
  proof (cases rule: commit_if_cases [of "msg_BatchSubmit E ctx m (st\<lparr>es_events := []\<rparr>)" st])
    case 1
    then show ?thesis using skip TxBatch by simp
  next
    case (2 x st')
    then show ?thesis using batch TxBatch msg_BatchSubmit_ok [OF 2(1)] by auto
  qed
next
  case (TxUpdateParams m)
  show ?thesis
  proof (cases rule: commit_if_cases [of "energy_UpdateParams E auth m (st\<lparr>es_events := []\<rparr>)" st])
    case 1
    then show ?thesis using skip TxUpdateParams by simp
  next
    case (2 x st')
    then show ?thesis using params TxUpdateParams energy_UpdateParams_ok [OF 2(1)] by auto
  qed
next
  case NextBlock
  then show ?thesis by (simp add: block)
qed

section \<open>The ledger follows the state\<close>

lemma entry_id_inject [simp]: "entry_id m = entry_id n \<longleftrightarrow> m = n"
  by (simp add: entry_id_def)

lemma next_id_entry: "unat (energy_seq st) = n \<Longrightarrow> Suc n < 2 ^ 64 \<Longrightarrow> next_id st = entry_id n"
  using unat_inc [of "energy_seq st"] inc_nonzero [of "energy_seq st"] by (simp add: next_id_def entry_id_def)

lemma ledger_map_fresh: "ledger_map log (entry_id (length log)) = None"
  unfolding ledger_map_def by (subst map_of_zip_is_None) auto

lemma ledger_map_snoc: "ledger_map (log @ [e]) = (ledger_map log)(entry_id (length log) \<mapsto> e)"
proof -
  have "ledger_map (log @ [e]) = [entry_id (length log) \<mapsto> e] ++ ledger_map log"
    by (simp add: ledger_map_def)
  then show ?thesis
    using ledger_map_fresh [of log] by (auto simp: map_add_def split: option.split)
qed

lemma ledger_empty: "ledger_rel [] energy_empty"
  by (simp add: ledger_rel_def ledger_map_def energy_empty_def energy_seq_def)

lemma ledger_frame [simp]:
  "ledger_rel log (counted E a st) = ledger_rel log st" "ledger_rel log (emit_energy ev st) = ledger_rel log st"
  "ledger_rel log (st\<lparr>es_events := ev'\<rparr>) = ledger_rel log st" "ledger_rel log (st\<lparr>es_Params := p\<rparr>) = ledger_rel log st"
  "ledger_rel log (st\<lparr>es_transient := t\<rparr>) = ledger_rel log st"
proof -
  obtain t where t: "counted E a st = st\<lparr>es_transient := t\<rparr>" using counted_transient by blast
  show "ledger_rel log (counted E a st) = ledger_rel log st" unfolding t by (simp add: ledger_rel_def)
qed (simp_all add: ledger_rel_def emit_energy_def)

lemma ledger_put_new:
  assumes "ledger_rel log st" and "Suc (length log) < 2 ^ 64" and "\<And>i. ed_ID (mk i) = i"
  shows "ledger_rel (log @ [LData (mk (entry_id (length log)))]) (put_new mk st)"
proof -
  have n: "next_id st = entry_id (length log)" and seq: "unat (energy_seq st) = length log"
    using assms(1,2) next_id_entry by (auto simp: ledger_rel_def)
  have "unat (energy_seq (put_new mk st)) = length (log @ [LData (mk (entry_id (length log)))])"
    using unat_inc [of "energy_seq st"] inc_nonzero [of "energy_seq st"] seq assms(2) by simp
  then show ?thesis
    using assms(1,3) n ledger_map_fresh [of log] unfolding ledger_rel_def ledger_map_snoc
    by (auto simp: put_new_def energy_store_def bump_seq_def)
qed

lemma ledger_put_items:
  "ledger_rel log st \<Longrightarrow> length log + length items < 2 ^ 64 \<Longrightarrow>
     ledger_rel (log @ item_entries ctx msg (length log) items) (put_items ctx msg items st)"
proof (induction items arbitrary: log st)
  case (Cons it items)
  have "ledger_rel (log @ [LData (item_record ctx msg it (entry_id (length log)))]) (put_new (item_record ctx msg it) st)"
    using Cons.prems by (intro ledger_put_new) simp_all
  from Cons.IH [OF this] show ?case
    using Cons.prems by (simp add: put_items_def)
qed (simp add: put_items_def)

lemma ledger_put_batch:
  assumes "ledger_rel log st" and "Suc (length log + length (mb_Items msg)) < 2 ^ 64"
  shows "ledger_rel (log @ tx_entries ctx (TxBatch msg) (length log)) (put_batch ctx msg st)"
proof -
  have n: "next_id st = entry_id (length log)" and seq: "unat (energy_seq st) = length log"
    using assms next_id_entry by (auto simp: ledger_rel_def)
  let ?b = "batch_record ctx msg (entry_id (length log))"
  let ?st = "(bump_seq st)\<lparr>es_Batches := fmupd (next_id st) (batch_record ctx msg (next_id st)) (es_Batches st)\<rparr>"
  have "unat (energy_seq ?st) = Suc (length log)"
    using unat_inc [of "energy_seq st"] inc_nonzero [of "energy_seq st"] seq assms(2) by simp
  then have "ledger_rel (log @ [LBatch ?b]) ?st"
    using assms(1) n ledger_map_fresh [of log] unfolding ledger_rel_def ledger_map_snoc
    by (auto simp: bump_seq_def)
  from ledger_put_items [OF this, of "mb_Items msg" ctx msg] show ?thesis
    using assms(2) by (simp add: put_batch_def)
qed

lemma length_item_entries [simp]: "length (item_entries ctx msg n items) = length items"
  by (induction items arbitrary: n) simp_all

lemma length_tx_entries [simp]: "length (tx_entries ctx tx n) = tx_ids tx"
  by (cases tx) simp_all

lemma ledger_deliver:
  assumes "ledger_rel log st" and "length log + tx_ids tx < 2 ^ 64"
  shows "ledger_rel (log @ (if energy_accepts E auth ctx tx st then tx_entries ctx tx (length log) else []))
    (energy_deliver E auth ctx tx st)"
proof (cases rule: energy_deliver_cases [of E auth ctx tx st])
  case (submit m ev)
  then show ?thesis
    using ledger_put_new [of log "counted E (ms_Submitter m) (st\<lparr>es_events := []\<rparr>)" "submit_record ctx m"] assms
    by (simp add: submit_record_def)
next
  case (batch m ev)
  then show ?thesis
    using ledger_put_batch [of log "counted E (mb_Submitter m) (st\<lparr>es_events := []\<rparr>)" m ctx] assms by simp
qed (use assms in simp_all)

end
