(* ===== verification/EnergyHistory.thy ===== *)
theory EnergyHistory
  imports EnergyLedger
begin

text \<open>
  Histories of the energy module: for any sequence of transactions and block boundaries, the store
  follows the ledger, stays well-formed, only grows, keeps the registered invariants and admits at
  most the configured number of submissions per submitter and block.
\<close>

section \<open>Well-formedness along a history\<close>

lemma energy_extends_frame [simp]:
  "energy_extends st0 (counted E a st) = energy_extends st0 st" "energy_extends st0 (emit_energy ev st) = energy_extends st0 st"
  "energy_extends (counted E a st0) st = energy_extends st0 st"
  "energy_extends st0 (st\<lparr>es_events := e\<rparr>) = energy_extends st0 st" "energy_extends (st0\<lparr>es_events := e\<rparr>) st = energy_extends st0 st"
  "energy_extends st0 (st\<lparr>es_Params := p\<rparr>) = energy_extends st0 st" "energy_extends st0 (st\<lparr>es_transient := t\<rparr>) = energy_extends st0 st"
  by (simp_all add: energy_extends_def)

lemma put_batch_wf:
  assumes wf: "energy_wf st" and room: "unat (energy_seq st) + Suc (length (mb_Items msg)) < 2 ^ 64"
  shows "energy_wf (put_batch ctx msg st) \<and> energy_extends st (put_batch ctx msg st)"
proof -
  let ?b = "batch_record ctx msg (next_id st)"
  let ?st = "(bump_seq st)\<lparr>es_Batches := fmupd (next_id st) ?b (es_Batches st)\<rparr>"
  have nz: "energy_seq st + 1 \<noteq> 0" using room by (intro inc_nonzero) simp
  have bump: "energy_wf (bump_seq st)" using wf nz by (rule energy_wf_bump)
  then have "ids_below (energy_seq ?st) (es_Batches ?st)"
    by (auto simp: energy_wf_def next_id_def intro!: ids_below_fmupd simp del: append.simps)
  then have "energy_wf ?st"
    using bump by (auto simp: energy_wf_def batch_record_def energy_cat.consistent_def energy_cat.complete_def
        energy_sub.consistent_def energy_sub.complete_def)
  moreover have "energy_extends st ?st"
    using next_id_fresh [OF wf nz] by (auto simp: energy_extends_def bump_seq_def)
  moreover have "unat (energy_seq ?st) + length (mb_Items msg) < 2 ^ 64"
    using room unat_inc [OF nz] by simp
  ultimately show ?thesis
    using put_items_wf [of ?st "mb_Items msg" ctx msg] by (auto simp: put_batch_def intro: energy_extends_trans)
qed

lemma put_batch_seq [simp]: "energy_seq (put_batch ctx msg st) = energy_seq st + 1 + word_of_nat (length (mb_Items msg))"
  by (simp add: put_batch_def)

lemma unat_plus_bound: "unat (n :: uint64) + k < 2 ^ 64 \<Longrightarrow> unat (n + word_of_nat k) = unat n + k"
  by (simp add: unat_word_ariths unat_of_nat)

lemma energy_deliver_wf:
  assumes "energy_wf st" and "unat (energy_seq st) + tx_ids tx < 2 ^ 64"
  shows "energy_wf (energy_deliver E auth ctx tx st) \<and> energy_extends st (energy_deliver E auth ctx tx st) \<and>
    unat (energy_seq st) \<le> unat (energy_seq (energy_deliver E auth ctx tx st)) \<and>
    unat (energy_seq (energy_deliver E auth ctx tx st)) \<le> unat (energy_seq st) + tx_ids tx"
proof (cases rule: energy_deliver_cases [of E auth ctx tx st])
  case (submit m ev)
  let ?st = "counted E (ms_Submitter m) (st\<lparr>es_events := []\<rparr>)"
  have nz: "energy_seq ?st + 1 \<noteq> 0" using assms(2) submit(1) by (intro inc_nonzero) simp
  have "energy_wf (put_new (submit_record ctx m) ?st)" "energy_extends ?st (put_new (submit_record ctx m) ?st)"
    using assms(1) nz by (intro put_new_wf put_new_extends; simp add: submit_record_def)+
  then show ?thesis using submit unat_inc [OF nz] by simp
next
  case (batch m ev)
  let ?st = "counted E (mb_Submitter m) (st\<lparr>es_events := []\<rparr>)"
  have "energy_wf (put_batch ctx m ?st) \<and> energy_extends ?st (put_batch ctx m ?st)"
    using assms batch(1) by (intro put_batch_wf) simp_all
  then show ?thesis
    using batch assms unat_plus_bound [of "energy_seq st" "Suc (length (mb_Items m))"] by (simp add: add.assoc)
qed (use assms in simp_all)

definition ids_drawn :: "(sdk_ctx \<times> energy_tx) list \<Rightarrow> nat" where
  "ids_drawn txs = sum_list (map (\<lambda>(ctx, tx). tx_ids tx) txs)"

lemma ids_drawn_simps [simp]: "ids_drawn [] = 0" "ids_drawn ((ctx, tx) # txs) = tx_ids tx + ids_drawn txs"
  by (simp_all add: ids_drawn_def)

lemma energy_run_wf:
  assumes "energy_wf st" and "unat (energy_seq st) + ids_drawn txs < 2 ^ 64"
  shows "energy_wf (energy_run E auth txs st) \<and> energy_extends st (energy_run E auth txs st)"
proof (rule energy_hist.run_within [where cost = tx_ids and used = "\<lambda>s. unat (energy_seq s)"])
  show "reflp energy_extends" by (simp add: reflp_def)
  show "transp energy_extends" by (rule transpI) (rule energy_extends_trans)
  show "energy_wf (energy_deliver E auth c t s) \<and> energy_extends s (energy_deliver E auth c t s) \<and>
      unat (energy_seq (energy_deliver E auth c t s)) \<le> unat (energy_seq s) + tx_ids t"
    if "energy_wf s" "unat (energy_seq s) + tx_ids t < 2 ^ 64" for c t s
    using energy_deliver_wf [OF that] by blast
qed (use assms in \<open>simp_all add: ids_drawn_def\<close>)

lemma ledger_run:
  "ledger_rel log st \<Longrightarrow> length log + ids_drawn txs < 2 ^ 64 \<Longrightarrow>
     ledger_rel (energy_ledger E auth txs st log) (energy_run E auth txs st)"
proof (induction txs arbitrary: st log)
  case (Cons t txs)
  obtain ctx tx where t: "t = (ctx, tx)" by (cases t)
  let ?log = "log @ (if energy_accepts E auth ctx tx st then tx_entries ctx tx (length log) else [])"
  have "ledger_rel ?log (energy_deliver E auth ctx tx st)"
    using Cons.prems t by (intro ledger_deliver) simp_all
  then show ?case
    using Cons.IH [of ?log "energy_deliver E auth ctx tx st"] Cons.prems t by simp
qed simp

section \<open>The metadata cap along a history\<close>

definition cap_of :: "env \<Rightarrow> energy_state \<Rightarrow> uint32" where
  "cap_of E st = ep_MaxMetadataSize (energy_GetParams E st)"

definition cap_ok :: "env \<Rightarrow> energy_state \<Rightarrow> bool" where
  "cap_ok E st \<longleftrightarrow> energy_Params_Validate (energy_GetParams E st) = None \<and>
     (\<forall>i d. fmlookup (es_EnergyData st) i = Some d \<longrightarrow> u32_len (ed_Metadata d) \<le> cap_of E st)"

text \<open>The caps that the parameter updates of a history ask for.\<close>

fun energy_asks :: "energy_tx \<Rightarrow> uint32 option" where
  "energy_asks (TxUpdateParams m) = Some (ep_MaxMetadataSize (eu_Params m))"
| "energy_asks _ = None"

lemma energy_asks_Some: "energy_asks tx = Some n \<longleftrightarrow> (\<exists>m. tx = TxUpdateParams m \<and> n = ep_MaxMetadataSize (eu_Params m))"
  by (cases tx) auto

fun requested_caps :: "(sdk_ctx \<times> energy_tx) list \<Rightarrow> uint32 list" where
  "requested_caps [] = []"
| "requested_caps ((ctx, TxUpdateParams m) # txs) = ep_MaxMetadataSize (eu_Params m) # requested_caps txs"
| "requested_caps (_ # txs) = requested_caps txs"

lemma GetParams_frame [simp]:
  "energy_GetParams E (counted E a st) = energy_GetParams E st" "energy_GetParams E (emit_energy ev st) = energy_GetParams E st"
  "energy_GetParams E (put_new mk st) = energy_GetParams E st" "energy_GetParams E (put_batch ctx m st) = energy_GetParams E st"
  "energy_GetParams E (st\<lparr>es_events := evs\<rparr>) = energy_GetParams E st"
  "energy_GetParams E (st\<lparr>es_transient := t\<rparr>) = energy_GetParams E st"
  by (rule GetParams_cong; simp add: put_batch_def)+

lemma GetParams_set [simp]:
  "healthy E \<Longrightarrow> energy_GetParams E (st\<lparr>es_Params := Some p\<rparr>) = p"
  "healthy E \<Longrightarrow> energy_GetParams E (st\<lparr>es_events := evs, es_Params := Some p\<rparr>) = p"
  by (simp_all add: energy_GetParams_def item_Get_def)

lemma cap_ok_data:
  "energy_GetParams E st' = energy_GetParams E st \<Longrightarrow> cap_ok E st \<Longrightarrow>
     (\<And>i d. fmlookup (es_EnergyData st') i = Some d \<Longrightarrow>
        fmlookup (es_EnergyData st) i = Some d \<or> u32_len (ed_Metadata d) \<le> cap_of E st) \<Longrightarrow> cap_ok E st'"
  by (fastforce simp: cap_ok_def cap_of_def)

lemma put_new_data: "fmlookup (es_EnergyData (put_new mk st)) i = Some d \<Longrightarrow>
    fmlookup (es_EnergyData st) i = Some d \<or> d = mk (next_id st)"
  by (auto simp: put_new_def energy_store_def split: if_splits)

lemma put_items_data: "fmlookup (es_EnergyData (put_items ctx msg items st)) i = Some d \<Longrightarrow>
    fmlookup (es_EnergyData st) i = Some d \<or> (\<exists>it \<in> set items. ed_Metadata d = bi_Metadata it)"
proof (induction items arbitrary: st)
  case (Cons it items)
  then show ?case
    using put_new_data [of "item_record ctx msg it" st i d] by (fastforce simp: put_items_def item_record_def)
qed (simp add: put_items_def)

lemma put_batch_data: "fmlookup (es_EnergyData (put_batch ctx msg st)) i = Some d \<Longrightarrow>
    fmlookup (es_EnergyData st) i = Some d \<or> (\<exists>it \<in> set (mb_Items msg). ed_Metadata d = bi_Metadata it)"
  by (auto dest: put_items_data simp: put_batch_def)

lemma cap_ok_deliver:
  assumes E: "healthy E" and ok: "cap_ok E st" and mono: "\<And>m. tx = TxUpdateParams m \<Longrightarrow> cap_of E st \<le> ep_MaxMetadataSize (eu_Params m)"
  shows "cap_ok E (energy_deliver E auth ctx tx st)"
proof (cases rule: energy_deliver_cases [of E auth ctx tx st])
  case (submit m ev)
  have pos: "cap_of E st \<noteq> 0"
    using ok by (auto simp: cap_ok_def cap_of_def energy_Params_Validate_iff)
  have "u32_len (ms_Metadata m) \<le> cap_of E st"
    using submit(3) pos by (simp add: submit_allowed_def cap_of_def)
  then show ?thesis
    using submit(4) by (intro cap_ok_data [OF _ ok]) (auto dest!: put_new_data simp: submit_record_def)
next
  case (batch m ev)
  have pos: "cap_of E st \<noteq> 0"
    using ok by (auto simp: cap_ok_def cap_of_def energy_Params_Validate_iff)
  have "\<forall>it \<in> set (mb_Items m). u32_len (bi_Metadata it) \<le> cap_of E st"
    using batch(3) pos by (simp add: batch_allowed_def cap_of_def)
  then show ?thesis
    using batch(4) by (intro cap_ok_data [OF _ ok]) (auto dest!: put_batch_data)
next
  case (params m)
  then show ?thesis
    using E ok mono [of m] by (fastforce simp: cap_ok_def cap_of_def intro: order_trans)
qed (use ok in \<open>auto simp: cap_ok_def cap_of_def\<close>)

lemma cap_of_deliver:
  assumes "healthy E"
  shows "cap_of E (energy_deliver E auth ctx tx st) = cap_of E st \<or>
    (\<exists>m. tx = TxUpdateParams m \<and> cap_of E (energy_deliver E auth ctx tx st) = ep_MaxMetadataSize (eu_Params m))"
  by (cases rule: energy_deliver_cases [of E auth ctx tx st]) (use assms in \<open>simp_all add: cap_of_def\<close>)

interpretation energy_caps: capped_history
  "energy_deliver E auth" "energy_run E auth" "cap_of E" energy_asks requested_caps "\<lambda>st. healthy E \<and> cap_ok E st" for E auth
proof
  fix c t txs s
  show "requested_caps ((c, t) # txs) = (case energy_asks t of None \<Rightarrow> requested_caps txs | Some n \<Rightarrow> n # requested_caps txs)"
    by (cases t) simp_all
  show "healthy E \<and> cap_ok E (energy_deliver E auth c t s)"
    if "healthy E \<and> cap_ok E s" "\<And>n. energy_asks t = Some n \<Longrightarrow> cap_of E s \<le> n"
    using that cap_ok_deliver [of E s t auth c] by (simp add: energy_asks_Some)
  show "cap_of E (energy_deliver E auth c t s) = cap_of E s \<or> energy_asks t = Some (cap_of E (energy_deliver E auth c t s))"
    if "healthy E \<and> cap_ok E s"
    using that cap_of_deliver [of E auth c t s] by (auto simp: energy_asks_Some)
qed simp

text \<open>Updates that are part of those in \<open>txs\<close> are enough.\<close>

lemma cap_ok_run_part:
  "healthy E \<Longrightarrow> cap_ok E st \<Longrightarrow> sorted (cap_of E st # requested_caps txs) \<Longrightarrow> subseq part txs \<Longrightarrow>
     cap_ok E (energy_run E auth part st)"
  using energy_caps.ok_run_part [of E st txs part auth] by simp

lemmas cap_ok_run = cap_ok_run_part [OF _ _ _ subseq_order.order_refl]

lemma AllInvariants_ok:
  "healthy E \<Longrightarrow> energy_wf st \<Longrightarrow> cap_ok E st \<Longrightarrow> energy_AllInvariants E st = None"
  unfolding energy_AllInvariants_def
  by (simp add: IDSequenceMonotonic_iff [THEN iffD2] ByCategory_iff [THEN iffD2] BySubmitter_iff [THEN iffD2]
      energy_MetadataWithinCap_iff [THEN iffD2] energy_wf_def ids_below_def cap_ok_def cap_of_def)

section \<open>The rate limit along a block\<close>

definition submit_check :: "env \<Rightarrow> string \<Rightarrow> energy_state \<Rightarrow> energy_state option" where
  "submit_check E a st = (case CheckAndIncrSubmitCount E a st of (None, st') \<Rightarrow> Some st' | (Some e, _) \<Rightarrow> None)"

lemma GetSubmitCountByAddrKey_inject [simp]: "GetSubmitCountByAddrKey a = GetSubmitCountByAddrKey b \<longleftrightarrow> a = b"
  by (simp add: GetSubmitCountByAddrKey_def)

lemma energy_limit_counted [simp]: "energy_limit E (counted E a st) = energy_limit E st"
  by (simp add: energy_limit_def)

lemma count_key_counted:
  "count_key b (counted E a st) = (if b = a \<and> energy_limit E st \<noteq> 0 then count_key b st + 1 else count_key b st)"
  by (simp add: counted_def count_key_def)

interpretation energy_rate: rate_limiter "submit_check E" "\<lambda>st a. unat (count_key a st)" "\<lambda>st. unat (energy_limit E st)" for E
proof unfold_locales
  fix a b st st'
  show "unat (energy_limit E st) = 0 \<Longrightarrow> submit_check E a st = Some st"
    by (simp add: submit_check_def CheckAndIncr_cases counted_def unat_eq_0)
  show "0 < unat (energy_limit E st) \<Longrightarrow> unat (energy_limit E st) \<le> unat (count_key a st) \<Longrightarrow> submit_check E a st = None"
    by (auto simp: submit_check_def CheckAndIncr_cases word_less_nat_alt)
  show "0 < unat (energy_limit E st) \<Longrightarrow> unat (count_key a st) < unat (energy_limit E st) \<Longrightarrow> \<exists>s'. submit_check E a st = Some s'"
    by (auto simp: submit_check_def CheckAndIncr_cases word_less_nat_alt)
  show "submit_check E a st = Some st' \<Longrightarrow> unat (energy_limit E st') = unat (energy_limit E st)"
    by (auto simp: submit_check_def CheckAndIncr_cases split: if_splits)
  show "0 < unat (energy_limit E st) \<Longrightarrow> submit_check E a st = Some st' \<Longrightarrow>
      unat (count_key b st') = (if b = a then Suc (unat (count_key a st)) else unat (count_key b st))"
    by (auto simp: submit_check_def CheckAndIncr_cases count_key_counted unat_Suc_below split: if_splits)
qed

text \<open>The sender of a submission, and how many submissions of \<open>a\<close> a history accepts.\<close>

fun tx_sender :: "energy_tx \<Rightarrow> string option" where
  "tx_sender (TxSubmit m) = Some (ms_Submitter m)"
| "tx_sender (TxBatch m) = Some (mb_Submitter m)"
| "tx_sender _ = None"

fun accepted_by :: "env \<Rightarrow> string \<Rightarrow> string \<Rightarrow> (sdk_ctx \<times> energy_tx) list \<Rightarrow> energy_state \<Rightarrow> nat" where
  "accepted_by E auth a [] st = 0"
| "accepted_by E auth a ((ctx, tx) # txs) st =
     (if energy_accepts E auth ctx tx st \<and> tx_sender tx = Some a then 1 else 0) +
     accepted_by E auth a txs (energy_deliver E auth ctx tx st)"

lemma put_items_transient [simp]: "count_key a (put_new mk st) = count_key a st" "count_key a (put_batch ctx m st) = count_key a st"
    "count_key a (emit_energy ev st) = count_key a st" "count_key a (st\<lparr>es_events := evs\<rparr>) = count_key a st"
  by (simp_all add: count_key_def put_batch_def)

lemma energy_limit_frame [simp]:
  "energy_limit E (put_new mk st) = energy_limit E st" "energy_limit E (put_batch ctx m st) = energy_limit E st"
  "energy_limit E (emit_energy ev st) = energy_limit E st" "energy_limit E (st\<lparr>es_events := evs\<rparr>) = energy_limit E st"
  by (simp_all add: energy_limit_def)

text \<open>One submission: its sender's counter says whether it got through, and stays within the limit.\<close>

lemma deliver_count:
  assumes "tx_sender tx = Some b" and "energy_limit E st \<noteq> 0"
  shows "energy_limit E (energy_deliver E auth ctx tx st) = energy_limit E st \<and>
    unat (count_key a (energy_deliver E auth ctx tx st)) =
      (if energy_accepts E auth ctx tx st \<and> b = a then 1 else 0) + unat (count_key a st) \<and>
    (energy_accepts E auth ctx tx st \<longrightarrow> count_key b st < energy_limit E st)"
  by (cases rule: energy_deliver_cases [of E auth ctx tx st])
    (use assms in \<open>auto simp: count_key_counted submit_allowed_def batch_allowed_def unat_Suc_below\<close>)

lemma block_count:
  assumes "\<forall>(ctx, tx) \<in> set txs. tx_sender tx \<noteq> None" and "energy_limit E st \<noteq> 0"
    and "count_key a st \<le> energy_limit E st"
  shows "unat (count_key a st) + accepted_by E auth a txs st \<le> unat (energy_limit E st)"
  using assms
proof (induction txs arbitrary: st)
  case (Cons t txs)
  obtain ctx tx where t: "t = (ctx, tx)" by (cases t)
  then obtain b where b: "tx_sender tx = Some b" using Cons.prems(1) by auto
  let ?st = "energy_deliver E auth ctx tx st"
  note step = deliver_count [OF b Cons.prems(2), of auth ctx a]
  have "count_key a ?st \<le> energy_limit E ?st"
    using step Cons.prems(3) by (auto simp: word_le_nat_alt word_less_nat_alt split: if_splits)
  then have "unat (count_key a ?st) + accepted_by E auth a txs ?st \<le> unat (energy_limit E ?st)"
    using Cons.IH [of ?st] Cons.prems step by auto
  then show ?case using step b t by auto
qed (simp add: word_le_nat_alt)

end
