(* ===== verification/EnergyGenesis.thy ===== *)
theory EnergyGenesis
  imports EnergyHistory
begin

text \<open>
  Genesis of the energy module: importing a validated genesis gives a well-formed state, and
  importing what a chain exported gives that chain's state back.
\<close>

section \<open>What the import computes\<close>

definition put_stored_batch :: "BatchSubmission \<Rightarrow> energy_state \<Rightarrow> energy_state" where
  "put_stored_batch b st = st\<lparr>es_Batches := fmupd (bs_ID b) b (es_Batches st)\<rparr>"

lemma restore_data_healthy: "healthy E \<Longrightarrow> energy_restore_data E i ds st = (None, fold energy_store ds st)"
  by (induction ds arbitrary: i st) simp_all

lemma restore_batches_healthy: "healthy E \<Longrightarrow> energy_restore_batches E i bs st = (None, fold put_stored_batch bs st)"
  by (induction bs arbitrary: i st) (simp_all add: put_stored_batch_def)

definition restored :: "energy_GenesisState \<Rightarrow> energy_state \<Rightarrow> energy_state" where
  "restored gs st = fold put_stored_batch (eg_Batches gs) (fold energy_store (eg_DataRecords gs) (st\<lparr>es_Params := Some (eg_Params gs)\<rparr>))"

lemma energy_InitGenesis_healthy:
  "healthy E \<Longrightarrow> energy_InitGenesis E gs st =
     (None, if energy_highest gs > 0 then (restored gs st)\<lparr>es_IDSequence := Some (energy_highest gs)\<rparr> else restored gs st)"
  by (simp add: energy_InitGenesis_def Let_def restore_data_healthy restore_batches_healthy restored_def
      energy_SetCurrentID_def item_Set_def)

lemma fold_store_fields:
  "es_EnergyData (fold energy_store ds st) = fold (\<lambda>d. fmupd (ed_ID d) d) ds (es_EnergyData st)"
  "es_Batches (fold energy_store ds st) = es_Batches st"
  "es_Params (fold energy_store ds st) = es_Params st"
  "es_IDSequence (fold energy_store ds st) = es_IDSequence st"
  by (induction ds arbitrary: st) (simp_all add: energy_store_def)

lemma fold_batch_fields:
  "es_Batches (fold put_stored_batch bs st) = fold (\<lambda>b. fmupd (bs_ID b) b) bs (es_Batches st)"
  "es_EnergyData (fold put_stored_batch bs st) = es_EnergyData st"
  "es_ByCategory (fold put_stored_batch bs st) = es_ByCategory st"
  "es_BySubmitter (fold put_stored_batch bs st) = es_BySubmitter st"
  "es_Params (fold put_stored_batch bs st) = es_Params st"
  "es_IDSequence (fold put_stored_batch bs st) = es_IDSequence st"
  by (induction bs arbitrary: st) (simp_all add: put_stored_batch_def)

section \<open>The restored state\<close>

lemma restored_indexes:
  assumes "distinct (map ed_ID (eg_DataRecords gs))"
  shows "energy_cat.consistent (restored gs energy_empty)" "energy_cat.complete (restored gs energy_empty)"
    "energy_sub.consistent (restored gs energy_empty)" "energy_sub.complete (restored gs energy_empty)"
proof -
  let ?st0 = "energy_empty\<lparr>es_Params := Some (eg_Params gs)\<rparr>"
  have e: "energy_cat.consistent ?st0" "energy_cat.complete ?st0" "energy_sub.consistent ?st0" "energy_sub.complete ?st0"
    using energy_wf_empty by (auto simp: energy_wf_def energy_cat.consistent_def energy_cat.complete_def
        energy_sub.consistent_def energy_sub.complete_def)
  have none: "fmlookup (es_EnergyData ?st0) i = None" for i by (simp add: energy_empty_def)
  note all = energy_cat.store_all_consistent [OF e(1) assms none] energy_cat.store_all_complete [OF e(2), of "eg_DataRecords gs"]
    energy_sub.store_all_consistent [OF e(3) assms none] energy_sub.store_all_complete [OF e(4), of "eg_DataRecords gs"]
  show "energy_cat.consistent (restored gs energy_empty)" "energy_cat.complete (restored gs energy_empty)"
    "energy_sub.consistent (restored gs energy_empty)" "energy_sub.complete (restored gs energy_empty)"
    using all
    by (simp_all add: restored_def energy_cat.consistent_def energy_cat.complete_def energy_sub.consistent_def
        energy_sub.complete_def fold_batch_fields)
qed

lemma restored_fields:
  "es_EnergyData (restored gs energy_empty) = fold (\<lambda>d. fmupd (ed_ID d) d) (eg_DataRecords gs) fmempty"
  "es_Batches (restored gs energy_empty) = fold (\<lambda>b. fmupd (bs_ID b) b) (eg_Batches gs) fmempty"
  "es_Params (restored gs energy_empty) = Some (eg_Params gs)"
  "energy_seq (restored gs energy_empty) = 0"
  by (simp_all add: restored_def fold_batch_fields fold_store_fields energy_seq_def energy_empty_def)

lemma fold_raise_le:
  "fold (\<lambda>x h. raise_to (f x) h) xs a \<le> m \<longleftrightarrow> a \<le> m \<and> (\<forall>x \<in> set xs. \<forall>n. parseEnergyID (f x) = Some n \<longrightarrow> n \<le> m)"
proof (induction xs arbitrary: a)
  case (Cons x xs)
  have "raise_to (f x) a \<le> m \<longleftrightarrow> a \<le> m \<and> (\<forall>n. parseEnergyID (f x) = Some n \<longrightarrow> n \<le> m)"
    by (auto simp: raise_to_def split: option.split)
  then show ?case using Cons by auto
qed simp

lemma energy_highest_le:
  "energy_highest gs \<le> m \<longleftrightarrow> eg_NextID gs \<le> m \<and>
     (\<forall>d \<in> set (eg_DataRecords gs). \<forall>n. parseEnergyID (ed_ID d) = Some n \<longrightarrow> n \<le> m) \<and>
     (\<forall>b \<in> set (eg_Batches gs). \<forall>n. parseEnergyID (bs_ID b) = Some n \<longrightarrow> n \<le> m)"
  unfolding energy_highest_def fold_raise_le by auto

definition booted :: "energy_GenesisState \<Rightarrow> energy_state" where
  "booted gs = (if energy_highest gs > 0 then (restored gs energy_empty)\<lparr>es_IDSequence := Some (energy_highest gs)\<rparr>
     else restored gs energy_empty)"

lemma InitGenesis_booted: "healthy E \<Longrightarrow> energy_InitGenesis E gs energy_empty = (None, booted gs)"
  by (simp add: energy_InitGenesis_healthy booted_def)

lemma booted_fields:
  "es_EnergyData (booted gs) = fold (\<lambda>d. fmupd (ed_ID d) d) (eg_DataRecords gs) fmempty"
  "es_Batches (booted gs) = fold (\<lambda>b. fmupd (bs_ID b) b) (eg_Batches gs) fmempty"
  "es_Params (booted gs) = Some (eg_Params gs)"
  "energy_seq (booted gs) = energy_highest gs"
proof -
  show "energy_seq (booted gs) = energy_highest gs"
    using restored_fields(4) [of gs] by (auto simp: booted_def energy_seq_def word_gt_0)
qed (simp_all add: booted_def restored_fields)

lemma booted_wf:
  assumes "distinct (map ed_ID (eg_DataRecords gs))"
  shows "energy_wf (booted gs)"
proof -
  have idx: "energy_cat.consistent (booted gs)" "energy_cat.complete (booted gs)"
    "energy_sub.consistent (booted gs)" "energy_sub.complete (booted gs)"
    using restored_indexes [OF assms] by (auto simp: booted_def energy_cat.consistent_def energy_cat.complete_def
        energy_sub.consistent_def energy_sub.complete_def)
  have "ids_below (energy_highest gs) (es_EnergyData (booted gs))" "ids_below (energy_highest gs) (es_Batches (booted gs))"
    using energy_highest_le [of gs "energy_highest gs"]
    by (fastforce simp: ids_below_def booted_fields dest: fold_fmupd_lookup)+
  then show ?thesis
    using idx unfolding energy_wf_def booted_fields by (auto dest: fold_fmupd_lookup)
qed

section \<open>Exporting\<close>

lemma energy_ExportGenesis_healthy:
  "healthy E \<Longrightarrow> energy_ExportGenesis E st = \<lparr>
     eg_Params = energy_GetParams E st,
     eg_DataRecords = map snd (entries (es_EnergyData st)),
     eg_Batches = map snd (entries (es_Batches st)),
     eg_NextID = energy_seq st\<rparr>"
  by (simp add: energy_ExportGenesis_def energy_getAllDataUnbounded_def energy_getAllBatchesUnbounded_def
      energy_GetCurrentID_def map_Walk_values energy_seq_def)

lemma export_distinct: "energy_wf st \<Longrightarrow> distinct (map ed_ID (map snd (entries (es_EnergyData st))))"
proof -
  assume wf: "energy_wf st"
  have "map ed_ID (map snd (entries (es_EnergyData st))) = map fst (entries (es_EnergyData st))"
    using wf by (auto simp: set_entries energy_wf_def)
  then show ?thesis by (metis distinct_entries)
qed

lemma export_import:
  assumes "healthy E" and wf: "energy_wf st"
  defines "st' \<equiv> booted (energy_ExportGenesis E st)"
  shows "es_EnergyData st' = es_EnergyData st \<and> es_Batches st' = es_Batches st \<and>
    es_ByCategory st' = es_ByCategory st \<and> es_BySubmitter st' = es_BySubmitter st \<and>
    energy_GetParams E st' = energy_GetParams E st \<and> energy_seq st' = energy_seq st"
proof -
  note ex = energy_ExportGenesis_healthy [OF assms(1), of st]
  have data: "es_EnergyData st' = es_EnergyData st" "es_Batches st' = es_Batches st"
    using wf unfolding st'_def booted_fields ex by (auto simp: energy_wf_def intro!: fold_fmupd_entries)
  have wf': "energy_wf st'"
    unfolding st'_def by (rule booted_wf) (simp only: ex energy_GenesisState.simps export_distinct [OF wf])
  have "es_ByCategory st' = es_ByCategory st"
    using wf wf' data energy_cat.index_lookup [of st] energy_cat.index_lookup [of st']
    by (intro index_determined) (auto simp: energy_wf_def)
  moreover have "es_BySubmitter st' = es_BySubmitter st"
    using wf wf' data energy_sub.index_lookup [of st] energy_sub.index_lookup [of st']
    by (intro index_determined) (auto simp: energy_wf_def)
  moreover have "energy_GetParams E st' = energy_GetParams E st"
    using assms(1) by (simp add: st'_def booted_fields ex energy_GetParams_def item_Get_def)
  moreover have "energy_highest (energy_ExportGenesis E st) = energy_seq st"
  proof (rule antisym)
    show "energy_highest (energy_ExportGenesis E st) \<le> energy_seq st"
      using wf unfolding energy_highest_le ex by (auto simp: energy_wf_def set_entries intro: ids_belowD)
    show "energy_seq st \<le> energy_highest (energy_ExportGenesis E st)"
      using energy_highest_le [of "energy_ExportGenesis E st" "energy_highest (energy_ExportGenesis E st)"]
      by (simp add: ex)
  qed
  ultimately show ?thesis using data by (simp add: st'_def booted_fields)
qed

end
