(* ===== verification/EnergyClaims.thy ===== *)
theory EnergyClaims
  imports EnergyGenesis SampleEnv
begin

text \<open>
  The properties of the energy module, each with a witness at a concrete input where it has
  hypotheses.
\<close>

section \<open>Sample messages\<close>

definition sample_submit :: MsgSubmitEnergyData where
  "sample_submit = NewMsgSubmitEnergyData ''alice'' ''solar'' ''h1'' ''m''"

definition sample_submit2 :: MsgSubmitEnergyData where
  "sample_submit2 = NewMsgSubmitEnergyData ''bob'' ''wind'' ''h2'' ''mm''"

definition sample_items :: "BatchItem list" where
  "sample_items = [\<lparr>bi_DataHash = ''h3'', bi_Metadata = []\<rparr>]"

definition sample_batch :: MsgBatchSubmit where
  "sample_batch = NewMsgBatchSubmit ''bob'' ''wind'' sample_items
     (EncodeToString (keccak256 sample_env (PutUint64 0 @ ''h3'')))"

definition sample_txs :: "(sdk_ctx \<times> energy_tx) list" where
  "sample_txs = [(sample_ctx, TxSubmit sample_submit), (sample_ctx, TxBatch sample_batch),
     (sample_ctx, NextBlock), (sample_ctx, TxSubmit sample_submit2)]"

lemma empty_fields [simp]: "energy_seq energy_empty = 0" "es_EnergyData energy_empty = fmempty"
    "es_transient energy_empty = fmempty"
  by (simp_all add: energy_seq_def energy_empty_def)

lemma sample_drawn [simp]: "ids_drawn sample_txs = 4"
  by (simp add: sample_txs_def sample_batch_def sample_items_def NewMsgBatchSubmit_def)

lemma sample_root: "verifyMerkleRoot sample_env sample_items (mb_MerkleRoot sample_batch) = None"
  by (simp add: verifyMerkleRoot_def sample_items_def sample_batch_def NewMsgBatchSubmit_def merkle_leaves_def
      merkle_leaf_def TrimPrefix_def)

lemma sample_params [simp]: "energy_GetParams sample_env energy_empty = energy_DefaultParams"
  by (simp add: energy_GetParams_def item_Get_def energy_empty_def)

lemma sample_submit_allowed: "submit_allowed sample_env sample_submit energy_empty"
  by (simp add: submit_allowed_def IsAllowedSubmitter_def energy_DefaultParams_def energy_bounds sample_submit_def
      NewMsgSubmitEnergyData_def u32_len_def energy_limit_def count_key_def)

lemma sample_batch_allowed: "batch_allowed sample_env sample_batch energy_empty"
  using sample_root
  by (simp add: batch_allowed_def IsAllowedSubmitter_def energy_DefaultParams_def energy_bounds sample_batch_def
      NewMsgBatchSubmit_def u32_len_def energy_limit_def count_key_def sample_items_def)

section \<open>Histories\<close>

text \<open>
  C1: the energy module implements an append-only ledger.  Whatever transactions and blocks are
  run from the empty state, the n-th identifier drawn names the n-th ledger entry, the two primary
  stores hold exactly the ledger's records and batches under their identifiers, both secondary
  indexes hold exactly the ledger's (field, id) pairs, and the sequence is the ledger's length; a
  refused transaction adds nothing.  The bound is the room of the 64-bit sequence.
\<close>
theorem energy_history_ledger:
  assumes "ids_drawn txs < 2 ^ 64"
  shows "ledger_rel (energy_ledger E auth txs energy_empty []) (energy_run E auth txs energy_empty)"
  by (rule ledger_run [OF ledger_empty]) (use assms in simp)

theorem energy_history_ledger_witness:
  "ids_drawn sample_txs = 4 \<and>
   ledger_rel (energy_ledger sample_env ''gov'' sample_txs energy_empty []) (energy_run sample_env ''gov'' sample_txs energy_empty)"
  using energy_history_ledger [of sample_txs sample_env "''gov''"] by simp

text \<open>
  From any well-formed state, no history of transactions overwrites, changes or deletes a
  stored record or batch, and every reached state is well-formed again: records stored under their
  own id, both indexes agreeing with the records in both directions, no stored id ahead of the
  sequence.
\<close>
theorem energy_history_append_only:
  assumes "energy_wf st" and "unat (energy_seq st) + ids_drawn txs < 2 ^ 64"
  shows "energy_wf (energy_run E auth txs st) \<and> energy_extends st (energy_run E auth txs st)"
  using assms by (rule energy_run_wf)

theorem energy_history_append_only_witness:
  "energy_wf (energy_run sample_env ''gov'' sample_txs energy_empty) \<and>
   energy_extends energy_empty (energy_run sample_env ''gov'' sample_txs energy_empty)"
  by (rule energy_history_append_only) (simp_all add: energy_wf_empty)

text \<open>
  On a store that does not fail, the registered invariants (\<^verbatim>\<open>AllInvariants\<close>) are never broken
  along a history that starts in a well-formed state within its metadata cap, provided parameter
  updates do not lower the cap.
\<close>
theorem energy_history_invariants:
  assumes "healthy E" and "energy_wf st" and "unat (energy_seq st) + ids_drawn txs < 2 ^ 64"
    and "cap_ok E st" and "sorted (cap_of E st # requested_caps txs)"
  shows "energy_AllInvariants E (energy_run E auth txs st) = None"
  using assms energy_run_wf [of st txs E auth] by (intro AllInvariants_ok cap_ok_run) simp_all

theorem energy_history_invariants_witness:
  "energy_AllInvariants sample_env (energy_run sample_env ''gov'' sample_txs energy_empty) = None"
proof (rule energy_history_invariants)
  show "cap_ok sample_env energy_empty"
    by (simp add: cap_ok_def cap_of_def energy_DefaultParams_valid)
qed (simp_all add: energy_wf_empty sample_txs_def sample_batch_def sample_items_def NewMsgBatchSubmit_def)

text \<open>
  Within a block (submissions and batches of any senders, interleaved in any order), at most
  the configured number of submissions of one sender is accepted, starting from the empty transient
  store of the block.
\<close>
theorem energy_block_rate_limit:
  assumes "\<forall>(ctx, tx) \<in> set txs. tx_sender tx \<noteq> None" and "energy_limit E st \<noteq> 0"
    and "es_transient st = fmempty"
  shows "accepted_by E auth a txs st \<le> unat (energy_limit E st)"
  using block_count [of txs E st a auth] assms by (simp add: count_key_def)

definition sample_limited :: energy_state where
  "sample_limited = energy_empty\<lparr>es_Params := Some (energy_DefaultParams\<lparr>ep_MaxSubmissionsPerBlockPerSubmitter := 1\<rparr>)\<rparr>"

theorem energy_block_rate_limit_witness:
  "accepted_by sample_env ''gov'' ''alice'' (replicate 3 (sample_ctx, TxSubmit sample_submit)) sample_limited \<le> 1"
  using energy_block_rate_limit [of "replicate 3 (sample_ctx, TxSubmit sample_submit)" sample_env sample_limited "''gov''" "''alice''"]
  by (simp add: sample_limited_def energy_limit_def energy_GetParams_def item_Get_def sample_submit_def NewMsgSubmitEnergyData_def)

section \<open>Handlers\<close>

text \<open>
  On a store that does not fail, \<^verbatim>\<open>SubmitEnergyData\<close> succeeds exactly when the sender is allowed,
  the metadata is within the cap and the sender has room left in the block; it then returns the next
  identifier and stores exactly the submitted record under it, in the primary store and both
  indexes.  A refused submission leaves the state as it was.
\<close>
theorem energy_submit_outcome:
  assumes "healthy E"
  shows "case msg_SubmitEnergyData E ctx msg st of
      (Inl e, st') \<Rightarrow> \<not> submit_allowed E msg st \<and> st' = st
    | (Inr ident, st') \<Rightarrow> submit_allowed E msg st \<and> ident = next_id st \<and>
        energy_seq st' = energy_seq st + 1 \<and>
        es_EnergyData st' = fmupd ident (submit_record ctx msg ident) (es_EnergyData st) \<and>
        es_ByCategory st' = finsert (ms_Category msg, ident) (es_ByCategory st) \<and>
        es_BySubmitter st' = finsert (ms_Submitter msg, ident) (es_BySubmitter st) \<and>
        es_Batches st' = es_Batches st \<and> es_Params st' = es_Params st"
proof (cases "submit_allowed E msg st")
  case True
  obtain t where t: "counted E (ms_Submitter msg) st = st\<lparr>es_transient := t\<rparr>"
    using counted_transient by blast
  show ?thesis
    using msg_SubmitEnergyData_healthy [OF assms True, of ctx] True
    by (auto simp: t put_new_def energy_store_def submit_record_def bump_seq_def emit_energy_def energy_seq_def next_id_def)
next
  case False
  then have "msg_SubmitEnergyData E ctx msg st = (Inl e, st') \<Longrightarrow> st' = st" for e st'
    using assms by (auto simp: msg_SubmitEnergyData_def Let_def CheckAndIncr_cases split: if_splits)
  then show ?thesis
    using msg_SubmitEnergyData_ok [of E ctx msg st] False by (auto split: prod.split sum.split)
qed

theorem energy_submit_outcome_witness:
  "fst (msg_SubmitEnergyData sample_env sample_ctx sample_submit energy_empty) = Inr ''energy-1''"
  using energy_submit_outcome [OF sample_healthy, of sample_submit energy_empty sample_ctx] sample_submit_allowed
  by (auto simp: next_id_def Sprint_d_examples split: prod.splits sum.splits)



text \<open>
  Only the configured authority changes the parameters, and only to a set that passes
  validation; every other update is refused with the matching error and changes nothing.
\<close>
theorem energy_UpdateParams_outcome:
  assumes "healthy E"
  shows "energy_UpdateParams E authority msg st =
    (if eu_Authority msg \<noteq> authority then (Inl (EWrongAuthority authority (eu_Authority msg)), st)
     else case energy_Params_Validate (eu_Params msg) of
        Some e \<Rightarrow> (Inl (EParamsInvalid e), st)
      | None \<Rightarrow> (Inr (), st\<lparr>es_Params := Some (eu_Params msg)\<rparr>))"
  using assms by (simp add: energy_UpdateParams_def split: option.split)

theorem energy_UpdateParams_outcome_witness:
  "fst (energy_UpdateParams sample_env ''gov'' \<lparr>eu_Authority = ''eve'', eu_Params = energy_DefaultParams\<rparr> energy_empty) =
     Inl (EWrongAuthority ''gov'' ''eve'') \<and>
   fst (energy_UpdateParams sample_env ''gov'' \<lparr>eu_Authority = ''gov'', eu_Params = energy_DefaultParams\<rparr> energy_empty) = Inr ()"
  using energy_UpdateParams_outcome [OF sample_healthy, of "''gov''"] by (simp add: energy_DefaultParams_valid)

section \<open>Genesis\<close>


definition sample_genesis :: energy_GenesisState where
  "sample_genesis = energy_DefaultGenesis\<lparr>
     eg_DataRecords := [submit_record sample_ctx sample_submit ''energy-7''], eg_NextID := 3\<rparr>"


text \<open>
  Exporting a well-formed state and importing the export into an empty store restores records,
  batches, both indexes, the parameters and the sequence.
\<close>
theorem energy_genesis_roundtrip:
  assumes "healthy E" and "energy_wf st"
  shows "\<exists>st'. energy_InitGenesis E (energy_ExportGenesis E st) energy_empty = (None, st') \<and>
    es_EnergyData st' = es_EnergyData st \<and> es_Batches st' = es_Batches st \<and>
    es_ByCategory st' = es_ByCategory st \<and> es_BySubmitter st' = es_BySubmitter st \<and>
    energy_GetParams E st' = energy_GetParams E st \<and> energy_GetCurrentID E st' = energy_GetCurrentID E st"
  using export_import [OF assms] InitGenesis_booted [OF assms(1)] assms(1)
  by (auto simp: energy_GetCurrentID_def energy_seq_def)

theorem energy_genesis_roundtrip_witness:
  "\<exists>st'. energy_InitGenesis sample_env (energy_ExportGenesis sample_env (energy_run sample_env ''gov'' sample_txs energy_empty))
       energy_empty = (None, st') \<and>
     es_EnergyData st' = es_EnergyData (energy_run sample_env ''gov'' sample_txs energy_empty)"
  using energy_genesis_roundtrip [OF sample_healthy, of "energy_run sample_env ''gov'' sample_txs energy_empty"]
    energy_run_wf [of energy_empty sample_txs sample_env "''gov''"] energy_wf_empty
  by auto

section \<open>Queries\<close>

text \<open>
  In a well-formed state, a page of the by-category query lists stored records of that
  category, each under its own id and none twice.
\<close>
theorem energy_query_ByCategory_sound:
  assumes "healthy E" and "energy_wf st" and "paginates paginate"
    and "energy_query_ByCategory E paginate st category req = Inr (page, next)"
  shows "distinct (map ed_ID page) \<and>
    (\<forall>d \<in> set page. ed_Category d = category \<and> fmlookup (es_EnergyData st) (ed_ID d) = Some d)"
proof -
  have hit: "\<exists>d. fmlookup (es_EnergyData st) i = Some d \<and> ed_ID d = i \<and> ed_Category d = category \<and>
      energy_resolve E st (category, i) = d" if mem: "(category, i) |\<in>| es_ByCategory st" for i
  proof -
    obtain d where "fmlookup (es_EnergyData st) i = Some d" "ed_Category d = category"
      using mem assms(2) unfolding energy_wf_def energy_cat.consistent_def by blast
    then show ?thesis
      using assms(1,2) by (simp add: energy_wf_def energy_resolve_def energy_GetEnergyData_healthy)
  qed
  have "paginate (keys (es_ByCategory st)) req category (energy_resolve E st) = Inr (page, next)"
    using assms(4) by (simp add: energy_query_ByCategory_def split: sum.splits)
  then obtain ks where "distinct ks" "\<forall>i \<in> set ks. (category, i) |\<in>| es_ByCategory st"
      "page = map (\<lambda>i. energy_resolve E st (category, i)) ks"
    using paginates_page [OF assms(3), where P = "\<lambda>_ _. True"] by blast
  moreover from this have "map ed_ID page = ks"
    using hit by (fastforce intro: map_idI)
  ultimately show ?thesis using hit by fastforce
qed

theorem energy_query_ByCategory_sound_witness:
  "distinct (map ed_ID (fst (projr (energy_query_ByCategory sample_env whole_page (put_new (submit_record sample_ctx sample_submit) energy_empty) ''solar'' ()))))"
proof -
  let ?st = "put_new (submit_record sample_ctx sample_submit) energy_empty"
  have wf: "energy_wf ?st"
    by (rule put_new_wf) (simp_all add: energy_wf_empty submit_record_def)
  obtain page where "energy_query_ByCategory sample_env whole_page ?st ''solar'' () = Inr (page, [])"
    by (simp add: energy_query_ByCategory_def whole_page_def)
  from energy_query_ByCategory_sound [OF sample_healthy wf whole_page_paginates this] this
  show ?thesis by simp
qed

section \<open>Limits of the guarantees\<close>

text \<open>
  The order inside a category is the byte order of the identifiers, not the order of
  insertion: with records 2 and 10 in one category, the index lists \<^verbatim>\<open>energy-10\<close> first.
\<close>
theorem energy_category_order_lexicographic:
  "keys (es_ByCategory (energy_store (submit_record ctx msg ''energy-10'')
      (energy_store (submit_record ctx msg ''energy-2'') energy_empty))) =
     [(ms_Category msg, ''energy-10''), (ms_Category msg, ''energy-2'')]"
  by (simp add: energy_store_def energy_empty_def submit_record_def keys_finsert less_eq_prod_def)

text \<open>
  C22: lowering the metadata cap is accepted by \<^verbatim>\<open>UpdateParams\<close> and can break the registered
  metadata invariant: any stored record longer than the new cap does.
\<close>
theorem energy_cap_shrink_breaks:
  assumes "healthy E" and "energy_Params_Validate p = None"
    and "fmlookup (es_EnergyData st) i = Some d" and "ep_MaxMetadataSize p < u32_len (ed_Metadata d)"
  shows "\<exists>st'. energy_UpdateParams E authority \<lparr>eu_Authority = authority, eu_Params = p\<rparr> st = (Inr (), st') \<and>
    energy_MetadataWithinCapInvariant E st' \<noteq> None"
proof (intro exI conjI)
  let ?st = "st\<lparr>es_Params := Some p\<rparr>"
  show "energy_UpdateParams E authority \<lparr>eu_Authority = authority, eu_Params = p\<rparr> st = (Inr (), ?st)"
    using assms(1,2) by (simp add: energy_UpdateParams_def)
  have "ep_MaxMetadataSize p \<noteq> 0" using assms(2) by (auto simp: energy_Params_Validate_iff)
  then show "energy_MetadataWithinCapInvariant E ?st \<noteq> None"
    using assms by (auto simp: energy_MetadataWithinCap_iff not_le)
qed

definition sample_long :: energy_state where
  "sample_long = energy_store \<lparr>ed_ID = ''energy-1'', ed_Category = ''c'', ed_Submitter = ''s'', ed_DataHash = ''h'',
     ed_Metadata = replicate 200 (CHR ''m''), ed_BlockHeight = 1, ed_Timestamp = 1\<rparr> energy_empty"

theorem energy_cap_shrink_breaks_witness:
  "energy_MetadataWithinCapInvariant sample_env sample_long = None \<and>
   (\<exists>st'. energy_UpdateParams sample_env ''gov'' \<lparr>eu_Authority = ''gov'',
       eu_Params = energy_DefaultParams\<lparr>ep_MaxMetadataSize := 128\<rparr>\<rparr> sample_long = (Inr (), st') \<and>
     energy_MetadataWithinCapInvariant sample_env st' \<noteq> None)"
proof
  have "energy_GetParams sample_env sample_long = energy_DefaultParams"
    by (simp add: sample_long_def energy_store_def energy_empty_def energy_GetParams_def item_Get_def)
  then show "energy_MetadataWithinCapInvariant sample_env sample_long = None"
    by (simp add: energy_MetadataWithinCap_iff energy_DefaultParams_def energy_bounds)
      (simp add: sample_long_def energy_store_def u32_len_def)
  show "\<exists>st'. energy_UpdateParams sample_env ''gov'' \<lparr>eu_Authority = ''gov'',
       eu_Params = energy_DefaultParams\<lparr>ep_MaxMetadataSize := 128\<rparr>\<rparr> sample_long = (Inr (), st') \<and>
     energy_MetadataWithinCapInvariant sample_env st' \<noteq> None"
  proof (rule energy_cap_shrink_breaks [OF sample_healthy, where i = "''energy-1''"])
    show "fmlookup (es_EnergyData sample_long) ''energy-1'' = Some \<lparr>ed_ID = ''energy-1'', ed_Category = ''c'',
        ed_Submitter = ''s'', ed_DataHash = ''h'', ed_Metadata = replicate 200 (CHR ''m''), ed_BlockHeight = 1, ed_Timestamp = 1\<rparr>"
      by (simp add: sample_long_def energy_store_def)
  qed (simp_all add: energy_Params_Validate_iff energy_DefaultParams_def energy_bounds u32_len_def)
qed

text \<open>
  C23: \<^verbatim>\<open>Validate\<close> does not bound \<^verbatim>\<open>NextID\<close>.  A validated genesis whose \<^verbatim>\<open>NextID\<close> is the largest
  uint64 boots, and its second accepted submission wraps the sequence past zero and overwrites the
  stored record \<^verbatim>\<open>energy-1\<close>.
\<close>
theorem energy_NextID_wraps:
  assumes "healthy E" and "eg_NextID gs = - 1"
    and "energy_InitGenesis E gs energy_empty = (None, st0)"
    and "msg_SubmitEnergyData E ctx1 m1 st0 = (Inr i1, st1)" and "msg_SubmitEnergyData E ctx2 m2 st1 = (Inr i2, st2)"
  shows "i1 = ''energy-0'' \<and> i2 = ''energy-1'' \<and>
    energy_GetEnergyData E st2 ''energy-1'' = (submit_record ctx2 m2 ''energy-1'', True)"
proof -
  have "energy_highest gs \<ge> - 1"
    using energy_highest_le [of gs "energy_highest gs"] assms(2) by simp
  then have "energy_seq st0 = - 1"
    using assms(1,3) booted_fields(4) [of gs] word_order.extremum_unique [of "energy_highest gs"]
    by (simp add: InitGenesis_booted)
  then have i1: "i1 = ''energy-0''" and "energy_seq st1 = 0"
    using msg_SubmitEnergyData_ok [OF assms(4)] by (auto simp: next_id_def Sprint_d_examples)
  then have "i2 = ''energy-1''" and "fmlookup (es_EnergyData st2) i2 = Some (submit_record ctx2 m2 i2)"
    using msg_SubmitEnergyData_ok [OF assms(5)]
    by (auto simp: next_id_def Sprint_d_examples put_new_def energy_store_def submit_record_def)
  then show ?thesis using i1 assms(1) by (simp add: energy_GetEnergyData_healthy)
qed

definition sample_wrap :: energy_GenesisState where
  "sample_wrap = energy_DefaultGenesis\<lparr>eg_DataRecords := [submit_record sample_ctx sample_submit ''energy-1''], eg_NextID := - 1\<rparr>"

lemma sample_wrap_submits:
  "\<exists>st1 st2 i1 i2. msg_SubmitEnergyData sample_env sample_ctx sample_submit2 (booted sample_wrap) = (Inr i1, st1) \<and>
     msg_SubmitEnergyData sample_env sample_ctx sample_submit2 st1 = (Inr i2, st2)"
proof -
  have p: "energy_GetParams sample_env (booted sample_wrap) = energy_DefaultParams"
    by (simp add: energy_GetParams_def item_Get_def booted_fields sample_wrap_def energy_DefaultGenesis_def)
  have t: "es_transient (booted sample_wrap) = fmempty"
    by (simp add: booted_def restored_def sample_wrap_def energy_DefaultGenesis_def energy_store_def)
  have a: "submit_allowed sample_env sample_submit2 st"
    if "energy_GetParams sample_env st = energy_DefaultParams" "count_key ''bob'' st < 100" for st
    using that by (simp add: submit_allowed_def IsAllowedSubmitter_def energy_DefaultParams_def energy_bounds
        sample_submit2_def NewMsgSubmitEnergyData_def u32_len_def energy_limit_def)
  obtain ev1 where 1: "msg_SubmitEnergyData sample_env sample_ctx sample_submit2 (booted sample_wrap) =
      (Inr (next_id (booted sample_wrap)), emit_energy ev1 (put_new (submit_record sample_ctx sample_submit2)
         (counted sample_env ''bob'' (booted sample_wrap))))" (is "_ = (_, ?st1)")
    using msg_SubmitEnergyData_healthy [OF sample_healthy a [OF p]] t
    by (auto simp: count_key_def sample_submit2_def NewMsgSubmitEnergyData_def)
  have "count_key ''bob'' ?st1 < 100"
    using t p by (simp add: count_key_counted) (simp add: count_key_def)
  then obtain ev2 where "msg_SubmitEnergyData sample_env sample_ctx sample_submit2 ?st1 =
      (Inr (next_id ?st1), emit_energy ev2 (put_new (submit_record sample_ctx sample_submit2) (counted sample_env ''bob'' ?st1)))"
    using msg_SubmitEnergyData_healthy [OF sample_healthy a, of ?st1 sample_ctx] p
    by (auto simp: sample_submit2_def NewMsgSubmitEnergyData_def)
  with 1 show ?thesis by blast
qed

theorem energy_NextID_wraps_witness:
  "energy_Genesis_Validate sample_wrap = None \<and>
   (\<exists>st1 st2 i1. msg_SubmitEnergyData sample_env sample_ctx sample_submit2 (booted sample_wrap) = (Inr i1, st1) \<and>
     msg_SubmitEnergyData sample_env sample_ctx sample_submit2 st1 = (Inr ''energy-1'', st2))"
proof
  show "energy_Genesis_Validate sample_wrap = None"
    by (simp add: energy_Genesis_Validate_None sample_wrap_def energy_DefaultGenesis_def energy_Params_Validate_iff
        submit_record_def sample_submit_def NewMsgSubmitEnergyData_def u32_len_def energy_DefaultParams_def energy_bounds)
  show "\<exists>st1 st2 i1. msg_SubmitEnergyData sample_env sample_ctx sample_submit2 (booted sample_wrap) = (Inr i1, st1) \<and>
     msg_SubmitEnergyData sample_env sample_ctx sample_submit2 st1 = (Inr ''energy-1'', st2)"
    using sample_wrap_submits energy_NextID_wraps [OF sample_healthy _ InitGenesis_booted [OF sample_healthy], of sample_wrap]
    by (metis (no_types, lifting) energy_GenesisState.select_convs(4) energy_GenesisState.surjective
        energy_GenesisState.update_convs(4) sample_wrap_def)
qed

end
