(* ===== verification/OracleTypes.thy ===== *)
theory OracleTypes
  imports GoStrings
begin

text \<open>
  \<^verbatim>\<open>x/oracle/types\<close>: records, messages, parameters, genesis validation and stateless message checks
  of the oracle module.  Timestamps are int64; every comparison of them is signed.
\<close>

section \<open>Records\<close>

record OracleData =
  od_Category :: string
  od_Value :: string
  od_Metadata :: string
  od_Timestamp :: int64
  od_Submitter :: string
  od_BlockHeight :: int64

definition zero_OracleData :: OracleData where
  "zero_OracleData = \<lparr>od_Category = [], od_Value = [], od_Metadata = [], od_Timestamp = 0,
     od_Submitter = [], od_BlockHeight = 0\<rparr>"

record OracleInfo =
  oi_Address :: string
  oi_Name :: string
  oi_Active :: bool
  oi_AuthorizedCategories :: "string list"

definition zero_OracleInfo :: OracleInfo where
  "zero_OracleInfo = \<lparr>oi_Address = [], oi_Name = [], oi_Active = False, oi_AuthorizedCategories = []\<rparr>"

record oracle_Params =
  op_MinSubmissions :: uint32
  op_DataMaxAge :: int64
  op_MaxMetadataSize :: uint32

record MsgSubmitData =
  od_ms_Submitter :: string
  od_ms_Category :: string
  od_ms_Value :: string
  od_ms_Metadata :: string
  od_ms_Timestamp :: int64

record MsgAddOracle =
  ma_Authority :: string
  ma_OracleAddress :: string
  ma_Name :: string
  ma_AuthorizedCategories :: "string list"

record MsgRemoveOracle =
  mr_Authority :: string
  mr_OracleAddress :: string

record oracle_MsgUpdateParams =
  ou_Authority :: string
  ou_Params :: oracle_Params

record oracle_GenesisState =
  og_Params :: oracle_Params
  og_Oracles :: "OracleInfo list"
  og_Data :: "OracleData list"

section \<open>Authorization\<close>

definition IsAuthorizedFor :: "OracleInfo \<Rightarrow> string \<Rightarrow> bool" where
  "IsAuthorizedFor o1 category =
     (if \<not> oi_Active o1 then False
      else if oi_AuthorizedCategories o1 = [] then True
      else list_ex (\<lambda>c. c = category) (oi_AuthorizedCategories o1))"

section \<open>Parameters\<close>

definition OracleMaxMetadataLowerBound :: uint32 where "OracleMaxMetadataLowerBound = 128"
definition OracleMaxMetadataUpperBound :: uint32 where "OracleMaxMetadataUpperBound = 65536"
definition OracleDataMaxAgeUpperBound :: int64 where "OracleDataMaxAgeUpperBound = 31536000"
definition DefaultOracleMaxMetadata :: uint32 where "DefaultOracleMaxMetadata = 4096"

lemmas oracle_bounds =
  OracleMaxMetadataLowerBound_def OracleMaxMetadataUpperBound_def OracleDataMaxAgeUpperBound_def
  DefaultOracleMaxMetadata_def

definition oracle_DefaultParams :: oracle_Params where
  "oracle_DefaultParams = \<lparr>op_MinSubmissions = 1, op_DataMaxAge = 3600, op_MaxMetadataSize = DefaultOracleMaxMetadata\<rparr>"

datatype oracle_param_error =
    OMinSubmissionsNotPositive
  | ODataMaxAgeNotPositive
  | ODataMaxAgeExceeds int64 int64
  | OMaxMetadataSizeBelow uint32 uint32
  | OMaxMetadataSizeExceeds uint32 uint32

definition oracle_Params_Validate :: "oracle_Params \<Rightarrow> oracle_param_error option" where
  "oracle_Params_Validate p =
     (if op_MinSubmissions p = 0 then Some OMinSubmissionsNotPositive
      else if op_DataMaxAge p \<le>s 0 then Some ODataMaxAgeNotPositive
      else if OracleDataMaxAgeUpperBound <s op_DataMaxAge p
        then Some (ODataMaxAgeExceeds (op_DataMaxAge p) OracleDataMaxAgeUpperBound)
      else if op_MaxMetadataSize p < OracleMaxMetadataLowerBound
        then Some (OMaxMetadataSizeBelow (op_MaxMetadataSize p) OracleMaxMetadataLowerBound)
      else if op_MaxMetadataSize p > OracleMaxMetadataUpperBound
        then Some (OMaxMetadataSizeExceeds (op_MaxMetadataSize p) OracleMaxMetadataUpperBound)
      else None)"

section \<open>Genesis\<close>

definition oracle_DefaultGenesis :: oracle_GenesisState where
  "oracle_DefaultGenesis = \<lparr>og_Params = oracle_DefaultParams, og_Oracles = [], og_Data = []\<rparr>"

datatype oracle_genesis_error =
    OGInvalidParams oracle_param_error
  | OGOracleEmptyAddress nat
  | OGOracleDuplicate string
  | OGOracleEmptyName nat
  | OGDataEmptyCategory nat
  | OGDataEmptyValue nat
  | OGDataTimestampNotPositive nat int64
  | OGDataTimestampTooLarge nat int64
  | OGDataUnknownOracle nat string
  | OGDataMetadataSize nat nat uint32
  | OGDataDuplicate nat string int64

definition maxTimestamp :: int64 where
  "maxTimestamp = 253402300800"

text \<open>The two loops of \<^verbatim>\<open>Validate\<close>; the first also returns the set of addresses it has seen.\<close>

fun validate_oracles :: "nat \<Rightarrow> string set \<Rightarrow> OracleInfo list \<Rightarrow> oracle_genesis_error + string set" where
  "validate_oracles i addrs [] = Inr addrs"
| "validate_oracles i addrs (o1 # os) =
     (if oi_Address o1 = [] then Inl (OGOracleEmptyAddress i)
      else if oi_Address o1 \<in> addrs then Inl (OGOracleDuplicate (oi_Address o1))
      else if oi_Name o1 = [] then Inl (OGOracleEmptyName i)
      else validate_oracles (Suc i) (insert (oi_Address o1) addrs) os)"

fun validate_oracle_data ::
  "uint32 \<Rightarrow> string set \<Rightarrow> nat \<Rightarrow> (string \<times> int64) set \<Rightarrow> OracleData list \<Rightarrow> oracle_genesis_error option" where
  "validate_oracle_data cap addrs i seen [] = None"
| "validate_oracle_data cap addrs i seen (d # ds) =
     (if od_Category d = [] then Some (OGDataEmptyCategory i)
      else if od_Value d = [] then Some (OGDataEmptyValue i)
      else if od_Timestamp d \<le>s 0 then Some (OGDataTimestampNotPositive i (od_Timestamp d))
      else if maxTimestamp <s od_Timestamp d then Some (OGDataTimestampTooLarge i (od_Timestamp d))
      else if od_Submitter d \<noteq> [] \<and> od_Submitter d \<notin> addrs then Some (OGDataUnknownOracle i (od_Submitter d))
      else if u32_len (od_Metadata d) > cap then Some (OGDataMetadataSize i (length (od_Metadata d)) cap)
      else if (od_Category d, od_Timestamp d) \<in> seen then Some (OGDataDuplicate i (od_Category d) (od_Timestamp d))
      else validate_oracle_data cap addrs (Suc i) (insert (od_Category d, od_Timestamp d) seen) ds)"

definition oracle_Genesis_Validate :: "oracle_GenesisState \<Rightarrow> oracle_genesis_error option" where
  "oracle_Genesis_Validate gs =
     (case oracle_Params_Validate (og_Params gs) of
        Some e \<Rightarrow> Some (OGInvalidParams e)
      | None \<Rightarrow>
          (case validate_oracles 0 {} (og_Oracles gs) of
             Inl e \<Rightarrow> Some e
           | Inr addrs \<Rightarrow> validate_oracle_data (op_MaxMetadataSize (og_Params gs)) addrs 0 {} (og_Data gs)))"

section \<open>Stateless message checks\<close>

datatype oracle_basic_error =
    OInvalidSubmitter string
  | OCategoryEmpty
  | OValueEmpty
  | OTimestampNotPositive
  | OInvalidAuthority string
  | OInvalidOracleAddress string
  | ONameEmpty
  | OInvalidParams oracle_param_error

definition NewMsgSubmitData :: "string \<Rightarrow> string \<Rightarrow> string \<Rightarrow> string \<Rightarrow> int64 \<Rightarrow> MsgSubmitData" where
  "NewMsgSubmitData submitter category val metadata timestamp =
     \<lparr>od_ms_Submitter = submitter, od_ms_Category = category, od_ms_Value = val, od_ms_Metadata = metadata,
      od_ms_Timestamp = timestamp\<rparr>"

definition MsgSubmitData_ValidateBasic :: "env \<Rightarrow> MsgSubmitData \<Rightarrow> oracle_basic_error option" where
  "MsgSubmitData_ValidateBasic E msg =
     (case AccAddressFromBech32 E (od_ms_Submitter msg) of
        Inl e \<Rightarrow> Some (OInvalidSubmitter e)
      | Inr _ \<Rightarrow>
          if od_ms_Category msg = [] then Some OCategoryEmpty
          else if od_ms_Value msg = [] then Some OValueEmpty
          else if od_ms_Timestamp msg \<le>s 0 then Some OTimestampNotPositive
          else None)"

definition MsgSubmitData_GetSigners :: "env \<Rightarrow> MsgSubmitData \<Rightarrow> bytes list" where
  "MsgSubmitData_GetSigners E msg = signer_of E (od_ms_Submitter msg)"

definition NewMsgAddOracle :: "string \<Rightarrow> string \<Rightarrow> string \<Rightarrow> string list \<Rightarrow> MsgAddOracle" where
  "NewMsgAddOracle authority oracleAddress nm categories =
     \<lparr>ma_Authority = authority, ma_OracleAddress = oracleAddress, ma_Name = nm, ma_AuthorizedCategories = categories\<rparr>"

definition MsgAddOracle_ValidateBasic :: "env \<Rightarrow> MsgAddOracle \<Rightarrow> oracle_basic_error option" where
  "MsgAddOracle_ValidateBasic E msg =
     (case AccAddressFromBech32 E (ma_Authority msg) of
        Inl e \<Rightarrow> Some (OInvalidAuthority e)
      | Inr _ \<Rightarrow>
          (case AccAddressFromBech32 E (ma_OracleAddress msg) of
             Inl e \<Rightarrow> Some (OInvalidOracleAddress e)
           | Inr _ \<Rightarrow> if ma_Name msg = [] then Some ONameEmpty else None))"

definition MsgAddOracle_GetSigners :: "env \<Rightarrow> MsgAddOracle \<Rightarrow> bytes list" where
  "MsgAddOracle_GetSigners E msg = signer_of E (ma_Authority msg)"

definition NewMsgRemoveOracle :: "string \<Rightarrow> string \<Rightarrow> MsgRemoveOracle" where
  "NewMsgRemoveOracle authority oracleAddress = \<lparr>mr_Authority = authority, mr_OracleAddress = oracleAddress\<rparr>"

definition MsgRemoveOracle_ValidateBasic :: "env \<Rightarrow> MsgRemoveOracle \<Rightarrow> oracle_basic_error option" where
  "MsgRemoveOracle_ValidateBasic E msg =
     (case AccAddressFromBech32 E (mr_Authority msg) of
        Inl e \<Rightarrow> Some (OInvalidAuthority e)
      | Inr _ \<Rightarrow>
          (case AccAddressFromBech32 E (mr_OracleAddress msg) of
             Inl e \<Rightarrow> Some (OInvalidOracleAddress e)
           | Inr _ \<Rightarrow> None))"

definition MsgRemoveOracle_GetSigners :: "env \<Rightarrow> MsgRemoveOracle \<Rightarrow> bytes list" where
  "MsgRemoveOracle_GetSigners E msg = signer_of E (mr_Authority msg)"

definition oracle_MsgUpdateParams_ValidateBasic :: "env \<Rightarrow> oracle_MsgUpdateParams \<Rightarrow> oracle_basic_error option" where
  "oracle_MsgUpdateParams_ValidateBasic E msg =
     (case AccAddressFromBech32 E (ou_Authority msg) of
        Inl e \<Rightarrow> Some (OInvalidAuthority e)
      | Inr _ \<Rightarrow> map_option OInvalidParams (oracle_Params_Validate (ou_Params msg)))"

definition oracle_MsgUpdateParams_GetSigners :: "env \<Rightarrow> oracle_MsgUpdateParams \<Rightarrow> bytes list" where
  "oracle_MsgUpdateParams_GetSigners E msg = signer_of E (ou_Authority msg)"

section \<open>What validation guarantees\<close>

lemma oracle_DefaultParams_valid: "oracle_Params_Validate oracle_DefaultParams = None"
  by (simp add: oracle_Params_Validate_def oracle_DefaultParams_def oracle_bounds word_sle_eq word_sless_alt)

lemma oracle_Params_Validate_None:
  "oracle_Params_Validate p = None \<longleftrightarrow>
     0 < op_MinSubmissions p \<and> 0 <s op_DataMaxAge p \<and> op_DataMaxAge p \<le>s 31536000 \<and>
     128 \<le> op_MaxMetadataSize p \<and> op_MaxMetadataSize p \<le> 65536"
  by (auto simp: oracle_Params_Validate_def oracle_bounds word_gt_0 not_less word_sle_eq word_sless_alt)

lemma validate_oracles_Inr:
  "validate_oracles i addrs os = Inr addrs' \<longleftrightarrow>
     distinct (map oi_Address os) \<and> set (map oi_Address os) \<inter> addrs = {} \<and>
     (\<forall>o1 \<in> set os. oi_Address o1 \<noteq> [] \<and> oi_Name o1 \<noteq> []) \<and> addrs' = addrs \<union> set (map oi_Address os)"
  by (induction i addrs os rule: validate_oracles.induct) auto

text \<open>The stamps a datapoint may carry in a genesis.\<close>

definition data_well_formed :: "uint32 \<Rightarrow> string set \<Rightarrow> OracleData \<Rightarrow> bool" where
  "data_well_formed cap addrs d \<longleftrightarrow> od_Category d \<noteq> [] \<and> od_Value d \<noteq> [] \<and>
     0 <s od_Timestamp d \<and> od_Timestamp d \<le>s maxTimestamp \<and>
     (od_Submitter d = [] \<or> od_Submitter d \<in> addrs) \<and> u32_len (od_Metadata d) \<le> cap"

lemma validate_oracle_data_None:
  "validate_oracle_data cap addrs i seen ds = None \<longleftrightarrow>
     distinct (map (\<lambda>d. (od_Category d, od_Timestamp d)) ds) \<and>
     set (map (\<lambda>d. (od_Category d, od_Timestamp d)) ds) \<inter> seen = {} \<and>
     (\<forall>d \<in> set ds. data_well_formed cap addrs d)"
proof (induction cap addrs i seen ds rule: validate_oracle_data.induct)
  case (2 cap addrs i seen d ds)
  have "\<not> od_Timestamp d \<le>s 0 \<longleftrightarrow> 0 <s od_Timestamp d" "\<not> maxTimestamp <s od_Timestamp d \<longleftrightarrow> od_Timestamp d \<le>s maxTimestamp"
    by (auto simp: word_sle_eq word_sless_alt)
  then show ?case using 2 by (auto simp: data_well_formed_def not_less)
qed simp

lemma oracle_Genesis_Validate_None:
  "oracle_Genesis_Validate gs = None \<longleftrightarrow>
     oracle_Params_Validate (og_Params gs) = None \<and>
     distinct (map oi_Address (og_Oracles gs)) \<and> (\<forall>o1 \<in> set (og_Oracles gs). oi_Address o1 \<noteq> [] \<and> oi_Name o1 \<noteq> []) \<and>
     distinct (map (\<lambda>d. (od_Category d, od_Timestamp d)) (og_Data gs)) \<and>
     (\<forall>d \<in> set (og_Data gs). data_well_formed (op_MaxMetadataSize (og_Params gs)) (set (map oi_Address (og_Oracles gs))) d)"
proof (cases "validate_oracles 0 {} (og_Oracles gs)")
  case (Inl e)
  then show ?thesis
    using validate_oracles_Inr [of 0 "{}" "og_Oracles gs" "set (map oi_Address (og_Oracles gs))"]
    by (auto simp: oracle_Genesis_Validate_def)
next
  case (Inr addrs)
  then have "addrs = set (map oi_Address (og_Oracles gs))" "distinct (map oi_Address (og_Oracles gs))"
      "\<forall>o1 \<in> set (og_Oracles gs). oi_Address o1 \<noteq> [] \<and> oi_Name o1 \<noteq> []"
    using validate_oracles_Inr [of 0 "{}" "og_Oracles gs" addrs] by auto
  then show ?thesis
    using Inr by (auto simp: oracle_Genesis_Validate_def validate_oracle_data_None)
qed

end
