(* ===== verification/OracleKeeper.thy ===== *)
theory OracleKeeper
  imports CollStore OracleTypes TxHistory
begin

text \<open>
  \<^verbatim>\<open>x/oracle/keeper\<close>: the state of the oracle module, its keeper operations, message and query
  servers and registered invariants, in the order of the sources.
\<close>

section \<open>State\<close>

record oracle_state =
  os_Params :: "oracle_Params option"
  os_Oracles :: "(string, OracleInfo) fmap"
  os_Data :: "(string \<times> uint64, OracleData) fmap"
  os_LatestData :: "(string, OracleData) fmap"
  os_events :: "event list"

definition oracle_empty :: oracle_state where
  "oracle_empty = \<lparr>os_Params = None, os_Oracles = fmempty, os_Data = fmempty, os_LatestData = fmempty, os_events = []\<rparr>"

definition oracle_coll_params :: "unit coll" where
  "oracle_coll_params = \<lparr>c_prefix = 0, c_name = ''params'', c_key = ItemKey\<rparr>"
definition oracle_coll_oracles :: "string coll" where
  "oracle_coll_oracles = \<lparr>c_prefix = 2, c_name = ''oracles'', c_key = StringKey\<rparr>"
definition oracle_coll_data :: "(string \<times> uint64) coll" where
  "oracle_coll_data = \<lparr>c_prefix = 1, c_name = ''oracle_data'', c_key = PairKeyCodec StringKey Uint64Key\<rparr>"
definition oracle_coll_latest :: "string coll" where
  "oracle_coll_latest = \<lparr>c_prefix = 3, c_name = ''latest_data'', c_key = StringKey\<rparr>"

definition oracle_schema :: "(nat \<times> string) list" where
  "oracle_schema =
     [(c_prefix oracle_coll_params, c_name oracle_coll_params),
      (c_prefix oracle_coll_oracles, c_name oracle_coll_oracles),
      (c_prefix oracle_coll_data, c_name oracle_coll_data),
      (c_prefix oracle_coll_latest, c_name oracle_coll_latest)]"

datatype oracle_error =
    OStoreData coll_err
  | OStoreLatest coll_err
  | OStoreOracle coll_err
  | OStoreParams coll_err
  | OGenesisParams oracle_error
  | OGenesisOracle nat oracle_error
  | OGenesisData nat oracle_error

section \<open>Oracle data\<close>

definition timestampToKey :: "int64 \<Rightarrow> uint64" where
  "timestampToKey ts = (if ts <s 0 then 0 else ts)"

definition SetOracleData :: "env \<Rightarrow> OracleData \<Rightarrow> oracle_state \<Rightarrow> oracle_error option \<times> oracle_state" where
  "SetOracleData E data st =
     (case map_Set E oracle_coll_data (os_Data st) (od_Category data, timestampToKey (od_Timestamp data)) data of
        (Some e, m) \<Rightarrow> (Some (OStoreData e), st\<lparr>os_Data := m\<rparr>)
      | (None, m) \<Rightarrow>
          let st1 = st\<lparr>os_Data := m\<rparr> in
          (case map_Set E oracle_coll_latest (os_LatestData st1) (od_Category data) data of
             (Some e, l) \<Rightarrow> (Some (OStoreLatest e), st1\<lparr>os_LatestData := l\<rparr>)
           | (None, l) \<Rightarrow> (None, st1\<lparr>os_LatestData := l\<rparr>)))"

definition GetLatestData :: "env \<Rightarrow> oracle_state \<Rightarrow> string \<Rightarrow> OracleData \<times> bool" where
  "GetLatestData E st category =
     (case map_Get E oracle_coll_latest (os_LatestData st) category of
        Inl _ \<Rightarrow> (zero_OracleData, False)
      | Inr d \<Rightarrow> (d, True))"

definition oracle_SetParams :: "env \<Rightarrow> oracle_Params \<Rightarrow> oracle_state \<Rightarrow> oracle_error option \<times> oracle_state" where
  "oracle_SetParams E params st =
     (case item_Set E oracle_coll_params (os_Params st) params of
        (Some e, i) \<Rightarrow> (Some (OStoreParams e), st\<lparr>os_Params := i\<rparr>)
      | (None, i) \<Rightarrow> (None, st\<lparr>os_Params := i\<rparr>))"

definition oracle_GetParams :: "env \<Rightarrow> oracle_state \<Rightarrow> oracle_Params" where
  "oracle_GetParams E st =
     (case item_Get E oracle_coll_params (os_Params st) of
        Inl _ \<Rightarrow> oracle_DefaultParams
      | Inr params \<Rightarrow> params)"

text \<open>\<^verbatim>\<open>GetFreshLatestData\<close> returns the datapoint, whether it was found, and whether it is stale.\<close>

definition GetFreshLatestData :: "env \<Rightarrow> sdk_ctx \<Rightarrow> oracle_state \<Rightarrow> string \<Rightarrow> OracleData \<times> bool \<times> bool" where
  "GetFreshLatestData E ctx st category =
     (case GetLatestData E st category of
        (data, found) \<Rightarrow>
          if \<not> found then (data, False, False)
          else
            let maxAge = op_DataMaxAge (oracle_GetParams E st) in
            if maxAge \<le>s 0 then (data, True, False)
            else if maxAge <s BlockTimeUnix ctx - od_Timestamp data then (data, True, True)
            else (data, True, False))"

definition MaxHistoryResults :: nat where
  "MaxHistoryResults = 1000"

definition history_range :: "string \<Rightarrow> int64 \<Rightarrow> int64 \<Rightarrow> string \<times> uint64 \<Rightarrow> bool" where
  "history_range category fromTime toTime k \<longleftrightarrow>
     (let endTS = (if toTime < - 1 then toTime + 1 else toTime)
      in fst k = category \<and> fromTime \<le> snd k \<and> snd k < endTS)"

definition GetDataHistory :: "env \<Rightarrow> oracle_state \<Rightarrow> string \<Rightarrow> int64 \<Rightarrow> int64 \<Rightarrow> OracleData list" where
  "GetDataHistory E st category fromTime toTime =
     (if category = [] \<or> fromTime <s 0 \<or> toTime <s fromTime then []
      else snd (map_Walk E oracle_coll_data (os_Data st) (history_range category fromTime toTime)
        (\<lambda>_ v results. let results' = results @ [v] in (MaxHistoryResults \<le> length results', results')) []))"

section \<open>Oracle management\<close>

definition keeper_AddOracle :: "env \<Rightarrow> OracleInfo \<Rightarrow> oracle_state \<Rightarrow> oracle_error option \<times> oracle_state" where
  "keeper_AddOracle E oracle st =
     (case map_Set E oracle_coll_oracles (os_Oracles st) (oi_Address oracle) oracle of
        (Some e, m) \<Rightarrow> (Some (OStoreOracle e), st\<lparr>os_Oracles := m\<rparr>)
      | (None, m) \<Rightarrow> (None, st\<lparr>os_Oracles := m\<rparr>))"

text \<open>A failure to remove is only logged.\<close>

definition keeper_RemoveOracle :: "env \<Rightarrow> string \<Rightarrow> oracle_state \<Rightarrow> oracle_state" where
  "keeper_RemoveOracle E address st =
     (case map_Remove E oracle_coll_oracles (os_Oracles st) address of (_, m) \<Rightarrow> st\<lparr>os_Oracles := m\<rparr>)"

definition GetOracle :: "env \<Rightarrow> oracle_state \<Rightarrow> string \<Rightarrow> OracleInfo \<times> bool" where
  "GetOracle E st address =
     (case map_Get E oracle_coll_oracles (os_Oracles st) address of
        Inl _ \<Rightarrow> (zero_OracleInfo, False)
      | Inr info \<Rightarrow> (info, True))"

definition IsAuthorizedOracle :: "env \<Rightarrow> oracle_state \<Rightarrow> string \<Rightarrow> string \<Rightarrow> bool" where
  "IsAuthorizedOracle E st address category =
     (case GetOracle E st address of
        (oracle, found) \<Rightarrow> if \<not> found then False else IsAuthorizedFor oracle category)"

definition MaxOracles :: nat where
  "MaxOracles = 1000"

definition GetAllOracles :: "env \<Rightarrow> oracle_state \<Rightarrow> OracleInfo list" where
  "GetAllOracles E st =
     snd (map_Walk E oracle_coll_oracles (os_Oracles st) no_range
       (\<lambda>_ v oracles. let oracles' = oracles @ [v] in (MaxOracles \<le> length oracles', oracles')) [])"

section \<open>Genesis\<close>

fun oracle_restore_oracles :: "env \<Rightarrow> nat \<Rightarrow> OracleInfo list \<Rightarrow> oracle_state \<Rightarrow> oracle_error option \<times> oracle_state" where
  "oracle_restore_oracles E i [] st = (None, st)"
| "oracle_restore_oracles E i (o1 # os) st =
     (case keeper_AddOracle E o1 st of
        (Some e, st') \<Rightarrow> (Some (OGenesisOracle i e), st')
      | (None, st') \<Rightarrow> oracle_restore_oracles E (Suc i) os st')"

fun oracle_restore_data :: "env \<Rightarrow> nat \<Rightarrow> OracleData list \<Rightarrow> oracle_state \<Rightarrow> oracle_error option \<times> oracle_state" where
  "oracle_restore_data E i [] st = (None, st)"
| "oracle_restore_data E i (d # ds) st =
     (case SetOracleData E d st of
        (Some e, st') \<Rightarrow> (Some (OGenesisData i e), st')
      | (None, st') \<Rightarrow> oracle_restore_data E (Suc i) ds st')"

definition oracle_InitGenesis :: "env \<Rightarrow> oracle_GenesisState \<Rightarrow> oracle_state \<Rightarrow> oracle_error option \<times> oracle_state" where
  "oracle_InitGenesis E gs st =
     (case oracle_SetParams E (og_Params gs) st of
        (Some e, st1) \<Rightarrow> (Some (OGenesisParams e), st1)
      | (None, st1) \<Rightarrow>
          (case oracle_restore_oracles E 0 (og_Oracles gs) st1 of
             (Some e, st2) \<Rightarrow> (Some e, st2)
           | (None, st2) \<Rightarrow> oracle_restore_data E 0 (og_Data gs) st2))"

definition oracle_ExportGenesis :: "env \<Rightarrow> oracle_state \<Rightarrow> oracle_GenesisState" where
  "oracle_ExportGenesis E st = \<lparr>
     og_Params = oracle_GetParams E st,
     og_Oracles = GetAllOracles E st,
     og_Data = snd (map_Walk E oracle_coll_data (os_Data st) no_range (\<lambda>_ v data. (False, data @ [v])) [])\<rparr>"

section \<open>Messages\<close>

datatype oracle_msg_error =
    ONotAuthorized string string
  | OMetadataSize nat uint32
  | OTooFarFuture int64 int64 int64
  | OTooFarPast int64 int64 int64
  | OStoringData oracle_error
  | OUnauthorized string string
  | OStoringOracle oracle_error
  | OOracleNotFound string
  | OWrongAuthority string string
  | OParamsInvalid oracle_param_error
  | OSettingParams oracle_error

definition emit_oracle :: "event \<Rightarrow> oracle_state \<Rightarrow> oracle_state" where
  "emit_oracle ev st = st\<lparr>os_events := os_events st @ [ev]\<rparr>"

definition msg_SubmitData ::
  "env \<Rightarrow> sdk_ctx \<Rightarrow> MsgSubmitData \<Rightarrow> oracle_state \<Rightarrow> (oracle_msg_error + unit) \<times> oracle_state" where
  "msg_SubmitData E ctx msg st =
     (if \<not> IsAuthorizedOracle E st (od_ms_Submitter msg) (od_ms_Category msg)
      then (Inl (ONotAuthorized (od_ms_Submitter msg) (od_ms_Category msg)), st)
      else
        let params = oracle_GetParams E st in
        if op_MaxMetadataSize params > 0 \<and> u32_len (od_ms_Metadata msg) > op_MaxMetadataSize params
        then (Inl (OMetadataSize (length (od_ms_Metadata msg)) (op_MaxMetadataSize params)), st)
        else
          let blockTime = BlockTimeUnix ctx;
              maxDrift = (if op_DataMaxAge params \<le>s 0 then 3600 else op_DataMaxAge params) in
          if blockTime + maxDrift <s od_ms_Timestamp msg
          then (Inl (OTooFarFuture (od_ms_Timestamp msg) blockTime maxDrift), st)
          else if od_ms_Timestamp msg <s blockTime - maxDrift
          then (Inl (OTooFarPast (od_ms_Timestamp msg) blockTime maxDrift), st)
          else
            let data = \<lparr>od_Category = od_ms_Category msg, od_Value = od_ms_Value msg, od_Metadata = od_ms_Metadata msg,
                        od_Timestamp = od_ms_Timestamp msg, od_Submitter = od_ms_Submitter msg,
                        od_BlockHeight = BlockHeight ctx\<rparr> in
            (case SetOracleData E data st of
               (Some e, st1) \<Rightarrow> (Inl (OStoringData e), st1)
             | (None, st1) \<Rightarrow>
                 (Inr (), emit_oracle (Event ''oracle_data_submitted''
                    [(''submitter'', od_ms_Submitter msg), (''category'', od_ms_Category msg),
                     (''value'', od_ms_Value msg), (''metadata'', od_ms_Metadata msg),
                     (''timestamp'', Sprint_int64 (od_ms_Timestamp msg))]) st1)))"

definition msg_AddOracle ::
  "env \<Rightarrow> string \<Rightarrow> MsgAddOracle \<Rightarrow> oracle_state \<Rightarrow> (oracle_msg_error + unit) \<times> oracle_state" where
  "msg_AddOracle E authority msg st =
     (if ma_Authority msg \<noteq> authority then (Inl (OUnauthorized authority (ma_Authority msg)), st)
      else
        let oracle = \<lparr>oi_Address = ma_OracleAddress msg, oi_Name = ma_Name msg, oi_Active = True,
                      oi_AuthorizedCategories = ma_AuthorizedCategories msg\<rparr> in
        (case keeper_AddOracle E oracle st of
           (Some e, st1) \<Rightarrow> (Inl (OStoringOracle e), st1)
         | (None, st1) \<Rightarrow>
             (Inr (), emit_oracle (Event ''oracle_added''
                [(''address'', ma_OracleAddress msg), (''name'', ma_Name msg)]) st1)))"

definition msg_RemoveOracle ::
  "env \<Rightarrow> string \<Rightarrow> MsgRemoveOracle \<Rightarrow> oracle_state \<Rightarrow> (oracle_msg_error + unit) \<times> oracle_state" where
  "msg_RemoveOracle E authority msg st =
     (if mr_Authority msg \<noteq> authority then (Inl (OUnauthorized authority (mr_Authority msg)), st)
      else if \<not> snd (GetOracle E st (mr_OracleAddress msg)) then (Inl (OOracleNotFound (mr_OracleAddress msg)), st)
      else
        (Inr (), emit_oracle (Event ''oracle_removed'' [(''address'', mr_OracleAddress msg)])
           (keeper_RemoveOracle E (mr_OracleAddress msg) st)))"

definition oracle_UpdateParams ::
  "env \<Rightarrow> string \<Rightarrow> oracle_MsgUpdateParams \<Rightarrow> oracle_state \<Rightarrow> (oracle_msg_error + unit) \<times> oracle_state" where
  "oracle_UpdateParams E authority msg st =
     (if ou_Authority msg \<noteq> authority then (Inl (OWrongAuthority authority (ou_Authority msg)), st)
      else
        (case oracle_Params_Validate (ou_Params msg) of
           Some e \<Rightarrow> (Inl (OParamsInvalid e), st)
         | None \<Rightarrow>
             (case oracle_SetParams E (ou_Params msg) st of
                (Some e, st1) \<Rightarrow> (Inl (OSettingParams e), st1)
              | (None, st1) \<Rightarrow> (Inr (), st1))))"

section \<open>Queries\<close>

datatype oracle_query_error =
    ONoData string
  | OCategoryRequired
  | OFromNegative
  | OInvalidRange int64 int64
  | OPaginating string
  | OQueryOracleNotFound string

definition oracle_query_LatestData :: "env \<Rightarrow> sdk_ctx \<Rightarrow> oracle_state \<Rightarrow> string \<Rightarrow> oracle_query_error + OracleData \<times> bool" where
  "oracle_query_LatestData E ctx st category =
     (case GetFreshLatestData E ctx st category of
        (data, found, stale) \<Rightarrow> if \<not> found then Inl (ONoData category) else Inr (data, stale))"

text \<open>
  \<^verbatim>\<open>query.CollectionFilteredPaginate\<close> is the argument \<open>paginate\<close>: entries in key order, request,
  prefix, filter and transformation.
\<close>

type_synonym 'req paginate_filtered =
  "((string \<times> uint64) \<times> OracleData) list \<Rightarrow> 'req \<Rightarrow> string \<Rightarrow> (string \<times> uint64 \<Rightarrow> OracleData \<Rightarrow> bool) \<Rightarrow>
   (string \<times> uint64 \<Rightarrow> OracleData \<Rightarrow> OracleData) \<Rightarrow> string + OracleData list \<times> bytes"

definition oracle_query_DataHistory ::
  "'req paginate_filtered \<Rightarrow> oracle_state \<Rightarrow> string \<Rightarrow> int64 \<Rightarrow> int64 \<Rightarrow> 'req \<Rightarrow> oracle_query_error + OracleData list \<times> bytes" where
  "oracle_query_DataHistory paginate st category fromTime toTime pageReq =
     (if category = [] then Inl OCategoryRequired
      else if fromTime <s 0 then Inl OFromNegative
      else
        let to = (if toTime = 0 then 0x7FFFFFFFFFFFFFFE else toTime) in
        if to <s fromTime then Inl (OInvalidRange fromTime to)
        else
          (case paginate (entries (os_Data st)) pageReq category
                  (\<lambda>_ v. fromTime \<le>s od_Timestamp v \<and> od_Timestamp v \<le>s to) (\<lambda>_ v. v) of
             Inl e \<Rightarrow> Inl (OPaginating e)
           | Inr res \<Rightarrow> Inr res))"

definition oracle_query_Oracle :: "env \<Rightarrow> oracle_state \<Rightarrow> string \<Rightarrow> oracle_query_error + OracleInfo" where
  "oracle_query_Oracle E st address =
     (case GetOracle E st address of
        (oracle, found) \<Rightarrow> if \<not> found then Inl (OQueryOracleNotFound address) else Inr oracle)"

definition oracle_query_AllOracles ::
  "((string \<times> OracleInfo) list \<Rightarrow> 'req \<Rightarrow> (string \<Rightarrow> OracleInfo \<Rightarrow> OracleInfo) \<Rightarrow> string + OracleInfo list \<times> bytes) \<Rightarrow>
     oracle_state \<Rightarrow> 'req \<Rightarrow> oracle_query_error + OracleInfo list \<times> bytes" where
  "oracle_query_AllOracles paginate st pageReq =
     (case paginate (entries (os_Oracles st)) pageReq (\<lambda>_ v. v) of
        Inl e \<Rightarrow> Inl (OPaginating e)
      | Inr res \<Rightarrow> Inr res)"

definition oracle_query_Params :: "env \<Rightarrow> oracle_state \<Rightarrow> oracle_Params" where
  "oracle_query_Params E st = oracle_GetParams E st"

section \<open>Registered invariants\<close>

datatype oracle_broken =
    OBrokenWalk string coll_err
  | OBrokenLatest "(string \<times> int64 \<times> coll_err option) list"
  | OBrokenAddress "(string \<times> string) list"
  | OBrokenMetadata "(string \<times> uint64 \<times> nat \<times> uint32) list"

definition latest_callback ::
  "env \<Rightarrow> oracle_state \<Rightarrow> string \<Rightarrow> OracleData \<Rightarrow> (string \<times> int64 \<times> coll_err option) list \<Rightarrow>
     bool \<times> (string \<times> int64 \<times> coll_err option) list" where
  "latest_callback E st category latest problems =
     (case map_Get E oracle_coll_data (os_Data st) (category, timestampToKey (od_Timestamp latest)) of
        Inl e \<Rightarrow> let problems' = problems @ [(category, od_Timestamp latest, Some e)] in (10 \<le> length problems', problems')
      | Inr full \<Rightarrow>
          if od_Value full \<noteq> od_Value latest \<or> od_Submitter full \<noteq> od_Submitter latest
          then let problems' = problems @ [(category, od_Timestamp latest, None)] in (10 \<le> length problems', problems')
          else (False, problems))"

definition LatestDataConsistencyInvariant :: "env \<Rightarrow> oracle_state \<Rightarrow> oracle_broken option" where
  "LatestDataConsistencyInvariant E st =
     (case map_Walk E oracle_coll_latest (os_LatestData st) no_range (latest_callback E st) [] of
        (Some e, _) \<Rightarrow> Some (OBrokenWalk ''LatestData'' e)
      | (None, problems) \<Rightarrow> if problems \<noteq> [] then Some (OBrokenLatest problems) else None)"

definition OracleAddressNonEmptyInvariant :: "env \<Rightarrow> oracle_state \<Rightarrow> oracle_broken option" where
  "OracleAddressNonEmptyInvariant E st =
     (case map_Walk E oracle_coll_oracles (os_Oracles st) no_range
             (\<lambda>key v bad.
                if key = [] \<or> oi_Address v = [] \<or> key \<noteq> oi_Address v
                then let bad' = bad @ [(key, oi_Address v)] in (10 \<le> length bad', bad')
                else (False, bad)) [] of
        (Some e, _) \<Rightarrow> Some (OBrokenWalk ''Oracles'' e)
      | (None, bad) \<Rightarrow> if bad \<noteq> [] then Some (OBrokenAddress bad) else None)"

definition oracle_MetadataWithinCapInvariant :: "env \<Rightarrow> oracle_state \<Rightarrow> oracle_broken option" where
  "oracle_MetadataWithinCapInvariant E st =
     (let cap = op_MaxMetadataSize (oracle_GetParams E st) in
      if cap = 0 then None
      else
        (case map_Walk E oracle_coll_data (os_Data st) no_range
                (\<lambda>key v violations.
                   if u32_len (od_Metadata v) > cap
                   then let violations' = violations @ [(fst key, snd key, length (od_Metadata v), cap)]
                        in (10 \<le> length violations', violations')
                   else (False, violations)) [] of
           (Some e, _) \<Rightarrow> Some (OBrokenWalk ''Data'' e)
         | (None, violations) \<Rightarrow> if violations \<noteq> [] then Some (OBrokenMetadata violations) else None))"

definition oracle_AllInvariants :: "env \<Rightarrow> oracle_state \<Rightarrow> oracle_broken option" where
  "oracle_AllInvariants E st =
     (case LatestDataConsistencyInvariant E st of
        Some b \<Rightarrow> Some b
      | None \<Rightarrow>
     (case OracleAddressNonEmptyInvariant E st of
        Some b \<Rightarrow> Some b
      | None \<Rightarrow> oracle_MetadataWithinCapInvariant E st))"

section \<open>Transactions\<close>

text \<open>
  Stateless validation runs before the handler, as the SDK does for every message; a message that
  fails either leaves the state as it was.
\<close>

datatype oracle_tx =
    TxSubmitData MsgSubmitData
  | TxAddOracle MsgAddOracle
  | TxRemoveOracle MsgRemoveOracle
  | TxOracleParams oracle_MsgUpdateParams

fun oracle_ValidateBasic :: "env \<Rightarrow> oracle_tx \<Rightarrow> oracle_basic_error option" where
  "oracle_ValidateBasic E (TxSubmitData m) = MsgSubmitData_ValidateBasic E m"
| "oracle_ValidateBasic E (TxAddOracle m) = MsgAddOracle_ValidateBasic E m"
| "oracle_ValidateBasic E (TxRemoveOracle m) = MsgRemoveOracle_ValidateBasic E m"
| "oracle_ValidateBasic E (TxOracleParams m) = oracle_MsgUpdateParams_ValidateBasic E m"

fun oracle_handle :: "env \<Rightarrow> string \<Rightarrow> sdk_ctx \<Rightarrow> oracle_tx \<Rightarrow> oracle_state \<Rightarrow> (oracle_msg_error + unit) \<times> oracle_state" where
  "oracle_handle E auth ctx (TxSubmitData m) st = msg_SubmitData E ctx m st"
| "oracle_handle E auth ctx (TxAddOracle m) st = msg_AddOracle E auth m st"
| "oracle_handle E auth ctx (TxRemoveOracle m) st = msg_RemoveOracle E auth m st"
| "oracle_handle E auth ctx (TxOracleParams m) st = oracle_UpdateParams E auth m st"

definition oracle_deliver :: "env \<Rightarrow> string \<Rightarrow> sdk_ctx \<Rightarrow> oracle_tx \<Rightarrow> oracle_state \<Rightarrow> oracle_state" where
  "oracle_deliver E auth ctx tx st =
     (if oracle_ValidateBasic E tx \<noteq> None then st
      else commit_if (oracle_handle E auth ctx tx (st\<lparr>os_events := []\<rparr>)) st)"

fun oracle_run :: "env \<Rightarrow> string \<Rightarrow> (sdk_ctx \<times> oracle_tx) list \<Rightarrow> oracle_state \<Rightarrow> oracle_state" where
  "oracle_run E auth [] st = st"
| "oracle_run E auth ((ctx, tx) # txs) st = oracle_run E auth txs (oracle_deliver E auth ctx tx st)"

interpretation oracle_hist: tx_history "oracle_deliver E auth" "oracle_run E auth" for E auth
  by unfold_locales simp_all

end
