(* ===== verification/OracleCorrect.thy ===== *)
theory OracleCorrect
  imports OracleKeeper
begin

text \<open>
  Correctness of the oracle module: the effect of its operations on a healthy store, the
  well-formedness every transaction keeps (the latest-value cache agrees with the time series, every
  entry sits under its own key), what the registered invariants decide, and genesis.
\<close>

section \<open>Effects\<close>

definition data_key :: "OracleData \<Rightarrow> string \<times> uint64" where
  "data_key d = (od_Category d, timestampToKey (od_Timestamp d))"

definition oracle_store :: "OracleData \<Rightarrow> oracle_state \<Rightarrow> oracle_state" where
  "oracle_store d st = st\<lparr>os_Data := fmupd (data_key d) d (os_Data st),
     os_LatestData := fmupd (od_Category d) d (os_LatestData st)\<rparr>"

lemma SetOracleData_ok: "SetOracleData E d st = (None, st') \<Longrightarrow> st' = oracle_store d st"
  by (auto simp: SetOracleData_def oracle_store_def data_key_def coll_defs Let_def split: option.splits)

lemma SetOracleData_healthy [simp]: "healthy E \<Longrightarrow> SetOracleData E d st = (None, oracle_store d st)"
  by (simp add: SetOracleData_def oracle_store_def data_key_def coll_defs Let_def)

lemma keeper_AddOracle_ok:
  "keeper_AddOracle E i st = (None, st') \<Longrightarrow> st' = st\<lparr>os_Oracles := fmupd (oi_Address i) i (os_Oracles st)\<rparr>"
  by (auto simp: keeper_AddOracle_def coll_defs split: option.splits)

lemma keeper_AddOracle_healthy [simp]:
  "healthy E \<Longrightarrow> keeper_AddOracle E i st = (None, st\<lparr>os_Oracles := fmupd (oi_Address i) i (os_Oracles st)\<rparr>)"
  by (simp add: keeper_AddOracle_def coll_defs)

lemma keeper_RemoveOracle_healthy [simp]:
  "healthy E \<Longrightarrow> keeper_RemoveOracle E a st = st\<lparr>os_Oracles := fmdrop a (os_Oracles st)\<rparr>"
  by (simp add: keeper_RemoveOracle_def coll_defs)

lemma keeper_RemoveOracle_cases:
  obtains "keeper_RemoveOracle E a st = st" | "keeper_RemoveOracle E a st = st\<lparr>os_Oracles := fmdrop a (os_Oracles st)\<rparr>"
  by (cases "write_fault E (c_name oracle_coll_oracles) (c_key oracle_coll_oracles a)")
    (auto simp: keeper_RemoveOracle_def coll_defs)

lemma oracle_SetParams_ok: "oracle_SetParams E p st = (None, st') \<Longrightarrow> st' = st\<lparr>os_Params := Some p\<rparr>"
  by (auto simp: oracle_SetParams_def coll_defs split: option.splits)

lemma oracle_SetParams_healthy [simp]: "healthy E \<Longrightarrow> oracle_SetParams E p st = (None, st\<lparr>os_Params := Some p\<rparr>)"
  by (simp add: oracle_SetParams_def coll_defs)

lemma GetOracle_healthy:
  "healthy E \<Longrightarrow> GetOracle E st a = (case fmlookup (os_Oracles st) a of None \<Rightarrow> (zero_OracleInfo, False) | Some i \<Rightarrow> (i, True))"
  by (simp add: GetOracle_def split: option.split)

lemma GetLatestData_healthy:
  "healthy E \<Longrightarrow> GetLatestData E st c = (case fmlookup (os_LatestData st) c of None \<Rightarrow> (zero_OracleData, False) | Some d \<Rightarrow> (d, True))"
  by (simp add: GetLatestData_def split: option.split)

lemma oracle_GetParams_set [simp]:
  "healthy E \<Longrightarrow> oracle_GetParams E (st\<lparr>os_Params := Some p\<rparr>) = p"
  "healthy E \<Longrightarrow> oracle_GetParams E (st\<lparr>os_events := ev, os_Params := Some p\<rparr>) = p"
  by (simp_all add: oracle_GetParams_def item_Get_def)

lemma oracle_GetParams_frame [simp]:
  "oracle_GetParams E (oracle_store d st) = oracle_GetParams E st"
  "oracle_GetParams E (st\<lparr>os_Oracles := m\<rparr>) = oracle_GetParams E st"
  "oracle_GetParams E (st\<lparr>os_events := ev\<rparr>) = oracle_GetParams E st"
  "oracle_GetParams E (emit_oracle e st) = oracle_GetParams E st"
  by (simp_all add: oracle_GetParams_def oracle_store_def emit_oracle_def)

section \<open>Handlers\<close>

definition datum :: "sdk_ctx \<Rightarrow> MsgSubmitData \<Rightarrow> OracleData" where
  "datum ctx msg = \<lparr>od_Category = od_ms_Category msg, od_Value = od_ms_Value msg, od_Metadata = od_ms_Metadata msg,
     od_Timestamp = od_ms_Timestamp msg, od_Submitter = od_ms_Submitter msg, od_BlockHeight = BlockHeight ctx\<rparr>"

definition drift :: "oracle_Params \<Rightarrow> int64" where
  "drift p = (if op_DataMaxAge p \<le>s 0 then 3600 else op_DataMaxAge p)"

definition data_allowed :: "env \<Rightarrow> sdk_ctx \<Rightarrow> MsgSubmitData \<Rightarrow> oracle_state \<Rightarrow> bool" where
  "data_allowed E ctx msg st \<longleftrightarrow>
     (let p = oracle_GetParams E st in
      IsAuthorizedOracle E st (od_ms_Submitter msg) (od_ms_Category msg) \<and>
      \<not> (op_MaxMetadataSize p > 0 \<and> u32_len (od_ms_Metadata msg) > op_MaxMetadataSize p) \<and>
      \<not> BlockTimeUnix ctx + drift p <s od_ms_Timestamp msg \<and> \<not> od_ms_Timestamp msg <s BlockTimeUnix ctx - drift p)"

lemma msg_SubmitData_cases:
  "msg_SubmitData E ctx msg st =
     (if data_allowed E ctx msg st
      then case SetOracleData E (datum ctx msg) st of
             (Some e, st1) \<Rightarrow> (Inl (OStoringData e), st1)
           | (None, st1) \<Rightarrow> (Inr (), emit_oracle (Event ''oracle_data_submitted''
               [(''submitter'', od_ms_Submitter msg), (''category'', od_ms_Category msg),
                (''value'', od_ms_Value msg), (''metadata'', od_ms_Metadata msg),
                (''timestamp'', Sprint_int64 (od_ms_Timestamp msg))]) st1)
      else (Inl (if \<not> IsAuthorizedOracle E st (od_ms_Submitter msg) (od_ms_Category msg)
                 then ONotAuthorized (od_ms_Submitter msg) (od_ms_Category msg)
                 else if op_MaxMetadataSize (oracle_GetParams E st) > 0 \<and>
                         u32_len (od_ms_Metadata msg) > op_MaxMetadataSize (oracle_GetParams E st)
                 then OMetadataSize (length (od_ms_Metadata msg)) (op_MaxMetadataSize (oracle_GetParams E st))
                 else if BlockTimeUnix ctx + drift (oracle_GetParams E st) <s od_ms_Timestamp msg
                 then OTooFarFuture (od_ms_Timestamp msg) (BlockTimeUnix ctx) (drift (oracle_GetParams E st))
                 else OTooFarPast (od_ms_Timestamp msg) (BlockTimeUnix ctx) (drift (oracle_GetParams E st))), st))"
  by (simp add: msg_SubmitData_def data_allowed_def datum_def Let_def drift_def [symmetric])

text \<open>What a transaction can do to the state: nothing, or one of four writes.\<close>

lemma oracle_deliver_cases:
  obtains
    (skip) "oracle_deliver E auth ctx tx st = st"
  | (submit) m ev where "tx = TxSubmitData m" "MsgSubmitData_ValidateBasic E m = None" "data_allowed E ctx m (st\<lparr>os_events := []\<rparr>)"
      "oracle_deliver E auth ctx tx st = emit_oracle ev (oracle_store (datum ctx m) (st\<lparr>os_events := []\<rparr>))"
  | (add) m ev where "tx = TxAddOracle m" "MsgAddOracle_ValidateBasic E m = None" "ma_Authority m = auth"
      "oracle_deliver E auth ctx tx st = emit_oracle ev (st\<lparr>os_events := [], os_Oracles := fmupd (ma_OracleAddress m)
         \<lparr>oi_Address = ma_OracleAddress m, oi_Name = ma_Name m, oi_Active = True,
          oi_AuthorizedCategories = ma_AuthorizedCategories m\<rparr> (os_Oracles st)\<rparr>)"
  | (remove) m ev where "tx = TxRemoveOracle m" "mr_Authority m = auth"
      "oracle_deliver E auth ctx tx st = emit_oracle ev (st\<lparr>os_events := [], os_Oracles := fmdrop (mr_OracleAddress m) (os_Oracles st)\<rparr>)
       \<or> oracle_deliver E auth ctx tx st = emit_oracle ev (st\<lparr>os_events := []\<rparr>)"
  | (params) m where "tx = TxOracleParams m" "ou_Authority m = auth" "oracle_Params_Validate (ou_Params m) = None"
      "oracle_deliver E auth ctx tx st = st\<lparr>os_events := [], os_Params := Some (ou_Params m)\<rparr>"
proof (cases "oracle_ValidateBasic E tx = None")
  case False
  then show ?thesis by (intro skip) (simp add: oracle_deliver_def)
next
  case basic: True
  let ?st = "st\<lparr>os_events := []\<rparr>"
  show ?thesis
  proof (cases rule: commit_if_cases [of "oracle_handle E auth ctx tx ?st" st])
    case 1
    then show ?thesis using basic by (intro skip) (simp add: oracle_deliver_def)
  next
    case (2 x st')
    have d: "oracle_deliver E auth ctx tx st = st'" using basic 2 by (simp add: oracle_deliver_def)
    show ?thesis
    proof (cases tx)
      case (TxSubmitData m)
      have "data_allowed E ctx m ?st" "\<exists>ev. st' = emit_oracle ev (oracle_store (datum ctx m) ?st)"
        using 2(1) TxSubmitData
        by (auto simp: msg_SubmitData_cases split: if_splits prod.splits option.splits dest!: SetOracleData_ok)
      then show ?thesis using submit TxSubmitData basic d by auto
    next
      case (TxAddOracle m)
      have "ma_Authority m = auth" "\<exists>ev. st' = emit_oracle ev (st\<lparr>os_events := [], os_Oracles := fmupd (ma_OracleAddress m)
         \<lparr>oi_Address = ma_OracleAddress m, oi_Name = ma_Name m, oi_Active = True,
          oi_AuthorizedCategories = ma_AuthorizedCategories m\<rparr> (os_Oracles st)\<rparr>)"
        using TxAddOracle 2(1)
        by (auto simp: msg_AddOracle_def Let_def split: if_splits prod.splits option.splits dest!: keeper_AddOracle_ok)
      then show ?thesis using add TxAddOracle basic d by auto
    next
      case (TxRemoveOracle m)
      then have "mr_Authority m = auth" "\<exists>ev. st' = emit_oracle ev (keeper_RemoveOracle E (mr_OracleAddress m) ?st)"
        using 2(1) by (auto simp: msg_RemoveOracle_def split: if_splits)
      then show ?thesis
        using remove [OF TxRemoveOracle] d by (cases rule: keeper_RemoveOracle_cases [of E "mr_OracleAddress m" ?st]) auto
    next
      case (TxOracleParams m)
      then show ?thesis
        using params [OF TxOracleParams] d 2(1)
        by (auto simp: oracle_UpdateParams_def split: if_splits prod.splits option.splits dest!: oracle_SetParams_ok)
    qed
  qed
qed

section \<open>Well-formedness\<close>

definition oracle_wf :: "oracle_state \<Rightarrow> bool" where
  "oracle_wf st \<longleftrightarrow>
     (\<forall>k d. fmlookup (os_Data st) k = Some d \<longrightarrow> k = data_key d \<and> fmlookup (os_LatestData st) (od_Category d) \<noteq> None) \<and>
     (\<forall>c d. fmlookup (os_LatestData st) c = Some d \<longrightarrow> c = od_Category d \<and> fmlookup (os_Data st) (data_key d) = Some d) \<and>
     (\<forall>a i. fmlookup (os_Oracles st) a = Some i \<longrightarrow> a = oi_Address i)"

lemma oracle_wf_empty: "oracle_wf oracle_empty"
  by (simp add: oracle_wf_def oracle_empty_def)

lemma oracle_wf_store: "oracle_wf st \<Longrightarrow> oracle_wf (oracle_store d st)"
  unfolding oracle_wf_def oracle_store_def by (auto simp: data_key_def split: if_splits)

lemma oracle_wf_frame [simp]:
  "oracle_wf (emit_oracle ev st) = oracle_wf st" "oracle_wf (st\<lparr>os_events := evs\<rparr>) = oracle_wf st"
  "oracle_wf (st\<lparr>os_events := evs, os_Params := p\<rparr>) = oracle_wf st" "oracle_wf (st\<lparr>os_Params := p\<rparr>) = oracle_wf st"
  by (simp_all add: oracle_wf_def emit_oracle_def)

lemma oracle_wf_deliver: "oracle_wf st \<Longrightarrow> oracle_wf (oracle_deliver E auth ctx tx st)"
proof (cases rule: oracle_deliver_cases [of E auth ctx tx st])
  case (submit m ev)
  assume "oracle_wf st"
  then show ?thesis using submit(4) by (simp add: oracle_wf_store)
next
  case (add m ev)
  assume "oracle_wf st"
  then show ?thesis using add(4) unfolding oracle_wf_def by (simp add: emit_oracle_def)
next
  case (remove m ev)
  assume "oracle_wf st"
  then show ?thesis using remove(3) unfolding oracle_wf_def by (auto simp: emit_oracle_def split: if_splits)
qed simp_all

lemma oracle_wf_run: "oracle_wf st \<Longrightarrow> oracle_wf (oracle_run E auth txs st)"
  by (erule oracle_hist.run_inv) (rule oracle_wf_deliver)

section \<open>What the registered invariants decide\<close>

lemma LatestDataConsistency_iff:
  assumes "healthy E"
  shows "LatestDataConsistencyInvariant E st = None \<longleftrightarrow>
    (\<forall>c d. fmlookup (os_LatestData st) c = Some d \<longrightarrow>
       (\<exists>full. fmlookup (os_Data st) (c, timestampToKey (od_Timestamp d)) = Some full \<and>
          od_Value full = od_Value d \<and> od_Submitter full = od_Submitter d))"
proof -
  define full where "full = (\<lambda>c (d :: OracleData). fmlookup (os_Data st) (c, timestampToKey (od_Timestamp d)))"
  define viol where "viol = (\<lambda>c (d :: OracleData). \<not> (\<exists>f. full c d = Some f \<and> od_Value f = od_Value d \<and> od_Submitter f = od_Submitter d))"
  have "\<exists>vs. map_Walk E oracle_coll_latest (os_LatestData st) no_range (latest_callback E st) [] = (None, vs) \<and>
      (vs = [] \<longleftrightarrow> (\<forall>c d. fmlookup (os_LatestData st) c = Some d \<longrightarrow> \<not> viol c d))"
    by (rule map_Walk_violations [OF assms, where
          msg = "\<lambda>c d. (c, od_Timestamp d, case full c d of None \<Rightarrow> Some ErrNotFound | Some _ \<Rightarrow> None)"])
      (use assms in \<open>auto simp: latest_callback_def viol_def full_def Let_def split: option.split\<close>)
  then show ?thesis
    by (auto simp: LatestDataConsistencyInvariant_def viol_def full_def)
qed

lemma OracleAddressNonEmpty_iff:
  assumes "healthy E"
  shows "OracleAddressNonEmptyInvariant E st = None \<longleftrightarrow>
    (\<forall>a i. fmlookup (os_Oracles st) a = Some i \<longrightarrow> a \<noteq> [] \<and> a = oi_Address i)"
proof -
  let ?f = "\<lambda>key v bad. if key = [] \<or> oi_Address v = [] \<or> key \<noteq> oi_Address v
      then let bad' = bad @ [(key, oi_Address v)] in (10 \<le> length bad', bad') else (False, bad)"
  have "\<exists>vs. map_Walk E oracle_coll_oracles (os_Oracles st) no_range ?f [] = (None, vs) \<and>
      (vs = [] \<longleftrightarrow> (\<forall>k v. fmlookup (os_Oracles st) k = Some v \<longrightarrow> \<not> (k = [] \<or> oi_Address v = [] \<or> k \<noteq> oi_Address v)))"
    by (rule map_Walk_violations [OF assms, where msg = "\<lambda>k v. (k, oi_Address v)"]) (simp_all add: Let_def)
  then show ?thesis by (auto simp: OracleAddressNonEmptyInvariant_def)
qed

lemma oracle_MetadataWithinCap_iff:
  assumes "healthy E"
  shows "oracle_MetadataWithinCapInvariant E st = None \<longleftrightarrow>
    (op_MaxMetadataSize (oracle_GetParams E st) = 0 \<or>
     (\<forall>k d. fmlookup (os_Data st) k = Some d \<longrightarrow> u32_len (od_Metadata d) \<le> op_MaxMetadataSize (oracle_GetParams E st)))"
proof -
  let ?cap = "op_MaxMetadataSize (oracle_GetParams E st)"
  let ?f = "\<lambda>key v violations. if u32_len (od_Metadata v) > ?cap
      then let violations' = violations @ [(fst key, snd key, length (od_Metadata v), ?cap)]
           in (10 \<le> length violations', violations')
      else (False, violations)"
  have "\<exists>vs. map_Walk E oracle_coll_data (os_Data st) no_range ?f [] = (None, vs) \<and>
      (vs = [] \<longleftrightarrow> (\<forall>k v. fmlookup (os_Data st) k = Some v \<longrightarrow> \<not> u32_len (od_Metadata v) > ?cap))"
    by (rule map_Walk_violations [OF assms, where msg = "\<lambda>k v. (fst k, snd k, length (od_Metadata v), ?cap)"])
      (simp_all add: Let_def)
  then show ?thesis
    by (auto simp: oracle_MetadataWithinCapInvariant_def Let_def not_less)
qed

section \<open>Histories keep the registered invariants\<close>

definition oracle_cap :: "env \<Rightarrow> oracle_state \<Rightarrow> uint32" where
  "oracle_cap E st = op_MaxMetadataSize (oracle_GetParams E st)"

text \<open>Valid parameters, metadata within the cap, and no registered empty address.\<close>

definition oracle_ok :: "env \<Rightarrow> oracle_state \<Rightarrow> bool" where
  "oracle_ok E st \<longleftrightarrow> oracle_Params_Validate (oracle_GetParams E st) = None \<and>
     (\<forall>k d. fmlookup (os_Data st) k = Some d \<longrightarrow> u32_len (od_Metadata d) \<le> oracle_cap E st) \<and>
     fmlookup (os_Oracles st) [] = None"

fun oracle_asks :: "oracle_tx \<Rightarrow> uint32 option" where
  "oracle_asks (TxOracleParams m) = Some (op_MaxMetadataSize (ou_Params m))"
| "oracle_asks _ = None"

lemma oracle_asks_Some: "oracle_asks tx = Some n \<longleftrightarrow> (\<exists>m. tx = TxOracleParams m \<and> n = op_MaxMetadataSize (ou_Params m))"
  by (cases tx) auto

fun oracle_requested_caps :: "(sdk_ctx \<times> oracle_tx) list \<Rightarrow> uint32 list" where
  "oracle_requested_caps [] = []"
| "oracle_requested_caps ((ctx, TxOracleParams m) # txs) = op_MaxMetadataSize (ou_Params m) # oracle_requested_caps txs"
| "oracle_requested_caps (_ # txs) = oracle_requested_caps txs"

lemma oracle_ok_deliver:
  assumes E: "healthy E" "rejects_empty E" and ok: "oracle_ok E st"
    and mono: "\<And>m. tx = TxOracleParams m \<Longrightarrow> oracle_cap E st \<le> op_MaxMetadataSize (ou_Params m)"
  shows "oracle_ok E (oracle_deliver E auth ctx tx st)"
proof (cases rule: oracle_deliver_cases [of E auth ctx tx st])
  case (submit m ev)
  have "oracle_cap E st \<noteq> 0"
    using ok by (auto simp: oracle_ok_def oracle_cap_def oracle_Params_Validate_None)
  then have "u32_len (od_ms_Metadata m) \<le> oracle_cap E st"
    using submit(3) by (simp add: data_allowed_def Let_def oracle_cap_def not_less word_gt_0)
  then show ?thesis
    using ok submit(4) unfolding oracle_ok_def oracle_cap_def
    by (simp, auto simp: emit_oracle_def oracle_store_def datum_def split: if_splits)
next
  case (add m ev)
  have "ma_OracleAddress m \<noteq> []"
    using add(2) E(2) by (auto simp: MsgAddOracle_ValidateBasic_def rejects_empty_def split: sum.splits)
  then show ?thesis
    using ok add(4) unfolding oracle_ok_def oracle_cap_def by (auto simp: emit_oracle_def oracle_GetParams_def)
next
  case (remove m ev)
  then show ?thesis
    using ok unfolding oracle_ok_def oracle_cap_def by (auto simp: emit_oracle_def oracle_GetParams_def split: if_splits)
next
  case (params m)
  then show ?thesis
    using E ok mono [of m] by (fastforce simp: oracle_ok_def oracle_cap_def intro: order_trans)
qed (use ok in simp)

lemma oracle_cap_deliver:
  assumes "healthy E"
  shows "oracle_cap E (oracle_deliver E auth ctx tx st) = oracle_cap E st \<or>
    (\<exists>m. tx = TxOracleParams m \<and> oracle_cap E (oracle_deliver E auth ctx tx st) = op_MaxMetadataSize (ou_Params m))"
proof (cases rule: oracle_deliver_cases [of E auth ctx tx st])
  case (remove m ev)
  then show ?thesis by (auto simp: oracle_cap_def oracle_GetParams_def emit_oracle_def)
qed (use assms in \<open>auto simp: oracle_cap_def oracle_GetParams_def emit_oracle_def oracle_store_def item_Get_def\<close>)

interpretation oracle_caps: capped_history
  "oracle_deliver E auth" "oracle_run E auth" "oracle_cap E" oracle_asks oracle_requested_caps "\<lambda>st. healthy E \<and> rejects_empty E \<and> oracle_ok E st" for E auth
proof
  fix c t txs s
  show "oracle_requested_caps ((c, t) # txs) = (case oracle_asks t of None \<Rightarrow> oracle_requested_caps txs | Some n \<Rightarrow> n # oracle_requested_caps txs)"
    by (cases t) simp_all
  show "healthy E \<and> rejects_empty E \<and> oracle_ok E (oracle_deliver E auth c t s)"
    if "healthy E \<and> rejects_empty E \<and> oracle_ok E s" "\<And>n. oracle_asks t = Some n \<Longrightarrow> oracle_cap E s \<le> n"
    using that oracle_ok_deliver [of E s t auth c] by (simp add: oracle_asks_Some)
  show "oracle_cap E (oracle_deliver E auth c t s) = oracle_cap E s \<or> oracle_asks t = Some (oracle_cap E (oracle_deliver E auth c t s))"
    if "healthy E \<and> rejects_empty E \<and> oracle_ok E s"
    using that oracle_cap_deliver [of E auth c t s] by (auto simp: oracle_asks_Some)
qed simp

text \<open>Updates that are part of those in \<open>txs\<close> are enough.\<close>

lemma oracle_ok_run_part:
  "healthy E \<Longrightarrow> rejects_empty E \<Longrightarrow> oracle_ok E st \<Longrightarrow> sorted (oracle_cap E st # oracle_requested_caps txs) \<Longrightarrow> subseq part txs \<Longrightarrow>
     oracle_ok E (oracle_run E auth part st)"
  using oracle_caps.ok_run_part [of E st txs part auth] by simp

lemmas oracle_ok_run = oracle_ok_run_part [OF _ _ _ _ subseq_order.order_refl]

lemma oracle_AllInvariants_ok:
  assumes "healthy E" and wf: "oracle_wf st" and ok: "oracle_ok E st"
  shows "oracle_AllInvariants E st = None"
proof -
  have "LatestDataConsistencyInvariant E st = None"
    using wf unfolding LatestDataConsistency_iff [OF assms(1)] oracle_wf_def data_key_def by blast
  moreover have "OracleAddressNonEmptyInvariant E st = None"
    using wf ok unfolding OracleAddressNonEmpty_iff [OF assms(1)] oracle_wf_def oracle_ok_def by auto
  moreover have "oracle_MetadataWithinCapInvariant E st = None"
    using ok unfolding oracle_MetadataWithinCap_iff [OF assms(1)] oracle_ok_def oracle_cap_def by blast
  ultimately show ?thesis by (simp add: oracle_AllInvariants_def)
qed

end
