(* ===== verification/OracleClaims.thy ===== *)
theory OracleClaims
  imports OracleCorrect SampleEnv
begin

text \<open>
  Genesis of the oracle module, and the properties of the module with their witnesses.
\<close>

section \<open>Genesis\<close>

definition put_oracle :: "OracleInfo \<Rightarrow> oracle_state \<Rightarrow> oracle_state" where
  "put_oracle i st = st\<lparr>os_Oracles := fmupd (oi_Address i) i (os_Oracles st)\<rparr>"

lemma restore_oracles_healthy: "healthy E \<Longrightarrow> oracle_restore_oracles E i os st = (None, fold put_oracle os st)"
  by (induction os arbitrary: i st) (simp_all add: put_oracle_def)

lemma restore_oracle_data_healthy: "healthy E \<Longrightarrow> oracle_restore_data E i ds st = (None, fold oracle_store ds st)"
  by (induction ds arbitrary: i st) simp_all

definition oracle_booted :: "oracle_GenesisState \<Rightarrow> oracle_state" where
  "oracle_booted gs = fold oracle_store (og_Data gs) (fold put_oracle (og_Oracles gs) (oracle_empty\<lparr>os_Params := Some (og_Params gs)\<rparr>))"

lemma oracle_InitGenesis_booted: "healthy E \<Longrightarrow> oracle_InitGenesis E gs oracle_empty = (None, oracle_booted gs)"
  by (simp add: oracle_InitGenesis_def restore_oracles_healthy restore_oracle_data_healthy oracle_booted_def)

lemma fold_oracle_fields:
  "os_Data (fold oracle_store ds st) = fold (\<lambda>d. fmupd (data_key d) d) ds (os_Data st)"
  "os_LatestData (fold oracle_store ds st) = fold (\<lambda>d. fmupd (od_Category d) d) ds (os_LatestData st)"
  "os_Oracles (fold oracle_store ds st) = os_Oracles st" "os_Params (fold oracle_store ds st) = os_Params st"
  by (induction ds arbitrary: st) (simp_all add: oracle_store_def)

lemma fold_put_oracle_fields:
  "os_Oracles (fold put_oracle is st) = fold (\<lambda>i. fmupd (oi_Address i) i) is (os_Oracles st)"
  "os_Data (fold put_oracle is st) = os_Data st" "os_LatestData (fold put_oracle is st) = os_LatestData st"
  "os_Params (fold put_oracle is st) = os_Params st"
  by (induction "is" arbitrary: st) (simp_all add: put_oracle_def)

lemma oracle_booted_fields:
  "os_Data (oracle_booted gs) = fold (\<lambda>d. fmupd (data_key d) d) (og_Data gs) fmempty"
  "os_LatestData (oracle_booted gs) = fold (\<lambda>d. fmupd (od_Category d) d) (og_Data gs) fmempty"
  "os_Oracles (oracle_booted gs) = fold (\<lambda>i. fmupd (oi_Address i) i) (og_Oracles gs) fmempty"
  "os_Params (oracle_booted gs) = Some (og_Params gs)"
  by (simp_all add: oracle_booted_def fold_oracle_fields fold_put_oracle_fields oracle_empty_def)

lemma GetAllOracles_healthy:
  "healthy E \<Longrightarrow> GetAllOracles E st = take 1000 (map snd (entries (os_Oracles st)))"
  unfolding GetAllOracles_def by (subst map_Walk_capped) (simp_all add: MaxOracles_def no_range_def)

lemma oracle_ExportGenesis_healthy:
  "healthy E \<Longrightarrow> oracle_ExportGenesis E st = \<lparr>og_Params = oracle_GetParams E st,
     og_Oracles = take 1000 (map snd (entries (os_Oracles st))), og_Data = map snd (entries (os_Data st))\<rparr>"
  by (simp add: oracle_ExportGenesis_def GetAllOracles_healthy map_Walk_values)

lemma length_entries: "length (entries m) = fcard (fmdom m)"
  by (simp add: entries_def sorted_list_of_fset.rep_eq fcard.rep_eq)

text \<open>A cache refilled in list order ends with the last datapoint of each category.\<close>

lemma fold_fmupd_last:
  "fmlookup (fold (\<lambda>d. fmupd (f d) d) ds m) c =
     (if filter (\<lambda>d. f d = c) ds = [] then fmlookup m c else Some (last (filter (\<lambda>d. f d = c) ds)))"
  by (induction ds arbitrary: m) auto

lemma last_sorted: "sorted (map g ys) \<Longrightarrow> y \<in> set ys \<Longrightarrow> g y \<le> (g (last ys) :: 'b::linorder)"
  by (induction ys rule: rev_induct) (auto simp: sorted_append)

lemma oracle_booted_latest:
  fixes st :: oracle_state
  assumes "oracle_wf st" and "\<And>c d. fmlookup L c = Some d \<longleftrightarrow>
      fmlookup (fold (\<lambda>d. fmupd (od_Category d) d) (map snd (entries (os_Data st))) fmempty) c = Some d"
  shows "fmlookup L c = Some d \<longleftrightarrow> od_Category d = c \<and> fmlookup (os_Data st) (data_key d) = Some d \<and>
    (\<forall>d'. fmlookup (os_Data st) (data_key d') = Some d' \<and> od_Category d' = c \<longrightarrow>
       timestampToKey (od_Timestamp d') \<le> timestampToKey (od_Timestamp d))"
proof -
  let ?ds = "map snd (entries (os_Data st))"
  let ?cs = "filter (\<lambda>d. od_Category d = c) ?ds"
  have keys: "map data_key ?ds = map fst (entries (os_Data st))"
    using assms(1) by (auto simp: oracle_wf_def set_entries)
  then have "sorted (map data_key ?ds)" by (simp only: sorted_entries)
  then have sorted: "sorted (map data_key ?cs)" by (rule sorted_filter)
  have mem: "d \<in> set ?cs \<longleftrightarrow> od_Category d = c \<and> fmlookup (os_Data st) (data_key d) = Some d" for d
  proof -
    have "d \<in> set ?ds \<longleftrightarrow> (\<exists>k. fmlookup (os_Data st) k = Some d)"
      unfolding set_map image_iff set_entries [symmetric] by (metis prod.exhaust_sel snd_conv)
    also have "\<dots> \<longleftrightarrow> fmlookup (os_Data st) (data_key d) = Some d"
      using assms(1) unfolding oracle_wf_def by blast
    finally show ?thesis by auto
  qed
  have top: "timestampToKey (od_Timestamp d) \<le> timestampToKey (od_Timestamp (last ?cs))" if "d \<in> set ?cs" for d
  proof -
    have "last ?cs \<in> set ?cs" using that by (metis last_in_set empty_iff list.set(1))
    then have "od_Category (last ?cs) = od_Category d" using that mem by metis
    then show ?thesis using last_sorted [OF sorted that] by (simp add: data_key_def less_eq_prod_def)
  qed
  have L: "fmlookup L c = Some d \<longleftrightarrow> ?cs \<noteq> [] \<and> d = last ?cs" for d
    unfolding assms(2) fold_fmupd_last by auto
  show ?thesis
  proof
    assume "fmlookup L c = Some d"
    then have "?cs \<noteq> []" "d = last ?cs" using L by auto
    then have "d \<in> set ?cs" using last_in_set by metis
    then show "od_Category d = c \<and> fmlookup (os_Data st) (data_key d) = Some d \<and>
      (\<forall>d'. fmlookup (os_Data st) (data_key d') = Some d' \<and> od_Category d' = c \<longrightarrow>
         timestampToKey (od_Timestamp d') \<le> timestampToKey (od_Timestamp d))"
      using mem top \<open>d = last ?cs\<close> by blast
  next
    assume d: "od_Category d = c \<and> fmlookup (os_Data st) (data_key d) = Some d \<and>
      (\<forall>d'. fmlookup (os_Data st) (data_key d') = Some d' \<and> od_Category d' = c \<longrightarrow>
         timestampToKey (od_Timestamp d') \<le> timestampToKey (od_Timestamp d))"
    then have "d \<in> set ?cs" using mem by blast
    then have l: "last ?cs \<in> set ?cs" by (metis last_in_set empty_iff list.set(1))
    then have "timestampToKey (od_Timestamp (last ?cs)) = timestampToKey (od_Timestamp d)"
      using d mem top [OF \<open>d \<in> set ?cs\<close>] by (intro antisym) blast+
    then have "data_key (last ?cs) = data_key d" using l d mem by (simp add: data_key_def)
    then have "last ?cs = d" using l d mem by (metis option.inject)
    then show "fmlookup L c = Some d" using L [of d] \<open>d \<in> set ?cs\<close> by (metis empty_iff list.set(1))
  qed
qed

section \<open>Range queries\<close>

lemma nonneg_not_max: "\<not> (x :: int64) <s 0 \<Longrightarrow> x \<noteq> - 1"
  by (auto simp: word_sless_alt)

lemma history_range_iff:
  assumes "\<not> fromTime <s 0" and "\<not> toTime <s fromTime"
  shows "history_range c fromTime toTime k \<longleftrightarrow> fst k = c \<and> fromTime \<le> snd k \<and> snd k \<le> toTime"
proof -
  have "toTime \<noteq> - 1"
    using assms by (intro nonneg_not_max) (auto simp: word_sless_alt)
  then have lt: "toTime < - 1" using word_order.not_eq_extremum by blast
  have "toTime + 1 \<noteq> 0" using \<open>toTime \<noteq> - 1\<close> by (metis add.inverse_unique add.commute)
  then have "snd k < toTime + 1 \<longleftrightarrow> snd k \<le> toTime"
    using unat_inc [of toTime] by (simp add: word_less_nat_alt word_le_nat_alt less_Suc_eq_le)
  then show ?thesis using lt by (simp add: history_range_def)
qed

lemma GetDataHistory_healthy:
  assumes "healthy E" and "category \<noteq> []" and "\<not> fromTime <s 0" and "\<not> toTime <s fromTime"
  shows "GetDataHistory E st category fromTime toTime =
    take 1000 (map snd (filter (\<lambda>(k, v). fst k = category \<and> fromTime \<le> snd k \<and> snd k \<le> toTime) (entries (os_Data st))))"
  unfolding GetDataHistory_def using assms
  by (subst map_Walk_capped) (simp_all add: MaxHistoryResults_def history_range_iff)

lemma strict_entries: "sorted_wrt (<) (map fst (entries m))"
  by (simp add: strict_sorted_iff sorted_entries distinct_entries)

section \<open>Samples\<close>

definition sample_oracle :: OracleInfo where
  "sample_oracle = \<lparr>oi_Address = ''meter'', oi_Name = ''grid meter'', oi_Active = True, oi_AuthorizedCategories = [''price'']\<rparr>"

definition sample_oracle_state :: oracle_state where
  "sample_oracle_state = oracle_empty\<lparr>os_Oracles := fmupd ''meter'' sample_oracle fmempty\<rparr>"

definition sample_data_msg :: "int64 \<Rightarrow> MsgSubmitData" where
  "sample_data_msg t = NewMsgSubmitData ''meter'' ''price'' ''42'' [] t"

lemma sample_oracle_fields [simp]:
  "os_Oracles sample_oracle_state = fmupd ''meter'' sample_oracle fmempty" "os_Data sample_oracle_state = fmempty"
  "os_LatestData sample_oracle_state = fmempty" "oracle_GetParams sample_env sample_oracle_state = oracle_DefaultParams"
  by (simp_all add: sample_oracle_state_def oracle_empty_def oracle_GetParams_def item_Get_def)

lemma sample_oracle_authorized:
  "os_Oracles st = fmupd ''meter'' sample_oracle fmempty \<Longrightarrow> IsAuthorizedOracle sample_env st ''meter'' ''price''"
  by (simp add: IsAuthorizedOracle_def GetOracle_healthy IsAuthorizedFor_def sample_oracle_def)

lemma sample_data_allowed:
  assumes "os_Oracles st = fmupd ''meter'' sample_oracle fmempty" "oracle_GetParams sample_env st = oracle_DefaultParams"
    and "t \<in> {1699999000, 1699999990}"
  shows "data_allowed sample_env sample_ctx (sample_data_msg t) st"
  using assms sample_oracle_authorized [OF assms(1)]
  by (auto simp: data_allowed_def sample_data_msg_def NewMsgSubmitData_def oracle_DefaultParams_def u32_len_def
      oracle_bounds drift_def sample_ctx_def word_sless_alt word_sle_eq)

lemma sample_oracle_wf: "oracle_wf sample_oracle_state"
  by (simp add: oracle_wf_def sample_oracle_def)

section \<open>Properties\<close>





text \<open>
  C24: \<^verbatim>\<open>GetDataHistory\<close> over a valid range returns datapoints of the category within the inclusive
  range, in strictly increasing time order, at most 1000 of them, and all of them when there are
  fewer than that.
\<close>
theorem oracle_history_exact:
  assumes "healthy E" and "oracle_wf st" and "category \<noteq> []" and "\<not> fromTime <s 0" and "\<not> toTime <s fromTime"
  defines "r \<equiv> GetDataHistory E st category fromTime toTime"
    and "R \<equiv> {d. od_Category d = category \<and> fmlookup (os_Data st) (data_key d) = Some d \<and>
                fromTime \<le> timestampToKey (od_Timestamp d) \<and> timestampToKey (od_Timestamp d) \<le> toTime}"
  shows "sorted_wrt (<) (map (\<lambda>d. timestampToKey (od_Timestamp d)) r) \<and> length r \<le> 1000 \<and>
    (if length r < 1000 then set r = R else set r \<subseteq> R)"
proof -
  let ?es = "filter (\<lambda>(k, v). fst k = category \<and> fromTime \<le> snd k \<and> snd k \<le> toTime) (entries (os_Data st))"
  have r: "r = take 1000 (map snd ?es)"
    unfolding r_def using assms(1,3-5) by (rule GetDataHistory_healthy)
  have key: "k = data_key v \<and> od_Category v = category" if "(k, v) \<in> set ?es" for k v
  proof -
    have "fmlookup (os_Data st) k = Some v" "fst k = category" using that by (auto simp: set_entries)
    then have "k = data_key v" using assms(2) unfolding oracle_wf_def by blast
    then show ?thesis using \<open>fst k = category\<close> by (simp add: data_key_def)
  qed
  have "sorted_wrt (<) (map fst ?es)"
    using strict_entries [of "os_Data st"] by (simp add: sorted_wrt_map sorted_wrt_filter)
  then have "sorted_wrt (<) (map (\<lambda>d. timestampToKey (od_Timestamp d)) (map snd ?es))"
    unfolding sorted_wrt_map
  proof (rule sorted_wrt_mono_rel [rotated])
    fix x y assume "x \<in> set ?es" "y \<in> set ?es" "fst x < fst y"
    then show "timestampToKey (od_Timestamp (snd x)) < timestampToKey (od_Timestamp (snd y))"
      using key [of "fst x" "snd x"] key [of "fst y" "snd y"] unfolding prod.collapse
      by (simp add: data_key_def less_prod_def)
  qed
  then have "sorted_wrt (<) (map (\<lambda>d. timestampToKey (od_Timestamp d)) r)"
    unfolding r by (simp add: sorted_wrt_take flip: take_map)
  moreover have "set (map snd ?es) = R"
  proof (rule set_eqI)
    fix d
    have "d \<in> set (map snd ?es) \<longleftrightarrow> (\<exists>k. (k, d) \<in> set ?es)" by force
    also have "\<dots> \<longleftrightarrow> (data_key d, d) \<in> set ?es" using key by blast
    also have "\<dots> \<longleftrightarrow> d \<in> R" by (auto simp: R_def set_entries data_key_def)
    finally show "d \<in> set (map snd ?es) \<longleftrightarrow> d \<in> R" .
  qed
  then have "set r \<subseteq> R" "length r < 1000 \<Longrightarrow> set r = R"
    unfolding r using set_take_subset [of 1000 "map snd ?es"] by auto
  ultimately show ?thesis unfolding r by simp
qed

theorem oracle_history_exact_witness:
  "datum sample_ctx (sample_data_msg 5) \<in> set (GetDataHistory sample_env (oracle_store (datum sample_ctx (sample_data_msg 5)) oracle_empty) ''price'' 1 9)"
proof -
  let ?d = "datum sample_ctx (sample_data_msg 5)"
  let ?st = "oracle_store ?d oracle_empty"
  have "oracle_wf ?st" by (rule oracle_wf_store [OF oracle_wf_empty])
  note ex = oracle_history_exact [OF sample_healthy this, of "''price''" 1 9]
  have "length (GetDataHistory sample_env ?st ''price'' 1 9) < 1000"
    by (subst GetDataHistory_healthy)
      (simp_all add: word_sless_alt oracle_store_def oracle_empty_def entries_def sorted_list_of_fset.rep_eq)
  then show ?thesis
    using ex by (simp add: word_sless_alt)
      (simp add: oracle_store_def data_key_def datum_def sample_data_msg_def NewMsgSubmitData_def timestampToKey_def word_sless_alt)
qed

text \<open>
  Exporting a well-formed oracle state with at most 1000 oracles and importing the export into
  an empty store restores parameters, registry and time series; the latest datapoint of a category
  becomes the one with the greatest timestamp.
\<close>
theorem oracle_genesis_roundtrip:
  assumes "healthy E" and "oracle_wf st" and "fcard (fmdom (os_Oracles st)) \<le> 1000"
  shows "\<exists>st'. oracle_InitGenesis E (oracle_ExportGenesis E st) oracle_empty = (None, st') \<and>
    oracle_GetParams E st' = oracle_GetParams E st \<and> os_Oracles st' = os_Oracles st \<and> os_Data st' = os_Data st \<and>
    (\<forall>c d. fmlookup (os_LatestData st') c = Some d \<longleftrightarrow>
       od_Category d = c \<and> fmlookup (os_Data st) (data_key d) = Some d \<and>
       (\<forall>d'. fmlookup (os_Data st) (data_key d') = Some d' \<and> od_Category d' = c \<longrightarrow>
          timestampToKey (od_Timestamp d') \<le> timestampToKey (od_Timestamp d)))"
proof (intro exI conjI allI)
  let ?gs = "oracle_ExportGenesis E st"
  note ex = oracle_ExportGenesis_healthy [OF assms(1), of st]
  show "oracle_InitGenesis E ?gs oracle_empty = (None, oracle_booted ?gs)"
    using assms(1) by (rule oracle_InitGenesis_booted)
  show "oracle_GetParams E (oracle_booted ?gs) = oracle_GetParams E st"
    using assms(1) by (simp add: oracle_GetParams_def item_Get_def oracle_booted_fields ex)
  have "og_Oracles ?gs = map snd (entries (os_Oracles st))"
    using assms(3) length_entries [of "os_Oracles st"] by (simp add: ex)
  then show "os_Oracles (oracle_booted ?gs) = os_Oracles st"
    using assms(2) by (auto simp: oracle_booted_fields oracle_wf_def intro!: fold_fmupd_entries)
  show "os_Data (oracle_booted ?gs) = os_Data st"
    unfolding oracle_booted_fields ex oracle_GenesisState.simps
    by (rule fold_fmupd_entries) (use assms(2) in \<open>unfold oracle_wf_def, blast\<close>)
  fix c d
  show "fmlookup (os_LatestData (oracle_booted ?gs)) c = Some d \<longleftrightarrow>
       od_Category d = c \<and> fmlookup (os_Data st) (data_key d) = Some d \<and>
       (\<forall>d'. fmlookup (os_Data st) (data_key d') = Some d' \<and> od_Category d' = c \<longrightarrow>
          timestampToKey (od_Timestamp d') \<le> timestampToKey (od_Timestamp d))"
    by (rule oracle_booted_latest [OF assms(2)]) (simp add: oracle_booted_fields ex)
qed

theorem oracle_genesis_roundtrip_witness:
  "\<exists>st'. oracle_InitGenesis sample_env (oracle_ExportGenesis sample_env sample_oracle_state) oracle_empty = (None, st') \<and>
     os_Oracles st' = fmupd ''meter'' sample_oracle fmempty"
  using oracle_genesis_roundtrip [OF sample_healthy sample_oracle_wf] by (auto simp: fcard.rep_eq)

section \<open>Limits of the export\<close>

text \<open>
  C26: removing an oracle that has submitted data makes the exported genesis invalid: its datapoints
  stay in the export, their submitter is no longer listed, and \<^verbatim>\<open>Validate\<close> rejects them as submitted
  by an unknown oracle.
\<close>
theorem oracle_removal_invalidates_export:
  assumes "healthy E" and "oracle_wf st" and "msg_RemoveOracle E auth m st = (Inr (), st')"
    and "fmlookup (os_Data st) k = Some d" and "od_Submitter d = mr_OracleAddress m" and "od_Submitter d \<noteq> []"
  shows "oracle_Genesis_Validate (oracle_ExportGenesis E st') \<noteq> None"
proof
  assume valid: "oracle_Genesis_Validate (oracle_ExportGenesis E st') = None"
  have st': "os_Data st' = os_Data st" "os_Oracles st' = fmdrop (mr_OracleAddress m) (os_Oracles st)"
    using assms(1,3) by (auto simp: msg_RemoveOracle_def emit_oracle_def split: if_splits)
  note ex = oracle_ExportGenesis_healthy [OF assms(1), of st']
  have "(k, d) \<in> set (entries (os_Data st'))" using assms(4) st'(1) by (simp add: set_entries)
  then have "d \<in> set (og_Data (oracle_ExportGenesis E st'))"
    unfolding ex oracle_GenesisState.simps by (metis in_set_zipE zip_map_fst_snd)
  then have "od_Submitter d \<in> set (map oi_Address (og_Oracles (oracle_ExportGenesis E st')))"
    using valid assms(6) unfolding oracle_Genesis_Validate_None by (auto simp: data_well_formed_def)
  then obtain a i where "fmlookup (os_Oracles st') a = Some i" "oi_Address i = od_Submitter d"
    by (auto simp: ex set_entries dest!: in_set_takeD)
  then show False
    using assms(2,5) st'(2) by (auto simp: oracle_wf_def split: if_splits)
qed

theorem oracle_removal_invalidates_export_witness:
  "\<exists>st'. msg_RemoveOracle sample_env ''gov'' (NewMsgRemoveOracle ''gov'' ''meter'')
      (oracle_store (datum sample_ctx (sample_data_msg 5)) sample_oracle_state) = (Inr (), st') \<and>
    oracle_Genesis_Validate (oracle_ExportGenesis sample_env st') \<noteq> None"
proof -
  let ?d = "datum sample_ctx (sample_data_msg 5)"
  let ?st = "oracle_store ?d sample_oracle_state"
  obtain st' where st': "msg_RemoveOracle sample_env ''gov'' (NewMsgRemoveOracle ''gov'' ''meter'') ?st = (Inr (), st')"
    by (simp add: msg_RemoveOracle_def NewMsgRemoveOracle_def GetOracle_healthy) (simp add: oracle_store_def)
  have "fmlookup (os_Data ?st) (data_key ?d) = Some ?d" by (simp add: oracle_store_def)
  from oracle_removal_invalidates_export [OF sample_healthy oracle_wf_store [OF sample_oracle_wf] st' this] st'
  show ?thesis
    by (simp add: NewMsgRemoveOracle_def datum_def sample_data_msg_def NewMsgSubmitData_def)
qed

text \<open>
  The export lists at most 1000 oracles, so with more of them registered, exporting and
  importing loses some registered oracle.
\<close>
theorem oracle_export_truncates:
  assumes "healthy E" and "oracle_wf st" and "1000 < fcard (fmdom (os_Oracles st))"
  shows "\<exists>a st'. oracle_InitGenesis E (oracle_ExportGenesis E st) oracle_empty = (None, st') \<and>
    fmlookup (os_Oracles st) a \<noteq> None \<and> fmlookup (os_Oracles st') a = None"
proof -
  let ?es = "entries (os_Oracles st)" and ?gs = "oracle_ExportGenesis E st"
  obtain a i where ai: "?es ! 1000 = (a, i)" by fastforce
  have len: "1000 < length ?es" using assms(3) by (simp add: length_entries)
  then have "(a, i) \<in> set ?es" using ai nth_mem by metis
  then have "fmlookup (os_Oracles st) a \<noteq> None" by (simp add: set_entries)
  moreover have "fmlookup (os_Oracles (oracle_booted ?gs)) a = None"
  proof (rule ccontr)
    assume "fmlookup (os_Oracles (oracle_booted ?gs)) a \<noteq> None"
    then obtain o1 where o1: "o1 \<in> set (take 1000 (map snd ?es))" "oi_Address o1 = a"
      by (auto simp: oracle_booted_fields oracle_ExportGenesis_healthy [OF assms(1)] dest!: fold_fmupd_lookup)
    then obtain j where j: "j < 1000" "snd (?es ! j) = o1"
      using len by (auto simp: in_set_conv_nth)
    then have "(fst (?es ! j), o1) \<in> set ?es" using len nth_mem [of j ?es] by (metis less_trans prod.collapse)
    then have "fst (?es ! j) = a" using assms(2) o1(2) by (auto simp: set_entries oracle_wf_def)
    then have "map fst ?es ! j = map fst ?es ! 1000" using len j(1) ai by simp
    then have "j = 1000"
      using len j(1) by (intro nth_eq_iff_index_eq [OF distinct_entries [of "os_Oracles st"], THEN iffD1]) simp_all
    then show False using j(1) by simp
  qed
  ultimately show ?thesis using oracle_InitGenesis_booted [OF assms(1)] by blast
qed

definition many_oracles :: oracle_state where
  "many_oracles = oracle_empty\<lparr>os_Oracles :=
     fmap_of_list (map (\<lambda>n. (Sprint_d n, sample_oracle\<lparr>oi_Address := Sprint_d n\<rparr>)) [0..<1001])\<rparr>"

lemma many_oracles_card: "fcard (fmdom (os_Oracles many_oracles)) = 1001"
proof -
  have "fset (fmdom (os_Oracles many_oracles)) = Sprint_d ` {0..<1001}"
    by (simp add: many_oracles_def fset_of_list.rep_eq image_comp comp_def del: upt_Suc)
  moreover have "card (Sprint_d ` {0..<1001}) = 1001"
    by (subst card_image) (auto simp: inj_on_def)
  ultimately show ?thesis by (simp add: fcard.rep_eq)
qed

lemma many_oracles_wf: "oracle_wf many_oracles"
  by (auto simp: oracle_wf_def many_oracles_def oracle_empty_def fmlookup_of_list simp del: upt_Suc dest!: map_of_SomeD)

theorem oracle_export_truncates_witness:
  "\<exists>a st'. oracle_InitGenesis sample_env (oracle_ExportGenesis sample_env many_oracles) oracle_empty = (None, st') \<and>
    fmlookup (os_Oracles many_oracles) a \<noteq> None \<and> fmlookup (os_Oracles st') a = None"
  by (rule oracle_export_truncates [OF sample_healthy many_oracles_wf]) (simp add: many_oracles_card)

text \<open>
  C37: The latest-value cache holds the datapoint submitted last, not the newest: after a submission with an
  older timestamp than a stored one, exporting and importing the state changes what
  \<^verbatim>\<open>GetLatestData\<close> answers, because the import refills the cache in time order.
\<close>
theorem oracle_restart_changes_latest:
  assumes "healthy E" and "oracle_wf st" and "GetLatestData E st c = (d, True)"
    and "fmlookup (os_Data st) k = Some d'" and "od_Category d' = c"
    and "timestampToKey (od_Timestamp d) < timestampToKey (od_Timestamp d')"
  shows "\<exists>st'. oracle_InitGenesis E (oracle_ExportGenesis E st) oracle_empty = (None, st') \<and> os_Data st' = os_Data st \<and>
    (\<exists>e. GetLatestData E st' c = (e, True) \<and> timestampToKey (od_Timestamp d') \<le> timestampToKey (od_Timestamp e) \<and> e \<noteq> d)"
proof (rule exI, intro conjI)
  let ?gs = "oracle_ExportGenesis E st"
  note ex = oracle_ExportGenesis_healthy [OF assms(1), of st]
  show "oracle_InitGenesis E ?gs oracle_empty = (None, oracle_booted ?gs)"
    using assms(1) by (rule oracle_InitGenesis_booted)
  show "os_Data (oracle_booted ?gs) = os_Data st"
    unfolding oracle_booted_fields ex oracle_GenesisState.simps
    by (rule fold_fmupd_entries) (use assms(2) in \<open>unfold oracle_wf_def, blast\<close>)
  let ?ds = "map snd (entries (os_Data st))"
  have key: "k = data_key d'" using assms(2,4) unfolding oracle_wf_def by blast
  have "(k, d') \<in> set (entries (os_Data st))" using assms(4) by (simp add: set_entries)
  then have "d' \<in> set (filter (\<lambda>d. od_Category d = c) ?ds)" using assms(5) by force
  then have "filter (\<lambda>d. od_Category d = c) ?ds \<noteq> []" by (metis empty_iff list.set(1))
  then obtain e where e: "fmlookup (os_LatestData (oracle_booted ?gs)) c = Some e"
    unfolding oracle_booted_fields ex oracle_GenesisState.simps fold_fmupd_last by simp
  then have newest: "timestampToKey (od_Timestamp d') \<le> timestampToKey (od_Timestamp e)"
    using oracle_booted_latest [OF assms(2), where L = "os_LatestData (oracle_booted ?gs)" and c = c and d = e]
      assms(4,5) key by (simp add: oracle_booted_fields ex)
  show "\<exists>e. GetLatestData E (oracle_booted ?gs) c = (e, True) \<and>
      timestampToKey (od_Timestamp d') \<le> timestampToKey (od_Timestamp e) \<and> e \<noteq> d"
  proof (intro exI conjI)
    show "GetLatestData E (oracle_booted ?gs) c = (e, True)" using assms(1) e by (simp add: GetLatestData_def)
    show "timestampToKey (od_Timestamp d') \<le> timestampToKey (od_Timestamp e)" by (fact newest)
    show "e \<noteq> d" using newest assms(6) by auto
  qed
qed

text \<open>Two submissions in one block, the second with the older timestamp.\<close>

definition sample_late_state :: oracle_state where
  "sample_late_state =
     snd (msg_SubmitData sample_env sample_ctx (sample_data_msg 1699999000)
       (snd (msg_SubmitData sample_env sample_ctx (sample_data_msg 1699999990) sample_oracle_state)))"

lemma submitted_state:
  assumes "healthy E" and "data_allowed E ctx msg st"
  obtains ev where "snd (msg_SubmitData E ctx msg st) = emit_oracle ev (oracle_store (datum ctx msg) st)"
  using assms by (auto simp: msg_SubmitData_cases)

lemma sample_late_state_fields:
  "oracle_wf sample_late_state"
  "os_Data sample_late_state = fmupd (data_key (datum sample_ctx (sample_data_msg 1699999000))) (datum sample_ctx (sample_data_msg 1699999000))
     (fmupd (data_key (datum sample_ctx (sample_data_msg 1699999990))) (datum sample_ctx (sample_data_msg 1699999990)) fmempty)"
  "fmlookup (os_LatestData sample_late_state) ''price'' = Some (datum sample_ctx (sample_data_msg 1699999000))"
proof -
  have "data_allowed sample_env sample_ctx (sample_data_msg 1699999990) sample_oracle_state"
    by (rule sample_data_allowed) simp_all
  then obtain ev where s1: "snd (msg_SubmitData sample_env sample_ctx (sample_data_msg 1699999990) sample_oracle_state) =
      emit_oracle ev (oracle_store (datum sample_ctx (sample_data_msg 1699999990)) sample_oracle_state)" (is "_ = ?s1")
    by (rule submitted_state [OF sample_healthy])
  have "data_allowed sample_env sample_ctx (sample_data_msg 1699999000) ?s1"
    by (rule sample_data_allowed) (simp_all add: emit_oracle_def oracle_store_def oracle_GetParams_def item_Get_def
      sample_oracle_state_def oracle_empty_def)
  then obtain ev' where s2: "sample_late_state = emit_oracle ev' (oracle_store (datum sample_ctx (sample_data_msg 1699999000)) ?s1)"
    using submitted_state [OF sample_healthy] unfolding sample_late_state_def s1 by metis
  show "oracle_wf sample_late_state"
    unfolding s2 by (simp add: oracle_wf_store sample_oracle_wf)
  show "os_Data sample_late_state = fmupd (data_key (datum sample_ctx (sample_data_msg 1699999000))) (datum sample_ctx (sample_data_msg 1699999000))
     (fmupd (data_key (datum sample_ctx (sample_data_msg 1699999990))) (datum sample_ctx (sample_data_msg 1699999990)) fmempty)"
    unfolding s2 by (simp add: emit_oracle_def oracle_store_def)
  show "fmlookup (os_LatestData sample_late_state) ''price'' = Some (datum sample_ctx (sample_data_msg 1699999000))"
    unfolding s2 by (simp add: emit_oracle_def oracle_store_def datum_def sample_data_msg_def NewMsgSubmitData_def)
qed

theorem oracle_restart_changes_latest_witness:
  "\<exists>st' e. oracle_InitGenesis sample_env (oracle_ExportGenesis sample_env sample_late_state) oracle_empty = (None, st') \<and>
     GetLatestData sample_env sample_late_state ''price'' = (datum sample_ctx (sample_data_msg 1699999000), True) \<and>
     GetLatestData sample_env st' ''price'' = (e, True) \<and> e \<noteq> datum sample_ctx (sample_data_msg 1699999000)"
proof -
  have latest: "GetLatestData sample_env sample_late_state ''price'' = (datum sample_ctx (sample_data_msg 1699999000), True)"
    by (simp add: GetLatestData_def sample_late_state_fields(3))
  have stored: "fmlookup (os_Data sample_late_state) (data_key (datum sample_ctx (sample_data_msg 1699999990))) =
      Some (datum sample_ctx (sample_data_msg 1699999990))"
    unfolding sample_late_state_fields by (simp add: data_key_def datum_def sample_data_msg_def NewMsgSubmitData_def timestampToKey_def word_sless_alt)
  show ?thesis
    using oracle_restart_changes_latest [OF sample_healthy sample_late_state_fields(1) latest stored] latest
    by (auto simp: datum_def sample_data_msg_def NewMsgSubmitData_def timestampToKey_def word_sless_alt)
qed

end
