(* ===== verification/IdentityTypes.thy ===== *)
theory IdentityTypes
  imports GoStrings
begin

text \<open>
  \<^verbatim>\<open>x/identity/types\<close>: records, messages, parameters, genesis validation and stateless message
  checks of the identity module.
\<close>

section \<open>Records\<close>

record Identity =
  id_Address :: string
  id_Name :: string
  id_Role :: string
  id_Status :: string
  id_Metadata :: string
  id_RegisteredAt :: int64
  id_UpdatedAt :: int64

definition zero_Identity :: Identity where
  "zero_Identity = \<lparr>id_Address = [], id_Name = [], id_Role = [], id_Status = [], id_Metadata = [],
     id_RegisteredAt = 0, id_UpdatedAt = 0\<rparr>"

record identity_Params =
  ip_AdminAddress :: string
  ip_MaxMetadataSize :: uint32

record MsgRegisterIdentity =
  rg_Creator :: string
  rg_Address :: string
  rg_Name :: string
  rg_Role :: string
  rg_Metadata :: string

record MsgUpdateIdentity =
  up_Creator :: string
  up_Address :: string
  up_Name :: string
  up_Metadata :: string

record MsgRevokeIdentity =
  rv_Creator :: string
  rv_Address :: string
  rv_Reason :: string

record identity_MsgUpdateParams =
  iu_Authority :: string
  iu_Params :: identity_Params

record identity_GenesisState =
  ig_Params :: identity_Params
  ig_Identities :: "Identity list"

definition StatusPending :: string where "StatusPending = ''pending''"
definition StatusActive :: string where "StatusActive = ''active''"
definition StatusRevoked :: string where "StatusRevoked = ''revoked''"

section \<open>Parameters\<close>

definition IdentityMaxMetadataLowerBound :: uint32 where "IdentityMaxMetadataLowerBound = 128"
definition IdentityMaxMetadataUpperBound :: uint32 where "IdentityMaxMetadataUpperBound = 65536"
definition DefaultIdentityMaxMetadata :: uint32 where "DefaultIdentityMaxMetadata = 4096"

lemmas identity_bounds =
  IdentityMaxMetadataLowerBound_def IdentityMaxMetadataUpperBound_def DefaultIdentityMaxMetadata_def

definition identity_DefaultParams :: identity_Params where
  "identity_DefaultParams = \<lparr>ip_AdminAddress = [], ip_MaxMetadataSize = DefaultIdentityMaxMetadata\<rparr>"

datatype identity_param_error =
    IInvalidAdminAddress string
  | IMaxMetadataSizeBelow uint32 uint32
  | IMaxMetadataSizeExceeds uint32 uint32

definition identity_Params_Validate :: "env \<Rightarrow> identity_Params \<Rightarrow> identity_param_error option" where
  "identity_Params_Validate E p =
     (case (if ip_AdminAddress p \<noteq> [] then AccAddressFromBech32 E (ip_AdminAddress p) else Inr []) of
        Inl e \<Rightarrow> Some (IInvalidAdminAddress e)
      | Inr _ \<Rightarrow>
          if ip_MaxMetadataSize p < IdentityMaxMetadataLowerBound
          then Some (IMaxMetadataSizeBelow (ip_MaxMetadataSize p) IdentityMaxMetadataLowerBound)
          else if ip_MaxMetadataSize p > IdentityMaxMetadataUpperBound
          then Some (IMaxMetadataSizeExceeds (ip_MaxMetadataSize p) IdentityMaxMetadataUpperBound)
          else None)"

section \<open>Genesis\<close>

definition identity_DefaultGenesis :: identity_GenesisState where
  "identity_DefaultGenesis = \<lparr>ig_Params = identity_DefaultParams, ig_Identities = []\<rparr>"

datatype identity_genesis_error =
    IGInvalidParams identity_param_error
  | IGEmptyAddress nat
  | IGDuplicate string
  | IGEmptyName string
  | IGEmptyRole string
  | IGEmptyStatus string
  | IGMetadataSize string nat uint32

fun validate_identities :: "uint32 \<Rightarrow> nat \<Rightarrow> string set \<Rightarrow> Identity list \<Rightarrow> identity_genesis_error option" where
  "validate_identities cap i seen [] = None"
| "validate_identities cap i seen (d # ds) =
     (if id_Address d = [] then Some (IGEmptyAddress i)
      else if id_Address d \<in> seen then Some (IGDuplicate (id_Address d))
      else if id_Name d = [] then Some (IGEmptyName (id_Address d))
      else if id_Role d = [] then Some (IGEmptyRole (id_Address d))
      else if id_Status d = [] then Some (IGEmptyStatus (id_Address d))
      else if u32_len (id_Metadata d) > cap then Some (IGMetadataSize (id_Address d) (length (id_Metadata d)) cap)
      else validate_identities cap (Suc i) (insert (id_Address d) seen) ds)"

definition identity_Genesis_Validate :: "env \<Rightarrow> identity_GenesisState \<Rightarrow> identity_genesis_error option" where
  "identity_Genesis_Validate E gs =
     (case identity_Params_Validate E (ig_Params gs) of
        Some e \<Rightarrow> Some (IGInvalidParams e)
      | None \<Rightarrow> validate_identities (ip_MaxMetadataSize (ig_Params gs)) 0 {} (ig_Identities gs))"

section \<open>Stateless message checks\<close>

datatype identity_basic_error =
    IInvalidCreator string
  | IInvalidAddress string
  | INameEmpty
  | IRoleEmpty
  | IInvalidAuthority string
  | IInvalidParams identity_param_error

definition NewMsgRegisterIdentity :: "string \<Rightarrow> string \<Rightarrow> string \<Rightarrow> string \<Rightarrow> string \<Rightarrow> MsgRegisterIdentity" where
  "NewMsgRegisterIdentity creator address nm role metadata =
     \<lparr>rg_Creator = creator, rg_Address = address, rg_Name = nm, rg_Role = role, rg_Metadata = metadata\<rparr>"

definition MsgRegisterIdentity_ValidateBasic :: "env \<Rightarrow> MsgRegisterIdentity \<Rightarrow> identity_basic_error option" where
  "MsgRegisterIdentity_ValidateBasic E msg =
     (case AccAddressFromBech32 E (rg_Creator msg) of
        Inl e \<Rightarrow> Some (IInvalidCreator e)
      | Inr _ \<Rightarrow>
          (case AccAddressFromBech32 E (rg_Address msg) of
             Inl e \<Rightarrow> Some (IInvalidAddress e)
           | Inr _ \<Rightarrow>
               if rg_Name msg = [] then Some INameEmpty
               else if rg_Role msg = [] then Some IRoleEmpty
               else None))"

definition MsgRegisterIdentity_GetSigners :: "env \<Rightarrow> MsgRegisterIdentity \<Rightarrow> bytes list" where
  "MsgRegisterIdentity_GetSigners E msg = signer_of E (rg_Creator msg)"

definition NewMsgUpdateIdentity :: "string \<Rightarrow> string \<Rightarrow> string \<Rightarrow> string \<Rightarrow> MsgUpdateIdentity" where
  "NewMsgUpdateIdentity creator address nm metadata =
     \<lparr>up_Creator = creator, up_Address = address, up_Name = nm, up_Metadata = metadata\<rparr>"

definition MsgUpdateIdentity_ValidateBasic :: "env \<Rightarrow> MsgUpdateIdentity \<Rightarrow> identity_basic_error option" where
  "MsgUpdateIdentity_ValidateBasic E msg =
     (case AccAddressFromBech32 E (up_Creator msg) of
        Inl e \<Rightarrow> Some (IInvalidCreator e)
      | Inr _ \<Rightarrow>
          (case AccAddressFromBech32 E (up_Address msg) of
             Inl e \<Rightarrow> Some (IInvalidAddress e)
           | Inr _ \<Rightarrow> None))"

definition MsgUpdateIdentity_GetSigners :: "env \<Rightarrow> MsgUpdateIdentity \<Rightarrow> bytes list" where
  "MsgUpdateIdentity_GetSigners E msg = signer_of E (up_Creator msg)"

definition NewMsgRevokeIdentity :: "string \<Rightarrow> string \<Rightarrow> string \<Rightarrow> MsgRevokeIdentity" where
  "NewMsgRevokeIdentity creator address reason = \<lparr>rv_Creator = creator, rv_Address = address, rv_Reason = reason\<rparr>"

definition MsgRevokeIdentity_ValidateBasic :: "env \<Rightarrow> MsgRevokeIdentity \<Rightarrow> identity_basic_error option" where
  "MsgRevokeIdentity_ValidateBasic E msg =
     (case AccAddressFromBech32 E (rv_Creator msg) of
        Inl e \<Rightarrow> Some (IInvalidCreator e)
      | Inr _ \<Rightarrow>
          (case AccAddressFromBech32 E (rv_Address msg) of
             Inl e \<Rightarrow> Some (IInvalidAddress e)
           | Inr _ \<Rightarrow> None))"

definition MsgRevokeIdentity_GetSigners :: "env \<Rightarrow> MsgRevokeIdentity \<Rightarrow> bytes list" where
  "MsgRevokeIdentity_GetSigners E msg = signer_of E (rv_Creator msg)"

definition identity_MsgUpdateParams_ValidateBasic :: "env \<Rightarrow> identity_MsgUpdateParams \<Rightarrow> identity_basic_error option" where
  "identity_MsgUpdateParams_ValidateBasic E msg =
     (case AccAddressFromBech32 E (iu_Authority msg) of
        Inl e \<Rightarrow> Some (IInvalidAuthority e)
      | Inr _ \<Rightarrow> map_option IInvalidParams (identity_Params_Validate E (iu_Params msg)))"

definition identity_MsgUpdateParams_GetSigners :: "env \<Rightarrow> identity_MsgUpdateParams \<Rightarrow> bytes list" where
  "identity_MsgUpdateParams_GetSigners E msg = signer_of E (iu_Authority msg)"

section \<open>What validation guarantees\<close>

lemma identity_Params_Validate_cap:
  "identity_Params_Validate E p = None \<Longrightarrow> 128 \<le> ip_MaxMetadataSize p \<and> ip_MaxMetadataSize p \<le> 65536"
  by (auto simp: identity_Params_Validate_def identity_bounds not_less split: sum.splits if_splits)

lemma identity_DefaultParams_valid [simp]: "identity_Params_Validate E identity_DefaultParams = None"
  by (simp add: identity_Params_Validate_def identity_DefaultParams_def identity_bounds)

lemma validate_identities_None:
  "validate_identities cap i seen ds = None \<longleftrightarrow>
     distinct (map id_Address ds) \<and> set (map id_Address ds) \<inter> seen = {} \<and>
     (\<forall>d \<in> set ds. id_Address d \<noteq> [] \<and> id_Name d \<noteq> [] \<and> id_Role d \<noteq> [] \<and> id_Status d \<noteq> [] \<and>
        u32_len (id_Metadata d) \<le> cap)"
  by (induction cap i seen ds rule: validate_identities.induct) (auto simp: not_less)

lemma identity_Genesis_Validate_None:
  "identity_Genesis_Validate E gs = None \<longleftrightarrow>
     identity_Params_Validate E (ig_Params gs) = None \<and> distinct (map id_Address (ig_Identities gs)) \<and>
     (\<forall>d \<in> set (ig_Identities gs). id_Address d \<noteq> [] \<and> id_Name d \<noteq> [] \<and> id_Role d \<noteq> [] \<and> id_Status d \<noteq> [] \<and>
        u32_len (id_Metadata d) \<le> ip_MaxMetadataSize (ig_Params gs))"
  by (auto simp: identity_Genesis_Validate_def validate_identities_None)

end
