(* ===== verification/IdentityKeeper.thy ===== *)
theory IdentityKeeper
  imports CollStore IdentityTypes TxHistory
begin

text \<open>
  \<^verbatim>\<open>x/identity/keeper\<close> and the genesis import of \<^verbatim>\<open>x/identity/module.go\<close>: state, keeper operations,
  message and query servers, registered invariants.
\<close>

section \<open>State\<close>

record identity_state =
  is_Params :: "identity_Params option"
  is_Identities :: "(string, Identity) fmap"
  is_ByRole :: "(string \<times> string) fset"
  is_events :: "event list"

definition identity_empty :: identity_state where
  "identity_empty = \<lparr>is_Params = None, is_Identities = fmempty, is_ByRole = {||}, is_events = []\<rparr>"

definition identity_coll_params :: "unit coll" where
  "identity_coll_params = \<lparr>c_prefix = 0, c_name = ''params'', c_key = ItemKey\<rparr>"
definition identity_coll_identities :: "string coll" where
  "identity_coll_identities = \<lparr>c_prefix = 1, c_name = ''identities'', c_key = StringKey\<rparr>"
definition identity_coll_by_role :: "(string \<times> string) coll" where
  "identity_coll_by_role = \<lparr>c_prefix = 2, c_name = ''by_role'', c_key = PairKeyCodec StringKey StringKey\<rparr>"

definition identity_schema :: "(nat \<times> string) list" where
  "identity_schema =
     [(c_prefix identity_coll_params, c_name identity_coll_params),
      (c_prefix identity_coll_identities, c_name identity_coll_identities),
      (c_prefix identity_coll_by_role, c_name identity_coll_by_role)]"

datatype identity_error =
    IStoreParams coll_err
  | IStoreIdentity string coll_err
  | IIndexRole coll_err
  | IPanicGenesisParams identity_error
  | IPanicGenesisIdentity string identity_error

section \<open>Keeper\<close>

definition identity_SetParams :: "env \<Rightarrow> identity_Params \<Rightarrow> identity_state \<Rightarrow> identity_error option \<times> identity_state" where
  "identity_SetParams E params st =
     (case item_Set E identity_coll_params (is_Params st) params of
        (Some e, i) \<Rightarrow> (Some (IStoreParams e), st\<lparr>is_Params := i\<rparr>)
      | (None, i) \<Rightarrow> (None, st\<lparr>is_Params := i\<rparr>))"

definition identity_GetParams :: "env \<Rightarrow> identity_state \<Rightarrow> identity_Params" where
  "identity_GetParams E st =
     (case item_Get E identity_coll_params (is_Params st) of
        Inl _ \<Rightarrow> identity_DefaultParams
      | Inr params \<Rightarrow> params)"

definition SetIdentity :: "env \<Rightarrow> Identity \<Rightarrow> identity_state \<Rightarrow> identity_error option \<times> identity_state" where
  "SetIdentity E identity st =
     (case map_Set E identity_coll_identities (is_Identities st) (id_Address identity) identity of
        (Some e, m) \<Rightarrow> (Some (IStoreIdentity (id_Address identity) e), st\<lparr>is_Identities := m\<rparr>)
      | (None, m) \<Rightarrow>
          let st1 = st\<lparr>is_Identities := m\<rparr> in
          (case set_Set E identity_coll_by_role (is_ByRole st1) (id_Role identity, id_Address identity) of
             (Some e, s) \<Rightarrow> (Some (IIndexRole e), st1\<lparr>is_ByRole := s\<rparr>)
           | (None, s) \<Rightarrow> (None, st1\<lparr>is_ByRole := s\<rparr>)))"

definition GetIdentity :: "env \<Rightarrow> identity_state \<Rightarrow> string \<Rightarrow> Identity \<times> bool" where
  "GetIdentity E st address =
     (case map_Get E identity_coll_identities (is_Identities st) address of
        Inl _ \<Rightarrow> (zero_Identity, False)
      | Inr identity \<Rightarrow> (identity, True))"

text \<open>\<^verbatim>\<open>DeleteIdentity\<close> logs its failures; a failed first removal leaves the index alone.\<close>

definition DeleteIdentity :: "env \<Rightarrow> string \<Rightarrow> identity_state \<Rightarrow> identity_state" where
  "DeleteIdentity E address st =
     (case GetIdentity E st address of
        (identity, found) \<Rightarrow>
          if \<not> found then st
          else
            (case map_Remove E identity_coll_identities (is_Identities st) address of
               (Some e, m) \<Rightarrow> st\<lparr>is_Identities := m\<rparr>
             | (None, m) \<Rightarrow>
                 let st1 = st\<lparr>is_Identities := m\<rparr> in
                 (case set_Remove E identity_coll_by_role (is_ByRole st1) (id_Role identity, address) of
                    (_, s) \<Rightarrow> st1\<lparr>is_ByRole := s\<rparr>)))"

definition getAllIdentitiesUnbounded :: "env \<Rightarrow> identity_state \<Rightarrow> Identity list" where
  "getAllIdentitiesUnbounded E st =
     snd (map_Walk E identity_coll_identities (is_Identities st) no_range (\<lambda>_ v out. (False, out @ [v])) [])"

definition identity_ExportGenesis :: "env \<Rightarrow> identity_state \<Rightarrow> identity_GenesisState" where
  "identity_ExportGenesis E st = \<lparr>
     ig_Params = identity_GetParams E st,
     ig_Identities = getAllIdentitiesUnbounded E st\<rparr>"

definition IsRegistered :: "identity_state \<Rightarrow> string \<Rightarrow> bool" where
  "IsRegistered st address = map_Has (is_Identities st) address"

definition HasRole :: "env \<Rightarrow> identity_state \<Rightarrow> string \<Rightarrow> string \<Rightarrow> bool" where
  "HasRole E st address role =
     (case GetIdentity E st address of
        (identity, found) \<Rightarrow>
          if \<not> found then False
          else id_Role identity = role \<and> id_Status identity = StatusActive)"

section \<open>Genesis import\<close>

fun identity_restore :: "env \<Rightarrow> Identity list \<Rightarrow> identity_state \<Rightarrow> identity_error option \<times> identity_state" where
  "identity_restore E [] st = (None, st)"
| "identity_restore E (d # ds) st =
     (case SetIdentity E d st of
        (Some e, st') \<Rightarrow> (Some (IPanicGenesisIdentity (id_Address d) e), st')
      | (None, st') \<Rightarrow> identity_restore E ds st')"

definition identity_InitGenesis :: "env \<Rightarrow> identity_GenesisState \<Rightarrow> identity_state \<Rightarrow> identity_error option \<times> identity_state" where
  "identity_InitGenesis E gs st =
     (case identity_SetParams E (ig_Params gs) st of
        (Some e, st1) \<Rightarrow> (Some (IPanicGenesisParams e), st1)
      | (None, st1) \<Rightarrow> identity_restore E (ig_Identities gs) st1)"

section \<open>Messages\<close>

datatype identity_msg_error =
    IOnlyAdminRegister
  | IMetadataSize nat uint32
  | IAlreadyRegistered string
  | IStoring identity_error
  | INotFound string
  | IOnlyAdminOrOwner
  | IOnlyAdminRevoke
  | IAlreadyRevoked
  | IWrongAuthority string string
  | IParamsInvalid identity_param_error
  | ISettingParams identity_error

definition emit_identity :: "event \<Rightarrow> identity_state \<Rightarrow> identity_state" where
  "emit_identity ev st = st\<lparr>is_events := is_events st @ [ev]\<rparr>"

definition isAdmin :: "env \<Rightarrow> string \<Rightarrow> identity_state \<Rightarrow> string \<Rightarrow> bool" where
  "isAdmin E authority st address =
     (if address = authority then True
      else
        let params = identity_GetParams E st in
        if ip_AdminAddress params \<noteq> [] \<and> ip_AdminAddress params = address then True else False)"

definition msg_RegisterIdentity ::
  "env \<Rightarrow> string \<Rightarrow> sdk_ctx \<Rightarrow> MsgRegisterIdentity \<Rightarrow> identity_state \<Rightarrow> (identity_msg_error + unit) \<times> identity_state" where
  "msg_RegisterIdentity E authority ctx msg st =
     (if \<not> isAdmin E authority st (rg_Creator msg) then (Inl IOnlyAdminRegister, st)
      else
        let params = identity_GetParams E st in
        if ip_MaxMetadataSize params > 0 \<and> u32_len (rg_Metadata msg) > ip_MaxMetadataSize params
        then (Inl (IMetadataSize (length (rg_Metadata msg)) (ip_MaxMetadataSize params)), st)
        else if IsRegistered st (rg_Address msg) then (Inl (IAlreadyRegistered (rg_Address msg)), st)
        else
          let identity = \<lparr>id_Address = rg_Address msg, id_Name = rg_Name msg, id_Role = rg_Role msg,
                          id_Status = StatusActive, id_Metadata = rg_Metadata msg,
                          id_RegisteredAt = BlockTimeUnix ctx, id_UpdatedAt = BlockTimeUnix ctx\<rparr> in
          (case SetIdentity E identity st of
             (Some e, st1) \<Rightarrow> (Inl (IStoring e), st1)
           | (None, st1) \<Rightarrow>
               (Inr (), emit_identity (Event ''identity_registered''
                  [(''address'', rg_Address msg), (''role'', rg_Role msg), (''name'', rg_Name msg),
                   (''metadata'', rg_Metadata msg)]) st1)))"

definition msg_UpdateIdentity ::
  "env \<Rightarrow> string \<Rightarrow> sdk_ctx \<Rightarrow> MsgUpdateIdentity \<Rightarrow> identity_state \<Rightarrow> (identity_msg_error + unit) \<times> identity_state" where
  "msg_UpdateIdentity E authority ctx msg st =
     (case GetIdentity E st (up_Address msg) of
        (identity, found) \<Rightarrow>
          if \<not> found then (Inl (INotFound (up_Address msg)), st)
          else if \<not> isAdmin E authority st (up_Creator msg) \<and> up_Creator msg \<noteq> up_Address msg
          then (Inl IOnlyAdminOrOwner, st)
          else
            let params = identity_GetParams E st in
            if ip_MaxMetadataSize params > 0 \<and> u32_len (up_Metadata msg) > ip_MaxMetadataSize params
            then (Inl (IMetadataSize (length (up_Metadata msg)) (ip_MaxMetadataSize params)), st)
            else
              let id1 = (if up_Name msg \<noteq> [] then identity\<lparr>id_Name := up_Name msg\<rparr> else identity);
                  id2 = (if up_Metadata msg \<noteq> [] then id1\<lparr>id_Metadata := up_Metadata msg\<rparr> else id1);
                  id3 = id2\<lparr>id_UpdatedAt := BlockTimeUnix ctx\<rparr> in
              (case SetIdentity E id3 st of
                 (Some e, st1) \<Rightarrow> (Inl (IStoring e), st1)
               | (None, st1) \<Rightarrow>
                   (Inr (), emit_identity (Event ''identity_updated''
                      [(''address'', up_Address msg), (''name'', id_Name id3), (''metadata'', id_Metadata id3),
                       (''updated_by'', up_Creator msg)]) st1)))"

definition msg_RevokeIdentity ::
  "env \<Rightarrow> string \<Rightarrow> sdk_ctx \<Rightarrow> MsgRevokeIdentity \<Rightarrow> identity_state \<Rightarrow> (identity_msg_error + unit) \<times> identity_state" where
  "msg_RevokeIdentity E authority ctx msg st =
     (if \<not> isAdmin E authority st (rv_Creator msg) then (Inl IOnlyAdminRevoke, st)
      else
        (case GetIdentity E st (rv_Address msg) of
           (identity, found) \<Rightarrow>
             if \<not> found then (Inl (INotFound (rv_Address msg)), st)
             else if id_Status identity = StatusRevoked then (Inl IAlreadyRevoked, st)
             else
               (case SetIdentity E (identity\<lparr>id_Status := StatusRevoked, id_UpdatedAt := BlockTimeUnix ctx\<rparr>) st of
                  (Some e, st1) \<Rightarrow> (Inl (IStoring e), st1)
                | (None, st1) \<Rightarrow>
                    (Inr (), emit_identity (Event ''identity_revoked''
                       [(''address'', rv_Address msg), (''reason'', rv_Reason msg), (''revoked_by'', rv_Creator msg)]) st1))))"

definition identity_UpdateParams ::
  "env \<Rightarrow> string \<Rightarrow> identity_MsgUpdateParams \<Rightarrow> identity_state \<Rightarrow> (identity_msg_error + unit) \<times> identity_state" where
  "identity_UpdateParams E authority msg st =
     (if iu_Authority msg \<noteq> authority then (Inl (IWrongAuthority authority (iu_Authority msg)), st)
      else
        (case identity_Params_Validate E (iu_Params msg) of
           Some e \<Rightarrow> (Inl (IParamsInvalid e), st)
         | None \<Rightarrow>
             (case identity_SetParams E (iu_Params msg) st of
                (Some e, st1) \<Rightarrow> (Inl (ISettingParams e), st1)
              | (None, st1) \<Rightarrow> (Inr (), st1))))"

section \<open>Queries\<close>

datatype identity_query_error = IQueryNotFound string | IPaginating string

definition identity_query_Identity :: "env \<Rightarrow> identity_state \<Rightarrow> string \<Rightarrow> identity_query_error + Identity" where
  "identity_query_Identity E st address =
     (case GetIdentity E st address of
        (identity, found) \<Rightarrow> if \<not> found then Inl (IQueryNotFound address) else Inr identity)"

definition identity_resolve :: "env \<Rightarrow> identity_state \<Rightarrow> string \<times> string \<Rightarrow> Identity" where
  "identity_resolve E st key =
     (case GetIdentity E st (snd key) of
        (identity, ok) \<Rightarrow> if \<not> ok then zero_Identity\<lparr>id_Address := snd key\<rparr> else identity)"

definition identity_query_ByRole ::
  "env \<Rightarrow> ((string \<times> string) list \<Rightarrow> 'req \<Rightarrow> string \<Rightarrow> (string \<times> string \<Rightarrow> Identity) \<Rightarrow> string + Identity list \<times> bytes) \<Rightarrow>
     identity_state \<Rightarrow> string \<Rightarrow> 'req \<Rightarrow> identity_query_error + Identity list \<times> bytes" where
  "identity_query_ByRole E paginate st role pageReq =
     (case paginate (keys (is_ByRole st)) pageReq role (identity_resolve E st) of
        Inl e \<Rightarrow> Inl (IPaginating e)
      | Inr res \<Rightarrow> Inr res)"

definition identity_query_All ::
  "((string \<times> Identity) list \<Rightarrow> 'req \<Rightarrow> (string \<Rightarrow> Identity \<Rightarrow> Identity) \<Rightarrow> string + Identity list \<times> bytes) \<Rightarrow>
     identity_state \<Rightarrow> 'req \<Rightarrow> identity_query_error + Identity list \<times> bytes" where
  "identity_query_All paginate st pageReq =
     (case paginate (entries (is_Identities st)) pageReq (\<lambda>_ v. v) of
        Inl e \<Rightarrow> Inl (IPaginating e)
      | Inr res \<Rightarrow> Inr res)"

definition identity_query_Params :: "env \<Rightarrow> identity_state \<Rightarrow> identity_Params" where
  "identity_query_Params E st = identity_GetParams E st"

section \<open>Registered invariants\<close>

datatype identity_broken =
    IBrokenWalk string coll_err
  | IBrokenDangling "(string \<times> string \<times> string option) list"
  | IBrokenAddress "(string \<times> string) list"
  | IBrokenMetadata "(string \<times> nat \<times> uint32) list"

text \<open>Here a missing record may stop the walk and a role mismatch does not.\<close>

definition role_callback ::
  "env \<Rightarrow> identity_state \<Rightarrow> string \<times> string \<Rightarrow> (string \<times> string \<times> string option) list \<Rightarrow>
     bool \<times> (string \<times> string \<times> string option) list" where
  "role_callback E st key dangling =
     (case GetIdentity E st (snd key) of
        (identity, found) \<Rightarrow>
          if \<not> found then
            let dangling' = dangling @ [(fst key, snd key, None)] in (10 \<le> length dangling', dangling')
          else
            (False, if id_Role identity \<noteq> fst key
                    then dangling @ [(fst key, snd key, Some (id_Role identity))] else dangling))"

definition ByRoleConsistencyInvariant :: "env \<Rightarrow> identity_state \<Rightarrow> identity_broken option" where
  "ByRoleConsistencyInvariant E st =
     (case set_Walk (is_ByRole st) no_range (role_callback E st) [] of
        (Some e, _) \<Rightarrow> Some (IBrokenWalk ''ByRole'' e)
      | (None, dangling) \<Rightarrow> if dangling \<noteq> [] then Some (IBrokenDangling dangling) else None)"

definition AddressKeyMatchesValueInvariant :: "env \<Rightarrow> identity_state \<Rightarrow> identity_broken option" where
  "AddressKeyMatchesValueInvariant E st =
     (case map_Walk E identity_coll_identities (is_Identities st) no_range
             (\<lambda>key v bad.
                if key \<noteq> id_Address v
                then let bad' = bad @ [(key, id_Address v)] in (10 \<le> length bad', bad')
                else (False, bad)) [] of
        (Some e, _) \<Rightarrow> Some (IBrokenWalk ''Identities'' e)
      | (None, bad) \<Rightarrow> if bad \<noteq> [] then Some (IBrokenAddress bad) else None)"

definition identity_MetadataWithinCapInvariant :: "env \<Rightarrow> identity_state \<Rightarrow> identity_broken option" where
  "identity_MetadataWithinCapInvariant E st =
     (let cap = ip_MaxMetadataSize (identity_GetParams E st) in
      if cap = 0 then None
      else
        (case map_Walk E identity_coll_identities (is_Identities st) no_range
                (\<lambda>_ v violations.
                   if u32_len (id_Metadata v) > cap
                   then let violations' = violations @ [(id_Address v, length (id_Metadata v), cap)]
                        in (10 \<le> length violations', violations')
                   else (False, violations)) [] of
           (Some e, _) \<Rightarrow> Some (IBrokenWalk ''Identities'' e)
         | (None, violations) \<Rightarrow> if violations \<noteq> [] then Some (IBrokenMetadata violations) else None))"

definition identity_AllInvariants :: "env \<Rightarrow> identity_state \<Rightarrow> identity_broken option" where
  "identity_AllInvariants E st =
     (case ByRoleConsistencyInvariant E st of
        Some b \<Rightarrow> Some b
      | None \<Rightarrow>
     (case AddressKeyMatchesValueInvariant E st of
        Some b \<Rightarrow> Some b
      | None \<Rightarrow> identity_MetadataWithinCapInvariant E st))"

section \<open>Transactions\<close>

datatype identity_tx =
    TxRegister MsgRegisterIdentity
  | TxUpdate MsgUpdateIdentity
  | TxRevoke MsgRevokeIdentity
  | TxIdentityParams identity_MsgUpdateParams

fun identity_ValidateBasic :: "env \<Rightarrow> identity_tx \<Rightarrow> identity_basic_error option" where
  "identity_ValidateBasic E (TxRegister m) = MsgRegisterIdentity_ValidateBasic E m"
| "identity_ValidateBasic E (TxUpdate m) = MsgUpdateIdentity_ValidateBasic E m"
| "identity_ValidateBasic E (TxRevoke m) = MsgRevokeIdentity_ValidateBasic E m"
| "identity_ValidateBasic E (TxIdentityParams m) = identity_MsgUpdateParams_ValidateBasic E m"

fun identity_handle :: "env \<Rightarrow> string \<Rightarrow> sdk_ctx \<Rightarrow> identity_tx \<Rightarrow> identity_state \<Rightarrow> (identity_msg_error + unit) \<times> identity_state" where
  "identity_handle E auth ctx (TxRegister m) st = msg_RegisterIdentity E auth ctx m st"
| "identity_handle E auth ctx (TxUpdate m) st = msg_UpdateIdentity E auth ctx m st"
| "identity_handle E auth ctx (TxRevoke m) st = msg_RevokeIdentity E auth ctx m st"
| "identity_handle E auth ctx (TxIdentityParams m) st = identity_UpdateParams E auth m st"

definition identity_deliver :: "env \<Rightarrow> string \<Rightarrow> sdk_ctx \<Rightarrow> identity_tx \<Rightarrow> identity_state \<Rightarrow> identity_state" where
  "identity_deliver E auth ctx tx st =
     (if identity_ValidateBasic E tx \<noteq> None then st
      else commit_if (identity_handle E auth ctx tx (st\<lparr>is_events := []\<rparr>)) st)"

fun identity_run :: "env \<Rightarrow> string \<Rightarrow> (sdk_ctx \<times> identity_tx) list \<Rightarrow> identity_state \<Rightarrow> identity_state" where
  "identity_run E auth [] st = st"
| "identity_run E auth ((ctx, tx) # txs) st = identity_run E auth txs (identity_deliver E auth ctx tx st)"

interpretation identity_hist: tx_history "identity_deliver E auth" "identity_run E auth" for E auth
  by unfold_locales simp_all

end
