(* ===== verification/IdentityClaims.thy ===== *)
theory IdentityClaims
  imports IdentityKeeper SampleEnv
begin

text \<open>
  Correctness of the identity module: effects, well-formedness of the registry and its role index,
  the life cycle of an identity, who may change what, genesis; then the properties.
\<close>

section \<open>Effects\<close>

definition identity_put :: "Identity \<Rightarrow> identity_state \<Rightarrow> identity_state" where
  "identity_put d st = st\<lparr>is_Identities := fmupd (id_Address d) d (is_Identities st),
     is_ByRole := finsert (id_Role d, id_Address d) (is_ByRole st)\<rparr>"

lemma SetIdentity_ok: "SetIdentity E d st = (None, st') \<Longrightarrow> st' = identity_put d st"
  by (auto simp: SetIdentity_def identity_put_def coll_defs Let_def split: option.splits)

lemma SetIdentity_healthy [simp]: "healthy E \<Longrightarrow> SetIdentity E d st = (None, identity_put d st)"
  by (simp add: SetIdentity_def identity_put_def coll_defs Let_def)

lemma identity_SetParams_ok: "identity_SetParams E p st = (None, st') \<Longrightarrow> st' = st\<lparr>is_Params := Some p\<rparr>"
  by (auto simp: identity_SetParams_def coll_defs split: option.splits)

lemma identity_SetParams_healthy [simp]: "healthy E \<Longrightarrow> identity_SetParams E p st = (None, st\<lparr>is_Params := Some p\<rparr>)"
  by (simp add: identity_SetParams_def coll_defs)

lemma GetIdentity_healthy:
  "healthy E \<Longrightarrow> GetIdentity E st a = (case fmlookup (is_Identities st) a of None \<Rightarrow> (zero_Identity, False) | Some d \<Rightarrow> (d, True))"
  by (simp add: GetIdentity_def split: option.split)

lemma GetIdentity_found: "GetIdentity E st a = (d, True) \<Longrightarrow> fmlookup (is_Identities st) a = Some d"
  by (auto simp: GetIdentity_def dest!: map_Get_Inr split: sum.splits)

lemma identity_GetParams_frame [simp]:
  "identity_GetParams E (identity_put d st) = identity_GetParams E st"
  "identity_GetParams E (emit_identity ev st) = identity_GetParams E st"
  "identity_GetParams E (st\<lparr>is_events := evs\<rparr>) = identity_GetParams E st"
  by (simp_all add: identity_GetParams_def identity_put_def emit_identity_def)

lemma identity_GetParams_set [simp]:
  "healthy E \<Longrightarrow> identity_GetParams E (st\<lparr>is_events := evs, is_Params := Some p\<rparr>) = p"
  "healthy E \<Longrightarrow> identity_GetParams E (st\<lparr>is_Params := Some p\<rparr>) = p"
  by (simp_all add: identity_GetParams_def item_Get_def)

interpretation id_role: field_index
  "\<lambda>st. fmlookup (is_Identities st)" is_ByRole identity_put id_Address id_Role
  by unfold_locales (auto simp: identity_put_def)

definition identity_wf :: "identity_state \<Rightarrow> bool" where
  "identity_wf st \<longleftrightarrow> (\<forall>a d. fmlookup (is_Identities st) a = Some d \<longrightarrow> id_Address d = a) \<and>
     id_role.consistent st \<and> id_role.complete st"

lemma identity_wf_empty: "identity_wf identity_empty"
  by (simp add: identity_wf_def identity_empty_def id_role.consistent_def id_role.complete_def)

lemma identity_wf_frame [simp]:
  "identity_wf (emit_identity ev st) = identity_wf st" "identity_wf (st\<lparr>is_events := evs\<rparr>) = identity_wf st"
  "identity_wf (st\<lparr>is_events := evs, is_Params := p\<rparr>) = identity_wf st" "identity_wf (st\<lparr>is_Params := p\<rparr>) = identity_wf st"
  by (simp_all add: identity_wf_def emit_identity_def id_role.consistent_def id_role.complete_def)

lemma identity_wf_put:
  assumes "identity_wf st" and "\<And>d0. fmlookup (is_Identities st) (id_Address d) = Some d0 \<Longrightarrow> id_Role d0 = id_Role d"
  shows "identity_wf (identity_put d st)"
proof -
  have "id_role.consistent (identity_put d st)" "id_role.complete (identity_put d st)"
    using assms unfolding identity_wf_def by (auto intro: id_role.store_consistent id_role.store_complete)
  then show ?thesis using assms(1) unfolding identity_wf_def by (simp add: identity_put_def)
qed

section \<open>What a transaction does\<close>

definition fresh_identity :: "sdk_ctx \<Rightarrow> MsgRegisterIdentity \<Rightarrow> Identity" where
  "fresh_identity ctx m = \<lparr>id_Address = rg_Address m, id_Name = rg_Name m, id_Role = rg_Role m,
     id_Status = StatusActive, id_Metadata = rg_Metadata m,
     id_RegisteredAt = BlockTimeUnix ctx, id_UpdatedAt = BlockTimeUnix ctx\<rparr>"

definition edited :: "sdk_ctx \<Rightarrow> MsgUpdateIdentity \<Rightarrow> Identity \<Rightarrow> Identity" where
  "edited ctx m d = d\<lparr>id_Name := (if up_Name m \<noteq> [] then up_Name m else id_Name d),
     id_Metadata := (if up_Metadata m \<noteq> [] then up_Metadata m else id_Metadata d),
     id_UpdatedAt := BlockTimeUnix ctx\<rparr>"

definition revoked :: "sdk_ctx \<Rightarrow> Identity \<Rightarrow> Identity" where
  "revoked ctx d = d\<lparr>id_Status := StatusRevoked, id_UpdatedAt := BlockTimeUnix ctx\<rparr>"

definition identity_cap_ok :: "env \<Rightarrow> identity_state \<Rightarrow> string \<Rightarrow> bool" where
  "identity_cap_ok E st md \<longleftrightarrow>
     \<not> (ip_MaxMetadataSize (identity_GetParams E st) > 0 \<and> u32_len md > ip_MaxMetadataSize (identity_GetParams E st))"

lemma msg_RegisterIdentity_ok:
  assumes "msg_RegisterIdentity E auth ctx m st = (Inr u, st')"
  shows "isAdmin E auth st (rg_Creator m) \<and> identity_cap_ok E st (rg_Metadata m) \<and>
    fmlookup (is_Identities st) (rg_Address m) = None \<and> (\<exists>ev. st' = emit_identity ev (identity_put (fresh_identity ctx m) st))"
  using assms unfolding msg_RegisterIdentity_def Let_def fresh_identity_def [symmetric]
  by (auto simp: identity_cap_ok_def IsRegistered_def map_Has_def split: if_splits prod.splits option.splits dest!: SetIdentity_ok)

lemma msg_UpdateIdentity_ok:
  assumes "msg_UpdateIdentity E auth ctx m st = (Inr u, st')"
  shows "\<exists>d ev. fmlookup (is_Identities st) (up_Address m) = Some d \<and>
    (isAdmin E auth st (up_Creator m) \<or> up_Creator m = up_Address m) \<and> identity_cap_ok E st (up_Metadata m) \<and>
    st' = emit_identity ev (identity_put (edited ctx m d) st)"
proof -
  obtain d found where g: "GetIdentity E st (up_Address m) = (d, found)" by fastforce
  have f: found using assms g by (cases found) (simp_all add: msg_UpdateIdentity_def)
  have who: "isAdmin E auth st (up_Creator m) \<or> up_Creator m = up_Address m"
    using assms g f by (rule_tac ccontr) (simp add: msg_UpdateIdentity_def)
  have cap: "identity_cap_ok E st (up_Metadata m)"
    using assms g f who by (rule_tac ccontr) (auto simp: msg_UpdateIdentity_def identity_cap_ok_def Let_def split: if_splits)
  obtain e st1 where s: "SetIdentity E (edited ctx m d) st = (e, st1)" by fastforce
  have "e = None \<and> (\<exists>ev. st' = emit_identity ev st1)"
    using assms g f who cap s
    by (cases e; cases "up_Name m = []"; cases "up_Metadata m = []")
      (auto simp: msg_UpdateIdentity_def identity_cap_ok_def edited_def Let_def)
  moreover have "fmlookup (is_Identities st) (up_Address m) = Some d" using g f by (intro GetIdentity_found) simp
  ultimately show ?thesis using who cap s SetIdentity_ok by blast
qed

lemma msg_RevokeIdentity_ok:
  assumes "msg_RevokeIdentity E auth ctx m st = (Inr u, st')"
  shows "isAdmin E auth st (rv_Creator m) \<and> (\<exists>d ev. fmlookup (is_Identities st) (rv_Address m) = Some d \<and>
    id_Status d \<noteq> StatusRevoked \<and> st' = emit_identity ev (identity_put (revoked ctx d) st))"
proof -
  have who: "isAdmin E auth st (rv_Creator m)"
    using assms by (rule_tac ccontr) (simp add: msg_RevokeIdentity_def)
  obtain d found where g: "GetIdentity E st (rv_Address m) = (d, found)" by fastforce
  have f: found and live: "id_Status d \<noteq> StatusRevoked"
    using assms g who by (auto simp: msg_RevokeIdentity_def split: if_splits)
  obtain e st1 where s: "SetIdentity E (revoked ctx d) st = (e, st1)" by fastforce
  have "e = None \<and> (\<exists>ev. st' = emit_identity ev st1)"
    using assms g f who live s by (cases e) (auto simp: msg_RevokeIdentity_def revoked_def)
  moreover have "fmlookup (is_Identities st) (rv_Address m) = Some d" using g f by (intro GetIdentity_found) simp
  ultimately show ?thesis using who live s SetIdentity_ok by blast
qed

lemma identity_UpdateParams_ok:
  assumes "identity_UpdateParams E auth m st = (Inr u, st')"
  shows "iu_Authority m = auth \<and> identity_Params_Validate E (iu_Params m) = None \<and> st' = st\<lparr>is_Params := Some (iu_Params m)\<rparr>"
  using assms by (auto simp: identity_UpdateParams_def dest!: identity_SetParams_ok split: if_splits option.splits prod.splits)

lemma identity_deliver_cases:
  obtains
    (skip) "identity_deliver E auth ctx tx st = st"
  | (register) m ev where "tx = TxRegister m" "isAdmin E auth st (rg_Creator m)" "identity_cap_ok E st (rg_Metadata m)"
      "fmlookup (is_Identities st) (rg_Address m) = None"
      "identity_deliver E auth ctx tx st = emit_identity ev (identity_put (fresh_identity ctx m) (st\<lparr>is_events := []\<rparr>))"
  | (update) m d ev where "tx = TxUpdate m" "fmlookup (is_Identities st) (up_Address m) = Some d"
      "isAdmin E auth st (up_Creator m) \<or> up_Creator m = up_Address m" "identity_cap_ok E st (up_Metadata m)"
      "identity_deliver E auth ctx tx st = emit_identity ev (identity_put (edited ctx m d) (st\<lparr>is_events := []\<rparr>))"
  | (revoke) m d ev where "tx = TxRevoke m" "isAdmin E auth st (rv_Creator m)"
      "fmlookup (is_Identities st) (rv_Address m) = Some d" "id_Status d \<noteq> StatusRevoked"
      "identity_deliver E auth ctx tx st = emit_identity ev (identity_put (revoked ctx d) (st\<lparr>is_events := []\<rparr>))"
  | (params) m where "tx = TxIdentityParams m" "iu_Authority m = auth" "identity_Params_Validate E (iu_Params m) = None"
      "identity_deliver E auth ctx tx st = st\<lparr>is_events := [], is_Params := Some (iu_Params m)\<rparr>"
proof (cases "identity_ValidateBasic E tx = None")
  case False
  then show ?thesis by (intro skip) (simp add: identity_deliver_def)
next
  case basic: True
  let ?st = "st\<lparr>is_events := []\<rparr>"
  have adm: "isAdmin E auth ?st = isAdmin E auth st" "identity_cap_ok E ?st = identity_cap_ok E st"
    by (simp_all add: isAdmin_def identity_cap_ok_def fun_eq_iff)
  show ?thesis
  proof (cases rule: commit_if_cases [of "identity_handle E auth ctx tx ?st" st])
    case 1
    then show ?thesis using basic by (intro skip) (simp add: identity_deliver_def)
  next
    case (2 x st')
    have d: "identity_deliver E auth ctx tx st = st'" using basic 2 by (simp add: identity_deliver_def)
    show ?thesis
    proof (cases tx)
      case (TxRegister m)
      then show ?thesis using register d 2(1) msg_RegisterIdentity_ok [of E auth ctx m ?st x st'] adm by auto
    next
      case (TxUpdate m)
      then show ?thesis using update d 2(1) msg_UpdateIdentity_ok [of E auth ctx m ?st x st'] adm by auto
    next
      case (TxRevoke m)
      then show ?thesis using revoke d 2(1) msg_RevokeIdentity_ok [of E auth ctx m ?st x st'] adm by auto
    next
      case (TxIdentityParams m)
      then show ?thesis using params d 2(1) identity_UpdateParams_ok [of E auth m ?st x st'] by auto
    qed
  qed
qed

lemma record_fields [simp]:
  "id_Address (fresh_identity ctx mr) = rg_Address mr" "id_Address (edited ctx mu d) = id_Address d" "id_Address (revoked ctx d) = id_Address d"
  "id_Role (edited ctx mu d) = id_Role d" "id_Role (revoked ctx d) = id_Role d"
  "id_RegisteredAt (edited ctx mu d) = id_RegisteredAt d" "id_RegisteredAt (revoked ctx d) = id_RegisteredAt d"
  "id_Status (edited ctx mu d) = id_Status d" "id_Status (revoked ctx d) = StatusRevoked"
  by (simp_all add: fresh_identity_def edited_def revoked_def)

lemma identity_wf_deliver:
  assumes wf: "identity_wf st"
  shows "identity_wf (identity_deliver E auth ctx tx st)"
proof (cases rule: identity_deliver_cases [of E auth ctx tx st])
  case (register m ev)
  then show ?thesis using wf by (auto intro!: identity_wf_put)
next
  case (update m d ev)
  have "id_Address d = up_Address m" using wf update(2) by (simp add: identity_wf_def)
  then show ?thesis using wf update by (auto intro!: identity_wf_put)
next
  case (revoke m d ev)
  have "id_Address d = rv_Address m" using wf revoke(3) by (simp add: identity_wf_def)
  then show ?thesis using wf revoke by (auto intro!: identity_wf_put)
qed (use wf in simp_all)

lemma identity_wf_run: "identity_wf st \<Longrightarrow> identity_wf (identity_run E auth txs st)"
  by (erule identity_hist.run_inv) (rule identity_wf_deliver)

section \<open>Life cycle\<close>

text \<open>What never changes about a registered identity, and what only moves one way.\<close>

definition later_version :: "Identity \<Rightarrow> Identity \<Rightarrow> bool" where
  "later_version d d' \<longleftrightarrow> id_Address d' = id_Address d \<and> id_Role d' = id_Role d \<and> id_RegisteredAt d' = id_RegisteredAt d \<and>
     (id_Status d' = id_Status d \<or> id_Status d' = StatusRevoked)"

lemma later_version_refl [simp]: "later_version d d"
  by (simp add: later_version_def)

lemma later_version_trans: "later_version a b \<Longrightarrow> later_version b c \<Longrightarrow> later_version a c"
  by (auto simp: later_version_def)

lemma identity_deliver_later:
  assumes wf: "identity_wf st" and look: "fmlookup (is_Identities st) a = Some d"
  shows "\<exists>d'. fmlookup (is_Identities (identity_deliver E auth ctx tx st)) a = Some d' \<and> later_version d d'"
proof (cases rule: identity_deliver_cases [of E auth ctx tx st])
  case (register m ev)
  then show ?thesis using look by (auto simp: emit_identity_def identity_put_def)
next
  case (update m d0 ev)
  have "id_Address d0 = up_Address m" using wf update(2) by (simp add: identity_wf_def)
  then show ?thesis using look update by (auto simp: emit_identity_def identity_put_def later_version_def)
next
  case (revoke m d0 ev)
  have "id_Address d0 = rv_Address m" using wf revoke(3) by (simp add: identity_wf_def)
  then show ?thesis using look revoke by (auto simp: emit_identity_def identity_put_def later_version_def)
qed (use look in \<open>auto simp: emit_identity_def\<close>)

lemma identity_run_later:
  assumes "identity_wf st" and "fmlookup (is_Identities st) a = Some d"
  shows "\<exists>d'. fmlookup (is_Identities (identity_run E auth txs st)) a = Some d' \<and> later_version d d'"
proof -
  define R where "R s s' \<longleftrightarrow> (\<forall>d. fmlookup (is_Identities s) a = Some d \<longrightarrow>
      (\<exists>d'. fmlookup (is_Identities s') a = Some d' \<and> later_version d d'))" for s s' :: identity_state
  have "R st (identity_run E auth txs st)"
  proof (rule identity_hist.run_related [where P = identity_wf])
    show "transp R" unfolding R_def transp_def by (meson later_version_trans)
  qed (use assms(1) identity_wf_deliver identity_deliver_later in \<open>auto simp: R_def reflp_def\<close>)
  then show ?thesis using assms(2) by (simp add: R_def)
qed

section \<open>Registered invariants\<close>

lemma ByRoleConsistency_iff:
  assumes "healthy E"
  shows "ByRoleConsistencyInvariant E st = None \<longleftrightarrow> id_role.consistent st"
proof -
  define viol where "viol = (\<lambda>(r, a) (_ :: unit). \<not> (\<exists>d. fmlookup (is_Identities st) a = Some d \<and> id_Role d = r))"
  define msg where "msg = (\<lambda>(r :: string, a) (_ :: unit). (r, a, map_option id_Role (fmlookup (is_Identities st) a)))"
  have app: "snd ((\<lambda>k _ a. role_callback E st k a) k v a) = (if viol k v then a @ [msg k v] else a)" for k v a
    using assms by (cases k) (auto simp: role_callback_def GetIdentity_healthy viol_def msg_def Let_def split: option.splits)
  have go: "\<not> viol k v \<Longrightarrow> \<not> fst ((\<lambda>k _ a. role_callback E st k a) k v [])" for k v
    using assms by (cases k) (auto simp: role_callback_def GetIdentity_healthy viol_def split: option.splits)
  note W = Walk_list_violations [where viol = viol and msg = msg and bad = "\<lambda>_. False", OF app go]
  obtain e ds where w: "set_Walk (is_ByRole st) no_range (role_callback E st) [] = (e, ds)" by fastforce
  have "fst (set_Walk (is_ByRole st) no_range (role_callback E st) []) = None"
    unfolding set_Walk_def by (rule W(2)) simp_all
  moreover have "snd (set_Walk (is_ByRole st) no_range (role_callback E st) []) = [] \<longleftrightarrow> id_role.consistent st"
    unfolding set_Walk_def by (subst W(1)) (auto simp: viol_def no_range_def id_role.consistent_def)
  ultimately show ?thesis using w by (simp add: ByRoleConsistencyInvariant_def)
qed

lemma AddressKey_iff:
  assumes "healthy E"
  shows "AddressKeyMatchesValueInvariant E st = None \<longleftrightarrow>
    (\<forall>a d. fmlookup (is_Identities st) a = Some d \<longrightarrow> a = id_Address d)"
proof -
  let ?f = "\<lambda>key v bad. if key \<noteq> id_Address v then let bad' = bad @ [(key, id_Address v)] in (10 \<le> length bad', bad') else (False, bad)"
  have "\<exists>vs. map_Walk E identity_coll_identities (is_Identities st) no_range ?f [] = (None, vs) \<and>
      (vs = [] \<longleftrightarrow> (\<forall>k v. fmlookup (is_Identities st) k = Some v \<longrightarrow> \<not> k \<noteq> id_Address v))"
    by (rule map_Walk_violations [OF assms, where msg = "\<lambda>k v. (k, id_Address v)"]) (simp_all add: Let_def)
  then show ?thesis by (auto simp: AddressKeyMatchesValueInvariant_def)
qed

lemma identity_MetadataWithinCap_iff:
  assumes "healthy E"
  shows "identity_MetadataWithinCapInvariant E st = None \<longleftrightarrow>
    (ip_MaxMetadataSize (identity_GetParams E st) = 0 \<or>
     (\<forall>a d. fmlookup (is_Identities st) a = Some d \<longrightarrow> u32_len (id_Metadata d) \<le> ip_MaxMetadataSize (identity_GetParams E st)))"
proof -
  let ?cap = "ip_MaxMetadataSize (identity_GetParams E st)"
  let ?f = "\<lambda>_ v violations. if u32_len (id_Metadata v) > ?cap
      then let violations' = violations @ [(id_Address v, length (id_Metadata v), ?cap)] in (10 \<le> length violations', violations')
      else (False, violations)"
  have "\<exists>vs. map_Walk E identity_coll_identities (is_Identities st) no_range ?f [] = (None, vs) \<and>
      (vs = [] \<longleftrightarrow> (\<forall>k v. fmlookup (is_Identities st) k = Some v \<longrightarrow> \<not> u32_len (id_Metadata v) > ?cap))"
    by (rule map_Walk_violations [OF assms, where msg = "\<lambda>_ v. (id_Address v, length (id_Metadata v), ?cap)"]) (simp_all add: Let_def)
  then show ?thesis by (auto simp: identity_MetadataWithinCapInvariant_def Let_def not_less)
qed

definition identity_cap :: "env \<Rightarrow> identity_state \<Rightarrow> uint32" where
  "identity_cap E st = ip_MaxMetadataSize (identity_GetParams E st)"

definition identity_ok :: "env \<Rightarrow> identity_state \<Rightarrow> bool" where
  "identity_ok E st \<longleftrightarrow> identity_Params_Validate E (identity_GetParams E st) = None \<and>
     (\<forall>a d. fmlookup (is_Identities st) a = Some d \<longrightarrow> u32_len (id_Metadata d) \<le> identity_cap E st)"

fun identity_asks :: "identity_tx \<Rightarrow> uint32 option" where
  "identity_asks (TxIdentityParams m) = Some (ip_MaxMetadataSize (iu_Params m))"
| "identity_asks _ = None"

lemma identity_asks_Some: "identity_asks tx = Some n \<longleftrightarrow> (\<exists>m. tx = TxIdentityParams m \<and> n = ip_MaxMetadataSize (iu_Params m))"
  by (cases tx) auto

fun identity_requested_caps :: "(sdk_ctx \<times> identity_tx) list \<Rightarrow> uint32 list" where
  "identity_requested_caps [] = []"
| "identity_requested_caps ((ctx, TxIdentityParams m) # txs) = ip_MaxMetadataSize (iu_Params m) # identity_requested_caps txs"
| "identity_requested_caps (_ # txs) = identity_requested_caps txs"

lemma identity_cap_ok_le: "identity_ok E st \<Longrightarrow> identity_cap_ok E st md \<Longrightarrow> u32_len md \<le> identity_cap E st"
  using identity_Params_Validate_cap [of E "identity_GetParams E st"]
  by (auto simp: identity_ok_def identity_cap_ok_def identity_cap_def word_gt_0 not_less)

lemma identity_ok_put:
  "identity_ok E st \<Longrightarrow> u32_len (id_Metadata d) \<le> identity_cap E st \<Longrightarrow>
     identity_ok E (emit_identity ev (identity_put d (st\<lparr>is_events := evs\<rparr>)))"
  unfolding identity_ok_def identity_cap_def by (simp, simp add: emit_identity_def identity_put_def)

lemma identity_ok_deliver:
  assumes E: "healthy E" and ok: "identity_ok E st"
    and mono: "\<And>m. tx = TxIdentityParams m \<Longrightarrow> identity_cap E st \<le> ip_MaxMetadataSize (iu_Params m)"
  shows "identity_ok E (identity_deliver E auth ctx tx st)"
proof (cases rule: identity_deliver_cases [of E auth ctx tx st])
  case (register m ev)
  have "u32_len (rg_Metadata m) \<le> identity_cap E st" using ok register(3) by (rule identity_cap_ok_le)
  then show ?thesis using register(5) ok by (simp add: identity_ok_put fresh_identity_def)
next
  case (update m d ev)
  have "u32_len (up_Metadata m) \<le> identity_cap E st" using ok update(4) by (rule identity_cap_ok_le)
  moreover have "u32_len (id_Metadata d) \<le> identity_cap E st" using ok update(2) by (simp add: identity_ok_def)
  ultimately show ?thesis using update(5) ok by (simp add: identity_ok_put edited_def)
next
  case (revoke m d ev)
  have "u32_len (id_Metadata d) \<le> identity_cap E st" using ok revoke(3) by (simp add: identity_ok_def)
  then show ?thesis using revoke(5) ok by (simp add: identity_ok_put revoked_def)
next
  case (params m)
  then show ?thesis using E ok mono [of m] by (fastforce simp: identity_ok_def identity_cap_def intro: order_trans)
qed (use ok in simp)

lemma identity_cap_deliver:
  assumes "healthy E"
  shows "identity_cap E (identity_deliver E auth ctx tx st) = identity_cap E st \<or>
    (\<exists>m. tx = TxIdentityParams m \<and> identity_cap E (identity_deliver E auth ctx tx st) = ip_MaxMetadataSize (iu_Params m))"
  by (cases rule: identity_deliver_cases [of E auth ctx tx st]) (use assms in \<open>auto simp: identity_cap_def\<close>)

interpretation identity_caps: capped_history
  "identity_deliver E auth" "identity_run E auth" "identity_cap E" identity_asks identity_requested_caps "\<lambda>st. healthy E \<and> identity_ok E st" for E auth
proof
  fix c t txs s
  show "identity_requested_caps ((c, t) # txs) = (case identity_asks t of None \<Rightarrow> identity_requested_caps txs | Some n \<Rightarrow> n # identity_requested_caps txs)"
    by (cases t) simp_all
  show "healthy E \<and> identity_ok E (identity_deliver E auth c t s)"
    if "healthy E \<and> identity_ok E s" "\<And>n. identity_asks t = Some n \<Longrightarrow> identity_cap E s \<le> n"
    using that identity_ok_deliver [of E s t auth c] by (simp add: identity_asks_Some)
  show "identity_cap E (identity_deliver E auth c t s) = identity_cap E s \<or> identity_asks t = Some (identity_cap E (identity_deliver E auth c t s))"
    if "healthy E \<and> identity_ok E s"
    using that identity_cap_deliver [of E auth c t s] by (auto simp: identity_asks_Some)
qed simp

text \<open>Updates that are part of those in \<open>txs\<close> are enough.\<close>

lemma identity_ok_run_part:
  "healthy E \<Longrightarrow> identity_ok E st \<Longrightarrow> sorted (identity_cap E st # identity_requested_caps txs) \<Longrightarrow> subseq part txs \<Longrightarrow>
     identity_ok E (identity_run E auth part st)"
  using identity_caps.ok_run_part [of E st txs part auth] by simp

lemmas identity_ok_run = identity_ok_run_part [OF _ _ _ subseq_order.order_refl]

lemma identity_AllInvariants_ok:
  "healthy E \<Longrightarrow> identity_wf st \<Longrightarrow> identity_ok E st \<Longrightarrow> identity_AllInvariants E st = None"
  by (simp add: identity_AllInvariants_def ByRoleConsistency_iff [THEN iffD2] AddressKey_iff [THEN iffD2]
      identity_MetadataWithinCap_iff [THEN iffD2] identity_wf_def identity_ok_def identity_cap_def)

section \<open>Genesis\<close>

lemma identity_restore_healthy: "healthy E \<Longrightarrow> identity_restore E ds st = (None, fold identity_put ds st)"
  by (induction ds arbitrary: st) simp_all

definition identity_booted :: "identity_GenesisState \<Rightarrow> identity_state" where
  "identity_booted gs = fold identity_put (ig_Identities gs) (identity_empty\<lparr>is_Params := Some (ig_Params gs)\<rparr>)"

lemma identity_InitGenesis_booted: "healthy E \<Longrightarrow> identity_InitGenesis E gs identity_empty = (None, identity_booted gs)"
  by (simp add: identity_InitGenesis_def identity_restore_healthy identity_booted_def)

lemma fold_identity_fields:
  "is_Identities (fold identity_put ds st) = fold (\<lambda>d. fmupd (id_Address d) d) ds (is_Identities st)"
  "is_Params (fold identity_put ds st) = is_Params st"
  by (induction ds arbitrary: st) (simp_all add: identity_put_def)

lemma identity_booted_fields:
  "is_Identities (identity_booted gs) = fold (\<lambda>d. fmupd (id_Address d) d) (ig_Identities gs) fmempty"
  "is_Params (identity_booted gs) = Some (ig_Params gs)"
  by (simp_all add: identity_booted_def fold_identity_fields identity_empty_def)

lemma identity_booted_wf:
  assumes "distinct (map id_Address (ig_Identities gs))"
  shows "identity_wf (identity_booted gs)"
proof -
  let ?st0 = "identity_empty\<lparr>is_Params := Some (ig_Params gs)\<rparr>"
  have "id_role.consistent ?st0" "id_role.complete ?st0"
    by (simp_all add: id_role.consistent_def id_role.complete_def identity_empty_def)
  then have "id_role.consistent (identity_booted gs)" "id_role.complete (identity_booted gs)"
    unfolding identity_booted_def using assms
    by (auto intro!: id_role.store_all_consistent id_role.store_all_complete simp: identity_empty_def)
  then show ?thesis
    by (auto simp: identity_wf_def identity_booted_fields dest: fold_fmupd_lookup)
qed

lemma identity_ExportGenesis_healthy:
  "healthy E \<Longrightarrow> identity_ExportGenesis E st =
     \<lparr>ig_Params = identity_GetParams E st, ig_Identities = map snd (entries (is_Identities st))\<rparr>"
  by (simp add: identity_ExportGenesis_def getAllIdentitiesUnbounded_def map_Walk_values)

section \<open>Properties\<close>

definition sample_register :: MsgRegisterIdentity where
  "sample_register = NewMsgRegisterIdentity ''gov'' ''alice'' ''Alice'' ''producer'' []"

definition sample_registry :: identity_state where
  "sample_registry = identity_put (fresh_identity sample_ctx sample_register) identity_empty"

lemma sample_registry_wf: "identity_wf sample_registry"
  unfolding sample_registry_def by (rule identity_wf_put [OF identity_wf_empty]) (simp add: identity_empty_def)

lemma sample_identity_params [simp]: "identity_GetParams E identity_empty = identity_DefaultParams"
  by (simp add: identity_GetParams_def item_Get_def identity_empty_def)

definition sample_revoke :: identity_tx where
  "sample_revoke = TxRevoke (NewMsgRevokeIdentity ''gov'' ''alice'' ''expired'')"

text \<open>
  C9: a registered identity is never deleted by any history of transactions; its address, role and
  registration time never change, and once revoked it stays revoked, so it has no role ever again.
\<close>
theorem identity_life_cycle:
  assumes "identity_wf st" and "fmlookup (is_Identities st) a = Some d"
  shows "\<exists>d'. fmlookup (is_Identities (identity_run E auth txs st)) a = Some d' \<and>
    id_Address d' = id_Address d \<and> id_Role d' = id_Role d \<and> id_RegisteredAt d' = id_RegisteredAt d \<and>
    (id_Status d' = id_Status d \<or> id_Status d' = StatusRevoked) \<and>
    (if id_Status d = StatusRevoked then \<not> HasRole E (identity_run E auth txs st) a role else True)"
proof -
  obtain d' where d': "fmlookup (is_Identities (identity_run E auth txs st)) a = Some d'" "later_version d d'"
    using identity_run_later [OF assms] by blast
  have "\<not> HasRole E (identity_run E auth txs st) a role" if "id_Status d = StatusRevoked"
    using d' that by (auto simp: HasRole_def GetIdentity_def map_Get_def later_version_def StatusActive_def StatusRevoked_def)
  then show ?thesis using d' by (auto simp: later_version_def)
qed

theorem identity_life_cycle_witness:
  "\<exists>d'. fmlookup (is_Identities (identity_run sample_env ''gov'' [(sample_ctx, sample_revoke)] sample_registry)) ''alice'' = Some d' \<and>
     id_Role d' = ''producer''"
  using identity_life_cycle [OF sample_registry_wf, of "''alice''" "fresh_identity sample_ctx sample_register" sample_env "''gov''" "[(sample_ctx, sample_revoke)]"]
  by (auto simp: sample_registry_def identity_put_def sample_register_def fresh_identity_def NewMsgRegisterIdentity_def)

fun tx_creator :: "identity_tx \<Rightarrow> string" where
  "tx_creator (TxRegister m) = rg_Creator m"
| "tx_creator (TxUpdate m) = up_Creator m"
| "tx_creator (TxRevoke m) = rv_Creator m"
| "tx_creator (TxIdentityParams m) = iu_Authority m"

text \<open>
  The change an owner may make: to the name, the metadata and the update time of the identity under
  the own address, and to nothing else.
\<close>

definition owner_edit_only :: "string \<Rightarrow> identity_state \<Rightarrow> identity_state \<Rightarrow> bool" where
  "owner_edit_only owner st st' \<longleftrightarrow>
     is_Params st' = is_Params st \<and> is_ByRole st' = is_ByRole st \<and>
     (\<forall>a. a \<noteq> owner \<longrightarrow> fmlookup (is_Identities st') a = fmlookup (is_Identities st) a) \<and>
     (case fmlookup (is_Identities st) owner of
        None \<Rightarrow> fmlookup (is_Identities st') owner = None
      | Some d \<Rightarrow> \<exists>n md t. fmlookup (is_Identities st') owner = Some (d\<lparr>id_Name := n, id_Metadata := md, id_UpdatedAt := t\<rparr>))"

lemma owner_edit_only_refl: "owner_edit_only a st st"
proof -
  have "\<exists>n md t. d = d\<lparr>id_Name := n, id_Metadata := md, id_UpdatedAt := t\<rparr>" for d :: Identity
    by (intro exI [of _ "id_Name d"] exI [of _ "id_Metadata d"] exI [of _ "id_UpdatedAt d"]) simp
  then show ?thesis by (auto simp: owner_edit_only_def split: option.split)
qed

text \<open>
  C13: a sender who is neither the authority nor the configured admin can change at most the name,
  the metadata and the update time of the identity registered under the sender's own address: no
  other identity, no role, no status, no index entry and no parameter.
\<close>
theorem identity_non_admin_confined:
  assumes "identity_wf st" and "\<not> isAdmin E auth st (tx_creator tx)"
  shows "owner_edit_only (tx_creator tx) st (identity_deliver E auth ctx tx st)"
proof (cases rule: identity_deliver_cases [of E auth ctx tx st])
  case skip
  then show ?thesis by (simp add: owner_edit_only_refl)
next
  case (update m d ev)
  have own: "up_Creator m = up_Address m" "tx_creator tx = up_Address m" using assms(2) update(1,3) by auto
  have "id_Address d = up_Address m" using assms(1) update(2) by (simp add: identity_wf_def)
  moreover have "(id_Role d, up_Address m) |\<in>| is_ByRole st"
    using assms(1) update(2) by (auto simp: identity_wf_def id_role.complete_def)
  moreover have "\<exists>n md t. edited ctx m d = d\<lparr>id_Name := n, id_Metadata := md, id_UpdatedAt := t\<rparr>"
    unfolding edited_def by blast
  ultimately show ?thesis
    unfolding update(5) own(2) using update(2)
    by (auto simp: owner_edit_only_def emit_identity_def identity_put_def finsert_absorb)
qed (use assms(2) in \<open>auto simp: isAdmin_def\<close>)

theorem identity_non_admin_confined_witness:
  "owner_edit_only ''alice'' sample_registry
     (identity_deliver sample_env ''gov'' sample_ctx (TxUpdate (NewMsgUpdateIdentity ''alice'' ''alice'' ''Alice B.'' [])) sample_registry)"
  using identity_non_admin_confined [OF sample_registry_wf, of sample_env "''gov''" "TxUpdate (NewMsgUpdateIdentity ''alice'' ''alice'' ''Alice B.'' [])" sample_ctx]
  by (simp add: NewMsgUpdateIdentity_def isAdmin_def sample_registry_def identity_DefaultParams_def)

text \<open>
  Along every history the registered invariants of the identity module hold and the role index
  agrees with the registry in both directions, provided parameter updates do not lower the metadata
  cap.
\<close>
theorem identity_history_invariants:
  assumes "healthy E" and "identity_wf st" and "identity_ok E st"
    and "sorted (identity_cap E st # identity_requested_caps txs)"
  shows "identity_wf (identity_run E auth txs st) \<and> identity_AllInvariants E (identity_run E auth txs st) = None"
  using assms identity_wf_run [OF assms(2), of E auth txs] identity_ok_run [OF assms(1,3,4), of auth]
  by (simp add: identity_AllInvariants_ok)

theorem identity_history_invariants_witness:
  "identity_AllInvariants sample_env (identity_run sample_env ''gov'' [(sample_ctx, TxRegister sample_register)] identity_empty) = None"
proof -
  have "identity_ok sample_env identity_empty"
    by (simp add: identity_ok_def identity_cap_def) (simp add: identity_empty_def)
  then show ?thesis
    using identity_history_invariants [OF sample_healthy identity_wf_empty, of "[(sample_ctx, TxRegister sample_register)]" "''gov''"]
    by simp
qed

text \<open>
  On a store that does not fail, \<^verbatim>\<open>RegisterIdentity\<close> succeeds exactly when the sender is an
  admin, the metadata is within the cap and the address is not registered yet; it then adds exactly
  the active identity of the message and its index entry.  Otherwise the state is unchanged.
\<close>
theorem identity_register_outcome:
  assumes "healthy E"
  shows "case msg_RegisterIdentity E auth ctx m st of
      (Inl e, st') \<Rightarrow> st' = st \<and>
        \<not> (isAdmin E auth st (rg_Creator m) \<and> identity_cap_ok E st (rg_Metadata m) \<and> fmlookup (is_Identities st) (rg_Address m) = None)
    | (Inr _, st') \<Rightarrow> isAdmin E auth st (rg_Creator m) \<and> identity_cap_ok E st (rg_Metadata m) \<and>
        fmlookup (is_Identities st) (rg_Address m) = None \<and>
        is_Identities st' = fmupd (rg_Address m) (fresh_identity ctx m) (is_Identities st) \<and>
        is_ByRole st' = finsert (rg_Role m, rg_Address m) (is_ByRole st) \<and> is_Params st' = is_Params st"
  using assms
  by (auto simp: msg_RegisterIdentity_def Let_def identity_cap_ok_def IsRegistered_def map_Has_def identity_put_def
      emit_identity_def fresh_identity_def)

theorem identity_register_outcome_witness:
  "fst (msg_RegisterIdentity sample_env ''gov'' sample_ctx sample_register identity_empty) = Inr ()"
  using identity_register_outcome [OF sample_healthy, where auth = "''gov''" and ctx = sample_ctx and m = sample_register and st = identity_empty]
  by (auto simp: isAdmin_def sample_register_def NewMsgRegisterIdentity_def identity_cap_ok_def u32_len_def identity_empty_def
      split: prod.splits sum.splits)

text \<open>
  Exporting a well-formed registry and importing the export into an empty store restores the
  identities, the role index and the parameters.
\<close>
theorem identity_genesis_roundtrip:
  assumes "healthy E" and "identity_wf st"
  shows "\<exists>st'. identity_InitGenesis E (identity_ExportGenesis E st) identity_empty = (None, st') \<and>
    is_Identities st' = is_Identities st \<and> is_ByRole st' = is_ByRole st \<and> identity_GetParams E st' = identity_GetParams E st"
proof (intro exI conjI)
  let ?gs = "identity_ExportGenesis E st"
  note ex = identity_ExportGenesis_healthy [OF assms(1), of st]
  show "identity_InitGenesis E ?gs identity_empty = (None, identity_booted ?gs)"
    using assms(1) by (rule identity_InitGenesis_booted)
  show ids: "is_Identities (identity_booted ?gs) = is_Identities st"
    using assms(2) by (auto simp: identity_booted_fields ex identity_wf_def intro!: fold_fmupd_entries)
  show "identity_GetParams E (identity_booted ?gs) = identity_GetParams E st"
    using assms(1) by (simp add: identity_GetParams_def item_Get_def identity_booted_fields ex)
  have "map id_Address (ig_Identities ?gs) = map fst (entries (is_Identities st))"
    using assms(2) by (auto simp: ex set_entries identity_wf_def)
  then have "identity_wf (identity_booted ?gs)"
    using distinct_entries [of "is_Identities st"] by (intro identity_booted_wf) simp
  then show "is_ByRole (identity_booted ?gs) = is_ByRole st"
    using assms(2) ids id_role.index_lookup [of st] id_role.index_lookup [of "identity_booted ?gs"]
    by (intro index_determined) (auto simp: identity_wf_def)
qed

theorem identity_genesis_roundtrip_witness:
  "\<exists>st'. identity_InitGenesis sample_env (identity_ExportGenesis sample_env sample_registry) identity_empty = (None, st') \<and>
     is_Identities st' = is_Identities sample_registry"
  using identity_genesis_roundtrip [OF sample_healthy sample_registry_wf] by blast

text \<open>
  On a store that does not fail, \<^verbatim>\<open>DeleteIdentity\<close> undoes a registration: deleting an identity
  just added under a new address gives back the registry and the role index as they were.
\<close>
theorem identity_delete_undoes_register:
  assumes "healthy E" and "identity_wf st" and "fmlookup (is_Identities st) (id_Address d) = None"
    and "SetIdentity E d st = (None, st')"
  shows "DeleteIdentity E (id_Address d) st' = st"
proof -
  have st': "st' = identity_put d st" using assms(1,4) by simp
  have "(id_Role d, id_Address d) |\<notin>| is_ByRole st"
    using assms(2,3) unfolding identity_wf_def id_role.consistent_def by (metis option.distinct(1))
  moreover have "fmdrop (id_Address d) (fmupd (id_Address d) d (is_Identities st)) = is_Identities st"
    using assms(3) by (intro fmap_ext) auto
  ultimately show ?thesis
    using assms(1) by (simp add: st' DeleteIdentity_def GetIdentity_healthy identity_put_def map_Remove_def set_Remove_def Let_def)
qed

theorem identity_delete_undoes_register_witness:
  "DeleteIdentity sample_env ''alice'' (snd (SetIdentity sample_env (fresh_identity sample_ctx sample_register) identity_empty)) = identity_empty"
  using identity_delete_undoes_register [OF sample_healthy identity_wf_empty, of "fresh_identity sample_ctx sample_register"]
  by (simp add: sample_register_def NewMsgRegisterIdentity_def identity_empty_def)

end
