(* ===== verification/AuditTypes.thy ===== *)
theory AuditTypes
  imports GoStrings
begin

text \<open>
  \<^verbatim>\<open>x/audit/types\<close>: records, messages, parameters, genesis validation and stateless message checks
  of the audit module, and the byte helpers of \<^verbatim>\<open>keys.go\<close>.
\<close>

section \<open>Records\<close>

record AuditLog =
  al_ID :: uint64
  al_EventType :: string
  al_Actor :: string
  al_Target :: string
  al_Action :: string
  al_Data :: string
  al_BlockHeight :: int64
  al_Timestamp :: int64
  al_TxHash :: string

definition zero_AuditLog :: AuditLog where
  "zero_AuditLog = \<lparr>al_ID = 0, al_EventType = [], al_Actor = [], al_Target = [], al_Action = [], al_Data = [],
     al_BlockHeight = 0, al_Timestamp = 0, al_TxHash = []\<rparr>"

record audit_Params =
  ap_LargeTransferThreshold :: uint64
  ap_RetentionBlocks :: int64
  ap_AllowedAuditors :: "string list"
  ap_MaxDataSize :: uint32
  ap_Permissionless :: bool
  ap_MaxAuditsPerBlockPerCreator :: uint32

record MsgRecordAudit =
  ra_Creator :: string
  ra_EventType :: string
  ra_Target :: string
  ra_Action :: string
  ra_Data :: string

record audit_MsgUpdateParams =
  au_Authority :: string
  au_Params :: audit_Params

record audit_GenesisState =
  ag_Params :: audit_Params
  ag_Logs :: "AuditLog list"
  ag_Counter :: uint64

section \<open>Keys\<close>

definition GetAuditCountByCreatorKey :: "string \<Rightarrow> bytes" where
  "GetAuditCountByCreatorKey creator = CHR 0x10 # creator"

definition uint64ToBytes :: "uint64 \<Rightarrow> bytes" where
  "uint64ToBytes v = PutUint64 v"

text \<open>\<^verbatim>\<open>bytesToUint64\<close> panics on fewer than eight bytes, which is \<open>None\<close>.\<close>

definition bytesToUint64 :: "bytes \<Rightarrow> uint64 option" where
  "bytesToUint64 bz = (if length bz < 8 then None else Some (BE_Uint64 bz))"

section \<open>Parameters\<close>

definition AuditMaxDataLowerBound :: uint32 where "AuditMaxDataLowerBound = 128"
definition AuditMaxDataUpperBound :: uint32 where "AuditMaxDataUpperBound = 1048576"
definition AuditRetentionUpperBound :: int64 where "AuditRetentionUpperBound = 100000000"
definition AuditMaxAuditsPerBlockUpper :: uint32 where "AuditMaxAuditsPerBlockUpper = 10000"
definition DefaultAuditMaxData :: uint32 where "DefaultAuditMaxData = 65536"
definition DefaultAuditMaxPerBlock :: uint32 where "DefaultAuditMaxPerBlock = 100"

lemmas audit_bounds =
  AuditMaxDataLowerBound_def AuditMaxDataUpperBound_def AuditRetentionUpperBound_def
  AuditMaxAuditsPerBlockUpper_def DefaultAuditMaxData_def DefaultAuditMaxPerBlock_def

definition audit_DefaultParams :: audit_Params where
  "audit_DefaultParams = \<lparr>
     ap_LargeTransferThreshold = 1000000,
     ap_RetentionBlocks = 0,
     ap_AllowedAuditors = [],
     ap_MaxDataSize = DefaultAuditMaxData,
     ap_Permissionless = True,
     ap_MaxAuditsPerBlockPerCreator = DefaultAuditMaxPerBlock\<rparr>"

datatype audit_param_error =
    ARetentionNegative int64
  | ARetentionExceeds int64 int64
  | AMaxDataSizeBelow uint32 uint32
  | AMaxDataSizeExceeds uint32 uint32
  | AMaxAuditsExceeds uint32 uint32

definition audit_Params_Validate :: "audit_Params \<Rightarrow> audit_param_error option" where
  "audit_Params_Validate p =
     (if ap_RetentionBlocks p <s 0 then Some (ARetentionNegative (ap_RetentionBlocks p))
      else if AuditRetentionUpperBound <s ap_RetentionBlocks p
        then Some (ARetentionExceeds (ap_RetentionBlocks p) AuditRetentionUpperBound)
      else if ap_MaxDataSize p < AuditMaxDataLowerBound
        then Some (AMaxDataSizeBelow (ap_MaxDataSize p) AuditMaxDataLowerBound)
      else if ap_MaxDataSize p > AuditMaxDataUpperBound
        then Some (AMaxDataSizeExceeds (ap_MaxDataSize p) AuditMaxDataUpperBound)
      else if ap_MaxAuditsPerBlockPerCreator p > AuditMaxAuditsPerBlockUpper
        then Some (AMaxAuditsExceeds (ap_MaxAuditsPerBlockPerCreator p) AuditMaxAuditsPerBlockUpper)
      else None)"

section \<open>Genesis\<close>

definition audit_DefaultGenesis :: audit_GenesisState where
  "audit_DefaultGenesis = \<lparr>ag_Params = audit_DefaultParams, ag_Logs = [], ag_Counter = 0\<rparr>"

datatype audit_genesis_error =
    AGInvalidParams audit_param_error
  | AGDuplicate uint64 nat
  | AGEmptyActor uint64
  | AGEmptyAction uint64
  | AGEmptyEventType uint64
  | AGDataSize uint64 nat uint32

fun validate_logs :: "uint32 \<Rightarrow> nat \<Rightarrow> uint64 set \<Rightarrow> AuditLog list \<Rightarrow> audit_genesis_error option" where
  "validate_logs cap i seen [] = None"
| "validate_logs cap i seen (l # ls) =
     (if al_ID l \<in> seen then Some (AGDuplicate (al_ID l) i)
      else if al_Actor l = [] then Some (AGEmptyActor (al_ID l))
      else if al_Action l = [] then Some (AGEmptyAction (al_ID l))
      else if al_EventType l = [] then Some (AGEmptyEventType (al_ID l))
      else if u32_len (al_Data l) > cap then Some (AGDataSize (al_ID l) (length (al_Data l)) cap)
      else validate_logs cap (Suc i) (insert (al_ID l) seen) ls)"

definition audit_Genesis_Validate :: "audit_GenesisState \<Rightarrow> audit_genesis_error option" where
  "audit_Genesis_Validate gs =
     (case audit_Params_Validate (ag_Params gs) of
        Some e \<Rightarrow> Some (AGInvalidParams e)
      | None \<Rightarrow> validate_logs (ap_MaxDataSize (ag_Params gs)) 0 {} (ag_Logs gs))"

section \<open>Stateless message checks\<close>

datatype audit_basic_error =
    AInvalidCreator string
  | AEventTypeEmpty
  | AActionEmpty
  | AInvalidAuthority string
  | AInvalidParams audit_param_error

definition NewMsgRecordAudit :: "string \<Rightarrow> string \<Rightarrow> string \<Rightarrow> string \<Rightarrow> string \<Rightarrow> MsgRecordAudit" where
  "NewMsgRecordAudit creator eventType target act dat =
     \<lparr>ra_Creator = creator, ra_EventType = eventType, ra_Target = target, ra_Action = act, ra_Data = dat\<rparr>"

definition MsgRecordAudit_ValidateBasic :: "env \<Rightarrow> MsgRecordAudit \<Rightarrow> audit_basic_error option" where
  "MsgRecordAudit_ValidateBasic E msg =
     (case AccAddressFromBech32 E (ra_Creator msg) of
        Inl e \<Rightarrow> Some (AInvalidCreator e)
      | Inr _ \<Rightarrow>
          if ra_EventType msg = [] then Some AEventTypeEmpty
          else if ra_Action msg = [] then Some AActionEmpty
          else None)"

definition MsgRecordAudit_GetSigners :: "env \<Rightarrow> MsgRecordAudit \<Rightarrow> bytes list" where
  "MsgRecordAudit_GetSigners E msg = signer_of E (ra_Creator msg)"

definition audit_MsgUpdateParams_ValidateBasic :: "env \<Rightarrow> audit_MsgUpdateParams \<Rightarrow> audit_basic_error option" where
  "audit_MsgUpdateParams_ValidateBasic E msg =
     (case AccAddressFromBech32 E (au_Authority msg) of
        Inl e \<Rightarrow> Some (AInvalidAuthority e)
      | Inr _ \<Rightarrow> map_option AInvalidParams (audit_Params_Validate (au_Params msg)))"

definition audit_MsgUpdateParams_GetSigners :: "env \<Rightarrow> audit_MsgUpdateParams \<Rightarrow> bytes list" where
  "audit_MsgUpdateParams_GetSigners E msg = signer_of E (au_Authority msg)"

section \<open>What validation guarantees\<close>

lemma bytesToUint64_uint64ToBytes [simp]: "bytesToUint64 (uint64ToBytes v) = Some v"
  by (simp add: bytesToUint64_def uint64ToBytes_def)

lemma audit_Params_Validate_cap:
  "audit_Params_Validate p = None \<Longrightarrow> 128 \<le> ap_MaxDataSize p \<and> ap_MaxDataSize p \<le> 1048576 \<and>
     ap_MaxAuditsPerBlockPerCreator p \<le> 10000"
  by (auto simp: audit_Params_Validate_def audit_bounds not_less split: if_splits)

lemma audit_DefaultParams_valid [simp]: "audit_Params_Validate audit_DefaultParams = None"
  by (simp add: audit_Params_Validate_def audit_DefaultParams_def audit_bounds word_sless_alt)

lemma validate_logs_None:
  "validate_logs cap i seen ls = None \<longleftrightarrow>
     distinct (map al_ID ls) \<and> set (map al_ID ls) \<inter> seen = {} \<and>
     (\<forall>l \<in> set ls. al_Actor l \<noteq> [] \<and> al_Action l \<noteq> [] \<and> al_EventType l \<noteq> [] \<and> u32_len (al_Data l) \<le> cap)"
  by (induction cap i seen ls rule: validate_logs.induct) (auto simp: not_less)

lemma audit_Genesis_Validate_None:
  "audit_Genesis_Validate gs = None \<longleftrightarrow>
     audit_Params_Validate (ag_Params gs) = None \<and> distinct (map al_ID (ag_Logs gs)) \<and>
     (\<forall>l \<in> set (ag_Logs gs). al_Actor l \<noteq> [] \<and> al_Action l \<noteq> [] \<and> al_EventType l \<noteq> [] \<and>
        u32_len (al_Data l) \<le> ap_MaxDataSize (ag_Params gs))"
  by (auto simp: audit_Genesis_Validate_def validate_logs_None)

end
