(* ===== verification/AuditKeeper.thy ===== *)
theory AuditKeeper
  imports CollStore RateLimit AuditTypes TxHistory
begin

text \<open>
  \<^verbatim>\<open>x/audit/keeper\<close>: the state of the audit module, its keeper operations, message and query servers
  and registered invariants.
\<close>

section \<open>State\<close>

record audit_state =
  as_Params :: "audit_Params option"
  as_IDSequence :: "uint64 option"
  as_Logs :: "(uint64, AuditLog) fmap"
  as_ByActor :: "(string \<times> uint64) fset"
  as_ByEventType :: "(string \<times> uint64) fset"
  as_ByTime :: "(uint64 \<times> uint64) fset"
  as_transient :: tstore
  as_events :: "event list"

definition audit_empty :: audit_state where
  "audit_empty = \<lparr>as_Params = None, as_IDSequence = None, as_Logs = fmempty, as_ByActor = {||},
     as_ByEventType = {||}, as_ByTime = {||}, as_transient = fmempty, as_events = []\<rparr>"

definition audit_coll_params :: "unit coll" where
  "audit_coll_params = \<lparr>c_prefix = 0, c_name = ''params'', c_key = ItemKey\<rparr>"
definition audit_coll_sequence :: "unit coll" where
  "audit_coll_sequence = \<lparr>c_prefix = 4, c_name = ''id_sequence'', c_key = ItemKey\<rparr>"
definition audit_coll_logs :: "uint64 coll" where
  "audit_coll_logs = \<lparr>c_prefix = 1, c_name = ''audit_logs'', c_key = Uint64Key\<rparr>"
definition audit_coll_by_actor :: "(string \<times> uint64) coll" where
  "audit_coll_by_actor = \<lparr>c_prefix = 2, c_name = ''by_actor'', c_key = PairKeyCodec StringKey Uint64Key\<rparr>"
definition audit_coll_by_event_type :: "(string \<times> uint64) coll" where
  "audit_coll_by_event_type = \<lparr>c_prefix = 3, c_name = ''by_event_type'', c_key = PairKeyCodec StringKey Uint64Key\<rparr>"
definition audit_coll_by_time :: "(uint64 \<times> uint64) coll" where
  "audit_coll_by_time = \<lparr>c_prefix = 5, c_name = ''by_time'', c_key = PairKeyCodec Uint64Key Uint64Key\<rparr>"

definition audit_schema :: "(nat \<times> string) list" where
  "audit_schema =
     [(c_prefix audit_coll_params, c_name audit_coll_params),
      (c_prefix audit_coll_sequence, c_name audit_coll_sequence),
      (c_prefix audit_coll_logs, c_name audit_coll_logs),
      (c_prefix audit_coll_by_actor, c_name audit_coll_by_actor),
      (c_prefix audit_coll_by_event_type, c_name audit_coll_by_event_type),
      (c_prefix audit_coll_by_time, c_name audit_coll_by_time)]"

datatype audit_error =
    AStoreParams coll_err
  | AStoreLog uint64 coll_err
  | AIndexActor coll_err
  | AIndexType coll_err
  | AIndexTime coll_err
  | ARateLimited string uint32
  | APanicSetSequence coll_err
  | AGenesisParams audit_error
  | AGenesisLog nat audit_error

section \<open>Parameters and counters\<close>

definition audit_SetParams :: "env \<Rightarrow> audit_Params \<Rightarrow> audit_state \<Rightarrow> audit_error option \<times> audit_state" where
  "audit_SetParams E params st =
     (case item_Set E audit_coll_params (as_Params st) params of
        (Some e, i) \<Rightarrow> (Some (AStoreParams e), st\<lparr>as_Params := i\<rparr>)
      | (None, i) \<Rightarrow> (None, st\<lparr>as_Params := i\<rparr>))"

definition audit_GetParams :: "env \<Rightarrow> audit_state \<Rightarrow> audit_Params" where
  "audit_GetParams E st =
     (case item_Get E audit_coll_params (as_Params st) of
        Inl _ \<Rightarrow> audit_DefaultParams
      | Inr params \<Rightarrow> params)"

definition CheckAndIncrAuditCount :: "env \<Rightarrow> string \<Rightarrow> audit_state \<Rightarrow> audit_error option \<times> audit_state" where
  "CheckAndIncrAuditCount E creator st =
     (let limit = ap_MaxAuditsPerBlockPerCreator (audit_GetParams E st) in
      if limit = 0 then (None, st)
      else
        let key = GetAuditCountByCreatorKey creator;
            count = counter_at (as_transient st) key
        in if count \<ge> limit then (Some (ARateLimited creator limit), st)
           else (None, st\<lparr>as_transient := fmupd key (PutUint32 (count + 1)) (as_transient st)\<rparr>))"

text \<open>A sequence that cannot be read counts as never used.\<close>

definition GetNextID :: "env \<Rightarrow> audit_state \<Rightarrow> uint64" where
  "GetNextID E st = (case seq_Peek E audit_coll_sequence (as_IDSequence st) of Inl _ \<Rightarrow> 1 | Inr cur \<Rightarrow> cur + 1)"

definition IncrementCounter :: "env \<Rightarrow> uint64 \<Rightarrow> audit_state \<Rightarrow> audit_error option \<times> audit_state" where
  "IncrementCounter E n st =
     (case item_Set E audit_coll_sequence (as_IDSequence st) n of
        (Some e, s) \<Rightarrow> (Some (APanicSetSequence e), st\<lparr>as_IDSequence := s\<rparr>)
      | (None, s) \<Rightarrow> (None, st\<lparr>as_IDSequence := s\<rparr>))"

section \<open>Logs\<close>

definition audit_timestampToKey :: "int64 \<Rightarrow> uint64" where
  "audit_timestampToKey ts = (if ts <s 0 then 0 else ts)"

definition RecordAuditLog :: "env \<Rightarrow> AuditLog \<Rightarrow> audit_state \<Rightarrow> audit_error option \<times> audit_state" where
  "RecordAuditLog E l st =
     (case map_Set E audit_coll_logs (as_Logs st) (al_ID l) l of
        (Some e, m) \<Rightarrow> (Some (AStoreLog (al_ID l) e), st\<lparr>as_Logs := m\<rparr>)
      | (None, m) \<Rightarrow>
          let st1 = st\<lparr>as_Logs := m\<rparr> in
          (case set_Set E audit_coll_by_actor (as_ByActor st1) (al_Actor l, al_ID l) of
             (Some e, s) \<Rightarrow> (Some (AIndexActor e), st1\<lparr>as_ByActor := s\<rparr>)
           | (None, s) \<Rightarrow>
               let st2 = st1\<lparr>as_ByActor := s\<rparr> in
               (case set_Set E audit_coll_by_event_type (as_ByEventType st2) (al_EventType l, al_ID l) of
                  (Some e, s) \<Rightarrow> (Some (AIndexType e), st2\<lparr>as_ByEventType := s\<rparr>)
                | (None, s) \<Rightarrow>
                    let st3 = st2\<lparr>as_ByEventType := s\<rparr> in
                    (case set_Set E audit_coll_by_time (as_ByTime st3) (audit_timestampToKey (al_Timestamp l), al_ID l) of
                       (Some e, s) \<Rightarrow> (Some (AIndexTime e), st3\<lparr>as_ByTime := s\<rparr>)
                     | (None, s) \<Rightarrow> (None, st3\<lparr>as_ByTime := s\<rparr>)))))"

definition GetAuditLog :: "env \<Rightarrow> audit_state \<Rightarrow> uint64 \<Rightarrow> AuditLog \<times> bool" where
  "GetAuditLog E st ident =
     (case map_Get E audit_coll_logs (as_Logs st) ident of
        Inl _ \<Rightarrow> (zero_AuditLog, False)
      | Inr l \<Rightarrow> (l, True))"

definition audit_MaxQueryResults :: nat where
  "audit_MaxQueryResults = 1000"

text \<open>The callback the three index queries share: resolve the id, keep what is found, stop when full.\<close>

definition resolve_callback :: "env \<Rightarrow> audit_state \<Rightarrow> 'a \<times> uint64 \<Rightarrow> AuditLog list \<Rightarrow> bool \<times> AuditLog list" where
  "resolve_callback E st key logs =
     (case GetAuditLog E st (snd key) of
        (l, ok) \<Rightarrow> let logs' = (if ok then logs @ [l] else logs) in (audit_MaxQueryResults \<le> length logs', logs'))"

definition GetAuditLogsByActor :: "env \<Rightarrow> audit_state \<Rightarrow> string \<Rightarrow> AuditLog list" where
  "GetAuditLogsByActor E st actor =
     snd (set_Walk (as_ByActor st) (\<lambda>k. fst k = actor) (resolve_callback E st) [])"

definition GetAuditLogsByType :: "env \<Rightarrow> audit_state \<Rightarrow> string \<Rightarrow> AuditLog list" where
  "GetAuditLogsByType E st eventType =
     snd (set_Walk (as_ByEventType st) (\<lambda>k. fst k = eventType) (resolve_callback E st) [])"

definition GetAuditLogsByTimeRange :: "env \<Rightarrow> audit_state \<Rightarrow> int64 \<Rightarrow> int64 \<Rightarrow> AuditLog list" where
  "GetAuditLogsByTimeRange E st fromT toT =
     (if fromT <s 0 \<or> toT <s fromT then []
      else
        let startKey = audit_timestampToKey fromT;
            endKey = audit_timestampToKey toT + 1
        in snd (set_Walk (as_ByTime st) (\<lambda>k. startKey \<le> fst k \<and> fst k < endKey) (resolve_callback E st) []))"

definition GetAllLogs :: "env \<Rightarrow> audit_state \<Rightarrow> AuditLog list" where
  "GetAllLogs E st =
     snd (map_Walk E audit_coll_logs (as_Logs st) no_range
       (\<lambda>_ v logs. let logs' = logs @ [v] in (audit_MaxQueryResults \<le> length logs', logs')) [])"

definition exportAllLogs :: "env \<Rightarrow> audit_state \<Rightarrow> AuditLog list" where
  "exportAllLogs E st =
     snd (map_Walk E audit_coll_logs (as_Logs st) no_range (\<lambda>_ v logs. (False, logs @ [v])) [])"

section \<open>Genesis\<close>

fun audit_restore :: "env \<Rightarrow> nat \<Rightarrow> AuditLog list \<Rightarrow> audit_state \<Rightarrow> audit_error option \<times> audit_state" where
  "audit_restore E i [] st = (None, st)"
| "audit_restore E i (l # ls) st =
     (case RecordAuditLog E l st of
        (Some e, st') \<Rightarrow> (Some (AGenesisLog i e), st')
      | (None, st') \<Rightarrow> audit_restore E (Suc i) ls st')"

definition audit_maxID :: "audit_GenesisState \<Rightarrow> uint64" where
  "audit_maxID gs = fold (\<lambda>l m. if al_ID l > m then al_ID l else m) (ag_Logs gs) (ag_Counter gs)"

definition audit_InitGenesis :: "env \<Rightarrow> audit_GenesisState \<Rightarrow> audit_state \<Rightarrow> audit_error option \<times> audit_state" where
  "audit_InitGenesis E gs st =
     (case audit_SetParams E (ag_Params gs) st of
        (Some e, st1) \<Rightarrow> (Some (AGenesisParams e), st1)
      | (None, st1) \<Rightarrow>
          (case audit_restore E 0 (ag_Logs gs) st1 of
             (Some e, st2) \<Rightarrow> (Some e, st2)
           | (None, st2) \<Rightarrow>
               let maxID = audit_maxID gs in
               if maxID > 0 then IncrementCounter E maxID st2 else (None, st2)))"

definition audit_ExportGenesis :: "env \<Rightarrow> audit_state \<Rightarrow> audit_GenesisState" where
  "audit_ExportGenesis E st = \<lparr>
     ag_Params = audit_GetParams E st,
     ag_Logs = exportAllLogs E st,
     ag_Counter = (case seq_Peek E audit_coll_sequence (as_IDSequence st) of Inl _ \<Rightarrow> 0 | Inr c \<Rightarrow> c)\<rparr>"

section \<open>Messages\<close>

datatype audit_msg_error =
    ANotAllowedAuditor string
  | ADataSize nat uint32
  | AKeeper audit_error
  | AStoringLog audit_error
  | AWrongAuthority string string
  | AParamsInvalid audit_param_error
  | ASettingParams audit_error

definition emit_audit :: "event \<Rightarrow> audit_state \<Rightarrow> audit_state" where
  "emit_audit ev st = st\<lparr>as_events := as_events st @ [ev]\<rparr>"

definition isAllowedAuditor :: "env \<Rightarrow> audit_state \<Rightarrow> string \<Rightarrow> bool" where
  "isAllowedAuditor E st address =
     (let params = audit_GetParams E st in
      if ap_Permissionless params then True
      else list_ex (\<lambda>allowed. allowed = address) (ap_AllowedAuditors params))"

definition msg_RecordAudit ::
  "env \<Rightarrow> sdk_ctx \<Rightarrow> MsgRecordAudit \<Rightarrow> audit_state \<Rightarrow> (audit_msg_error + unit) \<times> audit_state" where
  "msg_RecordAudit E ctx msg st =
     (if \<not> isAllowedAuditor E st (ra_Creator msg) then (Inl (ANotAllowedAuditor (ra_Creator msg)), st)
      else
        let params = audit_GetParams E st in
        if ap_MaxDataSize params > 0 \<and> u32_len (ra_Data msg) > ap_MaxDataSize params
        then (Inl (ADataSize (length (ra_Data msg)) (ap_MaxDataSize params)), st)
        else
          (case CheckAndIncrAuditCount E (ra_Creator msg) st of
             (Some e, st1) \<Rightarrow> (Inl (AKeeper e), st1)
           | (None, st1) \<Rightarrow>
               let ident = GetNextID E st1;
                   txHash = (if TxBytes ctx \<noteq> [] then Sprint_X (sha256 E (TxBytes ctx)) else []);
                   l = \<lparr>al_ID = ident, al_EventType = ra_EventType msg, al_Actor = ra_Creator msg,
                        al_Target = ra_Target msg, al_Action = ra_Action msg, al_Data = ra_Data msg,
                        al_BlockHeight = BlockHeight ctx, al_Timestamp = BlockTimeUnix ctx, al_TxHash = txHash\<rparr> in
               (case RecordAuditLog E l st1 of
                  (Some e, st2) \<Rightarrow> (Inl (AStoringLog e), st2)
                | (None, st2) \<Rightarrow>
                    (case IncrementCounter E ident st2 of
                       (Some e, st3) \<Rightarrow> (Inl (AKeeper e), st3)
                     | (None, st3) \<Rightarrow>
                         (Inr (), emit_audit (Event ''audit_recorded''
                            [(''id'', Sprint_d (unat ident)), (''event_type'', ra_EventType msg),
                             (''actor'', ra_Creator msg), (''target'', ra_Target msg),
                             (''action'', ra_Action msg), (''data'', ra_Data msg)]) st3)))))"

definition audit_UpdateParams ::
  "env \<Rightarrow> string \<Rightarrow> audit_MsgUpdateParams \<Rightarrow> audit_state \<Rightarrow> (audit_msg_error + unit) \<times> audit_state" where
  "audit_UpdateParams E authority msg st =
     (if au_Authority msg \<noteq> authority then (Inl (AWrongAuthority authority (au_Authority msg)), st)
      else
        (case audit_Params_Validate (au_Params msg) of
           Some e \<Rightarrow> (Inl (AParamsInvalid e), st)
         | None \<Rightarrow>
             (case audit_SetParams E (au_Params msg) st of
                (Some e, st1) \<Rightarrow> (Inl (ASettingParams e), st1)
              | (None, st1) \<Rightarrow> (Inr (), st1))))"

section \<open>Queries\<close>

datatype audit_query_error = ALogNotFound uint64 | AInvalidRange int64 int64 | APaginating string

definition audit_query_AuditLog :: "env \<Rightarrow> audit_state \<Rightarrow> uint64 \<Rightarrow> audit_query_error + AuditLog" where
  "audit_query_AuditLog E st ident =
     (case GetAuditLog E st ident of (l, found) \<Rightarrow> if \<not> found then Inl (ALogNotFound ident) else Inr l)"

record QueryAuditLogsRequest =
  qr_Actor :: string
  qr_EventType :: string
  qr_FromTimestamp :: int64
  qr_ToTimestamp :: int64

definition audit_filter :: "QueryAuditLogsRequest \<Rightarrow> bool \<Rightarrow> int64 \<Rightarrow> int64 \<Rightarrow> AuditLog \<Rightarrow> bool" where
  "audit_filter req hasTimeRange fromT toT l =
     (if qr_Actor req \<noteq> [] \<and> al_Actor l \<noteq> qr_Actor req then False
      else if qr_EventType req \<noteq> [] \<and> al_EventType l \<noteq> qr_EventType req then False
      else if hasTimeRange \<and> (al_Timestamp l <s fromT \<or> toT <s al_Timestamp l) then False
      else True)"

definition audit_query_AuditLogs ::
  "((uint64 \<times> AuditLog) list \<Rightarrow> 'req \<Rightarrow> (uint64 \<Rightarrow> AuditLog \<Rightarrow> bool) \<Rightarrow> (uint64 \<Rightarrow> AuditLog \<Rightarrow> AuditLog) \<Rightarrow> string + AuditLog list \<times> bytes) \<Rightarrow>
     sdk_ctx \<Rightarrow> audit_state \<Rightarrow> QueryAuditLogsRequest \<Rightarrow> 'req \<Rightarrow> audit_query_error + AuditLog list \<times> bytes" where
  "audit_query_AuditLogs paginate ctx st req pageReq =
     (let hasTimeRange = (0 <s qr_FromTimestamp req \<or> 0 <s qr_ToTimestamp req);
          fromT = qr_FromTimestamp req;
          toT = (if hasTimeRange \<and> qr_ToTimestamp req = 0 then BlockTimeUnix ctx else qr_ToTimestamp req) in
      if hasTimeRange \<and> toT <s fromT then Inl (AInvalidRange fromT toT)
      else
        (case paginate (entries (as_Logs st)) pageReq (\<lambda>_ l. audit_filter req hasTimeRange fromT toT l) (\<lambda>_ l. l) of
           Inl e \<Rightarrow> Inl (APaginating e)
         | Inr res \<Rightarrow> Inr res))"

definition audit_query_Params :: "env \<Rightarrow> audit_state \<Rightarrow> audit_Params" where
  "audit_query_Params E st = audit_GetParams E st"

section \<open>Registered invariants\<close>

datatype audit_broken =
    ABrokenPeek coll_err
  | ABrokenWalk string coll_err
  | ABrokenSequence uint64 uint64
  | ABrokenDangling string "(string \<times> uint64 \<times> string option) list"
  | ABrokenData "(uint64 \<times> nat \<times> uint32) list"

definition audit_IDSequenceMonotonicInvariant :: "env \<Rightarrow> audit_state \<Rightarrow> audit_broken option" where
  "audit_IDSequenceMonotonicInvariant E st =
     (case seq_Peek E audit_coll_sequence (as_IDSequence st) of
        Inl e \<Rightarrow> Some (ABrokenPeek e)
      | Inr seq \<Rightarrow>
          (case map_Walk E audit_coll_logs (as_Logs st) no_range
                  (\<lambda>k _ maxSeen. (False, if k > maxSeen then k else maxSeen)) 0 of
             (Some e, _) \<Rightarrow> Some (ABrokenWalk ''Logs'' e)
           | (None, maxSeen) \<Rightarrow> if maxSeen > seq then Some (ABrokenSequence seq maxSeen) else None))"

definition log_callback ::
  "env \<Rightarrow> audit_state \<Rightarrow> (AuditLog \<Rightarrow> string) \<Rightarrow> string \<times> uint64 \<Rightarrow> (string \<times> uint64 \<times> string option) list \<Rightarrow>
     bool \<times> (string \<times> uint64 \<times> string option) list" where
  "log_callback E st extract key dangling =
     (case GetAuditLog E st (snd key) of
        (l, found) \<Rightarrow>
          if \<not> found then
            let dangling' = dangling @ [(fst key, snd key, None)] in (10 \<le> length dangling', dangling')
          else
            (False, if extract l \<noteq> fst key then dangling @ [(fst key, snd key, Some (extract l))] else dangling))"

definition IndexConsistencyInvariant ::
  "env \<Rightarrow> string \<Rightarrow> (string \<times> uint64) fset \<Rightarrow> (AuditLog \<Rightarrow> string) \<Rightarrow> audit_state \<Rightarrow> audit_broken option" where
  "IndexConsistencyInvariant E nm index extract st =
     (case set_Walk index no_range (log_callback E st extract) [] of
        (Some e, _) \<Rightarrow> Some (ABrokenWalk nm e)
      | (None, dangling) \<Rightarrow> if dangling \<noteq> [] then Some (ABrokenDangling nm dangling) else None)"

definition DataWithinCapInvariant :: "env \<Rightarrow> audit_state \<Rightarrow> audit_broken option" where
  "DataWithinCapInvariant E st =
     (let cap = ap_MaxDataSize (audit_GetParams E st) in
      if cap = 0 then None
      else
        (case map_Walk E audit_coll_logs (as_Logs st) no_range
                (\<lambda>k v violations.
                   if u32_len (al_Data v) > cap
                   then let violations' = violations @ [(k, length (al_Data v), cap)]
                        in (10 \<le> length violations', violations')
                   else (False, violations)) [] of
           (Some e, _) \<Rightarrow> Some (ABrokenWalk ''Logs'' e)
         | (None, violations) \<Rightarrow> if violations \<noteq> [] then Some (ABrokenData violations) else None))"

definition audit_AllInvariants :: "env \<Rightarrow> audit_state \<Rightarrow> audit_broken option" where
  "audit_AllInvariants E st =
     (case audit_IDSequenceMonotonicInvariant E st of
        Some b \<Rightarrow> Some b
      | None \<Rightarrow>
     (case IndexConsistencyInvariant E ''by-actor'' (as_ByActor st) al_Actor st of
        Some b \<Rightarrow> Some b
      | None \<Rightarrow>
     (case IndexConsistencyInvariant E ''by-event-type'' (as_ByEventType st) al_EventType st of
        Some b \<Rightarrow> Some b
      | None \<Rightarrow> DataWithinCapInvariant E st)))"

section \<open>Transactions and blocks\<close>

datatype audit_tx =
    TxRecord MsgRecordAudit
  | TxAuditParams audit_MsgUpdateParams
  | AuditNextBlock

fun audit_deliver :: "env \<Rightarrow> string \<Rightarrow> sdk_ctx \<Rightarrow> audit_tx \<Rightarrow> audit_state \<Rightarrow> audit_state" where
  "audit_deliver E auth ctx (TxRecord m) st = commit_if (msg_RecordAudit E ctx m (st\<lparr>as_events := []\<rparr>)) st"
| "audit_deliver E auth ctx (TxAuditParams m) st = commit_if (audit_UpdateParams E auth m (st\<lparr>as_events := []\<rparr>)) st"
| "audit_deliver E auth ctx AuditNextBlock st = st\<lparr>as_transient := fmempty\<rparr>"

fun audit_accepts :: "env \<Rightarrow> string \<Rightarrow> sdk_ctx \<Rightarrow> audit_tx \<Rightarrow> audit_state \<Rightarrow> bool" where
  "audit_accepts E auth ctx (TxRecord m) st = succeeds (msg_RecordAudit E ctx m (st\<lparr>as_events := []\<rparr>))"
| "audit_accepts E auth ctx (TxAuditParams m) st = succeeds (audit_UpdateParams E auth m (st\<lparr>as_events := []\<rparr>))"
| "audit_accepts E auth ctx AuditNextBlock st = True"

fun audit_run :: "env \<Rightarrow> string \<Rightarrow> (sdk_ctx \<times> audit_tx) list \<Rightarrow> audit_state \<Rightarrow> audit_state" where
  "audit_run E auth [] st = st"
| "audit_run E auth ((ctx, tx) # txs) st = audit_run E auth txs (audit_deliver E auth ctx tx st)"

interpretation audit_hist: tx_history "audit_deliver E auth" "audit_run E auth" for E auth
  by unfold_locales simp_all

end
