(* ===== verification/AuditCorrect.thy ===== *)
theory AuditCorrect
  imports AuditKeeper
begin

text \<open>
  Correctness of the audit module: effects, the index and rate-limit interfaces interpreted on its
  definitions, well-formedness along histories, the abstract log, and genesis.
\<close>

section \<open>Effects\<close>

definition audit_put :: "AuditLog \<Rightarrow> audit_state \<Rightarrow> audit_state" where
  "audit_put l st = st\<lparr>as_Logs := fmupd (al_ID l) l (as_Logs st),
     as_ByActor := finsert (al_Actor l, al_ID l) (as_ByActor st),
     as_ByEventType := finsert (al_EventType l, al_ID l) (as_ByEventType st),
     as_ByTime := finsert (audit_timestampToKey (al_Timestamp l), al_ID l) (as_ByTime st)\<rparr>"

lemma RecordAuditLog_ok: "RecordAuditLog E l st = (None, st') \<Longrightarrow> st' = audit_put l st"
  by (auto simp: RecordAuditLog_def audit_put_def coll_defs Let_def split: option.splits)

lemma RecordAuditLog_healthy [simp]: "healthy E \<Longrightarrow> RecordAuditLog E l st = (None, audit_put l st)"
  by (simp add: RecordAuditLog_def audit_put_def coll_defs Let_def)

lemma IncrementCounter_ok: "IncrementCounter E n st = (None, st') \<Longrightarrow> st' = st\<lparr>as_IDSequence := Some n\<rparr>"
  by (auto simp: IncrementCounter_def coll_defs split: option.splits)

lemma IncrementCounter_healthy [simp]: "healthy E \<Longrightarrow> IncrementCounter E n st = (None, st\<lparr>as_IDSequence := Some n\<rparr>)"
  by (simp add: IncrementCounter_def coll_defs)

lemma audit_SetParams_ok: "audit_SetParams E p st = (None, st') \<Longrightarrow> st' = st\<lparr>as_Params := Some p\<rparr>"
  by (auto simp: audit_SetParams_def coll_defs split: option.splits)

lemma audit_SetParams_healthy [simp]: "healthy E \<Longrightarrow> audit_SetParams E p st = (None, st\<lparr>as_Params := Some p\<rparr>)"
  by (simp add: audit_SetParams_def coll_defs)

lemma GetAuditLog_healthy:
  "healthy E \<Longrightarrow> GetAuditLog E st i = (case fmlookup (as_Logs st) i of None \<Rightarrow> (zero_AuditLog, False) | Some l \<Rightarrow> (l, True))"
  by (simp add: GetAuditLog_def split: option.split)

definition audit_seq :: "audit_state \<Rightarrow> uint64" where
  "audit_seq st = (case as_IDSequence st of None \<Rightarrow> 0 | Some n \<Rightarrow> n)"

text \<open>The sequence can be decoded; a healthy store is the usual case.\<close>

definition sequence_readable :: "env \<Rightarrow> bool" where
  "sequence_readable E \<longleftrightarrow> \<not> decode_fault E ''id_sequence'' KUnit"

lemma healthy_readable: "healthy E \<Longrightarrow> sequence_readable E"
  by (simp add: sequence_readable_def)

lemma GetNextID_readable: "sequence_readable E \<Longrightarrow> GetNextID E st = audit_seq st + 1"
  by (auto simp: GetNextID_def audit_seq_def seq_Peek_def item_Get_def sequence_readable_def audit_coll_sequence_def
      ItemKey_def split: option.split)

section \<open>Rate limit\<close>

definition audit_count :: "string \<Rightarrow> audit_state \<Rightarrow> uint32" where
  "audit_count a st = counter_at (as_transient st) (GetAuditCountByCreatorKey a)"

definition audit_limit :: "env \<Rightarrow> audit_state \<Rightarrow> uint32" where
  "audit_limit E st = ap_MaxAuditsPerBlockPerCreator (audit_GetParams E st)"

definition audit_counted :: "env \<Rightarrow> string \<Rightarrow> audit_state \<Rightarrow> audit_state" where
  "audit_counted E a st =
     (if audit_limit E st = 0 then st
      else st\<lparr>as_transient := fmupd (GetAuditCountByCreatorKey a) (PutUint32 (audit_count a st + 1)) (as_transient st)\<rparr>)"

lemma CheckAndIncrAudit_cases:
  "CheckAndIncrAuditCount E a st =
     (if audit_limit E st = 0 \<or> audit_count a st < audit_limit E st then (None, audit_counted E a st)
      else (Some (ARateLimited a (audit_limit E st)), st))"
  by (auto simp: CheckAndIncrAuditCount_def Let_def audit_counted_def audit_limit_def audit_count_def not_less)

lemma audit_counted_transient: "\<exists>t. audit_counted E a st = st\<lparr>as_transient := t\<rparr>"
  unfolding audit_counted_def by (cases "audit_limit E st = 0") (auto intro: exI [of _ "as_transient st"])

lemma audit_GetParams_frame [simp]:
  "audit_GetParams E (audit_put l st) = audit_GetParams E st" "audit_GetParams E (emit_audit ev st) = audit_GetParams E st"
  "audit_GetParams E (st\<lparr>as_events := evs\<rparr>) = audit_GetParams E st" "audit_GetParams E (st\<lparr>as_transient := t\<rparr>) = audit_GetParams E st"
  "audit_GetParams E (st\<lparr>as_IDSequence := s\<rparr>) = audit_GetParams E st" "audit_GetParams E (audit_counted E a st) = audit_GetParams E st"
  by (simp_all add: audit_GetParams_def audit_put_def emit_audit_def audit_counted_def)

lemma audit_GetParams_set [simp]:
  "healthy E \<Longrightarrow> audit_GetParams E (st\<lparr>as_Params := Some p\<rparr>) = p"
  "healthy E \<Longrightarrow> audit_GetParams E (st\<lparr>as_events := evs, as_Params := Some p\<rparr>) = p"
  by (simp_all add: audit_GetParams_def item_Get_def)

lemma audit_limit_frame [simp]:
  "audit_limit E (audit_put l st) = audit_limit E st" "audit_limit E (emit_audit ev st) = audit_limit E st"
  "audit_limit E (st\<lparr>as_events := evs\<rparr>) = audit_limit E st" "audit_limit E (audit_counted E a st) = audit_limit E st"
  "audit_limit E (st\<lparr>as_IDSequence := s\<rparr>) = audit_limit E st"
  by (simp_all add: audit_limit_def)

lemma audit_count_frame [simp]:
  "audit_count b (audit_put l st) = audit_count b st" "audit_count b (emit_audit ev st) = audit_count b st"
  "audit_count b (st\<lparr>as_events := evs\<rparr>) = audit_count b st" "audit_count b (st\<lparr>as_IDSequence := s\<rparr>) = audit_count b st"
  by (simp_all add: audit_count_def audit_put_def emit_audit_def)

lemma GetAuditCountByCreatorKey_inject [simp]: "GetAuditCountByCreatorKey a = GetAuditCountByCreatorKey b \<longleftrightarrow> a = b"
  by (simp add: GetAuditCountByCreatorKey_def)

lemma audit_count_counted:
  "audit_count b (audit_counted E a st) = (if b = a \<and> audit_limit E st \<noteq> 0 then audit_count b st + 1 else audit_count b st)"
  by (simp add: audit_counted_def audit_count_def)

definition audit_check :: "env \<Rightarrow> string \<Rightarrow> audit_state \<Rightarrow> audit_state option" where
  "audit_check E a st = (case CheckAndIncrAuditCount E a st of (None, st') \<Rightarrow> Some st' | (Some e, _) \<Rightarrow> None)"

interpretation audit_rate: rate_limiter "audit_check E" "\<lambda>st a. unat (audit_count a st)" "\<lambda>st. unat (audit_limit E st)" for E
proof unfold_locales
  fix a b st st'
  show "unat (audit_limit E st) = 0 \<Longrightarrow> audit_check E a st = Some st"
    by (simp add: audit_check_def CheckAndIncrAudit_cases audit_counted_def unat_eq_0)
  show "0 < unat (audit_limit E st) \<Longrightarrow> unat (audit_limit E st) \<le> unat (audit_count a st) \<Longrightarrow> audit_check E a st = None"
    by (auto simp: audit_check_def CheckAndIncrAudit_cases word_less_nat_alt)
  show "0 < unat (audit_limit E st) \<Longrightarrow> unat (audit_count a st) < unat (audit_limit E st) \<Longrightarrow> \<exists>s'. audit_check E a st = Some s'"
    by (auto simp: audit_check_def CheckAndIncrAudit_cases word_less_nat_alt)
  show "audit_check E a st = Some st' \<Longrightarrow> unat (audit_limit E st') = unat (audit_limit E st)"
    by (auto simp: audit_check_def CheckAndIncrAudit_cases split: if_splits)
  show "0 < unat (audit_limit E st) \<Longrightarrow> audit_check E a st = Some st' \<Longrightarrow>
      unat (audit_count b st') = (if b = a then Suc (unat (audit_count a st)) else unat (audit_count b st))"
    by (auto simp: audit_check_def CheckAndIncrAudit_cases audit_count_counted unat_Suc_below split: if_splits)
qed

section \<open>Handlers\<close>

definition tx_hash :: "env \<Rightarrow> sdk_ctx \<Rightarrow> string" where
  "tx_hash E ctx = (if TxBytes ctx \<noteq> [] then Sprint_X (sha256 E (TxBytes ctx)) else [])"

definition audit_record :: "env \<Rightarrow> sdk_ctx \<Rightarrow> MsgRecordAudit \<Rightarrow> uint64 \<Rightarrow> AuditLog" where
  "audit_record E ctx m i = \<lparr>al_ID = i, al_EventType = ra_EventType m, al_Actor = ra_Creator m,
     al_Target = ra_Target m, al_Action = ra_Action m, al_Data = ra_Data m,
     al_BlockHeight = BlockHeight ctx, al_Timestamp = BlockTimeUnix ctx, al_TxHash = tx_hash E ctx\<rparr>"

definition audit_allowed :: "env \<Rightarrow> MsgRecordAudit \<Rightarrow> audit_state \<Rightarrow> bool" where
  "audit_allowed E m st \<longleftrightarrow> isAllowedAuditor E st (ra_Creator m) \<and>
     \<not> (ap_MaxDataSize (audit_GetParams E st) > 0 \<and> u32_len (ra_Data m) > ap_MaxDataSize (audit_GetParams E st)) \<and>
     (audit_limit E st = 0 \<or> audit_count (ra_Creator m) st < audit_limit E st)"

text \<open>The state after a successful record.\<close>

definition recorded :: "env \<Rightarrow> sdk_ctx \<Rightarrow> MsgRecordAudit \<Rightarrow> audit_state \<Rightarrow> audit_state" where
  "recorded E ctx m st =
     (audit_put (audit_record E ctx m (GetNextID E st)) (audit_counted E (ra_Creator m) st))\<lparr>as_IDSequence := Some (GetNextID E st)\<rparr>"

lemma GetNextID_counted [simp]: "GetNextID E (audit_counted E a st) = GetNextID E st"
  by (simp add: GetNextID_def audit_counted_def)

lemma msg_RecordAudit_ok:
  assumes "msg_RecordAudit E ctx m st = (Inr u, st')"
  shows "audit_allowed E m st \<and> (\<exists>ev. st' = emit_audit ev (recorded E ctx m st))"
proof -
  let ?a = "ra_Creator m" and ?i = "GetNextID E st"
  let ?st1 = "audit_counted E ?a st"
  have who: "isAllowedAuditor E st ?a"
    using assms by (rule_tac ccontr) (simp add: msg_RecordAudit_def)
  have size: "\<not> (ap_MaxDataSize (audit_GetParams E st) > 0 \<and> u32_len (ra_Data m) > ap_MaxDataSize (audit_GetParams E st))"
    using assms who by (rule_tac notI) (simp add: msg_RecordAudit_def Let_def)
  have room: "audit_limit E st = 0 \<or> audit_count ?a st < audit_limit E st"
    using assms who size by (rule_tac ccontr) (simp add: msg_RecordAudit_def Let_def CheckAndIncrAudit_cases)
  have chk: "CheckAndIncrAuditCount E ?a st = (None, ?st1)"
    using room by (simp add: CheckAndIncrAudit_cases)
  note s1 = assms [unfolded msg_RecordAudit_def Let_def, simplified who size chk, simplified]
  obtain e st2 where r: "RecordAuditLog E (audit_record E ctx m ?i) ?st1 = (e, st2)" by fastforce
  have e: "e = None" using s1 r by (cases e) (simp_all add: audit_record_def tx_hash_def)
  obtain w st3 where c: "IncrementCounter E ?i st2 = (w, st3)" by fastforce
  have "w = None \<and> (\<exists>ev. st' = emit_audit ev st3)"
    using s1 r e c by (cases w) (auto simp: audit_record_def tx_hash_def)
  then show ?thesis
    using who size room r e c by (auto simp: audit_allowed_def recorded_def dest!: RecordAuditLog_ok IncrementCounter_ok)
qed

lemma msg_RecordAudit_healthy:
  assumes "healthy E"
  shows "if audit_allowed E m st
    then \<exists>ev. msg_RecordAudit E ctx m st = (Inr (), emit_audit ev (recorded E ctx m st))
    else \<exists>e. msg_RecordAudit E ctx m st = (Inl e, st)"
  using assms
  by (auto simp: msg_RecordAudit_def Let_def CheckAndIncrAudit_cases audit_allowed_def recorded_def audit_record_def tx_hash_def)

lemma audit_UpdateParams_ok:
  assumes "audit_UpdateParams E auth m st = (Inr u, st')"
  shows "au_Authority m = auth \<and> audit_Params_Validate (au_Params m) = None \<and> st' = st\<lparr>as_Params := Some (au_Params m)\<rparr>"
  using assms by (auto simp: audit_UpdateParams_def dest!: audit_SetParams_ok split: if_splits option.splits prod.splits)

lemma audit_deliver_cases:
  obtains
    (skip) "\<not> audit_accepts E auth ctx tx st" "audit_deliver E auth ctx tx st = st"
  | (rec) m ev where "tx = TxRecord m" "audit_accepts E auth ctx tx st" "audit_allowed E m (st\<lparr>as_events := []\<rparr>)"
      "audit_deliver E auth ctx tx st = emit_audit ev (recorded E ctx m (st\<lparr>as_events := []\<rparr>))"
  | (params) m where "tx = TxAuditParams m" "audit_accepts E auth ctx tx st" "au_Authority m = auth"
      "audit_Params_Validate (au_Params m) = None"
      "audit_deliver E auth ctx tx st = st\<lparr>as_events := [], as_Params := Some (au_Params m)\<rparr>"
  | (block) "tx = AuditNextBlock" "audit_accepts E auth ctx tx st" "audit_deliver E auth ctx tx st = st\<lparr>as_transient := fmempty\<rparr>"
proof (cases tx)
  case (TxRecord m)
  show ?thesis
  proof (cases rule: commit_if_cases [of "msg_RecordAudit E ctx m (st\<lparr>as_events := []\<rparr>)" st])
    case 1
    then show ?thesis using skip TxRecord by simp
  next
    case (2 x st')
    then show ?thesis using rec TxRecord msg_RecordAudit_ok [OF 2(1)] by auto
  qed
next
  case (TxAuditParams m)
  show ?thesis
  proof (cases rule: commit_if_cases [of "audit_UpdateParams E auth m (st\<lparr>as_events := []\<rparr>)" st])
    case 1
    then show ?thesis using skip TxAuditParams by simp
  next
    case (2 x st')
    then show ?thesis using params TxAuditParams audit_UpdateParams_ok [OF 2(1)] by auto
  qed
next
  case AuditNextBlock
  then show ?thesis by (simp add: block)
qed

section \<open>Index interfaces and well-formedness\<close>

interpretation audit_actor: field_index
  "\<lambda>st. fmlookup (as_Logs st)" as_ByActor audit_put al_ID al_Actor
  by unfold_locales (auto simp: audit_put_def)

interpretation audit_type: field_index
  "\<lambda>st. fmlookup (as_Logs st)" as_ByEventType audit_put al_ID al_EventType
  by unfold_locales (auto simp: audit_put_def)

interpretation audit_time: field_index
  "\<lambda>st. fmlookup (as_Logs st)" as_ByTime audit_put al_ID "\<lambda>l. audit_timestampToKey (al_Timestamp l)"
  by unfold_locales (auto simp: audit_put_def)

lemmas audit_index_defs =
  audit_actor.consistent_def audit_actor.complete_def audit_type.consistent_def audit_type.complete_def
  audit_time.consistent_def audit_time.complete_def

definition audit_wf :: "audit_state \<Rightarrow> bool" where
  "audit_wf st \<longleftrightarrow>
     (\<forall>i l. fmlookup (as_Logs st) i = Some l \<longrightarrow> al_ID l = i \<and> i \<le> audit_seq st) \<and>
     audit_actor.consistent st \<and> audit_actor.complete st \<and> audit_type.consistent st \<and> audit_type.complete st \<and>
     audit_time.consistent st \<and> audit_time.complete st"

lemma audit_wf_empty: "audit_wf audit_empty"
  by (simp add: audit_wf_def audit_empty_def audit_index_defs)

lemma audit_wf_cong:
  "as_Logs st' = as_Logs st \<Longrightarrow> as_ByActor st' = as_ByActor st \<Longrightarrow> as_ByEventType st' = as_ByEventType st \<Longrightarrow>
   as_ByTime st' = as_ByTime st \<Longrightarrow> audit_seq st \<le> audit_seq st' \<Longrightarrow> audit_wf st \<Longrightarrow> audit_wf st'"
  unfolding audit_wf_def audit_index_defs by (auto intro: order_trans)

lemma audit_wf_put:
  assumes "audit_wf st" and "fmlookup (as_Logs st) (al_ID l) = None" and "al_ID l \<le> audit_seq st"
  shows "audit_wf (audit_put l st)"
proof -
  have "audit_actor.consistent (audit_put l st)" "audit_actor.complete (audit_put l st)"
    "audit_type.consistent (audit_put l st)" "audit_type.complete (audit_put l st)"
    "audit_time.consistent (audit_put l st)" "audit_time.complete (audit_put l st)"
    using assms(1,2) unfolding audit_wf_def
    by (auto intro: audit_actor.store_consistent audit_actor.store_complete audit_type.store_consistent
        audit_type.store_complete audit_time.store_consistent audit_time.store_complete)
  then show ?thesis
    using assms(1,3) unfolding audit_wf_def by (simp add: audit_put_def audit_seq_def)
qed

lemma recorded_fields:
  assumes "sequence_readable E" and "audit_seq st + 1 \<noteq> 0" and "audit_wf st"
  shows "audit_seq (recorded E ctx m st) = audit_seq st + 1"
    and "audit_wf (recorded E ctx m st)"
    and "\<And>i l. fmlookup (as_Logs st) i = Some l \<Longrightarrow> fmlookup (as_Logs (recorded E ctx m st)) i = Some l"
proof -
  let ?n = "audit_seq st + 1"
  obtain t where t: "audit_counted E (ra_Creator m) st = st\<lparr>as_transient := t\<rparr>" using audit_counted_transient by blast
  have rec: "recorded E ctx m st = audit_put (audit_record E ctx m ?n) (st\<lparr>as_transient := t, as_IDSequence := Some ?n\<rparr>)"
    using assms(1) by (simp add: recorded_def t GetNextID_readable audit_put_def)
  have lt: "audit_seq st < ?n"
    using unat_inc [OF assms(2)] by (simp add: word_less_nat_alt)
  have fresh: "fmlookup (as_Logs st) ?n = None"
  proof (rule ccontr)
    assume "fmlookup (as_Logs st) ?n \<noteq> None"
    then have "?n \<le> audit_seq st" using assms(3) unfolding audit_wf_def by blast
    then show False using lt by simp
  qed
  show "audit_seq (recorded E ctx m st) = ?n" by (simp add: recorded_def audit_seq_def GetNextID_readable [OF assms(1)])
  have "audit_wf (st\<lparr>as_transient := t, as_IDSequence := Some ?n\<rparr>)"
    by (rule audit_wf_cong [OF _ _ _ _ _ assms(3)]) (use lt in \<open>simp_all add: audit_seq_def\<close>)
  then show "audit_wf (recorded E ctx m st)"
    unfolding rec using fresh by (intro audit_wf_put) (simp_all add: audit_record_def audit_seq_def)
  show "\<And>i l. fmlookup (as_Logs st) i = Some l \<Longrightarrow> fmlookup (as_Logs (recorded E ctx m st)) i = Some l"
    unfolding rec using fresh by (auto simp: audit_put_def audit_record_def)
qed

lemma audit_wf_frame [simp]:
  "audit_wf (emit_audit ev st) = audit_wf st" "audit_wf (st\<lparr>as_events := evs\<rparr>) = audit_wf st"
  "audit_wf (st\<lparr>as_transient := t\<rparr>) = audit_wf st" "audit_wf (st\<lparr>as_events := evs, as_Params := p\<rparr>) = audit_wf st"
  "audit_wf (st\<lparr>as_Params := p\<rparr>) = audit_wf st"
  by (simp_all add: audit_wf_def audit_index_defs audit_seq_def emit_audit_def)

lemma audit_seq_frame [simp]:
  "audit_seq (emit_audit ev st) = audit_seq st" "audit_seq (st\<lparr>as_events := evs\<rparr>) = audit_seq st"
  "audit_seq (st\<lparr>as_transient := t\<rparr>) = audit_seq st" "audit_seq (st\<lparr>as_events := evs, as_Params := p\<rparr>) = audit_seq st"
  by (simp_all add: audit_seq_def emit_audit_def)

fun audit_ids :: "audit_tx \<Rightarrow> nat" where
  "audit_ids (TxRecord m) = 1"
| "audit_ids _ = 0"

definition audit_keeps :: "audit_state \<Rightarrow> audit_state \<Rightarrow> bool" where
  "audit_keeps st st' \<longleftrightarrow> (\<forall>i l. fmlookup (as_Logs st) i = Some l \<longrightarrow> fmlookup (as_Logs st') i = Some l)"

lemma audit_deliver_wf:
  assumes "sequence_readable E" and "audit_wf st" and "unat (audit_seq st) + audit_ids tx < 2 ^ 64"
  shows "audit_wf (audit_deliver E auth ctx tx st) \<and> audit_keeps st (audit_deliver E auth ctx tx st) \<and>
    unat (audit_seq (audit_deliver E auth ctx tx st)) \<le> unat (audit_seq st) + audit_ids tx"
proof (cases rule: audit_deliver_cases [of E auth ctx tx st])
  case (rec m ev)
  let ?st = "st\<lparr>as_events := []\<rparr>"
  have nz: "audit_seq ?st + 1 \<noteq> 0" using assms(3) rec(1) by (intro inc_nonzero) simp
  have "audit_wf ?st" using assms(2) by simp
  note r = recorded_fields [OF assms(1) nz this, where ctx = ctx and m = m]
  have "audit_keeps st (emit_audit ev (recorded E ctx m ?st))"
    using r(3) by (simp add: audit_keeps_def emit_audit_def)
  then show ?thesis using r(1,2) rec(1,4) unat_inc [OF nz] by simp
qed (use assms in \<open>simp_all add: audit_keeps_def\<close>)

definition audit_drawn :: "(sdk_ctx \<times> audit_tx) list \<Rightarrow> nat" where
  "audit_drawn txs = sum_list (map (\<lambda>(ctx, tx). audit_ids tx) txs)"

lemma audit_drawn_simps [simp]: "audit_drawn [] = 0" "audit_drawn ((ctx, tx) # txs) = audit_ids tx + audit_drawn txs"
  by (simp_all add: audit_drawn_def)

lemma audit_run_wf:
  assumes "sequence_readable E" and "audit_wf st" and "unat (audit_seq st) + audit_drawn txs < 2 ^ 64"
  shows "audit_wf (audit_run E auth txs st) \<and> audit_keeps st (audit_run E auth txs st)"
proof (rule audit_hist.run_within [where cost = audit_ids and used = "\<lambda>s. unat (audit_seq s)"])
  show "reflp audit_keeps" by (simp add: reflp_def audit_keeps_def)
  show "transp audit_keeps" by (rule transpI) (simp add: audit_keeps_def)
qed (use assms audit_deliver_wf in \<open>simp_all add: audit_drawn_def\<close>)

end
