(* ===== verification/AuditHistory.thy ===== *)
theory AuditHistory
  imports AuditCorrect
begin

text \<open>
  Histories of the audit module: the append-only log it implements, the registered invariants along
  parameter updates, and the rate limit along a block.
\<close>

section \<open>The abstract log\<close>

text \<open>
  The abstraction is a list: the n-th record carries identifier n (counted from 1), and the stores
  hold exactly the list.
\<close>

definition log_ids :: "nat \<Rightarrow> uint64 list" where
  "log_ids n = map (\<lambda>i. word_of_nat (Suc i)) [0..<n]"

definition log_rel :: "AuditLog list \<Rightarrow> audit_state \<Rightarrow> bool" where
  "log_rel log st \<longleftrightarrow> length log < 2 ^ 64 \<and> unat (audit_seq st) = length log \<and> map al_ID log = log_ids (length log) \<and>
     (\<forall>i l. fmlookup (as_Logs st) i = Some l \<longleftrightarrow> l \<in> set log \<and> al_ID l = i) \<and>
     fset (as_ByActor st) = (\<lambda>l. (al_Actor l, al_ID l)) ` set log \<and>
     fset (as_ByEventType st) = (\<lambda>l. (al_EventType l, al_ID l)) ` set log \<and>
     fset (as_ByTime st) = (\<lambda>l. (audit_timestampToKey (al_Timestamp l), al_ID l)) ` set log"

fun audit_ledger :: "env \<Rightarrow> string \<Rightarrow> (sdk_ctx \<times> audit_tx) list \<Rightarrow> audit_state \<Rightarrow> AuditLog list \<Rightarrow> AuditLog list" where
  "audit_ledger E auth [] st log = log"
| "audit_ledger E auth ((ctx, tx) # txs) st log =
     audit_ledger E auth txs (audit_deliver E auth ctx tx st)
       (case tx of
          TxRecord m \<Rightarrow>
            if audit_accepts E auth ctx tx st then log @ [audit_record E ctx m (word_of_nat (Suc (length log)))] else log
        | _ \<Rightarrow> log)"

lemma length_log_ids [simp]: "length (log_ids n) = n"
  by (simp add: log_ids_def)

lemma log_ids_Suc [simp]: "log_ids (Suc n) = log_ids n @ [word_of_nat (Suc n)]"
  by (simp add: log_ids_def)

lemma unat_log_ids: "n < 2 ^ 64 \<Longrightarrow> map unat (log_ids n) = [1..<Suc n]"
  by (rule nth_equalityI) (simp_all add: log_ids_def unat_word_of_nat del: upt_Suc of_nat_Suc)

lemma log_ids_0 [simp]: "log_ids 0 = []"
  by (simp add: log_ids_def)

lemma sorted_log_ids: "n < 2 ^ 64 \<Longrightarrow> sorted_wrt (<) (log_ids n)"
  using sorted_wrt_map [of "(<)" unat "log_ids n"] sorted_wrt_upt [of 1 "Suc n"]
  unfolding word_less_nat_alt [abs_def] by (simp add: unat_log_ids del: upt_Suc)

lemma log_rel_fresh:
  assumes "log_rel log st" and "Suc (length log) < 2 ^ 64" and "l \<in> set log"
  shows "al_ID l \<noteq> word_of_nat (Suc (length log))"
proof -
  have "sorted_wrt (<) (log_ids (Suc (length log)))" using assms(2) by (intro sorted_log_ids)
  moreover have "al_ID l \<in> set (log_ids (length log))"
    using assms(1,3) unfolding log_rel_def by (metis imageI set_map)
  ultimately show ?thesis by (auto simp: sorted_wrt_append)
qed

lemma log_rel_empty: "log_rel [] audit_empty"
  by (simp add: log_rel_def audit_empty_def audit_seq_def)

lemma log_rel_frame [simp]:
  "log_rel log (emit_audit ev st) = log_rel log st" "log_rel log (st\<lparr>as_events := evs\<rparr>) = log_rel log st"
  "log_rel log (st\<lparr>as_transient := t\<rparr>) = log_rel log st"
  "log_rel log (st\<lparr>as_events := evs, as_Params := p\<rparr>) = log_rel log st"
  by (simp_all add: log_rel_def emit_audit_def audit_seq_def)

lemma log_rel_next:
  assumes "log_rel log st" and "Suc (length log) < 2 ^ 64"
  shows "audit_seq st + 1 = word_of_nat (Suc (length log))" and "unat (audit_seq st + 1) = Suc (length log)"
proof -
  have "audit_seq st = word_of_nat (length log)" using assms(1) by (intro word_of_nat_unat) (simp add: log_rel_def)
  then show "audit_seq st + 1 = word_of_nat (Suc (length log))" by (simp add: add.commute)
  then show "unat (audit_seq st + 1) = Suc (length log)" using assms(2) by (simp add: unat_word_of_nat del: of_nat_Suc)
qed

lemma log_rel_recorded:
  assumes "sequence_readable E" and "log_rel log st" and "Suc (length log) < 2 ^ 64"
  shows "log_rel (log @ [audit_record E ctx m (word_of_nat (Suc (length log)))]) (recorded E ctx m st)"
proof -
  let ?r = "audit_record E ctx m (word_of_nat (Suc (length log)))"
  obtain t where t: "audit_counted E (ra_Creator m) st = st\<lparr>as_transient := t\<rparr>" using audit_counted_transient by blast
  have next_id: "GetNextID E st = word_of_nat (Suc (length log))"
    using log_rel_next(1) [OF assms(2,3)] by (simp only: GetNextID_readable [OF assms(1)])
  have rec: "recorded E ctx m st = (audit_put ?r (st\<lparr>as_transient := t\<rparr>))\<lparr>as_IDSequence := Some (al_ID ?r)\<rparr>"
    by (simp add: recorded_def t next_id audit_record_def)
  have id: "al_ID ?r = word_of_nat (Suc (length log))" by (simp add: audit_record_def)
  have fresh: "al_ID l \<noteq> al_ID ?r" if "l \<in> set log" for l
    using log_rel_fresh [OF assms(2,3) that] id by simp
  have "unat (al_ID ?r) = Suc (length log)" using log_rel_next(2) [OF assms(2,3)] unfolding id log_rel_next(1) [OF assms(2,3)] .
  then have "unat (audit_seq (recorded E ctx m st)) = length (log @ [?r])" by (simp add: rec audit_seq_def)
  then show ?thesis
    using assms(2,3) id fresh unfolding log_rel_def
    by (auto simp: rec audit_put_def split: if_splits simp del: of_nat_Suc)
qed

lemma log_rel_deliver:
  assumes "sequence_readable E" and "log_rel log st" and "length log + audit_ids tx < 2 ^ 64"
  shows "log_rel (case tx of
          TxRecord m \<Rightarrow>
            if audit_accepts E auth ctx tx st then log @ [audit_record E ctx m (word_of_nat (Suc (length log)))] else log
        | _ \<Rightarrow> log) (audit_deliver E auth ctx tx st)"
proof (cases rule: audit_deliver_cases [of E auth ctx tx st])
  case skip
  then show ?thesis using assms(2) by (cases tx) simp_all
next
  case (rec m ev)
  then show ?thesis
    using assms log_rel_recorded [OF assms(1), of log "st\<lparr>as_events := []\<rparr>"] by (simp del: of_nat_Suc)
qed (use assms(2) in simp_all)

lemma log_rel_run:
  "sequence_readable E \<Longrightarrow> log_rel log st \<Longrightarrow> length log + audit_drawn txs < 2 ^ 64 \<Longrightarrow>
     log_rel (audit_ledger E auth txs st log) (audit_run E auth txs st)"
proof (induction txs arbitrary: st log)
  case (Cons t txs)
  obtain ctx tx where t: "t = (ctx, tx)" by (cases t)
  let ?log = "case tx of
      TxRecord m \<Rightarrow> if audit_accepts E auth ctx tx st then log @ [audit_record E ctx m (word_of_nat (Suc (length log)))] else log
    | _ \<Rightarrow> log"
  have "log_rel ?log (audit_deliver E auth ctx tx st)"
    using Cons.prems t by (intro log_rel_deliver) simp_all
  moreover have "length ?log \<le> length log + audit_ids tx" by (cases tx) simp_all
  ultimately show ?case using Cons.IH [of ?log] Cons.prems(1,3) t by simp
qed simp

text \<open>The stored logs in iteration order are the abstract log itself.\<close>

lemma log_rel_entries:
  assumes "log_rel log st"
  shows "map snd (entries (as_Logs st)) = log"
proof -
  have "sorted_wrt (<) (map al_ID log)"
    using assms sorted_log_ids unfolding log_rel_def by simp
  moreover have "fset (fmdom (as_Logs st)) = set (map al_ID log)"
  proof (rule set_eqI)
    fix i
    have "i \<in> fset (fmdom (as_Logs st)) \<longleftrightarrow> (\<exists>l. fmlookup (as_Logs st) i = Some l)" by (auto simp: fmlookup_dom_iff)
    also have "\<dots> \<longleftrightarrow> (\<exists>l. l \<in> set log \<and> al_ID l = i)" using assms unfolding log_rel_def by presburger
    finally show "i \<in> fset (fmdom (as_Logs st)) \<longleftrightarrow> i \<in> set (map al_ID log)" by (simp only: set_map image_iff) blast
  qed
  ultimately have "sorted_list_of_fset (fmdom (as_Logs st)) = map al_ID log"
    unfolding sorted_list_of_fset.rep_eq strict_sorted_iff
    by (simp only: sorted_list_of_set.idem_if_sorted_distinct)
  moreover have "the (fmlookup (as_Logs st) (al_ID l)) = l" if "l \<in> set log" for l
    using assms that by (metis log_rel_def option.sel)
  ultimately show ?thesis by (simp add: entries_def comp_def map_idI)
qed

section \<open>The registered invariants\<close>

text \<open>The byte cap that \<^verbatim>\<open>DataWithinCapInvariant\<close> checks.\<close>

definition audit_cap :: "env \<Rightarrow> audit_state \<Rightarrow> uint32" where
  "audit_cap E st = ap_MaxDataSize (audit_GetParams E st)"

definition audit_cap_ok :: "env \<Rightarrow> audit_state \<Rightarrow> bool" where
  "audit_cap_ok E st \<longleftrightarrow> audit_cap E st \<noteq> 0 \<and> (\<forall>i l. fmlookup (as_Logs st) i = Some l \<longrightarrow> u32_len (al_Data l) \<le> audit_cap E st)"

lemma audit_index_iff:
  assumes "healthy E"
  shows "IndexConsistencyInvariant E nm index extract st = None \<longleftrightarrow>
    (\<forall>f i. (f, i) |\<in>| index \<longrightarrow> (\<exists>l. fmlookup (as_Logs st) i = Some l \<and> extract l = f))"
proof -
  define viol where "viol = (\<lambda>(f, i) (_::unit). \<not> (\<exists>l. fmlookup (as_Logs st) i = Some l \<and> extract l = f))"
  define msg where "msg = (\<lambda>(f :: string, i) (_::unit). (f, i, map_option extract (fmlookup (as_Logs st) i)))"
  have app: "snd ((\<lambda>k _ a. log_callback E st extract k a) k v a) = (if viol k v then a @ [msg k v] else a)" for k v a
    using assms by (cases k)
      (auto simp: log_callback_def GetAuditLog_healthy viol_def msg_def Let_def split: option.splits)
  have go: "\<not> viol k v \<Longrightarrow> \<not> fst ((\<lambda>k _ a. log_callback E st extract k a) k v [])" for k v
    using assms by (cases k)
      (auto simp: log_callback_def GetAuditLog_healthy viol_def Let_def split: option.splits)
  note W = Walk_list_violations [where viol = viol and msg = msg and bad = "\<lambda>_. False", OF app go]
  obtain e d where w: "set_Walk index no_range (log_callback E st extract) [] = (e, d)" by fastforce
  have "fst (set_Walk index no_range (log_callback E st extract) []) = None"
    unfolding set_Walk_def by (rule W(2)) simp_all
  then have "e = None" using w by simp
  moreover have "snd (set_Walk index no_range (log_callback E st extract) []) = [] \<longleftrightarrow>
      (\<forall>f i. (f, i) |\<in>| index \<longrightarrow> (\<exists>l. fmlookup (as_Logs st) i = Some l \<and> extract l = f))"
    unfolding set_Walk_def by (subst W(1)) (auto simp: viol_def no_range_def)
  ultimately show ?thesis using w by (simp add: IndexConsistencyInvariant_def)
qed

lemma fold_max_le: "fold (\<lambda>(k, v) m. if k > m then k else m) es a \<le> (b :: uint64) \<longleftrightarrow> a \<le> b \<and> (\<forall>(k, v) \<in> set es. k \<le> b)"
proof (induction es arbitrary: a)
  case (Cons e es)
  have "(if k > a then k else a) \<le> b \<longleftrightarrow> a \<le> b \<and> k \<le> b" for k by auto
  then show ?case using Cons.IH by (cases e) simp
qed simp

lemma audit_sequence_iff:
  assumes "healthy E"
  shows "audit_IDSequenceMonotonicInvariant E st = None \<longleftrightarrow> (\<forall>i l. fmlookup (as_Logs st) i = Some l \<longrightarrow> i \<le> audit_seq st)"
proof -
  have "map_Walk E audit_coll_logs (as_Logs st) no_range (\<lambda>k _ m. (False, if k > m then k else m)) (0 :: uint64)
      = (None, fold (\<lambda>(k, v) m. if k > m then k else m) (entries (as_Logs st)) 0)"
    unfolding map_Walk_def using assms
    by (subst Walk_list_collect [where g = "\<lambda>k _ m. if k > m then k else m"]) (auto simp: no_range_def)
  then have "audit_IDSequenceMonotonicInvariant E st = None \<longleftrightarrow>
      fold (\<lambda>(k, v) m. if k > m then k else m) (entries (as_Logs st)) 0 \<le> audit_seq st"
    using assms by (auto simp: audit_IDSequenceMonotonicInvariant_def audit_seq_def)
  then show ?thesis
    unfolding fold_max_le entries_ball by simp
qed

lemma DataWithinCap_iff:
  assumes "healthy E"
  shows "DataWithinCapInvariant E st = None \<longleftrightarrow>
    (audit_cap E st = 0 \<or> (\<forall>i l. fmlookup (as_Logs st) i = Some l \<longrightarrow> u32_len (al_Data l) \<le> audit_cap E st))"
proof -
  let ?cap = "audit_cap E st"
  let ?f = "\<lambda>k v violations. if u32_len (al_Data v) > ?cap
      then let violations' = violations @ [(k, length (al_Data v), ?cap)] in (10 \<le> length violations', violations')
      else (False, violations)"
  have "\<exists>vs. map_Walk E audit_coll_logs (as_Logs st) no_range ?f [] = (None, vs) \<and>
      (vs = [] \<longleftrightarrow> (\<forall>k v. fmlookup (as_Logs st) k = Some v \<longrightarrow> \<not> u32_len (al_Data v) > ?cap))"
    by (rule map_Walk_violations [OF assms, where msg = "\<lambda>k v. (k, length (al_Data v), ?cap)"]) (simp_all add: Let_def)
  then show ?thesis by (auto simp: DataWithinCapInvariant_def Let_def not_less simp flip: audit_cap_def)
qed

lemma audit_AllInvariants_ok:
  "healthy E \<Longrightarrow> audit_wf st \<Longrightarrow> audit_cap_ok E st \<Longrightarrow> audit_AllInvariants E st = None"
  unfolding audit_AllInvariants_def
  by (simp add: audit_sequence_iff audit_index_iff DataWithinCap_iff audit_cap_ok_def audit_wf_def audit_index_defs)

text \<open>The caps that the parameter updates of a history ask for.\<close>

fun audit_asks :: "audit_tx \<Rightarrow> uint32 option" where
  "audit_asks (TxAuditParams m) = Some (ap_MaxDataSize (au_Params m))"
| "audit_asks _ = None"

lemma audit_asks_Some: "audit_asks tx = Some n \<longleftrightarrow> (\<exists>m. tx = TxAuditParams m \<and> n = ap_MaxDataSize (au_Params m))"
  by (cases tx) auto

fun audit_requested_caps :: "(sdk_ctx \<times> audit_tx) list \<Rightarrow> uint32 list" where
  "audit_requested_caps [] = []"
| "audit_requested_caps ((ctx, TxAuditParams m) # txs) = ap_MaxDataSize (au_Params m) # audit_requested_caps txs"
| "audit_requested_caps (_ # txs) = audit_requested_caps txs"

lemma recorded_logs:
  "as_Logs (recorded E ctx m st) = fmupd (GetNextID E st) (audit_record E ctx m (GetNextID E st)) (as_Logs st)"
proof -
  obtain t where t: "audit_counted E (ra_Creator m) st = st\<lparr>as_transient := t\<rparr>" using audit_counted_transient by blast
  show ?thesis by (simp add: recorded_def t audit_put_def audit_record_def)
qed

lemma audit_GetParams_recorded [simp]: "audit_GetParams E (recorded E ctx m st) = audit_GetParams E st"
  by (simp add: recorded_def)

lemma emit_audit_logs [simp]: "as_Logs (emit_audit ev st) = as_Logs st"
  by (simp add: emit_audit_def)

lemma audit_cap_ok_deliver:
  assumes E: "healthy E" and ok: "audit_cap_ok E st" and mono: "\<And>m. tx = TxAuditParams m \<Longrightarrow> audit_cap E st \<le> ap_MaxDataSize (au_Params m)"
  shows "audit_cap_ok E (audit_deliver E auth ctx tx st)"
proof (cases rule: audit_deliver_cases [of E auth ctx tx st])
  case (rec m ev)
  have "u32_len (ra_Data m) \<le> audit_cap E st"
    using rec(3) ok by (auto simp: audit_allowed_def audit_cap_def audit_cap_ok_def word_gt_0 not_less)
  then show ?thesis
    using ok rec(4) by (auto simp: audit_cap_ok_def audit_cap_def recorded_logs audit_record_def)
next
  case (params m)
  have pos: "ap_MaxDataSize (au_Params m) \<noteq> 0" using audit_Params_Validate_cap [OF params(4)] by auto
  have "audit_cap E (audit_deliver E auth ctx tx st) = ap_MaxDataSize (au_Params m)"
    using E params(5) by (simp add: audit_cap_def)
  then show ?thesis
    using ok mono [OF params(1)] params(5) pos unfolding audit_cap_ok_def by (auto intro: order_trans)
qed (use ok in \<open>simp_all add: audit_cap_ok_def audit_cap_def\<close>)

lemma audit_cap_deliver:
  assumes "healthy E"
  shows "audit_cap E (audit_deliver E auth ctx tx st) = audit_cap E st \<or>
    (\<exists>m. tx = TxAuditParams m \<and> audit_cap E (audit_deliver E auth ctx tx st) = ap_MaxDataSize (au_Params m))"
  by (cases rule: audit_deliver_cases [of E auth ctx tx st]) (use assms in \<open>simp_all add: audit_cap_def\<close>)

interpretation audit_caps: capped_history
  "audit_deliver E auth" "audit_run E auth" "audit_cap E" audit_asks audit_requested_caps "\<lambda>st. healthy E \<and> audit_cap_ok E st" for E auth
proof
  fix c t txs s
  show "audit_requested_caps ((c, t) # txs) = (case audit_asks t of None \<Rightarrow> audit_requested_caps txs | Some n \<Rightarrow> n # audit_requested_caps txs)"
    by (cases t) simp_all
  show "healthy E \<and> audit_cap_ok E (audit_deliver E auth c t s)"
    if "healthy E \<and> audit_cap_ok E s" "\<And>n. audit_asks t = Some n \<Longrightarrow> audit_cap E s \<le> n"
    using that audit_cap_ok_deliver [of E s t auth c] by (simp add: audit_asks_Some)
  show "audit_cap E (audit_deliver E auth c t s) = audit_cap E s \<or> audit_asks t = Some (audit_cap E (audit_deliver E auth c t s))"
    if "healthy E \<and> audit_cap_ok E s"
    using that audit_cap_deliver [of E auth c t s] by (auto simp: audit_asks_Some)
qed simp

text \<open>Updates that are part of those in \<open>txs\<close> are enough.\<close>

lemma audit_cap_ok_run_part:
  "healthy E \<Longrightarrow> audit_cap_ok E st \<Longrightarrow> sorted (audit_cap E st # audit_requested_caps txs) \<Longrightarrow> subseq part txs \<Longrightarrow>
     audit_cap_ok E (audit_run E auth part st)"
  using audit_caps.ok_run_part [of E st txs part auth] by simp

lemmas audit_cap_ok_run = audit_cap_ok_run_part [OF _ _ _ subseq_order.order_refl]

section \<open>The rate limit along a block\<close>

fun audit_sender :: "audit_tx \<Rightarrow> string option" where
  "audit_sender (TxRecord m) = Some (ra_Creator m)"
| "audit_sender _ = None"

fun audit_accepted_by :: "env \<Rightarrow> string \<Rightarrow> string \<Rightarrow> (sdk_ctx \<times> audit_tx) list \<Rightarrow> audit_state \<Rightarrow> nat" where
  "audit_accepted_by E auth a [] st = 0"
| "audit_accepted_by E auth a ((ctx, tx) # txs) st =
     (if audit_accepts E auth ctx tx st \<and> audit_sender tx = Some a then 1 else 0) +
     audit_accepted_by E auth a txs (audit_deliver E auth ctx tx st)"

lemma recorded_rate [simp]:
  "audit_limit E (recorded E ctx m st) = audit_limit E st"
  "audit_count b (recorded E ctx m st) = audit_count b (audit_counted E (ra_Creator m) st)"
  by (simp_all add: recorded_def)

lemma audit_deliver_count:
  assumes "audit_sender tx = Some b" and "audit_limit E st \<noteq> 0"
  shows "audit_limit E (audit_deliver E auth ctx tx st) = audit_limit E st \<and>
    unat (audit_count a (audit_deliver E auth ctx tx st)) =
      (if audit_accepts E auth ctx tx st \<and> b = a then 1 else 0) + unat (audit_count a st) \<and>
    (audit_accepts E auth ctx tx st \<longrightarrow> audit_count b st < audit_limit E st)"
  by (cases rule: audit_deliver_cases [of E auth ctx tx st])
    (use assms in \<open>auto simp: audit_count_counted audit_allowed_def unat_Suc_below\<close>)

lemma audit_block_count:
  assumes "\<forall>(ctx, tx) \<in> set txs. audit_sender tx \<noteq> None" and "audit_limit E st \<noteq> 0"
    and "audit_count a st \<le> audit_limit E st"
  shows "unat (audit_count a st) + audit_accepted_by E auth a txs st \<le> unat (audit_limit E st)"
  using assms
proof (induction txs arbitrary: st)
  case (Cons t txs)
  obtain ctx tx where t: "t = (ctx, tx)" by (cases t)
  then obtain b where b: "audit_sender tx = Some b" using Cons.prems(1) by auto
  let ?st = "audit_deliver E auth ctx tx st"
  note step = audit_deliver_count [OF b Cons.prems(2), of auth ctx a]
  have "audit_count a ?st \<le> audit_limit E ?st"
    using step Cons.prems(3) by (auto simp: word_le_nat_alt word_less_nat_alt split: if_splits)
  then have "unat (audit_count a ?st) + audit_accepted_by E auth a txs ?st \<le> unat (audit_limit E ?st)"
    using Cons.IH [of ?st] Cons.prems step by auto
  then show ?case using step b t by auto
qed (simp add: word_le_nat_alt)

end
