(* ===== verification/AuditClaims.thy ===== *)
theory AuditClaims
  imports AuditHistory SampleEnv
begin

text \<open>
  Index queries and genesis of the audit module, and the properties of the module with their
  witnesses.
\<close>

section \<open>Index queries\<close>

lemma Walk_list_resolved:
  assumes "\<And>k a. k \<in> set ks \<Longrightarrow> f k a = g (h k) a"
  shows "Walk_list bad (map (\<lambda>k. (k, ())) ks) (\<lambda>k _ a. f k a) a = Walk_list bad (map (\<lambda>k. (k, h k)) ks) (\<lambda>_ v a. g v a) a"
  using assms by (induction ks arbitrary: a) (auto split: prod.split)

text \<open>
  When every entry of the index resolves, a query returns the first 1000 records of the range in
  index order.
\<close>

lemma resolve_walk:
  assumes "healthy E" and "\<And>k. k |\<in>| index \<Longrightarrow> rng k \<Longrightarrow> fmlookup (as_Logs st) (snd k) \<noteq> None"
  shows "snd (set_Walk index rng (resolve_callback E st) []) =
    take 1000 (map (\<lambda>k. the (fmlookup (as_Logs st) (snd k))) (filter rng (keys index)))"
proof -
  let ?h = "\<lambda>k :: 'a \<times> uint64. the (fmlookup (as_Logs st) (snd k))"
  let ?g = "\<lambda>v out. let out' = out @ [v] in (1000 \<le> length out', out')"
  have "Walk_list (\<lambda>_. False) (map (\<lambda>k. (k, ())) (filter rng (keys index))) (\<lambda>k _ a. resolve_callback E st k a) [] =
      Walk_list (\<lambda>_. False) (map (\<lambda>k. (k, ?h k)) (filter rng (keys index))) (\<lambda>_ v a. ?g v a) []"
  proof (rule Walk_list_resolved)
    fix k a assume "k \<in> set (filter rng (keys index))"
    then obtain l where "fmlookup (as_Logs st) (snd k) = Some l" using assms(2) [of k] by auto
    then show "resolve_callback E st k a = ?g (?h k) a"
      using assms(1) by (simp add: resolve_callback_def GetAuditLog_healthy audit_MaxQueryResults_def Let_def)
  qed
  note walk = this
  have "snd (Walk_list (\<lambda>_. False) (map (\<lambda>k. (k, ?h k)) (filter rng (keys index))) (\<lambda>_ v a. ?g v a) []) =
      [] @ take (1000 - length ([] :: AuditLog list)) (map snd (map (\<lambda>k. (k, ?h k)) (filter rng (keys index))))"
    by (rule Walk_list_capped) simp
  then show ?thesis unfolding set_Walk_def walk by (simp add: comp_def)
qed

lemma sorted_keys: "sorted_wrt (<) (keys s)"
  by (simp add: keys_def sorted_list_of_fset.rep_eq)

lemma audit_time_range_iff:
  assumes "\<not> fromT <s 0" and "\<not> toT <s fromT"
  shows "(audit_timestampToKey fromT \<le> k \<and> k < audit_timestampToKey toT + 1) \<longleftrightarrow> fromT \<le> k \<and> k \<le> toT"
proof -
  have nn: "\<not> toT <s 0" using assms by (auto simp: word_sless_alt)
  then have "toT \<noteq> - 1" by (auto simp: word_sless_alt)
  then have "toT + 1 \<noteq> 0" by (metis add.inverse_unique add.commute)
  then have "k < toT + 1 \<longleftrightarrow> k \<le> toT"
    using unat_inc [of toT] by (simp add: word_less_nat_alt word_le_nat_alt less_Suc_eq_le)
  then show ?thesis using assms(1) nn by (simp add: audit_timestampToKey_def)
qed

lemma audit_wf_lookup:
  assumes "audit_wf st"
  shows "(a, i) |\<in>| as_ByActor st \<longleftrightarrow> (\<exists>l. fmlookup (as_Logs st) i = Some l \<and> al_Actor l = a)"
    and "(a, i) |\<in>| as_ByEventType st \<longleftrightarrow> (\<exists>l. fmlookup (as_Logs st) i = Some l \<and> al_EventType l = a)"
    and "(t, i) |\<in>| as_ByTime st \<longleftrightarrow> (\<exists>l. fmlookup (as_Logs st) i = Some l \<and> audit_timestampToKey (al_Timestamp l) = t)"
  using assms unfolding audit_wf_def
  by (simp_all only: audit_actor.index_lookup audit_type.index_lookup audit_time.index_lookup)

lemma audit_ByTimeRange_healthy:
  assumes "healthy E" and "audit_wf st" and "\<not> fromT <s 0" and "\<not> toT <s fromT"
  shows "GetAuditLogsByTimeRange E st fromT toT =
    take 1000 (map (\<lambda>k. the (fmlookup (as_Logs st) (snd k))) (filter (\<lambda>k. fromT \<le> fst k \<and> fst k \<le> toT) (keys (as_ByTime st))))"
  unfolding GetAuditLogsByTimeRange_def Let_def using assms audit_time_range_iff [OF assms(3,4)]
  by (subst resolve_walk) (auto simp: audit_wf_lookup(3))

section \<open>Genesis\<close>

lemma audit_restore_healthy: "healthy E \<Longrightarrow> audit_restore E i ls st = (None, fold audit_put ls st)"
  by (induction ls arbitrary: i st) simp_all

definition audit_booted :: "audit_GenesisState \<Rightarrow> audit_state" where
  "audit_booted gs =
     (let st = fold audit_put (ag_Logs gs) (audit_empty\<lparr>as_Params := Some (ag_Params gs)\<rparr>) in
      if audit_maxID gs > 0 then st\<lparr>as_IDSequence := Some (audit_maxID gs)\<rparr> else st)"

lemma audit_InitGenesis_booted: "healthy E \<Longrightarrow> audit_InitGenesis E gs audit_empty = (None, audit_booted gs)"
  by (simp add: audit_InitGenesis_def audit_restore_healthy audit_booted_def Let_def)

lemma fold_audit_put_fields:
  "as_Logs (fold audit_put ls st) = fold (\<lambda>l. fmupd (al_ID l) l) ls (as_Logs st)"
  "fset (as_ByActor (fold audit_put ls st)) = (\<lambda>l. (al_Actor l, al_ID l)) ` set ls \<union> fset (as_ByActor st)"
  "fset (as_ByEventType (fold audit_put ls st)) = (\<lambda>l. (al_EventType l, al_ID l)) ` set ls \<union> fset (as_ByEventType st)"
  "fset (as_ByTime (fold audit_put ls st)) = (\<lambda>l. (audit_timestampToKey (al_Timestamp l), al_ID l)) ` set ls \<union> fset (as_ByTime st)"
  "as_Params (fold audit_put ls st) = as_Params st" "as_IDSequence (fold audit_put ls st) = as_IDSequence st"
  by (induction ls arbitrary: st) (auto simp: audit_put_def)

lemma audit_booted_fields:
  "as_Logs (audit_booted gs) = fold (\<lambda>l. fmupd (al_ID l) l) (ag_Logs gs) fmempty"
  "fset (as_ByActor (audit_booted gs)) = (\<lambda>l. (al_Actor l, al_ID l)) ` set (ag_Logs gs)"
  "fset (as_ByEventType (audit_booted gs)) = (\<lambda>l. (al_EventType l, al_ID l)) ` set (ag_Logs gs)"
  "fset (as_ByTime (audit_booted gs)) = (\<lambda>l. (audit_timestampToKey (al_Timestamp l), al_ID l)) ` set (ag_Logs gs)"
  "as_Params (audit_booted gs) = Some (ag_Params gs)" "audit_seq (audit_booted gs) = audit_maxID gs"
  by (auto simp: audit_booted_def Let_def fold_audit_put_fields audit_empty_def audit_seq_def word_gt_0)

lemma audit_maxID_le: "audit_maxID gs \<le> b \<longleftrightarrow> ag_Counter gs \<le> b \<and> (\<forall>l \<in> set (ag_Logs gs). al_ID l \<le> b)"
proof -
  have "fold (\<lambda>l m. if al_ID l > m then al_ID l else m) ls a \<le> b \<longleftrightarrow> a \<le> b \<and> (\<forall>l \<in> set ls. al_ID l \<le> b)" for ls a
  proof (induction ls arbitrary: a)
    case (Cons l ls)
    have "(if al_ID l > a then al_ID l else a) \<le> b \<longleftrightarrow> a \<le> b \<and> al_ID l \<le> b" by auto
    then show ?case using Cons.IH by simp
  qed simp
  then show ?thesis by (simp add: audit_maxID_def)
qed

lemma audit_ExportGenesis_healthy:
  "healthy E \<Longrightarrow> audit_ExportGenesis E st =
     \<lparr>ag_Params = audit_GetParams E st, ag_Logs = map snd (entries (as_Logs st)), ag_Counter = audit_seq st\<rparr>"
  by (simp add: audit_ExportGenesis_def exportAllLogs_def map_Walk_values audit_seq_def)

lemma audit_wf_logs:
  assumes "audit_wf st"
  shows "l \<in> set (map snd (entries (as_Logs st))) \<longleftrightarrow> fmlookup (as_Logs st) (al_ID l) = Some l"
proof -
  have own: "fmlookup (as_Logs st) i = Some l \<Longrightarrow> i = al_ID l" for i using assms unfolding audit_wf_def by blast
  have "l \<in> set (map snd (entries (as_Logs st))) \<longleftrightarrow> (\<exists>i. (i, l) \<in> set (entries (as_Logs st)))" by force
  also have "\<dots> \<longleftrightarrow> fmlookup (as_Logs st) (al_ID l) = Some l" unfolding set_entries using own by blast
  finally show ?thesis .
qed

lemma audit_index_exported:
  assumes "audit_wf st" and "\<And>f i. (f, i) |\<in>| s \<longleftrightarrow> (\<exists>l. fmlookup (as_Logs st) i = Some l \<and> g l = f)"
  shows "fset s = (\<lambda>l. (g l, al_ID l)) ` set (map snd (entries (as_Logs st)))"
proof (rule set_eqI)
  fix k
  have own: "fmlookup (as_Logs st) i = Some l \<Longrightarrow> al_ID l = i" for i l using assms(1) unfolding audit_wf_def by blast
  have "k \<in> fset s \<longleftrightarrow> (\<exists>l. fmlookup (as_Logs st) (snd k) = Some l \<and> g l = fst k)"
    using assms(2) [of "fst k" "snd k"] by simp
  also have "\<dots> \<longleftrightarrow> (\<exists>l. fmlookup (as_Logs st) (al_ID l) = Some l \<and> al_ID l = snd k \<and> g l = fst k)"
    using own by metis
  also have "\<dots> \<longleftrightarrow> k \<in> (\<lambda>l. (g l, al_ID l)) ` set (map snd (entries (as_Logs st)))"
    unfolding image_iff bex_simps audit_wf_logs [OF assms(1), symmetric] by (cases k) auto
  finally show "k \<in> fset s \<longleftrightarrow> k \<in> (\<lambda>l. (g l, al_ID l)) ` set (map snd (entries (as_Logs st)))" .
qed

section \<open>Samples\<close>

definition sample_record :: MsgRecordAudit where
  "sample_record = NewMsgRecordAudit ''alice'' ''transfer'' ''bob'' ''send'' ''5''"

definition sample_audit_txs :: "(sdk_ctx \<times> audit_tx) list" where
  "sample_audit_txs = [(sample_ctx, TxRecord sample_record), (sample_ctx, AuditNextBlock), (sample_ctx, TxRecord sample_record)]"

lemma sample_audit_drawn [simp]: "audit_drawn sample_audit_txs = 2"
  by (simp add: sample_audit_txs_def)

lemma audit_empty_fields [simp]: "audit_seq audit_empty = 0" "as_Logs audit_empty = fmempty"
  "audit_GetParams sample_env audit_empty = audit_DefaultParams" "as_transient audit_empty = fmempty"
  by (simp_all add: audit_seq_def audit_empty_def audit_GetParams_def item_Get_def)

lemma sample_record_allowed: "audit_allowed sample_env sample_record audit_empty"
  by (simp add: audit_allowed_def isAllowedAuditor_def audit_DefaultParams_def sample_record_def NewMsgRecordAudit_def
      audit_bounds u32_len_def audit_limit_def audit_count_def)

lemma sample_readable [simp]: "sequence_readable sample_env"
  by (simp add: healthy_readable)

section \<open>Properties\<close>

text \<open>
  C10: the audit module implements an append-only log.  Whatever transactions and blocks are run from
  the empty state, the stored records are exactly the accepted ones, the n-th under identifier n,
  the three indexes hold exactly their (field, id) pairs, and an export lists them in order of
  acceptance.
\<close>
theorem audit_history_log:
  fixes auth :: string
  assumes "healthy E" and "audit_drawn txs < 2 ^ 64"
  defines "log \<equiv> audit_ledger E auth txs audit_empty []"
  shows "log_rel log (audit_run E auth txs audit_empty) \<and>
    ag_Logs (audit_ExportGenesis E (audit_run E auth txs audit_empty)) = log"
proof -
  have "log_rel log (audit_run E auth txs audit_empty)"
    unfolding log_def using assms(1,2) by (intro log_rel_run log_rel_empty) (simp_all add: healthy_readable)
  then show ?thesis using assms(1) by (simp add: audit_ExportGenesis_healthy log_rel_entries)
qed

theorem audit_history_log_witness:
  "length (ag_Logs (audit_ExportGenesis sample_env (audit_run sample_env ''gov'' sample_audit_txs audit_empty))) =
     unat (audit_seq (audit_run sample_env ''gov'' sample_audit_txs audit_empty))"
  using audit_history_log [OF sample_healthy, of sample_audit_txs "''gov''"] by (simp add: log_rel_def)

text \<open>
  From a well-formed state within its data cap, no history changes or deletes a stored record,
  and every reached state is well-formed and breaks no registered invariant, provided parameter
  updates do not lower the data cap.
\<close>
theorem audit_history_invariants:
  assumes "healthy E" and "audit_wf st" and "unat (audit_seq st) + audit_drawn txs < 2 ^ 64"
    and "audit_cap_ok E st" and "sorted (audit_cap E st # audit_requested_caps txs)"
  shows "audit_wf (audit_run E auth txs st) \<and> audit_AllInvariants E (audit_run E auth txs st) = None \<and>
    (\<forall>i l. GetAuditLog E st i = (l, True) \<longrightarrow> GetAuditLog E (audit_run E auth txs st) i = (l, True))"
proof -
  have run: "audit_wf (audit_run E auth txs st)" "audit_keeps st (audit_run E auth txs st)"
    using audit_run_wf [OF healthy_readable [OF assms(1)] assms(2,3)] by auto
  then have "audit_AllInvariants E (audit_run E auth txs st) = None"
    using assms by (intro audit_AllInvariants_ok audit_cap_ok_run)
  then show ?thesis
    using run assms(1) by (auto simp: audit_keeps_def GetAuditLog_healthy split: option.splits)
qed

theorem audit_history_invariants_witness:
  "audit_AllInvariants sample_env (audit_run sample_env ''gov'' sample_audit_txs audit_empty) = None"
proof -
  have "audit_cap_ok sample_env audit_empty"
    by (simp add: audit_cap_ok_def audit_cap_def audit_DefaultParams_def audit_bounds)
  then show ?thesis
    using audit_history_invariants [OF sample_healthy audit_wf_empty, of sample_audit_txs "''gov''"]
    by (simp add: sample_audit_txs_def)
qed

text \<open>
  Within a block, at most the configured number of audits of one creator is accepted, whatever
  the interleaving with other creators.
\<close>
theorem audit_block_rate_limit:
  assumes "\<forall>(ctx, tx) \<in> set txs. audit_sender tx \<noteq> None" and "audit_limit E st \<noteq> 0" and "as_transient st = fmempty"
  shows "audit_accepted_by E auth a txs st \<le> unat (audit_limit E st)"
  using audit_block_count [of txs E st a auth] assms by (simp add: audit_count_def)

theorem audit_block_rate_limit_witness:
  "audit_accepted_by sample_env ''gov'' ''alice'' (replicate 200 (sample_ctx, TxRecord sample_record)) audit_empty \<le> 100"
  using audit_block_rate_limit [of "replicate 200 (sample_ctx, TxRecord sample_record)" sample_env audit_empty "''gov''" "''alice''"]
  by (simp add: audit_limit_def audit_DefaultParams_def audit_bounds)

text \<open>
  On a store that does not fail, \<^verbatim>\<open>RecordAudit\<close> succeeds exactly when the creator is an allowed
  auditor within the data cap and the block's rate limit; it then stores exactly one record, under
  the next identifier and stamped with the block, and advances the sequence to it.  A refusal leaves
  the state as it was.
\<close>
theorem audit_record_outcome:
  assumes "healthy E"
  shows "case msg_RecordAudit E ctx msg st of
      (Inl e, st') \<Rightarrow> \<not> audit_allowed E msg st \<and> st' = st
    | (Inr _, st') \<Rightarrow> audit_allowed E msg st \<and> audit_seq st' = audit_seq st + 1 \<and>
        as_Logs st' = fmupd (audit_seq st + 1) (audit_record E ctx msg (audit_seq st + 1)) (as_Logs st) \<and>
        audit_GetParams E st' = audit_GetParams E st"
proof -
  have seq: "audit_seq (recorded E ctx msg st) = audit_seq st + 1"
    using assms by (simp add: recorded_def audit_seq_def GetNextID_readable [OF healthy_readable])
  show ?thesis
    using msg_RecordAudit_healthy [OF assms, of msg st ctx] seq assms
    by (auto simp: recorded_logs GetNextID_readable [OF healthy_readable] split: if_splits)
qed

theorem audit_record_outcome_witness:
  "fst (msg_RecordAudit sample_env sample_ctx sample_record audit_empty) = Inr ()"
  using audit_record_outcome [OF sample_healthy, where ctx = sample_ctx and msg = sample_record and st = audit_empty]
    sample_record_allowed
  by (auto split: prod.splits sum.splits)

text \<open>
  A time-range query over a valid range returns stored records whose time key lies in the
  inclusive range, in order of time and then identifier, at most 1000 of them, and all of them when
  there are fewer than that; an invalid range returns nothing.
\<close>
theorem audit_time_range_exact:
  fixes fromT toT :: int64
  assumes "healthy E" and "audit_wf st"
  defines "r \<equiv> GetAuditLogsByTimeRange E st fromT toT"
    and "key \<equiv> \<lambda>l. (audit_timestampToKey (al_Timestamp l), al_ID l)"
  defines "R \<equiv> {l. GetAuditLog E st (al_ID l) = (l, True) \<and> fromT \<le> fst (key l) \<and> fst (key l) \<le> toT}"
  shows "if fromT <s 0 \<or> toT <s fromT then r = []
    else sorted_wrt (<) (map key r) \<and> length r \<le> 1000 \<and> (if length r < 1000 then set r = R else set r \<subseteq> R)"
proof (cases "fromT <s 0 \<or> toT <s fromT")
  case True
  then show ?thesis by (auto simp: r_def GetAuditLogsByTimeRange_def)
next
  case False
  let ?ks = "filter (\<lambda>k. fromT \<le> fst k \<and> fst k \<le> toT) (keys (as_ByTime st))"
  let ?h = "\<lambda>k :: uint64 \<times> uint64. the (fmlookup (as_Logs st) (snd k))"
  have r: "r = take 1000 (map ?h ?ks)" unfolding r_def using assms(1,2) False by (intro audit_ByTimeRange_healthy) auto
  have own: "fmlookup (as_Logs st) i = Some l \<Longrightarrow> al_ID l = i" for i l using assms(2) unfolding audit_wf_def by blast
  have hit: "fmlookup (as_Logs st) (snd k) = Some (?h k) \<and> key (?h k) = k" if "k |\<in>| as_ByTime st" for k
  proof -
    have "(fst k, snd k) |\<in>| as_ByTime st" using that by simp
    then obtain l where "fmlookup (as_Logs st) (snd k) = Some l" "audit_timestampToKey (al_Timestamp l) = fst k"
      unfolding audit_wf_lookup(3) [OF assms(2)] by blast
    then show ?thesis using own by (simp add: key_def)
  qed
  have "map key (map ?h ?ks) = ?ks"
    unfolding map_map by (rule map_idI) (use hit in auto)
  then have "sorted_wrt (<) (map key r)"
    unfolding r take_map [symmetric] using sorted_keys [of "as_ByTime st"]
    by (simp add: take_map sorted_wrt_take sorted_wrt_filter)
  moreover have "set (map ?h ?ks) = R"
  proof (rule set_eqI)
    fix l
    have R: "l \<in> R \<longleftrightarrow> fmlookup (as_Logs st) (al_ID l) = Some l \<and> fromT \<le> fst (key l) \<and> fst (key l) \<le> toT"
      using assms(1) by (auto simp: R_def GetAuditLog_healthy split: option.splits)
    have snd_key: "snd (key l) = al_ID l" for l by (simp add: key_def)
    show "l \<in> set (map ?h ?ks) \<longleftrightarrow> l \<in> R"
    proof
      assume "l \<in> set (map ?h ?ks)"
      then obtain k where k: "k \<in> set ?ks" "l = ?h k" by auto
      then have "fmlookup (as_Logs st) (snd k) = Some l" "key l = k" using hit [of k] by auto
      then show "l \<in> R" unfolding R using k(1) snd_key [of l] by auto
    next
      assume "l \<in> R"
      then have l: "fmlookup (as_Logs st) (al_ID l) = Some l" "fromT \<le> fst (key l)" "fst (key l) \<le> toT" unfolding R by auto
      then have "key l |\<in>| as_ByTime st" unfolding key_def audit_wf_lookup(3) [OF assms(2)] by blast
      then have "key l \<in> set ?ks" using l by simp
      moreover have "?h (key l) = l" using l(1) by (simp add: snd_key)
      ultimately show "l \<in> set (map ?h ?ks)" unfolding set_map by (rule rev_image_eqI [OF _ sym])
    qed
  qed
  then have "set r \<subseteq> R" "length r < 1000 \<Longrightarrow> set r = R"
    unfolding r using set_take_subset [of 1000 "map ?h ?ks"] by auto
  ultimately show ?thesis using False unfolding r by auto
qed

theorem audit_time_range_exact_witness:
  "sorted_wrt (<) (map (\<lambda>l. (audit_timestampToKey (al_Timestamp l), al_ID l))
     (GetAuditLogsByTimeRange sample_env (audit_run sample_env ''gov'' sample_audit_txs audit_empty) 1 1800000000))"
proof -
  have "audit_wf (audit_run sample_env ''gov'' sample_audit_txs audit_empty)"
    using audit_run_wf [OF sample_readable audit_wf_empty, of sample_audit_txs "''gov''"] by simp
  from audit_time_range_exact [OF sample_healthy this, of 1 1800000000] show ?thesis
    by (simp add: word_sless_alt)
qed

text \<open>
  Exporting a well-formed audit state and importing the export into an empty store restores the
  records, the three indexes, the parameters and the sequence.
\<close>
theorem audit_genesis_roundtrip:
  assumes "healthy E" and "audit_wf st"
  shows "\<exists>st'. audit_InitGenesis E (audit_ExportGenesis E st) audit_empty = (None, st') \<and>
    as_Logs st' = as_Logs st \<and> as_ByActor st' = as_ByActor st \<and> as_ByEventType st' = as_ByEventType st \<and>
    as_ByTime st' = as_ByTime st \<and> audit_GetParams E st' = audit_GetParams E st \<and> GetNextID E st' = GetNextID E st"
proof (intro exI conjI)
  let ?gs = "audit_ExportGenesis E st"
  note ex = audit_ExportGenesis_healthy [OF assms(1), of st]
  show "audit_InitGenesis E ?gs audit_empty = (None, audit_booted ?gs)" using assms(1) by (rule audit_InitGenesis_booted)
  show "as_Logs (audit_booted ?gs) = as_Logs st"
    unfolding audit_booted_fields ex audit_GenesisState.simps
    by (rule fold_fmupd_entries) (use assms(2) in \<open>unfold audit_wf_def, blast\<close>)
  show "as_ByActor (audit_booted ?gs) = as_ByActor st"
    using audit_index_exported [OF assms(2) audit_wf_lookup(1) [OF assms(2)]]
    by (simp add: audit_booted_fields ex flip: fset_inject)
  show "as_ByEventType (audit_booted ?gs) = as_ByEventType st"
    using audit_index_exported [OF assms(2) audit_wf_lookup(2) [OF assms(2)]]
    by (simp add: audit_booted_fields ex flip: fset_inject)
  show "as_ByTime (audit_booted ?gs) = as_ByTime st"
    using audit_index_exported [OF assms(2) audit_wf_lookup(3) [OF assms(2)]]
    by (simp add: audit_booted_fields ex flip: fset_inject)
  show "audit_GetParams E (audit_booted ?gs) = audit_GetParams E st"
    using assms(1) by (simp add: audit_GetParams_def item_Get_def audit_booted_fields ex)
  have below: "al_ID l \<le> audit_seq st" if "l \<in> set (map snd (entries (as_Logs st)))" for l
    using that assms(2) unfolding audit_wf_logs [OF assms(2)] audit_wf_def by blast
  then have "audit_maxID ?gs = audit_seq st"
    by (intro antisym) (use audit_maxID_le [of ?gs "audit_maxID ?gs"] in \<open>simp_all add: audit_maxID_le ex\<close>)
  then show "GetNextID E (audit_booted ?gs) = GetNextID E st"
    using assms(1) by (simp add: GetNextID_readable [OF healthy_readable] audit_booted_fields)
qed

theorem audit_genesis_roundtrip_witness:
  "\<exists>st'. audit_InitGenesis sample_env (audit_ExportGenesis sample_env (audit_run sample_env ''gov'' sample_audit_txs audit_empty)) audit_empty = (None, st') \<and>
     as_Logs st' = as_Logs (audit_run sample_env ''gov'' sample_audit_txs audit_empty)"
  using audit_genesis_roundtrip [OF sample_healthy, of "audit_run sample_env ''gov'' sample_audit_txs audit_empty"]
    audit_run_wf [OF sample_readable audit_wf_empty, of sample_audit_txs "''gov''"]
  by auto

text \<open>
  C27: when the stored sequence cannot be decoded, \<^verbatim>\<open>GetNextID\<close> silently starts again at 1: a further
  audit succeeds, replaces the record stored under 1 and sets the sequence back to 1.
\<close>
theorem audit_sequence_fault_overwrites:
  assumes "write_fault E = (\<lambda>_ _. None)" and "\<not> sequence_readable E" and "as_IDSequence st = Some n"
    and "audit_allowed E msg st"
  shows "\<exists>st'. msg_RecordAudit E ctx msg st = (Inr (), st') \<and>
    as_Logs st' = fmupd 1 (audit_record E ctx msg 1) (as_Logs st) \<and> as_IDSequence st' = Some 1"
proof -
  have fault: "decode_fault E ''id_sequence'' KUnit" using assms(2) by (simp add: sequence_readable_def)
  then have next_id: "GetNextID E st = 1"
    by (simp add: GetNextID_def seq_Peek_def item_Get_def assms(3) audit_coll_sequence_def ItemKey_def)
  have rec: "RecordAuditLog E l s = (None, audit_put l s)" for l s
    by (simp add: RecordAuditLog_def audit_put_def coll_defs Let_def assms(1))
  have inc: "IncrementCounter E k s = (None, s\<lparr>as_IDSequence := Some k\<rparr>)" for k s
    by (simp add: IncrementCounter_def coll_defs assms(1))
  have "\<exists>ev. msg_RecordAudit E ctx msg st = (Inr (), emit_audit ev (recorded E ctx msg st))"
    using assms(4)
    by (auto simp: msg_RecordAudit_def Let_def CheckAndIncrAudit_cases audit_allowed_def recorded_def audit_record_def
        tx_hash_def rec inc)
  moreover have "as_IDSequence (recorded E ctx msg st) = Some 1" by (simp add: recorded_def next_id)
  ultimately show ?thesis by (auto simp: recorded_logs next_id emit_audit_def)
qed

definition faulty_env :: env where
  "faulty_env = sample_env\<lparr>decode_fault := \<lambda>c k. c = ''id_sequence''\<rparr>"

theorem audit_sequence_fault_overwrites_witness:
  "\<exists>st'. msg_RecordAudit faulty_env sample_ctx sample_record (audit_empty\<lparr>as_IDSequence := Some 7\<rparr>) = (Inr (), st') \<and>
    as_IDSequence st' = Some 1"
proof -
  have "audit_GetParams faulty_env (audit_empty\<lparr>as_IDSequence := Some 7\<rparr>) = audit_DefaultParams"
    by (simp add: audit_GetParams_def item_Get_def audit_empty_def)
  then have "audit_allowed faulty_env sample_record (audit_empty\<lparr>as_IDSequence := Some 7\<rparr>)"
    by (simp add: audit_allowed_def isAllowedAuditor_def audit_DefaultParams_def sample_record_def NewMsgRecordAudit_def
        audit_bounds u32_len_def audit_limit_def audit_count_def)
  from audit_sequence_fault_overwrites [OF _ _ _ this, where n = 7 and ctx = sample_ctx]
  show ?thesis by (auto simp: faulty_env_def sample_env_def sequence_readable_def)
qed

end
