(* ===== verification/Precompiles.thy ===== *)
theory Precompiles
  imports EnergyKeeper IdentityKeeper
begin

text \<open>
  \<^verbatim>\<open>precompiles/energy\<close> and \<^verbatim>\<open>precompiles/identity\<close>: the read-only EVM precompiles over the energy
  and identity keepers.  The ABI tables are the embedded \<^verbatim>\<open>abi.json\<close> files.  go-ethereum's
  \<^verbatim>\<open>abi\<close> package, \<^verbatim>\<open>cmn.SetupABI\<close>, \<^verbatim>\<open>cmn.Precompile.RunNativeAction\<close> and the bech32 encoder are
  library code: fields of \<open>evm_lib\<close> or arguments, with their documented behaviour in \<open>evm_lib_ok\<close>.
\<close>

section \<open>ABI tables and dynamically typed values\<close>

datatype abi_type = TString | TInt64 | TBool | TAddress | TTuple "abi_type list"

record abi_method =
  am_Name :: string
  am_Inputs :: "abi_type list"
  am_Outputs :: "abi_type list"

text \<open>The dynamic values of \<^verbatim>\<open>[]interface{}\<close> arguments and of the packed outputs.\<close>

datatype abi_value = VString string | VInt64 int64 | VBool bool | VAddress bytes | VTuple "abi_value list"

fun has_type :: "abi_value \<Rightarrow> abi_type \<Rightarrow> bool" where
  "has_type (VString s) TString = True"
| "has_type (VInt64 n) TInt64 = True"
| "has_type (VBool b) TBool = True"
| "has_type (VAddress a) TAddress = (length a = 20)"
| "has_type (VTuple []) (TTuple []) = True"
| "has_type (VTuple (v # vs)) (TTuple (t # ts)) = (has_type v t \<and> has_type (VTuple vs) (TTuple ts))"
| "has_type _ _ = False"

definition has_types :: "abi_value list \<Rightarrow> abi_type list \<Rightarrow> bool" where
  "has_types vs ts = has_type (VTuple vs) (TTuple ts)"

text \<open>
  The library: \<^verbatim>\<open>abi.MethodById\<close>, \<^verbatim>\<open>cmn.SetupABI\<close> on a contract call frame of type \<open>'c\<close>,
  \<^verbatim>\<open>Arguments.Pack\<close>, and \<^verbatim>\<open>sdk.AccAddress.String\<close>.
\<close>

record 'c evm_lib =
  MethodById :: "abi_method list \<Rightarrow> bytes \<Rightarrow> string + abi_method"
  SetupABI :: "abi_method list \<Rightarrow> 'c \<Rightarrow> bool \<Rightarrow> (abi_method \<Rightarrow> bool) \<Rightarrow> string + abi_method \<times> abi_value list"
  Pack :: "abi_type list \<Rightarrow> abi_value list \<Rightarrow> string + bytes"
  AccAddressString :: "bytes \<Rightarrow> string"

text \<open>
  Documented behaviour: methods come from the table, decoded arguments have the types of the
  method's inputs, a method that declares itself a transaction is refused in a static call, and
  well-typed outputs can be packed.
\<close>

definition evm_lib_ok :: "'c evm_lib \<Rightarrow> bool" where
  "evm_lib_ok L \<longleftrightarrow>
     (\<forall>abi sel m. MethodById L abi sel = Inr m \<longrightarrow> m \<in> set abi) \<and>
     (\<forall>abi c ro tx m args. SetupABI L abi c ro tx = Inr (m, args) \<longrightarrow>
        m \<in> set abi \<and> has_types args (am_Inputs m) \<and> \<not> (ro \<and> tx m)) \<and>
     (\<forall>ts vs. has_types vs ts \<longrightarrow> (\<exists>bz. Pack L ts vs = Inr bz))"

datatype precompile_error =
    PSetup string
  | PUnknownMethod string
  | PArgCount string nat
  | PMissingArg string nat
  | PArgType string nat
  | PPack string

definition pack_outputs :: "'c evm_lib \<Rightarrow> abi_method \<Rightarrow> abi_value list \<Rightarrow> precompile_error + bytes" where
  "pack_outputs L m vs = (case Pack L (am_Outputs m) vs of Inl e \<Rightarrow> Inl (PPack e) | Inr bz \<Rightarrow> Inr bz)"

section \<open>The energy precompile\<close>

definition energy_PrecompileAddress :: string where
  "energy_PrecompileAddress = ''0x0000000000000000000000000000000000000900''"

definition GetEnergyDataMethod :: string where
  "GetEnergyDataMethod = ''getEnergyData''"

definition GasGetEnergyData :: uint64 where
  "GasGetEnergyData = 5000"

definition energy_data_type :: abi_type where
  "energy_data_type = TTuple [TString, TString, TString, TString, TString, TInt64, TInt64]"

definition energy_ABI :: "abi_method list" where
  "energy_ABI = [\<lparr>am_Name = ''getEnergyData'', am_Inputs = [TString], am_Outputs = [energy_data_type, TBool]\<rparr>]"

definition energy_RequiredGas :: "'c evm_lib \<Rightarrow> bytes \<Rightarrow> uint64" where
  "energy_RequiredGas L input =
     (if length input < 4 then 0
      else
        (case MethodById L energy_ABI (take 4 input) of
           Inl _ \<Rightarrow> 0
         | Inr method \<Rightarrow> if am_Name method = GetEnergyDataMethod then GasGetEnergyData else 0))"

definition energy_IsTransaction :: "abi_method \<Rightarrow> bool" where
  "energy_IsTransaction m = False"

definition energyDataOut :: "EnergyData \<Rightarrow> abi_value" where
  "energyDataOut d = VTuple [VString (ed_ID d), VString (ed_Category d), VString (ed_Submitter d), VString (ed_DataHash d),
     VString (ed_Metadata d), VInt64 (ed_BlockHeight d), VInt64 (ed_Timestamp d)]"

definition pre_getEnergyData ::
  "'c evm_lib \<Rightarrow> env \<Rightarrow> energy_state \<Rightarrow> abi_method \<Rightarrow> abi_value list \<Rightarrow> precompile_error + bytes" where
  "pre_getEnergyData L E st method args =
     (if length args \<noteq> 1 then Inl (PArgCount GetEnergyDataMethod (length args))
      else
        (case args ! 0 of
           VString ident \<Rightarrow>
             (case energy_GetEnergyData E st ident of
                (rec, found) \<Rightarrow> pack_outputs L method [energyDataOut rec, VBool found])
         | _ \<Rightarrow> Inl (PArgType GetEnergyDataMethod 0)))"

definition energy_execute :: "'c evm_lib \<Rightarrow> env \<Rightarrow> energy_state \<Rightarrow> 'c \<Rightarrow> bool \<Rightarrow> precompile_error + bytes" where
  "energy_execute L E st contract readOnly =
     (case SetupABI L energy_ABI contract readOnly energy_IsTransaction of
        Inl e \<Rightarrow> Inl (PSetup e)
      | Inr (method, args) \<Rightarrow>
          if am_Name method = GetEnergyDataMethod then pre_getEnergyData L E st method args
          else Inl (PUnknownMethod (am_Name method)))"

text \<open>
  \<^verbatim>\<open>Run\<close>: the library's \<^verbatim>\<open>RunNativeAction\<close> is given the action and decides about context, gas and
  journaling.
\<close>

definition energy_Run ::
  "'c evm_lib \<Rightarrow> env \<Rightarrow> ('evm \<Rightarrow> 'c \<Rightarrow> (energy_state \<Rightarrow> precompile_error + bytes) \<Rightarrow> precompile_error + bytes) \<Rightarrow>
     'evm \<Rightarrow> 'c \<Rightarrow> bool \<Rightarrow> precompile_error + bytes" where
  "energy_Run L E RunNativeAction evm contract readonly =
     RunNativeAction evm contract (\<lambda>st. energy_execute L E st contract readonly)"

section \<open>The identity precompile\<close>

definition identity_PrecompileAddress :: string where
  "identity_PrecompileAddress = ''0x0000000000000000000000000000000000000901''"

definition GetIdentityMethod :: string where "GetIdentityMethod = ''getIdentity''"
definition GetIdentityByEvmAddressMethod :: string where "GetIdentityByEvmAddressMethod = ''getIdentityByEvmAddress''"
definition HasRoleMethod :: string where "HasRoleMethod = ''hasRole''"
definition IsRegisteredMethod :: string where "IsRegisteredMethod = ''isRegistered''"

definition GasGetIdentity :: uint64 where "GasGetIdentity = 5000"
definition GasHasRole :: uint64 where "GasHasRole = 3000"
definition GasIsRegistered :: uint64 where "GasIsRegistered = 2000"

lemmas identity_methods =
  GetIdentityMethod_def GetIdentityByEvmAddressMethod_def HasRoleMethod_def IsRegisteredMethod_def

definition identity_type :: abi_type where
  "identity_type = TTuple [TString, TString, TString, TString, TString, TInt64, TInt64]"

definition identity_ABI :: "abi_method list" where
  "identity_ABI =
     [\<lparr>am_Name = ''getIdentity'', am_Inputs = [TString], am_Outputs = [identity_type, TBool]\<rparr>,
      \<lparr>am_Name = ''hasRole'', am_Inputs = [TString, TString], am_Outputs = [TBool]\<rparr>,
      \<lparr>am_Name = ''isRegistered'', am_Inputs = [TString], am_Outputs = [TBool]\<rparr>,
      \<lparr>am_Name = ''getIdentityByEvmAddress'', am_Inputs = [TAddress], am_Outputs = [identity_type, TBool]\<rparr>]"

definition identity_RequiredGas :: "'c evm_lib \<Rightarrow> bytes \<Rightarrow> uint64" where
  "identity_RequiredGas L input =
     (if length input < 4 then 0
      else
        (case MethodById L identity_ABI (take 4 input) of
           Inl _ \<Rightarrow> 0
         | Inr method \<Rightarrow>
             if am_Name method \<in> {GetIdentityMethod, GetIdentityByEvmAddressMethod} then GasGetIdentity
             else if am_Name method = HasRoleMethod then GasHasRole
             else if am_Name method = IsRegisteredMethod then GasIsRegistered
             else 0))"

definition identity_IsTransaction :: "abi_method \<Rightarrow> bool" where
  "identity_IsTransaction m = False"

definition toIdentityOut :: "Identity \<Rightarrow> abi_value" where
  "toIdentityOut d = VTuple [VString (id_Address d), VString (id_Name d), VString (id_Role d), VString (id_Status d),
     VString (id_Metadata d), VInt64 (id_RegisteredAt d), VInt64 (id_UpdatedAt d)]"

definition parseStringArg :: "abi_value list \<Rightarrow> nat \<Rightarrow> string \<Rightarrow> precompile_error + string" where
  "parseStringArg args idx name =
     (if length args \<le> idx then Inl (PMissingArg name idx)
      else (case args ! idx of VString s \<Rightarrow> Inr s | _ \<Rightarrow> Inl (PArgType name idx)))"

definition pre_getIdentity ::
  "'c evm_lib \<Rightarrow> env \<Rightarrow> identity_state \<Rightarrow> abi_method \<Rightarrow> abi_value list \<Rightarrow> precompile_error + bytes" where
  "pre_getIdentity L E st method args =
     (case parseStringArg args 0 GetIdentityMethod of
        Inl e \<Rightarrow> Inl e
      | Inr addr \<Rightarrow>
          (case GetIdentity E st addr of
             (d, found) \<Rightarrow> pack_outputs L method [toIdentityOut d, VBool found]))"

definition pre_getIdentityByEvmAddress ::
  "'c evm_lib \<Rightarrow> env \<Rightarrow> identity_state \<Rightarrow> abi_method \<Rightarrow> abi_value list \<Rightarrow> precompile_error + bytes" where
  "pre_getIdentityByEvmAddress L E st method args =
     (if length args \<noteq> 1 then Inl (PArgCount GetIdentityByEvmAddressMethod (length args))
      else
        (case args ! 0 of
           VAddress evmAddr \<Rightarrow>
             (case GetIdentity E st (AccAddressString L evmAddr) of
                (d, found) \<Rightarrow> pack_outputs L method [toIdentityOut d, VBool found])
         | _ \<Rightarrow> Inl (PArgType GetIdentityByEvmAddressMethod 0)))"

definition pre_hasRole ::
  "'c evm_lib \<Rightarrow> env \<Rightarrow> identity_state \<Rightarrow> abi_method \<Rightarrow> abi_value list \<Rightarrow> precompile_error + bytes" where
  "pre_hasRole L E st method args =
     (case parseStringArg args 0 HasRoleMethod of
        Inl e \<Rightarrow> Inl e
      | Inr addr \<Rightarrow>
          (case parseStringArg args 1 HasRoleMethod of
             Inl e \<Rightarrow> Inl e
           | Inr role \<Rightarrow> pack_outputs L method [VBool (HasRole E st addr role)]))"

definition pre_isRegistered ::
  "'c evm_lib \<Rightarrow> identity_state \<Rightarrow> abi_method \<Rightarrow> abi_value list \<Rightarrow> precompile_error + bytes" where
  "pre_isRegistered L st method args =
     (case parseStringArg args 0 IsRegisteredMethod of
        Inl e \<Rightarrow> Inl e
      | Inr addr \<Rightarrow> pack_outputs L method [VBool (IsRegistered st addr)])"

definition identity_execute :: "'c evm_lib \<Rightarrow> env \<Rightarrow> identity_state \<Rightarrow> 'c \<Rightarrow> bool \<Rightarrow> precompile_error + bytes" where
  "identity_execute L E st contract readOnly =
     (case SetupABI L identity_ABI contract readOnly identity_IsTransaction of
        Inl e \<Rightarrow> Inl (PSetup e)
      | Inr (method, args) \<Rightarrow>
          if am_Name method = GetIdentityMethod then pre_getIdentity L E st method args
          else if am_Name method = GetIdentityByEvmAddressMethod then pre_getIdentityByEvmAddress L E st method args
          else if am_Name method = HasRoleMethod then pre_hasRole L E st method args
          else if am_Name method = IsRegisteredMethod then pre_isRegistered L st method args
          else Inl (PUnknownMethod (am_Name method)))"

definition identity_Run ::
  "'c evm_lib \<Rightarrow> env \<Rightarrow> ('evm \<Rightarrow> 'c \<Rightarrow> (identity_state \<Rightarrow> precompile_error + bytes) \<Rightarrow> precompile_error + bytes) \<Rightarrow>
     'evm \<Rightarrow> 'c \<Rightarrow> bool \<Rightarrow> precompile_error + bytes" where
  "identity_Run L E RunNativeAction evm contract readonly =
     RunNativeAction evm contract (\<lambda>st. identity_execute L E st contract readonly)"

section \<open>Typing\<close>

lemma has_types_Cons_inv: "has_types vs (t # ts) \<Longrightarrow> \<exists>v vs'. vs = v # vs' \<and> has_type v t \<and> has_types vs' ts"
  by (cases vs) (auto simp: has_types_def)

lemma has_types_Nil_inv: "has_types vs [] \<Longrightarrow> vs = []"
  by (cases vs) (auto simp: has_types_def)

lemma has_type_String: "has_type v TString \<Longrightarrow> \<exists>s. v = VString s"
  by (cases v) auto

lemma has_type_Address: "has_type v TAddress \<Longrightarrow> \<exists>a. v = VAddress a"
  by (cases v) auto

lemma out_types [simp]:
  "has_types [energyDataOut d, VBool b] [energy_data_type, TBool]"
  "has_types [toIdentityOut i, VBool b] [identity_type, TBool]"
  "has_types [VBool b] [TBool]"
  by (simp_all add: has_types_def energyDataOut_def energy_data_type_def toIdentityOut_def identity_type_def)

lemma pack_typed: "evm_lib_ok L \<Longrightarrow> has_types vs (am_Outputs m) \<Longrightarrow> \<exists>bz. pack_outputs L m vs = Inr bz \<and> Pack L (am_Outputs m) vs = Inr bz"
  unfolding evm_lib_ok_def pack_outputs_def by (metis sum.simps(6))

lemma energy_setup:
  assumes "evm_lib_ok L" and "SetupABI L energy_ABI c ro tx = Inr (m, args)"
  shows "am_Name m = GetEnergyDataMethod \<and> am_Outputs m = [energy_data_type, TBool] \<and> (\<exists>ident. args = [VString ident])"
proof -
  have "m \<in> set energy_ABI" "has_types args (am_Inputs m)" using assms unfolding evm_lib_ok_def by blast+
  then show ?thesis
    by (auto simp: energy_ABI_def GetEnergyDataMethod_def dest!: has_types_Cons_inv has_types_Nil_inv has_type_String)
qed

end
