(* ===== verification/PrecompileClaims.thy ===== *)
theory PrecompileClaims
  imports Precompiles EnergyClaims IdentityClaims
begin

text \<open>
  What Solidity contracts see: every decoded call is answered, and the answers agree with the
  histories of the energy and identity modules.
\<close>

section \<open>Dispatch\<close>

lemma energy_execute_setup:
  assumes "evm_lib_ok L" and "healthy E" and "SetupABI L energy_ABI c ro energy_IsTransaction = Inr (m, [VString ident])"
  shows "\<exists>bz. energy_execute L E st c ro = Inr bz \<and>
    Pack L (am_Outputs m) [energyDataOut (fst (energy_GetEnergyData E st ident)), VBool (snd (energy_GetEnergyData E st ident))] = Inr bz"
proof -
  note m = energy_setup [OF assms(1,3)]
  then show ?thesis
    using assms(3) pack_typed [OF assms(1), of "[energyDataOut (fst (energy_GetEnergyData E st ident)), VBool (snd (energy_GetEnergyData E st ident))]" m]
    by (auto simp: energy_execute_def pre_getEnergyData_def split: prod.splits)
qed

text \<open>The four calls that \<^verbatim>\<open>SetupABI\<close> can decode for the identity precompile.\<close>

lemma identity_setup:
  assumes "evm_lib_ok L" and "SetupABI L identity_ABI c ro tx = Inr (m, args)"
  obtains a where "am_Name m = GetIdentityMethod" "am_Outputs m = [identity_type, TBool]" "args = [VString a]"
  | a r where "am_Name m = HasRoleMethod" "am_Outputs m = [TBool]" "args = [VString a, VString r]"
  | a where "am_Name m = IsRegisteredMethod" "am_Outputs m = [TBool]" "args = [VString a]"
  | b where "am_Name m = GetIdentityByEvmAddressMethod" "am_Outputs m = [identity_type, TBool]" "args = [VAddress b]"
proof -
  have "m \<in> set identity_ABI" "has_types args (am_Inputs m)" using assms unfolding evm_lib_ok_def by blast+
  then show ?thesis
    using that unfolding identity_ABI_def identity_methods
    by (auto dest!: has_types_Cons_inv has_types_Nil_inv has_type_String has_type_Address)
qed

lemma identity_execute_cases:
  assumes "evm_lib_ok L" and "SetupABI L identity_ABI c ro identity_IsTransaction = Inr (m, args)"
  shows "\<exists>vs bz. identity_execute L E st c ro = Inr bz \<and> Pack L (am_Outputs m) vs = Inr bz \<and>
    (case args of
       [VString a] \<Rightarrow>
         vs = (if am_Name m = IsRegisteredMethod then [VBool (IsRegistered st a)]
               else [toIdentityOut (fst (GetIdentity E st a)), VBool (snd (GetIdentity E st a))])
     | [VString a, VString r] \<Rightarrow> vs = [VBool (HasRole E st a r)]
     | [VAddress b] \<Rightarrow>
         vs = [toIdentityOut (fst (GetIdentity E st (AccAddressString L b))), VBool (snd (GetIdentity E st (AccAddressString L b)))]
     | _ \<Rightarrow> False)"
  using assms
proof (cases rule: identity_setup)
  case (1 a)
  then show ?thesis
    using assms(2) pack_typed [OF assms(1), of "[toIdentityOut (fst (GetIdentity E st a)), VBool (snd (GetIdentity E st a))]" m]
    by (auto simp: identity_execute_def pre_getIdentity_def parseStringArg_def identity_methods split: prod.splits)
next
  case (2 a r)
  then show ?thesis
    using assms(2) pack_typed [OF assms(1), of "[VBool (HasRole E st a r)]" m]
    by (auto simp: identity_execute_def pre_hasRole_def parseStringArg_def identity_methods)
next
  case (3 a)
  then show ?thesis
    using assms(2) pack_typed [OF assms(1), of "[VBool (IsRegistered st a)]" m]
    by (auto simp: identity_execute_def pre_isRegistered_def parseStringArg_def identity_methods)
next
  case (4 b)
  then show ?thesis
    using assms(2) pack_typed [OF assms(1), of "[toIdentityOut (fst (GetIdentity E st (AccAddressString L b))),
        VBool (snd (GetIdentity E st (AccAddressString L b)))]" m]
    by (auto simp: identity_execute_def pre_getIdentityByEvmAddress_def identity_methods split: prod.splits)
qed

section \<open>A sample library\<close>

text \<open>
  A call frame is a method name with its arguments; selectors are the first four characters of the
  name, and values are packed with length prefixes.
\<close>

fun pack_value :: "abi_value \<Rightarrow> bytes" where
  "pack_value (VString s) = PutUint64 (word_of_nat (length s)) @ s"
| "pack_value (VInt64 n) = PutUint64 n"
| "pack_value (VBool b) = [if b then CHR ''1'' else CHR ''0'']"
| "pack_value (VAddress a) = a"
| "pack_value (VTuple vs) = concat (map pack_value vs)"

definition sample_lib :: "(string \<times> abi_value list) evm_lib" where
  "sample_lib = \<lparr>
     MethodById = (\<lambda>abi sel. case find (\<lambda>m. take 4 (am_Name m) = sel) abi of
        None \<Rightarrow> Inl ''no method with id'' | Some m \<Rightarrow> Inr m),
     SetupABI = (\<lambda>abi c ro tx. case find (\<lambda>m. am_Name m = fst c) abi of
        None \<Rightarrow> Inl ''no method with id''
      | Some m \<Rightarrow>
          if \<not> has_types (snd c) (am_Inputs m) then Inl ''abi: cannot unmarshal''
          else if ro \<and> tx m then Inl ''write protection''
          else Inr (m, snd c)),
     Pack = (\<lambda>ts vs. if has_types vs ts then Inr (concat (map pack_value vs)) else Inl ''abi: cannot pack''),
     AccAddressString = (\<lambda>a. ''energy1'' @ a)\<rparr>"

lemma find_SomeD: "find P xs = Some x \<Longrightarrow> x \<in> set xs \<and> P x"
  by (induction xs) (auto split: if_splits)

lemma sample_lib_ok: "evm_lib_ok sample_lib"
  by (auto simp: evm_lib_ok_def sample_lib_def dest!: find_SomeD split: option.splits if_splits)

lemma sample_setup:
  "SetupABI sample_lib energy_ABI (''getEnergyData'', [VString i]) ro energy_IsTransaction =
     Inr (\<lparr>am_Name = ''getEnergyData'', am_Inputs = [TString], am_Outputs = [energy_data_type, TBool]\<rparr>, [VString i])"
  "SetupABI sample_lib identity_ABI (''hasRole'', [VString a, VString r]) ro identity_IsTransaction =
     Inr (\<lparr>am_Name = ''hasRole'', am_Inputs = [TString, TString], am_Outputs = [TBool]\<rparr>, [VString a, VString r])"
  by (simp_all add: sample_lib_def energy_ABI_def energy_IsTransaction_def has_types_def identity_ABI_def identity_IsTransaction_def)

section \<open>Properties\<close>

text \<open>
  C31: every call that the ABI layer decodes is answered: no decoded call of either precompile ends
  in an unknown method, a wrong argument count or type, or a packing error, static calls included,
  and every selector of the ABI is charged a positive flat gas price.
\<close>
theorem precompile_calls_answered:
  assumes "evm_lib_ok L"
  shows "((\<exists>m args. SetupABI L energy_ABI c ro energy_IsTransaction = Inr (m, args)) \<longleftrightarrow> (\<exists>bz. energy_execute L E st c ro = Inr bz)) \<and>
    ((\<exists>m args. SetupABI L identity_ABI c ro identity_IsTransaction = Inr (m, args)) \<longleftrightarrow> (\<exists>bz. identity_execute L E st' c ro = Inr bz)) \<and>
    (energy_RequiredGas L input > 0 \<longleftrightarrow> length input \<ge> 4 \<and> (\<exists>m. MethodById L energy_ABI (take 4 input) = Inr m)) \<and>
    (identity_RequiredGas L input > 0 \<longleftrightarrow> length input \<ge> 4 \<and> (\<exists>m. MethodById L identity_ABI (take 4 input) = Inr m))"
proof (intro conjI)
  show "(\<exists>m args. SetupABI L energy_ABI c ro energy_IsTransaction = Inr (m, args)) \<longleftrightarrow> (\<exists>bz. energy_execute L E st c ro = Inr bz)"
  proof
    assume "\<exists>m args. SetupABI L energy_ABI c ro energy_IsTransaction = Inr (m, args)"
    then obtain m args where s: "SetupABI L energy_ABI c ro energy_IsTransaction = Inr (m, args)" by blast
    obtain ident where "args = [VString ident]" "am_Name m = GetEnergyDataMethod" "am_Outputs m = [energy_data_type, TBool]"
      using energy_setup [OF assms s] by blast
    then show "\<exists>bz. energy_execute L E st c ro = Inr bz"
      using s pack_typed [OF assms, of "[energyDataOut (fst (energy_GetEnergyData E st ident)), VBool (snd (energy_GetEnergyData E st ident))]" m]
      by (auto simp: energy_execute_def pre_getEnergyData_def split: prod.splits)
  qed (auto simp: energy_execute_def split: sum.splits prod.splits)
  show "(\<exists>m args. SetupABI L identity_ABI c ro identity_IsTransaction = Inr (m, args)) \<longleftrightarrow> (\<exists>bz. identity_execute L E st' c ro = Inr bz)"
    using identity_execute_cases [OF assms, of c ro _ _ E st'] by (auto simp: identity_execute_def split: sum.splits)
  have in_abi: "m \<in> set abi" if "MethodById L abi sel = Inr m" for abi sel m
    using that assms unfolding evm_lib_ok_def by blast
  have "am_Name m = GetEnergyDataMethod" if "MethodById L energy_ABI sel = Inr m" for sel m
    using in_abi [OF that] by (simp add: energy_ABI_def GetEnergyDataMethod_def)
  then show "energy_RequiredGas L input > 0 \<longleftrightarrow> length input \<ge> 4 \<and> (\<exists>m. MethodById L energy_ABI (take 4 input) = Inr m)"
    by (auto simp: energy_RequiredGas_def GasGetEnergyData_def split: sum.splits)
  have "am_Name m \<in> {GetIdentityMethod, GetIdentityByEvmAddressMethod, HasRoleMethod, IsRegisteredMethod}"
    if "MethodById L identity_ABI sel = Inr m" for sel m
    using in_abi [OF that] by (auto simp: identity_ABI_def identity_methods)
  note names = this
  show "identity_RequiredGas L input > 0 \<longleftrightarrow> length input \<ge> 4 \<and> (\<exists>m. MethodById L identity_ABI (take 4 input) = Inr m)"
  proof (cases "MethodById L identity_ABI (take 4 input)")
    case (Inr m)
    from names [OF this] show ?thesis
      unfolding identity_RequiredGas_def Inr
      by (auto simp: GasGetIdentity_def GasHasRole_def GasIsRegistered_def)
  qed (simp add: identity_RequiredGas_def)
qed

theorem precompile_calls_answered_witness:
  "\<exists>bz. energy_execute sample_lib sample_env energy_empty (''getEnergyData'', [VString ''energy-1'']) True = Inr bz"
  using precompile_calls_answered [OF sample_lib_ok, where c = "(''getEnergyData'', [VString ''energy-1''])" and ro = True
      and E = sample_env and st = energy_empty] sample_setup(1) by blast

text \<open>
  C29: a record stored at some point of a history is what the energy precompile answers, unchanged
  and marked as found, at every later point.
\<close>
theorem precompile_energy_stable:
  assumes "evm_lib_ok L" and "healthy E" and "energy_wf st" and "unat (energy_seq st) + ids_drawn txs < 2 ^ 64"
    and "energy_GetEnergyData E st ident = (d, True)"
    and "SetupABI L energy_ABI c ro energy_IsTransaction = Inr (m, [VString ident])"
  shows "\<exists>bz. energy_execute L E (energy_run E auth txs st) c ro = Inr bz \<and>
    Pack L (am_Outputs m) [energyDataOut d, VBool True] = Inr bz"
proof -
  have "energy_extends st (energy_run E auth txs st)" using energy_run_wf [OF assms(3,4)] by blast
  then have "energy_GetEnergyData E (energy_run E auth txs st) ident = (d, True)"
    using assms(2,5) by (auto simp: energy_GetEnergyData_healthy energy_extends_def split: option.splits)
  then show ?thesis
    using energy_execute_setup [OF assms(1,2,6), of "energy_run E auth txs st"] by simp
qed

theorem precompile_energy_stable_witness:
  "\<exists>bz. energy_execute sample_lib sample_env
      (energy_run sample_env ''gov'' sample_txs (energy_store (submit_record sample_ctx sample_submit ''energy-1'') (energy_empty\<lparr>es_IDSequence := Some 1\<rparr>)))
      (''getEnergyData'', [VString ''energy-1'']) True = Inr bz"
proof -
  let ?d = "submit_record sample_ctx sample_submit ''energy-1''"
  let ?st = "energy_store ?d (energy_empty\<lparr>es_IDSequence := Some 1\<rparr>)"
  have "?st = put_new (submit_record sample_ctx sample_submit) energy_empty"
    by (simp add: put_new_def bump_seq_def next_id_def Sprint_d_examples energy_store_def)
  moreover have "energy_wf (put_new (submit_record sample_ctx sample_submit) energy_empty)"
    by (rule put_new_wf) (simp_all add: energy_wf_empty submit_record_def)
  ultimately have wf: "energy_wf ?st" by simp
  have "energy_GetEnergyData sample_env ?st ''energy-1'' = (?d, True)"
    by (simp add: energy_GetEnergyData_healthy energy_store_def submit_record_def)
  from precompile_energy_stable [OF sample_lib_ok sample_healthy wf _ this sample_setup(1), where txs = sample_txs and ro = True and auth = "''gov''"]
  show ?thesis by (auto simp: energy_seq_def energy_store_def)
qed

text \<open>
  C28: the identity precompile answers role queries from the life cycle: once an identity is revoked,
  \<^verbatim>\<open>hasRole\<close> answers false for every role at every later point of every history, and until then
  it answers true exactly for the registered role of an active identity.
\<close>
theorem precompile_role_follows_life_cycle:
  assumes "evm_lib_ok L" and "healthy E" and "identity_wf st" and "fmlookup (is_Identities st) a = Some d"
    and "SetupABI L identity_ABI c ro identity_IsTransaction = Inr (m, [VString a, VString r])"
  shows "\<exists>d' bz. fmlookup (is_Identities (identity_run E auth txs st)) a = Some d' \<and>
    identity_execute L E (identity_run E auth txs st) c ro = Inr bz \<and>
    Pack L (am_Outputs m) [VBool (r = id_Role d \<and> id_Status d' = StatusActive)] = Inr bz \<and>
    (if id_Status d = StatusRevoked then id_Status d' \<noteq> StatusActive else True)"
proof -
  let ?st = "identity_run E auth txs st"
  obtain d' where d': "fmlookup (is_Identities ?st) a = Some d'" "later_version d d'"
    using identity_run_later [OF assms(3,4)] by blast
  have "HasRole E ?st a r \<longleftrightarrow> r = id_Role d \<and> id_Status d' = StatusActive"
    using d' assms(2) by (auto simp: HasRole_def GetIdentity_healthy later_version_def)
  moreover have "id_Status d = StatusRevoked \<Longrightarrow> id_Status d' \<noteq> StatusActive"
    using d'(2) by (auto simp: later_version_def StatusRevoked_def StatusActive_def)
  ultimately show ?thesis
    using d'(1) identity_execute_cases [OF assms(1,5), of E ?st] by auto
qed

theorem precompile_role_follows_life_cycle_witness:
  "\<exists>bz. identity_execute sample_lib sample_env (identity_run sample_env ''gov'' [(sample_ctx, sample_revoke)] sample_registry)
      (''hasRole'', [VString ''alice'', VString ''producer'']) True = Inr bz"
proof -
  have "fmlookup (is_Identities sample_registry) ''alice'' = Some (fresh_identity sample_ctx sample_register)"
    by (simp add: sample_registry_def identity_put_def sample_register_def fresh_identity_def NewMsgRegisterIdentity_def)
  from precompile_role_follows_life_cycle [OF sample_lib_ok sample_healthy sample_registry_wf this sample_setup(2), where ro = True and auth = "''gov''" and txs = "[(sample_ctx, sample_revoke)]"]
  show ?thesis by blast
qed

end
