(* ===== verification/Upgrade.thy ===== *)
theory Upgrade
  imports EnergyClaims
begin

text \<open>
  \<^verbatim>\<open>upgrades.go\<close> and \<^verbatim>\<open>upgrades/v1_0_1/upgrade.go\<close>: the upgrade registry, the v1.0.1 handler and
  its migration of the energy parameters.  \<^verbatim>\<open>module.Manager.RunMigrations\<close>, the upgrade keeper's
  on-disk plan and its skip heights are arguments.
\<close>

section \<open>The v1.0.1 upgrade\<close>

definition UpgradeName :: string where
  "UpgradeName = ''v1.0.1''"

record store_upgrades =
  su_Added :: "string list"
  su_Renamed :: "(string \<times> string) list"
  su_Deleted :: "string list"

definition StoreUpgrades :: store_upgrades where
  "StoreUpgrades = \<lparr>su_Added = [], su_Renamed = [], su_Deleted = []\<rparr>"

definition newCap :: uint32 where
  "newCap = 8 * 1024"

datatype upgrade_error =
    UValidate energy_param_error
  | USetParams energy_error
  | UBump upgrade_error
  | URunMigrations string

definition bumpEnergyMetadataCap :: "env \<Rightarrow> energy_state \<Rightarrow> upgrade_error option \<times> energy_state" where
  "bumpEnergyMetadataCap E st =
     (let params = energy_GetParams E st in
      if ep_MaxMetadataSize params \<ge> newCap then (None, st)
      else
        let params' = params\<lparr>ep_MaxMetadataSize := newCap\<rparr> in
        (case energy_Params_Validate params' of
           Some e \<Rightarrow> (Some (UValidate e), st)
         | None \<Rightarrow>
             (case energy_SetParams E params' st of
                (Some e, st') \<Rightarrow> (Some (USetParams e), st')
              | (None, st') \<Rightarrow> (None, st'))))"

text \<open>
  A version map \<open>'vm\<close> goes in and out.  The error path returns the old map, with the state as the
  failing step left it (the SDK discards it).
\<close>

type_synonym 'vm upgrade_handler = "energy_state \<Rightarrow> 'vm \<Rightarrow> ('vm \<times> upgrade_error option) \<times> energy_state"

definition CreateUpgradeHandler ::
  "env \<Rightarrow> ('vm \<Rightarrow> energy_state \<Rightarrow> (string + 'vm) \<times> energy_state) \<Rightarrow> 'vm upgrade_handler" where
  "CreateUpgradeHandler E RunMigrations st fromVM =
     (case bumpEnergyMetadataCap E st of
        (Some e, st1) \<Rightarrow> ((fromVM, Some (UBump e)), st1)
      | (None, st1) \<Rightarrow>
          (case RunMigrations fromVM st1 of
             (Inl e, st2) \<Rightarrow> ((fromVM, Some (URunMigrations e)), st2)
           | (Inr newVM, st2) \<Rightarrow> ((newVM, None), st2)))"

section \<open>The registry\<close>

record 'vm upgradeEntry =
  ue_name :: string
  ue_createHandler :: "'vm upgrade_handler"
  ue_storeUpgrades :: store_upgrades

definition registerUpgrades :: "env \<Rightarrow> ('vm \<Rightarrow> energy_state \<Rightarrow> (string + 'vm) \<times> energy_state) \<Rightarrow> 'vm upgradeEntry list" where
  "registerUpgrades E RunMigrations =
     [\<lparr>ue_name = UpgradeName, ue_createHandler = CreateUpgradeHandler E RunMigrations, ue_storeUpgrades = StoreUpgrades\<rparr>]"

text \<open>What registration writes into the application: the keeper's handlers and the store loader.\<close>

record 'vm upgrade_app =
  ua_handlers :: "string \<rightharpoonup> 'vm upgrade_handler"
  ua_storeLoader :: "(int64 \<times> store_upgrades) option"

definition SetUpgradeHandlers :: "'vm upgradeEntry list \<Rightarrow> 'vm upgrade_app \<Rightarrow> 'vm upgrade_app" where
  "SetUpgradeHandlers us app = fold (\<lambda>u a. a\<lparr>ua_handlers := (ua_handlers a)(ue_name u \<mapsto> ue_createHandler u)\<rparr>) us app"

text \<open>The second loop: the entry with the plan's name, if any, decides.\<close>

fun install_loader :: "(int64 \<Rightarrow> bool) \<Rightarrow> string \<Rightarrow> int64 \<Rightarrow> 'vm upgradeEntry list \<Rightarrow> 'vm upgrade_app \<Rightarrow> 'vm upgrade_app" where
  "install_loader IsSkipHeight name height [] app = app"
| "install_loader IsSkipHeight name height (u # us) app =
     (if ue_name u \<noteq> name then install_loader IsSkipHeight name height us app
      else if IsSkipHeight height then app
      else app\<lparr>ua_storeLoader := Some (height, ue_storeUpgrades u)\<rparr>)"

text \<open>\<open>Inl\<close> is the panic on unreadable upgrade info.\<close>

definition RegisterUpgradeHandlers ::
  "'vm upgradeEntry list \<Rightarrow> string + string \<times> int64 \<Rightarrow> (int64 \<Rightarrow> bool) \<Rightarrow> 'vm upgrade_app \<Rightarrow> string + 'vm upgrade_app" where
  "RegisterUpgradeHandlers upgrades diskInfo IsSkipHeight app =
     (let app1 = SetUpgradeHandlers upgrades app in
      case diskInfo of
        Inl e \<Rightarrow> Inl e
      | Inr (name, height) \<Rightarrow>
          if name = [] then Inr app1
          else Inr (install_loader IsSkipHeight name height upgrades app1))"

section \<open>Facts\<close>

lemma newCap_bounds: "128 \<le> newCap" "newCap \<le> 65536"
  by (simp_all add: newCap_def)

lemma bump_valid:
  assumes "energy_Params_Validate p = None"
  shows "energy_Params_Validate (p\<lparr>ep_MaxMetadataSize := newCap\<rparr>) = None"
  using assms newCap_bounds by (simp add: energy_Params_Validate_iff)

lemma bump_healthy:
  assumes "healthy E" and "energy_Params_Validate (energy_GetParams E st) = None"
  shows "bumpEnergyMetadataCap E st =
    (None, if cap_of E st \<ge> newCap then st
           else st\<lparr>es_Params := Some ((energy_GetParams E st)\<lparr>ep_MaxMetadataSize := newCap\<rparr>)\<rparr>)"
  using assms bump_valid [OF assms(2)] by (auto simp: bumpEnergyMetadataCap_def cap_of_def Let_def)

lemma set_handlers_other: "n \<notin> ue_name ` set us \<Longrightarrow> ua_handlers (SetUpgradeHandlers us app) n = ua_handlers app n"
  unfolding SetUpgradeHandlers_def by (induction us arbitrary: app) auto

lemma set_handlers_in:
  "distinct (map ue_name us) \<Longrightarrow> u \<in> set us \<Longrightarrow> ua_handlers (SetUpgradeHandlers us app) (ue_name u) = Some (ue_createHandler u)"
proof (induction us arbitrary: app)
  case (Cons v us)
  let ?app = "app\<lparr>ua_handlers := (ua_handlers app)(ue_name v \<mapsto> ue_createHandler v)\<rparr>"
  have step: "SetUpgradeHandlers (v # us) app = SetUpgradeHandlers us ?app" by (simp add: SetUpgradeHandlers_def)
  show ?case
  proof (cases "u = v")
    case True
    then show ?thesis using Cons.prems set_handlers_other [of "ue_name v" us ?app] by (simp add: step)
  next
    case False
    then show ?thesis using Cons.prems Cons.IH [of ?app] by (simp add: step)
  qed
qed simp

lemma set_handlers_loader [simp]: "ua_storeLoader (SetUpgradeHandlers us app) = ua_storeLoader app"
  unfolding SetUpgradeHandlers_def by (induction us arbitrary: app) auto

lemma install_loader_handlers [simp]: "ua_handlers (install_loader skip n h us app) = ua_handlers app"
  by (induction us) auto

lemma install_loader_iff:
  "distinct (map ue_name us) \<Longrightarrow> ua_storeLoader (install_loader skip n h us app) =
     (case find (\<lambda>u. ue_name u = n) us of
        Some u \<Rightarrow> if skip h then ua_storeLoader app else Some (h, ue_storeUpgrades u)
      | None \<Rightarrow> ua_storeLoader app)"
  by (induction us) auto

section \<open>Properties\<close>

lemma bump_outcome:
  assumes "healthy E" and "energy_wf st" and "cap_ok E st"
  shows "\<exists>st'. bumpEnergyMetadataCap E st = (None, st') \<and> bumpEnergyMetadataCap E st' = (None, st') \<and>
    cap_of E st \<le> cap_of E st' \<and> newCap \<le> cap_of E st' \<and>
    energy_GetParams E st' = (energy_GetParams E st)\<lparr>ep_MaxMetadataSize := cap_of E st'\<rparr> \<and>
    st' = st\<lparr>es_Params := es_Params st'\<rparr> \<and> energy_AllInvariants E st' = None"
proof -
  let ?p = "energy_GetParams E st"
  let ?st = "if cap_of E st \<ge> newCap then st else st\<lparr>es_Params := Some (?p\<lparr>ep_MaxMetadataSize := newCap\<rparr>)\<rparr>"
  have valid: "energy_Params_Validate ?p = None" using assms(3) by (simp add: cap_ok_def)
  have params: "energy_GetParams E ?st = ?p\<lparr>ep_MaxMetadataSize := cap_of E ?st\<rparr>"
    using assms(1) by (simp add: cap_of_def)
  have cap: "cap_of E ?st = max (cap_of E st) newCap"
    using assms(1) by (auto simp: cap_of_def max_def)
  have valid': "energy_Params_Validate (energy_GetParams E ?st) = None"
    using assms(1) valid bump_valid [OF valid] by simp
  have data: "es_EnergyData ?st = es_EnergyData st" by simp
  have "cap_ok E ?st"
    unfolding cap_ok_def cap data using valid' assms(3) by (auto simp: cap_ok_def le_max_iff_disj)
  moreover have "energy_wf ?st"
    using assms(2) by (simp add: energy_wf_def energy_seq_def energy_cat.consistent_def energy_cat.complete_def
        energy_sub.consistent_def energy_sub.complete_def)
  ultimately have inv: "energy_AllInvariants E ?st = None" using assms(1) by (intro AllInvariants_ok)
  have again: "bumpEnergyMetadataCap E ?st = (None, ?st)"
    using bump_healthy [OF assms(1) valid'] cap by simp
  show ?thesis
    by (rule exI [of _ ?st]) (use bump_healthy [OF assms(1) valid] again params cap inv in simp)
qed

text \<open>
  From valid parameters on a store that does not fail, the v1.0.1 migration succeeds, never
  lowers the metadata cap and leaves it at 8 KiB or more, changes no other parameter and no stored
  record, breaks no registered invariant of the energy module, and running it again changes nothing.
\<close>
theorem upgrade_bump_safe:
  assumes "healthy E" and "energy_wf st" and "cap_ok E st"
  shows "\<exists>st'. bumpEnergyMetadataCap E st = (None, st') \<and> bumpEnergyMetadataCap E st' = (None, st') \<and>
    cap_of E st \<le> cap_of E st' \<and> newCap \<le> cap_of E st' \<and>
    energy_GetParams E st' = (energy_GetParams E st)\<lparr>ep_MaxMetadataSize := cap_of E st'\<rparr> \<and>
    st' = st\<lparr>es_Params := es_Params st'\<rparr> \<and> energy_AllInvariants E st' = None"
  using assms by (rule bump_outcome)

theorem upgrade_bump_safe_witness:
  "\<exists>st'. bumpEnergyMetadataCap sample_env energy_empty = (None, st') \<and> newCap \<le> cap_of sample_env st'"
proof -
  have "cap_ok sample_env energy_empty"
    by (simp add: cap_ok_def cap_of_def energy_DefaultParams_valid)
  from upgrade_bump_safe [OF sample_healthy energy_wf_empty this] show ?thesis by blast
qed

text \<open>
  Registration installs the handler of every entry, and a store loader exactly when the plan on
  disk names a registered upgrade whose height is not skipped, with the plan's height and the
  entry's store changes; unreadable upgrade info is a panic.
\<close>
theorem upgrade_registration:
  fixes upgrades :: "'vm upgradeEntry list"
  assumes "distinct (map ue_name upgrades)" and "\<forall>u \<in> set upgrades. ue_name u \<noteq> []"
  shows "case RegisterUpgradeHandlers upgrades diskInfo skip \<lparr>ua_handlers = Map.empty, ua_storeLoader = None\<rparr> of
      Inl e \<Rightarrow> diskInfo = Inl e
    | Inr app \<Rightarrow> \<exists>name height. diskInfo = Inr (name, height) \<and>
        (\<forall>u \<in> set upgrades. ua_handlers app (ue_name u) = Some (ue_createHandler u)) \<and>
        ua_storeLoader app =
          (if skip height then None
           else map_option (\<lambda>u. (height, ue_storeUpgrades u)) (find (\<lambda>u. ue_name u = name) upgrades))"
proof (cases diskInfo)
  case (Inr p)
  obtain name height where p: "p = (name, height)" by (cases p)
  have none: "find (\<lambda>u. ue_name u = []) upgrades = None"
    using assms(2) by (auto simp: find_None_iff)
  show ?thesis
    using assms(1) Inr p none
    by (auto simp: RegisterUpgradeHandlers_def Let_def set_handlers_in install_loader_iff split: option.split)
qed (simp add: RegisterUpgradeHandlers_def Let_def)

theorem upgrade_registration_witness:
  "\<exists>app. RegisterUpgradeHandlers (registerUpgrades sample_env (\<lambda>vm st. (Inr (vm + (1::nat)), st))) (Inr (''v1.0.1'', 500)) (\<lambda>_. False)
      \<lparr>ua_handlers = Map.empty, ua_storeLoader = None\<rparr> = Inr app \<and> ua_storeLoader app = Some (500, StoreUpgrades)"
  using upgrade_registration [of "registerUpgrades sample_env (\<lambda>vm st. (Inr (vm + (1::nat)), st))" "Inr (''v1.0.1'', 500)" "\<lambda>_. False"]
  by (auto simp: registerUpgrades_def UpgradeName_def split: sum.splits)

end
