(* ===== verification/BoundedChannel.thy ===== *)
theory BoundedChannel
  imports GoPrelude
begin

text \<open>
  Go's buffered channels as the broadcaster uses them: a non-blocking send that fails on a full
  buffer and a receive from the front.  The locale \<open>bounded_fifo\<close> is the contract; \<open>chan\<close>
  interprets it on lists with a capacity.
\<close>

locale bounded_fifo =
  fixes items :: "'s \<Rightarrow> 'a list"
    and push :: "'a \<Rightarrow> 's \<Rightarrow> 's option"
    and pop :: "'s \<Rightarrow> ('a \<times> 's) option"
    and cap :: nat
  assumes push_full: "cap \<le> length (items s) \<Longrightarrow> push a s = None"
    and push_room: "length (items s) < cap \<Longrightarrow> \<exists>s'. push a s = Some s' \<and> items s' = items s @ [a]"
    and pop_empty: "items s = [] \<Longrightarrow> pop s = None"
    and pop_front: "items s = a # q \<Longrightarrow> \<exists>s'. pop s = Some (a, s') \<and> items s' = q"
begin

text \<open>Sending a list until the first refusal: how much got in, and the state then.\<close>

fun push_all :: "'a list \<Rightarrow> 's \<Rightarrow> bool \<times> 's" where
  "push_all [] s = (True, s)"
| "push_all (a # as) s = (case push a s of None \<Rightarrow> (False, s) | Some s' \<Rightarrow> push_all as s')"

lemma push_all_prefix:
  assumes "length (items s) \<le> cap"
  shows "items (snd (push_all as s)) = items s @ take (cap - length (items s)) as \<and>
    (fst (push_all as s) \<longleftrightarrow> length (items s) + length as \<le> cap)"
  using assms
proof (induction as arbitrary: s)
  case (Cons a as)
  show ?case
  proof (cases "length (items s) < cap")
    case True
    obtain s' where s': "push a s = Some s'" "items s' = items s @ [a]" using push_room [OF True] by blast
    have "cap - length (items s) = Suc (cap - length (items s'))" using True s'(2) by simp
    then show ?thesis using Cons.IH [of s'] True s' by simp
  next
    case False
    then show ?thesis using push_full [of s a] Cons.prems by simp
  qed
qed simp

lemma push_all_bound: "length (items s) \<le> cap \<Longrightarrow> length (items (snd (push_all as s))) \<le> cap"
  using push_all_prefix [of s as] by simp

lemma pop_shorter: "pop s = Some (a, s') \<Longrightarrow> items s = a # items s'"
  using pop_empty [of s] pop_front [of s] by (cases "items s") fastforce+

end

section \<open>Channels\<close>

definition chan_send :: "nat \<Rightarrow> 'a \<Rightarrow> 'a list \<Rightarrow> 'a list option" where
  "chan_send n a q = (if length q < n then Some (q @ [a]) else None)"

fun chan_recv :: "'a list \<Rightarrow> ('a \<times> 'a list) option" where
  "chan_recv [] = None"
| "chan_recv (a # q) = Some (a, q)"

interpretation chan: bounded_fifo "\<lambda>q. q" "chan_send n" chan_recv n for n
  by unfold_locales (auto simp: chan_send_def)

end
