(* ===== verification/Broadcaster.thy ===== *)
theory Broadcaster
  imports BoundedChannel
begin

text \<open>
  \<^verbatim>\<open>mempool_broadcast.go\<close>: the promoted-transaction broadcaster, a bounded queue drained by one
  goroutine.  A transaction pointer is an \<open>option\<close>, \<open>None\<close> being \<^verbatim>\<open>nil\<close>.  The client context and the
  conversion, encoding and broadcast calls of the libraries are fields of \<open>bcast_lib\<close>.  The
  interleaving of the goroutine with callers is the step relation \<open>bstep\<close>.
\<close>

section \<open>Broadcasting one transaction\<close>

record tx_response =
  Code :: uint32
  RawLog :: string

record ('tx, 'msg, 'cosmos, 'ctx) bcast_lib =
  FromSignedEthereumTx :: "'tx \<Rightarrow> string + 'msg"
  BuildTx :: "'ctx \<Rightarrow> 'msg \<Rightarrow> string + 'cosmos"
  TxEncode :: "'ctx \<Rightarrow> 'cosmos \<Rightarrow> string + bytes"
  BroadcastTxAsync :: "'ctx \<Rightarrow> bytes \<Rightarrow> string + tx_response option"
  TxHash :: "'tx \<Rightarrow> string"
  ErrTxInMempoolCacheCode :: uint32

datatype bcast_error =
    BNotReady
  | BConvert string
  | BBuild string
  | BEncode string
  | BBroadcast string string
  | BRejected string uint32 string

text \<open>
  \<^verbatim>\<open>broadcast\<close> after \<^verbatim>\<open>waitForClientCtx\<close>: the second component is the encoded transaction handed to
  \<^verbatim>\<open>BroadcastTxAsync\<close>, when it got that far.
\<close>

definition broadcast ::
  "('tx, 'msg, 'cosmos, 'ctx) bcast_lib \<Rightarrow> 'ctx option \<Rightarrow> 'tx \<Rightarrow> bcast_error option \<times> bytes option" where
  "broadcast L waited ethTx =
     (case waited of
        None \<Rightarrow> (Some BNotReady, None)
      | Some clientCtx \<Rightarrow>
          (case FromSignedEthereumTx L ethTx of
             Inl e \<Rightarrow> (Some (BConvert e), None)
           | Inr msg \<Rightarrow>
               (case BuildTx L clientCtx msg of
                  Inl e \<Rightarrow> (Some (BBuild e), None)
                | Inr cosmosTx \<Rightarrow>
                    (case TxEncode L clientCtx cosmosTx of
                       Inl e \<Rightarrow> (Some (BEncode e), None)
                     | Inr txBytes \<Rightarrow>
                         (case BroadcastTxAsync L clientCtx txBytes of
                            Inl e \<Rightarrow> (Some (BBroadcast (TxHash L ethTx) e), Some txBytes)
                          | Inr None \<Rightarrow> (None, Some txBytes)
                          | Inr (Some res) \<Rightarrow>
                              (if Code res \<noteq> 0 \<and> Code res \<noteq> ErrTxInMempoolCacheCode L \<and> RawLog res \<noteq> ''already known''
                               then Some (BRejected (TxHash L ethTx) (Code res) (RawLog res)) else None, Some txBytes))))))"

section \<open>State and operations\<close>

definition promotedTxBroadcastQueueSize :: nat where
  "promotedTxBroadcastQueueSize = 10000"

text \<open>
  The struct: the queue, whether \<^verbatim>\<open>done\<close> is closed, the client context and its flag, whether the
  goroutine runs.  \<open>bb_busy\<close> is the local state of the goroutine between receiving a transaction and
  finishing with it: the transaction, and whether \<^verbatim>\<open>waitForClientCtx\<close> had to start waiting.
  \<open>bb_accepted\<close> and \<open>bb_attempted\<close> record what went into the queue and what was broadcast.
\<close>

record ('tx, 'ctx) broadcaster =
  bb_queue :: "'tx option list"
  bb_done :: bool
  bb_clientCtx :: "'ctx option"
  bb_clientReady :: bool
  bb_running :: bool
  bb_busy :: "('tx \<times> bool) option"
  bb_accepted :: "'tx list"
  bb_attempted :: "('tx \<times> bcast_error option \<times> bytes option) list"

definition newPromotedTxBroadcaster :: "('tx, 'ctx) broadcaster" where
  "newPromotedTxBroadcaster = \<lparr>bb_queue = [], bb_done = False, bb_clientCtx = None, bb_clientReady = False,
     bb_running = True, bb_busy = None, bb_accepted = [], bb_attempted = []\<rparr>"

definition SetClientCtx :: "'ctx \<Rightarrow> ('tx, 'ctx) broadcaster \<Rightarrow> ('tx, 'ctx) broadcaster" where
  "SetClientCtx ctx b = b\<lparr>bb_clientCtx := Some ctx, bb_clientReady := True\<rparr>"

definition getClientCtx :: "('tx, 'ctx) broadcaster \<Rightarrow> 'ctx option" where
  "getClientCtx b = (if \<not> bb_clientReady b then None else bb_clientCtx b)"

definition enqueue_error :: string where
  "enqueue_error = ''promoted tx broadcast queue is full''"

definition send_one :: "'tx \<Rightarrow> ('tx, 'ctx) broadcaster \<Rightarrow> ('tx, 'ctx) broadcaster option" where
  "send_one tx b = map_option (\<lambda>q. b\<lparr>bb_queue := q, bb_accepted := bb_accepted b @ [tx]\<rparr>)
     (chan_send promotedTxBroadcastQueueSize (Some tx) (bb_queue b))"

fun Enqueue :: "'tx option list \<Rightarrow> ('tx, 'ctx) broadcaster \<Rightarrow> string option \<times> ('tx, 'ctx) broadcaster" where
  "Enqueue [] b = (None, b)"
| "Enqueue (None # txs) b = Enqueue txs b"
| "Enqueue (Some tx # txs) b =
     (case send_one tx b of
        None \<Rightarrow> (Some enqueue_error, b)
      | Some b' \<Rightarrow> Enqueue txs b')"

text \<open>\<^verbatim>\<open>Close\<close> up to \<^verbatim>\<open>wg.Wait\<close>: closing a closed channel panics (\<open>None\<close>); it returns once the goroutine has ended.\<close>

definition Close_done :: "('tx, 'ctx) broadcaster \<Rightarrow> ('tx, 'ctx) broadcaster option" where
  "Close_done b = (if bb_done b then None else Some (b\<lparr>bb_done := True\<rparr>))"

definition Close_returns :: "('tx, 'ctx) broadcaster \<Rightarrow> bool" where
  "Close_returns b \<longleftrightarrow> \<not> bb_running b"

text \<open>The entry points of the application, whose broadcaster may be \<^verbatim>\<open>nil\<close>.\<close>

definition SetPromotedTxBroadcastClientCtx :: "'ctx \<Rightarrow> ('tx, 'ctx) broadcaster option \<Rightarrow> ('tx, 'ctx) broadcaster option" where
  "SetPromotedTxBroadcastClientCtx ctx app = map_option (SetClientCtx ctx) app"

definition broadcastPromotedEVMTxs ::
  "'tx option list \<Rightarrow> ('tx, 'ctx) broadcaster option \<Rightarrow> string option \<times> ('tx, 'ctx) broadcaster option" where
  "broadcastPromotedEVMTxs txs app =
     (case app of
        None \<Rightarrow> (Some ''promoted tx broadcaster is not configured'', None)
      | Some b \<Rightarrow> (case Enqueue txs b of (e, b') \<Rightarrow> (e, Some b')))"

section \<open>The goroutine\<close>

text \<open>
  \<^verbatim>\<open>waitForClientCtx\<close> returns at once when the context is set; otherwise its select loop sees the
  listed events until one of them returns.  Running out of events means it still waits.
\<close>

datatype 'ctx wait_event = WDone | WDeadline | WTick "'ctx option"

fun wait_loop :: "'ctx wait_event list \<Rightarrow> 'ctx option option" where
  "wait_loop [] = None"
| "wait_loop (WDone # es) = Some None"
| "wait_loop (WDeadline # es) = Some None"
| "wait_loop (WTick (Some ctx) # es) = Some (Some ctx)"
| "wait_loop (WTick None # es) = wait_loop es"

definition waitForClientCtx :: "'ctx option \<Rightarrow> 'ctx wait_event list \<Rightarrow> 'ctx option option" where
  "waitForClientCtx now es = (case now of Some ctx \<Rightarrow> Some (Some ctx) | None \<Rightarrow> wait_loop es)"

text \<open>
  The steps of \<^verbatim>\<open>loop\<close>: receive (a \<^verbatim>\<open>nil\<close> is skipped), finish a transaction once the context is
  there, give up on one that had to wait (deadline or shutdown), and leave when \<^verbatim>\<open>done\<close> is closed.
  When both cases of a select are ready, Go picks either: both steps are possible.
\<close>

inductive loop_step ::
  "('tx, 'msg, 'cosmos, 'ctx) bcast_lib \<Rightarrow> ('tx, 'ctx) broadcaster \<Rightarrow> ('tx, 'ctx) broadcaster \<Rightarrow> bool" for L where
  exit: "bb_running b \<Longrightarrow> bb_busy b = None \<Longrightarrow> bb_done b \<Longrightarrow> loop_step L b (b\<lparr>bb_running := False\<rparr>)"
| skip: "bb_running b \<Longrightarrow> bb_busy b = None \<Longrightarrow> chan_recv (bb_queue b) = Some (None, q) \<Longrightarrow>
    loop_step L b (b\<lparr>bb_queue := q\<rparr>)"
| take: "bb_running b \<Longrightarrow> bb_busy b = None \<Longrightarrow> chan_recv (bb_queue b) = Some (Some tx, q) \<Longrightarrow>
    loop_step L b (b\<lparr>bb_queue := q, bb_busy := Some (tx, getClientCtx b = None)\<rparr>)"
| send: "bb_running b \<Longrightarrow> bb_busy b = Some (tx, w) \<Longrightarrow> getClientCtx b = Some ctx \<Longrightarrow>
    loop_step L b (b\<lparr>bb_busy := None, bb_attempted := bb_attempted b @ [(tx, broadcast L (Some ctx) tx)]\<rparr>)"
| give_up: "bb_running b \<Longrightarrow> bb_busy b = Some (tx, True) \<Longrightarrow>
    loop_step L b (b\<lparr>bb_busy := None, bb_attempted := bb_attempted b @ [(tx, broadcast L None tx)]\<rparr>)"

inductive_cases loop_stepE: "loop_step L b b'"

inductive bstep ::
  "('tx, 'msg, 'cosmos, 'ctx) bcast_lib \<Rightarrow> ('tx, 'ctx) broadcaster \<Rightarrow> ('tx, 'ctx) broadcaster \<Rightarrow> bool" for L where
  loop: "loop_step L b b' \<Longrightarrow> bstep L b b'"
| enq: "send_one tx b = Some b' \<Longrightarrow> bstep L b b'"
| ctx: "bstep L b (SetClientCtx ctx b)"
| close: "Close_done b = Some b' \<Longrightarrow> bstep L b b'"

inductive breach :: "('tx, 'msg, 'cosmos, 'ctx) bcast_lib \<Rightarrow> ('tx, 'ctx) broadcaster \<Rightarrow> bool" for L where
  start: "breach L newPromotedTxBroadcaster"
| step: "breach L b \<Longrightarrow> bstep L b b' \<Longrightarrow> breach L b'"

section \<open>Invariant\<close>

definition pending :: "('tx, 'ctx) broadcaster \<Rightarrow> 'tx list" where
  "pending b = (case bb_busy b of None \<Rightarrow> [] | Some (tx, _) \<Rightarrow> [tx]) @ map the (bb_queue b)"

text \<open>
  First in, first out, each exactly once: what was accepted is what was attempted, followed by what
  is pending, in order.
\<close>

definition binv :: "('tx, 'msg, 'cosmos, 'ctx) bcast_lib \<Rightarrow> ('tx, 'ctx) broadcaster \<Rightarrow> bool" where
  "binv L b \<longleftrightarrow>
     bb_accepted b = map fst (bb_attempted b) @ pending b \<and> length (bb_queue b) \<le> promotedTxBroadcastQueueSize \<and>
     None \<notin> set (bb_queue b) \<and> (bb_clientReady b \<longrightarrow> bb_clientCtx b \<noteq> None) \<and> (\<not> bb_running b \<longrightarrow> bb_busy b = None \<and> bb_done b) \<and>
     (\<forall>tx. bb_busy b = Some (tx, False) \<longrightarrow> getClientCtx b \<noteq> None) \<and>
     (\<forall>(tx, r) \<in> set (bb_attempted b). \<exists>waited. r = broadcast L waited tx)"

lemma binv_new: "binv L newPromotedTxBroadcaster"
  by (simp add: binv_def newPromotedTxBroadcaster_def pending_def)

lemma recv_Some [simp]: "chan_recv q = Some (a, q') \<longleftrightarrow> q = a # q'"
  by (cases q) auto

lemma binv_loop: "loop_step L b b' \<Longrightarrow> binv L b \<Longrightarrow> binv L b'"
  by (cases rule: loop_step.cases, assumption) (auto simp: binv_def pending_def getClientCtx_def split: option.splits if_splits)

lemma send_one_iff:
  "send_one tx b = Some b' \<longleftrightarrow> length (bb_queue b) < promotedTxBroadcastQueueSize \<and>
     b' = b\<lparr>bb_queue := bb_queue b @ [Some tx], bb_accepted := bb_accepted b @ [tx]\<rparr>"
  by (auto simp: send_one_def chan_send_def)

lemma binv_step: "bstep L b b' \<Longrightarrow> binv L b \<Longrightarrow> binv L b'"
proof (induction rule: bstep.induct)
  case (enq tx b b')
  then show ?case by (auto simp: send_one_iff binv_def pending_def getClientCtx_def split: option.splits)
qed (auto simp: binv_loop, auto simp: binv_def pending_def getClientCtx_def SetClientCtx_def Close_done_def split: option.splits if_splits)

lemma breach_inv: "breach L b \<Longrightarrow> binv L b"
  by (induction rule: breach.induct) (simp_all add: binv_new binv_step)

end
