(* ===== verification/BroadcasterClaims.thy ===== *)
theory BroadcasterClaims
  imports Broadcaster
begin

text \<open>
  The promoted-transaction broadcaster: order, capacity, and that its goroutine gets through
  everything it has accepted.
\<close>

section \<open>Enqueue against the channel contract\<close>

definition non_nil :: "'tx option list \<Rightarrow> 'tx list" where
  "non_nil txs = map the (filter (\<lambda>tx. tx \<noteq> None) txs)"

lemma non_nil_simps [simp]: "non_nil [] = []" "non_nil (None # txs) = non_nil txs" "non_nil (Some tx # txs) = tx # non_nil txs"
  by (simp_all add: non_nil_def)

lemma Enqueue_push_all:
  "bb_queue (snd (Enqueue txs b)) = snd (chan.push_all promotedTxBroadcastQueueSize (map Some (non_nil txs)) (bb_queue b)) \<and>
   (fst (Enqueue txs b) = None \<longleftrightarrow> fst (chan.push_all promotedTxBroadcastQueueSize (map Some (non_nil txs)) (bb_queue b)))"
  by (induction txs b rule: Enqueue.induct) (auto simp: send_one_def split: option.splits)

lemma send_one_Some:
  assumes "send_one tx b = Some b'"
  shows "bb_queue b' = bb_queue b @ [Some tx]" "bb_accepted b' = bb_accepted b @ [tx]"
    "b'\<lparr>bb_queue := q, bb_accepted := a\<rparr> = b\<lparr>bb_queue := q, bb_accepted := a\<rparr>"
  using assms by (simp_all add: send_one_iff)

lemma Enqueue_frame:
  "(snd (Enqueue txs b))\<lparr>bb_queue := q, bb_accepted := a\<rparr> = b\<lparr>bb_queue := q, bb_accepted := a\<rparr>"
  by (induction txs b rule: Enqueue.induct) (auto simp: send_one_Some(3) split: option.split)

text \<open>Queue and record of acceptances grow by the same transactions.\<close>

lemma Enqueue_grows:
  "\<exists>new. bb_queue (snd (Enqueue txs b)) = bb_queue b @ map Some new \<and> bb_accepted (snd (Enqueue txs b)) = bb_accepted b @ new"
proof (induction txs b rule: Enqueue.induct)
  case (3 tx txs b)
  show ?case
  proof (cases "send_one tx b")
    case None
    then show ?thesis by simp
  next
    case (Some b1)
    obtain new where "bb_queue (snd (Enqueue txs b1)) = bb_queue b1 @ map Some new"
        "bb_accepted (snd (Enqueue txs b1)) = bb_accepted b1 @ new"
      using 3 [OF Some] by blast
    then show ?thesis
      by (intro exI [of _ "tx # new"]) (simp add: Some send_one_Some(1,2) [OF Some])
  qed
qed auto

lemma Enqueue_errors: "fst (Enqueue txs b) \<in> {None, Some enqueue_error}"
  by (induction txs b rule: Enqueue.induct) (auto split: option.splits)

lemma breach_send: "send_one tx b = Some b' \<Longrightarrow> breach L b \<Longrightarrow> breach L b'"
  by (rule breach.step [OF _ bstep.enq])

lemma breach_enqueue: "breach L b \<Longrightarrow> breach L (snd (Enqueue txs b))"
  by (induction txs b rule: Enqueue.induct) (auto dest: breach_send split: option.splits)

section \<open>The goroutine gets through\<close>

text \<open>Every step of the goroutine alone shortens what is left to do.\<close>

definition work_left :: "('tx, 'ctx) broadcaster \<Rightarrow> nat" where
  "work_left b = 2 * length (bb_queue b) + (if bb_busy b = None then 0 else 1) + (if bb_running b \<and> bb_done b then 1 else 0)"

lemma loop_step_work: "loop_step L b b' \<Longrightarrow> Suc (work_left b') \<le> work_left b"
  by (erule loop_stepE) (auto simp: work_left_def)

lemma loop_steps_work: "(loop_step L ^^ n) b b' \<Longrightarrow> n + work_left b' \<le> work_left b"
proof (induction n arbitrary: b')
  case (Suc n)
  then obtain b1 where "(loop_step L ^^ n) b b1" "loop_step L b1 b'" by auto
  then show ?case using Suc.IH loop_step_work [of L b1 b'] by fastforce
qed simp

lemma loop_step_frame: "loop_step L b b' \<Longrightarrow> bb_accepted b' = bb_accepted b \<and> bb_done b' = bb_done b"
  by (erule loop_stepE) auto

lemma loop_steps_frame: "(loop_step L ^^ n) b b' \<Longrightarrow> bb_accepted b' = bb_accepted b \<and> bb_done b' = bb_done b"
proof (induction n arbitrary: b')
  case (Suc n)
  then obtain b1 where "(loop_step L ^^ n) b b1" "loop_step L b1 b'" by auto
  then show ?case using Suc.IH loop_step_frame [of L b1 b'] by simp
qed simp

lemma loop_steps_reach: "breach L b \<Longrightarrow> (loop_step L ^^ n) b b' \<Longrightarrow> breach L b'"
proof (induction n arbitrary: b')
  case (Suc n)
  then obtain b1 where "(loop_step L ^^ n) b b1" "loop_step L b1 b'" by auto
  then show ?case using Suc.IH Suc.prems by (auto intro: breach.step bstep.loop)
qed simp

lemma loop_progress:
  assumes "breach L b" and "bb_running b" and "pending b \<noteq> [] \<or> bb_done b"
  shows "\<exists>b'. loop_step L b b'"
proof (cases "bb_busy b")
  case None
  show ?thesis
  proof (cases "bb_queue b")
    case Nil
    then have "bb_done b" using assms(3) None by (simp add: pending_def)
    then show ?thesis using assms(2) None loop_step.exit by blast
  next
    case (Cons e q)
    then have "chan_recv (bb_queue b) = Some (e, q)" by simp
    then show ?thesis using assms(2) None loop_step.skip [of b q L] loop_step.take [of b _ q L] by (cases e) blast+
  qed
next
  case (Some p)
  obtain tx w where p: "p = (tx, w)" by (cases p)
  show ?thesis
  proof (cases w)
    case True
    then show ?thesis using assms(2) Some p loop_step.give_up [of b tx L] by auto
  next
    case False
    then obtain ctx where "getClientCtx b = Some ctx"
      using breach_inv [OF assms(1)] Some p by (auto simp: binv_def)
    then show ?thesis using assms(2) Some p loop_step.send [of b tx w ctx L] by blast
  qed
qed

section \<open>Waiting for the client context\<close>

lemma wait_loop_ticks:
  "wait_loop (replicate k (WTick None) @ e # es) =
     (case e of WTick None \<Rightarrow> wait_loop es | WTick (Some ctx) \<Rightarrow> Some (Some ctx) | _ \<Rightarrow> Some None)"
  by (induction k) (auto split: wait_event.split option.split)

section \<open>Samples\<close>

definition sample_bcast :: "(string, string, string, unit) bcast_lib" where
  "sample_bcast = \<lparr>FromSignedEthereumTx = Inr, BuildTx = (\<lambda>_ m. Inr m), TxEncode = (\<lambda>_ t. Inr t),
     BroadcastTxAsync = (\<lambda>_ bz. Inr (Some \<lparr>Code = if bz = ''dup'' then 19 else 0, RawLog = []\<rparr>)),
     TxHash = (\<lambda>t. t), ErrTxInMempoolCacheCode = 19\<rparr>"

section \<open>Properties\<close>

text \<open>
  C8: under every interleaving of callers, shutdown and the goroutine, transactions are broadcast in
  the order in which they were accepted, each at most once: the accepted transactions are the
  attempted ones followed by the one in work and the queue; the queue never exceeds its capacity and
  never holds a nil transaction.
\<close>
theorem broadcaster_fifo:
  assumes "breach L b"
  shows "bb_accepted b = map fst (bb_attempted b) @ pending b \<and>
    length (bb_queue b) \<le> promotedTxBroadcastQueueSize \<and> None \<notin> set (bb_queue b) \<and>
    (\<forall>(tx, r) \<in> set (bb_attempted b). \<exists>waited. r = broadcast L waited tx)"
  using breach_inv [OF assms] unfolding binv_def by blast

theorem broadcaster_fifo_witness:
  "bb_accepted (snd (Enqueue [Some ''a'', None, Some ''b''] newPromotedTxBroadcaster)) = [''a'', ''b'']"
proof -
  let ?b = "snd (Enqueue [Some ''a'', None, Some ''b''] (newPromotedTxBroadcaster :: (string, unit) broadcaster))"
  have "breach sample_bcast ?b" by (rule breach_enqueue) (rule breach.start)
  from broadcaster_fifo [OF this] show ?thesis
    by (simp add: newPromotedTxBroadcaster_def send_one_def chan_send_def promotedTxBroadcastQueueSize_def pending_def)
qed

text \<open>
  \<^verbatim>\<open>Enqueue\<close> accepts exactly as many of the non-nil transactions as the queue has room for, in
  order, and fails exactly when some were left out; the ones before the failure stay queued.
\<close>
theorem broadcaster_enqueue_exact:
  fixes b :: "('tx, 'ctx) broadcaster"
  assumes "length (bb_queue b) \<le> promotedTxBroadcastQueueSize"
  defines "room \<equiv> promotedTxBroadcastQueueSize - length (bb_queue b)"
  shows "Enqueue txs b =
    (if length (non_nil txs) \<le> room then None else Some enqueue_error,
     b\<lparr>bb_queue := bb_queue b @ map Some (take room (non_nil txs)), bb_accepted := bb_accepted b @ take room (non_nil txs)\<rparr>)"
proof -
  let ?p = "chan.push_all promotedTxBroadcastQueueSize (map Some (non_nil txs)) (bb_queue b)"
  have p: "snd ?p = bb_queue b @ map Some (take room (non_nil txs))" "fst ?p \<longleftrightarrow> length (non_nil txs) \<le> room"
    using chan.push_all_prefix [OF assms(1), of "map Some (non_nil txs)"] assms(1) by (auto simp: room_def take_map)
  obtain new where new: "bb_queue (snd (Enqueue txs b)) = bb_queue b @ map Some new"
      "bb_accepted (snd (Enqueue txs b)) = bb_accepted b @ new"
    using Enqueue_grows by blast
  have "map Some new = map Some (take room (non_nil txs))"
    using Enqueue_push_all [of txs b] p(1) new(1) by simp
  then have "new = take room (non_nil txs)" by (simp add: inj_map_eq_map)
  moreover have "snd (Enqueue txs b) = b\<lparr>bb_queue := bb_queue b @ map Some new, bb_accepted := bb_accepted b @ new\<rparr>"
    using Enqueue_frame [where txs = txs and b = b and q = "bb_queue b @ map Some new" and a = "bb_accepted b @ new"]
    unfolding new [symmetric] by simp
  moreover have "fst (Enqueue txs b) = (if length (non_nil txs) \<le> room then None else Some enqueue_error)"
    using Enqueue_push_all [of txs b] p(2) Enqueue_errors [of txs b] by auto
  ultimately show ?thesis by (simp add: prod_eq_iff)
qed

theorem broadcaster_enqueue_exact_witness:
  "fst (Enqueue (replicate 10001 (Some ''tx'')) (newPromotedTxBroadcaster :: (string, unit) broadcaster)) = Some enqueue_error"
proof -
  have "non_nil (replicate n (Some ''tx'')) = replicate n ''tx''" for n by (simp add: non_nil_def)
  then show ?thesis
    by (subst broadcaster_enqueue_exact) (simp_all add: newPromotedTxBroadcaster_def promotedTxBroadcastQueueSize_def)
qed

text \<open>
  C30: from every reachable state, the goroutine on its own takes at most two steps per queued
  transaction and two more; when it can take no further step, everything accepted has been
  attempted, or shutdown was requested and the goroutine has ended, so that \<^verbatim>\<open>Close\<close> returns.
\<close>
theorem broadcaster_settles:
  assumes "breach L b" and "(loop_step L ^^ n) b b'"
  shows "n \<le> 2 * length (bb_queue b) + 2 \<and>
    ((\<exists>b''. loop_step L b' b'') \<or>
     (if bb_done b then Close_returns b' else map fst (bb_attempted b') = bb_accepted b))"
proof
  have "n \<le> work_left b" using loop_steps_work [OF assms(2)] by simp
  then show "n \<le> 2 * length (bb_queue b) + 2" by (auto simp: work_left_def split: if_splits)
  have b': "breach L b'" "bb_accepted b' = bb_accepted b" "bb_done b' = bb_done b"
    using loop_steps_reach [OF assms] loop_steps_frame [OF assms(2)] by auto
  note inv = breach_inv [OF b'(1), unfolded binv_def]
  show "(\<exists>b''. loop_step L b' b'') \<or> (if bb_done b then Close_returns b' else map fst (bb_attempted b') = bb_accepted b)"
  proof (cases "\<exists>b''. loop_step L b' b''")
    case False
    then have idle: "\<not> bb_running b' \<or> (pending b' = [] \<and> \<not> bb_done b')" using loop_progress [OF b'(1)] by blast
    show ?thesis
    proof (cases "bb_done b")
      case True
      then show ?thesis using idle b'(3) by (simp add: Close_returns_def)
    next
      case nd: False
      then have "bb_running b'" using inv b'(3) by auto
      then have "pending b' = []" using idle by blast
      then show ?thesis using inv b'(2) nd by simp
    qed
  qed blast
qed

theorem broadcaster_settles_witness:
  "\<exists>b'. loop_step sample_bcast (snd (Enqueue [Some ''a''] (SetClientCtx () newPromotedTxBroadcaster))) b'"
proof -
  let ?b = "snd (Enqueue [Some ''a''] (SetClientCtx () (newPromotedTxBroadcaster :: (string, unit) broadcaster)))"
  have "breach sample_bcast ?b" by (intro breach_enqueue breach.step [OF breach.start] bstep.ctx)
  from broadcaster_settles [OF this, of 0 ?b] show ?thesis
    by (simp add: newPromotedTxBroadcaster_def SetClientCtx_def send_one_def chan_send_def promotedTxBroadcastQueueSize_def)
qed

end
