(* ===== verification/MempoolSetup.thy ===== *)
theory MempoolSetup
  imports GoPrelude
begin

text \<open>
  \<^verbatim>\<open>mempool.go\<close> and \<^verbatim>\<open>tx_verifier.go\<close>: which EVM mempool and handlers the application installs, and
  the insert and reap handlers.  The mempools, the option readers of \<^verbatim>\<open>cosmos/evm/server\<close>, the ante
  handler and the codec are library code: arguments and type variables here.
\<close>

section \<open>Configuration\<close>

text \<open>
  What the option readers return, and how the dynamic checks on \<^verbatim>\<open>appOpts\<close> come out:
  \<open>mo_AllowFallback\<close> is the value of the opt-in flag when it is set to a boolean.
\<close>

record 'lp mempool_opts =
  mo_ChainConfigSet :: bool
  mo_CosmosPoolMaxTx :: int
  mo_OperateExclusively :: bool
  mo_IsEmptyAppOptions :: bool
  mo_AppOptsNil :: bool
  mo_AllowFallback :: "bool option"
  mo_LegacyPoolConfig :: 'lp
  mo_BlockGasLimit :: uint64
  mo_MinTip :: nat
  mo_PendingTxProposalTimeout :: int64
  mo_InsertQueueSize :: int

record ('ante, 'bcast, 'lp) EVMMempoolConfig =
  mc_AnteHandler :: 'ante
  mc_LegacyPoolConfig :: 'lp
  mc_BroadCastTxFn :: 'bcast
  mc_BlockGasLimit :: uint64
  mc_MinTip :: nat

record ('ante, 'bcast, 'lp) KrakatoaMempoolConfig =
  kc_EVMMempoolConfig :: "('ante, 'bcast, 'lp) EVMMempoolConfig"
  kc_PendingTxProposalTimeout :: int64
  kc_InsertQueueSize :: int

datatype ('ante, 'bcast, 'lp) evm_mempool =
    Krakatoa "('ante, 'bcast, 'lp) KrakatoaMempoolConfig" int
  | ExperimentalEVM "('ante, 'bcast, 'lp) EVMMempoolConfig" int

text \<open>The proposal verifier: the no-check verifier only encodes, the application runs the ante handlers.\<close>

datatype tx_verifier = NoCheckProposalTxVerifier | AppVerifier

record ('ante, 'bcast, 'lp) mempool_app =
  ma_AnteHandler :: 'ante
  ma_broadcastPromotedEVMTxs :: 'bcast
  ma_InsertTxHandler :: "('ante, 'bcast, 'lp) evm_mempool option"
  ma_ReapTxsHandler :: "('ante, 'bcast, 'lp) evm_mempool option"
  ma_CheckTxHandler :: "('ante, 'bcast, 'lp) evm_mempool option"
  ma_PrepareProposal :: "(('ante, 'bcast, 'lp) evm_mempool \<times> tx_verifier) option"
  ma_EVMMempool :: "('ante, 'bcast, 'lp) evm_mempool option"
  ma_Mempool :: "('ante, 'bcast, 'lp) evm_mempool option"

definition createMempoolConfig ::
  "('ante, 'bcast, 'lp) mempool_app \<Rightarrow> 'lp mempool_opts \<Rightarrow> ('ante, 'bcast, 'lp) EVMMempoolConfig" where
  "createMempoolConfig app opts = \<lparr>
     mc_AnteHandler = ma_AnteHandler app,
     mc_LegacyPoolConfig = mo_LegacyPoolConfig opts,
     mc_BroadCastTxFn = ma_broadcastPromotedEVMTxs app,
     mc_BlockGasLimit = mo_BlockGasLimit opts,
     mc_MinTip = mo_MinTip opts\<rparr>"

definition createKrakatoaMempoolConfig ::
  "('ante, 'bcast, 'lp) mempool_app \<Rightarrow> 'lp mempool_opts \<Rightarrow> ('ante, 'bcast, 'lp) KrakatoaMempoolConfig" where
  "createKrakatoaMempoolConfig app opts = \<lparr>
     kc_EVMMempoolConfig = createMempoolConfig app opts,
     kc_PendingTxProposalTimeout = mo_PendingTxProposalTimeout opts,
     kc_InsertQueueSize = mo_InsertQueueSize opts\<rparr>"

definition allow_fallback :: "'lp mempool_opts \<Rightarrow> bool" where
  "allow_fallback opts =
     (let allow = mo_IsEmptyAppOptions opts in
      if \<not> mo_AppOptsNil opts then (case mo_AllowFallback opts of Some allowed \<Rightarrow> allowed | None \<Rightarrow> allow) else allow)"

datatype mempool_error = UnsafeFallbackDisabled

definition configureEVMMempool ::
  "'lp mempool_opts \<Rightarrow> ('ante, 'bcast, 'lp) mempool_app \<Rightarrow> mempool_error option \<times> ('ante, 'bcast, 'lp) mempool_app" where
  "configureEVMMempool opts app =
     (if \<not> mo_ChainConfigSet opts then (None, app)
      else if mo_CosmosPoolMaxTx opts < 0 then (None, app)
      else if mo_OperateExclusively opts then
        let pool = Krakatoa (createKrakatoaMempoolConfig app opts) (mo_CosmosPoolMaxTx opts);
            app1 = app\<lparr>ma_InsertTxHandler := Some pool\<rparr>;
            app2 = app1\<lparr>ma_ReapTxsHandler := Some pool\<rparr>;
            app3 = app2\<lparr>ma_PrepareProposal := Some (pool, NoCheckProposalTxVerifier)\<rparr>
        in (None, app3\<lparr>ma_EVMMempool := Some pool, ma_Mempool := Some pool\<rparr>)
      else if \<not> allow_fallback opts then (Some UnsafeFallbackDisabled, app)
      else
        let pool = ExperimentalEVM (createMempoolConfig app opts) (mo_CosmosPoolMaxTx opts);
            app1 = app\<lparr>ma_CheckTxHandler := Some pool\<rparr>;
            app2 = app1\<lparr>ma_PrepareProposal := Some (pool, AppVerifier)\<rparr>
        in (None, app2\<lparr>ma_EVMMempool := Some pool, ma_Mempool := Some pool\<rparr>))"

section \<open>Handlers\<close>

datatype insert_code = CodeTypeOK | CodeTypeRetry | CodeTypeNoRetry

text \<open>
  \<^verbatim>\<open>NewInsertTxHandler\<close>: \<open>InsertAsync\<close> is the mempool's operation on its own state; \<open>is_queue_full\<close>
  is \<^verbatim>\<open>errors.Is(err, ErrQueueFull)\<close>.
\<close>

definition InsertTxHandler ::
  "(bytes \<Rightarrow> string + 'tx) \<Rightarrow> ('tx \<Rightarrow> 'pool \<Rightarrow> 'err option \<times> 'pool) \<Rightarrow> ('err \<Rightarrow> bool) \<Rightarrow> bytes \<Rightarrow> 'pool \<Rightarrow>
     (string + insert_code) \<times> 'pool" where
  "InsertTxHandler TxDecode InsertAsync is_queue_full txBytes pool =
     (case TxDecode txBytes of
        Inl e \<Rightarrow> (Inl (''decoding tx: '' @ e), pool)
      | Inr tx \<Rightarrow>
          (case InsertAsync tx pool of
             (None, pool') \<Rightarrow> (Inr CodeTypeOK, pool')
           | (Some err, pool') \<Rightarrow> (Inr (if is_queue_full err then CodeTypeRetry else CodeTypeNoRetry), pool')))"

definition ReapTxsHandler ::
  "(uint64 \<Rightarrow> uint64 \<Rightarrow> 'pool \<Rightarrow> (string + bytes list) \<times> 'pool) \<Rightarrow> uint64 \<Rightarrow> uint64 \<Rightarrow> 'pool \<Rightarrow>
     (uint64 \<times> uint64 \<times> string + bytes list) \<times> 'pool" where
  "ReapTxsHandler ReapNewValidTxs maxBytes maxGas pool =
     (case ReapNewValidTxs maxBytes maxGas pool of
        (Inl e, pool') \<Rightarrow> (Inl (maxBytes, maxGas, e), pool')
      | (Inr txs, pool') \<Rightarrow> (Inr txs, pool'))"

text \<open>The overridden proposal check of \<^verbatim>\<open>tx_verifier.go\<close>: the transaction only has to encode.\<close>

definition PrepareProposalVerifyTx :: "('tx \<Rightarrow> string + bytes) \<Rightarrow> 'tx \<Rightarrow> string + bytes" where
  "PrepareProposalVerifyTx TxEncode tx = TxEncode tx"

section \<open>Properties\<close>

text \<open>
  Mempool configuration is all or nothing.  The experimental mempool is installed only after an
  explicit opt-in (or with empty test options) and always with the verifying proposal handler; the
  no-check verifier is installed only together with the exclusive mempool, whose insert and reap
  handlers are then set; a refusal or a skip leaves the application unchanged.
\<close>
theorem mempool_configuration:
  fixes app :: "('ante, 'bcast, 'lp) mempool_app"
  assumes "configureEVMMempool opts app = (err, app')"
  shows "if mo_ChainConfigSet opts \<and> 0 \<le> mo_CosmosPoolMaxTx opts \<and> err = None
    then \<exists>pool. ma_EVMMempool app' = Some pool \<and> ma_Mempool app' = Some pool \<and>
      (case pool of
         Krakatoa cfg n \<Rightarrow> mo_OperateExclusively opts \<and> ma_PrepareProposal app' = Some (pool, NoCheckProposalTxVerifier) \<and>
           ma_InsertTxHandler app' = Some pool \<and> ma_ReapTxsHandler app' = Some pool \<and> ma_CheckTxHandler app' = ma_CheckTxHandler app
       | ExperimentalEVM cfg n \<Rightarrow> \<not> mo_OperateExclusively opts \<and> ma_PrepareProposal app' = Some (pool, AppVerifier) \<and>
           (mo_AllowFallback opts = Some True \<and> \<not> mo_AppOptsNil opts \<or> mo_IsEmptyAppOptions opts) \<and>
           ma_CheckTxHandler app' = Some pool \<and> ma_InsertTxHandler app' = ma_InsertTxHandler app)
    else app' = app"
  using assms
  by (auto simp: configureEVMMempool_def allow_fallback_def Let_def split: if_splits option.splits)

definition sample_opts :: "unit mempool_opts" where
  "sample_opts = \<lparr>mo_ChainConfigSet = True, mo_CosmosPoolMaxTx = 0, mo_OperateExclusively = False, mo_IsEmptyAppOptions = False,
     mo_AppOptsNil = False, mo_AllowFallback = None, mo_LegacyPoolConfig = (), mo_BlockGasLimit = 30000000, mo_MinTip = 0,
     mo_PendingTxProposalTimeout = 0, mo_InsertQueueSize = 5000\<rparr>"

definition sample_app :: "(unit, unit, unit) mempool_app" where
  "sample_app = \<lparr>ma_AnteHandler = (), ma_broadcastPromotedEVMTxs = (), ma_InsertTxHandler = None, ma_ReapTxsHandler = None,
     ma_CheckTxHandler = None, ma_PrepareProposal = None, ma_EVMMempool = None, ma_Mempool = None\<rparr>"

theorem mempool_configuration_witness:
  "configureEVMMempool sample_opts sample_app = (Some UnsafeFallbackDisabled, sample_app) \<and>
   ma_CheckTxHandler (snd (configureEVMMempool (sample_opts\<lparr>mo_OperateExclusively := True\<rparr>) sample_app)) = None"
proof -
  obtain app' where c: "configureEVMMempool (sample_opts\<lparr>mo_OperateExclusively := True\<rparr>) sample_app = (None, app')"
    by (simp add: configureEVMMempool_def sample_opts_def Let_def)
  from mempool_configuration [OF c] have "ma_CheckTxHandler app' = None"
    by (cases "case ma_Mempool app' of Some pool \<Rightarrow> pool | None \<Rightarrow> ExperimentalEVM undefined 0")
      (auto simp: sample_opts_def sample_app_def)
  moreover have "configureEVMMempool sample_opts sample_app = (Some UnsafeFallbackDisabled, sample_app)"
    by (simp add: configureEVMMempool_def allow_fallback_def sample_opts_def)
  ultimately show ?thesis using c by simp
qed

text \<open>
  The insert handler asks for a retry exactly when the insert queue was full, refuses for good on
  every other insertion error, and reports undecodable bytes as an error without touching the mempool.
\<close>
theorem mempool_insert_codes:
  "InsertTxHandler TxDecode InsertAsync is_queue_full txBytes pool =
    (case TxDecode txBytes of
       Inl e \<Rightarrow> (Inl (''decoding tx: '' @ e), pool)
     | Inr tx \<Rightarrow>
         (Inr (case fst (InsertAsync tx pool) of
                 None \<Rightarrow> CodeTypeOK
               | Some err \<Rightarrow> if is_queue_full err then CodeTypeRetry else CodeTypeNoRetry), snd (InsertAsync tx pool)))"
  by (simp add: InsertTxHandler_def split: sum.split prod.split option.split)

end
