(* ===== verification/ModuleGlue.thy ===== *)
theory ModuleGlue
  imports EnergyClaims OracleClaims IdentityClaims AuditClaims
begin

text \<open>
  The \<^verbatim>\<open>module.go\<close> files of the four modules: how the module manager reaches their genesis code and
  their invariants.  \<^verbatim>\<open>encoding/json\<close> on the genesis types is an argument, one codec per module; a
  panic is a value with its message.
\<close>

section \<open>JSON and panics\<close>

record ('gs, 'bz) json_codec =
  json_Marshal :: "'gs \<Rightarrow> string + 'bz"
  json_Unmarshal :: "'bz \<Rightarrow> string + 'gs"

text \<open>
  A value is faithful to the codec when it marshals and comes back as it was.  This holds of every
  genesis state whose strings are valid UTF-8; \<^verbatim>\<open>encoding/json\<close> replaces other bytes.
\<close>

definition json_faithful :: "('gs, 'bz) json_codec \<Rightarrow> 'gs \<Rightarrow> bool" where
  "json_faithful J gs \<longleftrightarrow> (\<exists>bz. json_Marshal J gs = Inr bz \<and> json_Unmarshal J bz = Inr gs)"

datatype 'e glue_panic = PMarshal string string | PUnmarshal string string | PInit string 'e

datatype 'v genesis_refusal = GUnmarshal string string | GInvalid 'v

definition marshal_or_panic :: "string \<Rightarrow> ('gs, 'bz) json_codec \<Rightarrow> 'gs \<Rightarrow> 'e glue_panic + 'bz" where
  "marshal_or_panic name J gs = (case json_Marshal J gs of Inl e \<Rightarrow> Inl (PMarshal name e) | Inr bz \<Rightarrow> Inr bz)"

definition validate_json :: "string \<Rightarrow> ('gs, 'bz) json_codec \<Rightarrow> ('gs \<Rightarrow> 'v option) \<Rightarrow> 'bz \<Rightarrow> 'v genesis_refusal option" where
  "validate_json name J validate bz =
     (case json_Unmarshal J bz of Inl e \<Rightarrow> Some (GUnmarshal name e) | Inr gs \<Rightarrow> map_option GInvalid (validate gs))"

definition init_json :: "string \<Rightarrow> ('gs, 'bz) json_codec \<Rightarrow> ('gs \<Rightarrow> 's \<Rightarrow> 'e option \<times> 's) \<Rightarrow> 'bz \<Rightarrow> 's \<Rightarrow> 'e glue_panic option \<times> 's" where
  "init_json name J init data st =
     (case json_Unmarshal J data of
        Inl e \<Rightarrow> (Some (PUnmarshal name e), st)
      | Inr gs \<Rightarrow> (case init gs st of (Some e, st') \<Rightarrow> (Some (PInit name e), st') | (None, st') \<Rightarrow> (None, st')))"

section \<open>The modules\<close>

definition energy_module_DefaultGenesis :: "(energy_GenesisState, 'bz) json_codec \<Rightarrow> energy_error glue_panic + 'bz" where
  "energy_module_DefaultGenesis J = marshal_or_panic ''energy'' J energy_DefaultGenesis"

definition energy_module_ValidateGenesis :: "(energy_GenesisState, 'bz) json_codec \<Rightarrow> 'bz \<Rightarrow> energy_genesis_error genesis_refusal option" where
  "energy_module_ValidateGenesis J bz = validate_json ''energy'' J energy_Genesis_Validate bz"

definition energy_module_InitGenesis ::
  "(energy_GenesisState, 'bz) json_codec \<Rightarrow> env \<Rightarrow> 'bz \<Rightarrow> energy_state \<Rightarrow> energy_error glue_panic option \<times> energy_state" where
  "energy_module_InitGenesis J E data st = init_json ''energy'' J (energy_InitGenesis E) data st"

definition energy_module_ExportGenesis ::
  "(energy_GenesisState, 'bz) json_codec \<Rightarrow> env \<Rightarrow> energy_state \<Rightarrow> energy_error glue_panic + 'bz" where
  "energy_module_ExportGenesis J E st = marshal_or_panic ''energy'' J (energy_ExportGenesis E st)"

definition oracle_module_DefaultGenesis :: "(oracle_GenesisState, 'bz) json_codec \<Rightarrow> oracle_error glue_panic + 'bz" where
  "oracle_module_DefaultGenesis J = marshal_or_panic ''oracle'' J oracle_DefaultGenesis"

definition oracle_module_ValidateGenesis :: "(oracle_GenesisState, 'bz) json_codec \<Rightarrow> 'bz \<Rightarrow> oracle_genesis_error genesis_refusal option" where
  "oracle_module_ValidateGenesis J bz = validate_json ''oracle'' J oracle_Genesis_Validate bz"

definition oracle_module_InitGenesis ::
  "(oracle_GenesisState, 'bz) json_codec \<Rightarrow> env \<Rightarrow> 'bz \<Rightarrow> oracle_state \<Rightarrow> oracle_error glue_panic option \<times> oracle_state" where
  "oracle_module_InitGenesis J E data st = init_json ''oracle'' J (oracle_InitGenesis E) data st"

definition oracle_module_ExportGenesis ::
  "(oracle_GenesisState, 'bz) json_codec \<Rightarrow> env \<Rightarrow> oracle_state \<Rightarrow> oracle_error glue_panic + 'bz" where
  "oracle_module_ExportGenesis J E st = marshal_or_panic ''oracle'' J (oracle_ExportGenesis E st)"

definition identity_module_DefaultGenesis :: "(identity_GenesisState, 'bz) json_codec \<Rightarrow> identity_error glue_panic + 'bz" where
  "identity_module_DefaultGenesis J = marshal_or_panic ''identity'' J identity_DefaultGenesis"

definition identity_module_ValidateGenesis ::
  "(identity_GenesisState, 'bz) json_codec \<Rightarrow> env \<Rightarrow> 'bz \<Rightarrow> identity_genesis_error genesis_refusal option" where
  "identity_module_ValidateGenesis J E bz = validate_json ''identity'' J (identity_Genesis_Validate E) bz"

text \<open>The identity module has its restoring loop in \<^verbatim>\<open>module.go\<close> itself: \<open>identity_InitGenesis\<close>.\<close>

definition identity_module_InitGenesis ::
  "(identity_GenesisState, 'bz) json_codec \<Rightarrow> env \<Rightarrow> 'bz \<Rightarrow> identity_state \<Rightarrow> identity_error glue_panic option \<times> identity_state" where
  "identity_module_InitGenesis J E data st = init_json ''identity'' J (identity_InitGenesis E) data st"

definition identity_module_ExportGenesis ::
  "(identity_GenesisState, 'bz) json_codec \<Rightarrow> env \<Rightarrow> identity_state \<Rightarrow> identity_error glue_panic + 'bz" where
  "identity_module_ExportGenesis J E st = marshal_or_panic ''identity'' J (identity_ExportGenesis E st)"

definition audit_module_DefaultGenesis :: "(audit_GenesisState, 'bz) json_codec \<Rightarrow> audit_error glue_panic + 'bz" where
  "audit_module_DefaultGenesis J = marshal_or_panic ''audit'' J audit_DefaultGenesis"

definition audit_module_ValidateGenesis :: "(audit_GenesisState, 'bz) json_codec \<Rightarrow> 'bz \<Rightarrow> audit_genesis_error genesis_refusal option" where
  "audit_module_ValidateGenesis J bz = validate_json ''audit'' J audit_Genesis_Validate bz"

definition audit_module_InitGenesis ::
  "(audit_GenesisState, 'bz) json_codec \<Rightarrow> env \<Rightarrow> 'bz \<Rightarrow> audit_state \<Rightarrow> audit_error glue_panic option \<times> audit_state" where
  "audit_module_InitGenesis J E data st = init_json ''audit'' J (audit_InitGenesis E) data st"

definition audit_module_ExportGenesis ::
  "(audit_GenesisState, 'bz) json_codec \<Rightarrow> env \<Rightarrow> audit_state \<Rightarrow> audit_error glue_panic + 'bz" where
  "audit_module_ExportGenesis J E st = marshal_or_panic ''audit'' J (audit_ExportGenesis E st)"

section \<open>Registered invariants\<close>

text \<open>The routes in the order of registration, with the outcome of each on a state.\<close>

definition energy_RegisterInvariants :: "env \<Rightarrow> energy_state \<Rightarrow> (string \<times> energy_broken option) list" where
  "energy_RegisterInvariants E st =
     [(''id-sequence-monotonic'', IDSequenceMonotonicInvariant E st),
      (''by-category-consistent'', ByCategoryConsistencyInvariant E st),
      (''by-submitter-consistent'', BySubmitterConsistencyInvariant E st),
      (''metadata-within-cap'', energy_MetadataWithinCapInvariant E st)]"

definition oracle_RegisterInvariants :: "env \<Rightarrow> oracle_state \<Rightarrow> (string \<times> oracle_broken option) list" where
  "oracle_RegisterInvariants E st =
     [(''latest-data-consistent'', LatestDataConsistencyInvariant E st),
      (''oracle-address-non-empty'', OracleAddressNonEmptyInvariant E st),
      (''metadata-within-cap'', oracle_MetadataWithinCapInvariant E st)]"

definition identity_RegisterInvariants :: "env \<Rightarrow> identity_state \<Rightarrow> (string \<times> identity_broken option) list" where
  "identity_RegisterInvariants E st =
     [(''by-role-consistent'', ByRoleConsistencyInvariant E st),
      (''address-key-matches-value'', AddressKeyMatchesValueInvariant E st),
      (''metadata-within-cap'', identity_MetadataWithinCapInvariant E st)]"

definition audit_RegisterInvariants :: "env \<Rightarrow> audit_state \<Rightarrow> (string \<times> audit_broken option) list" where
  "audit_RegisterInvariants E st =
     [(''id-sequence-monotonic'', audit_IDSequenceMonotonicInvariant E st),
      (''by-actor-consistent'', IndexConsistencyInvariant E ''by-actor'' (as_ByActor st) al_Actor st),
      (''by-event-type-consistent'', IndexConsistencyInvariant E ''by-event-type'' (as_ByEventType st) al_EventType st),
      (''data-within-cap'', DataWithinCapInvariant E st)]"

text \<open>\<^verbatim>\<open>AllInvariants\<close> of each module reports the first broken one of exactly the registered routes.\<close>

fun first_broken :: "(string \<times> 'b option) list \<Rightarrow> 'b option" where
  "first_broken [] = None"
| "first_broken ((r, b) # rs) = (case b of Some x \<Rightarrow> Some x | None \<Rightarrow> first_broken rs)"

lemma first_broken_None: "first_broken rs = None \<longleftrightarrow> (\<forall>(r, b) \<in> set rs. b = None)"
  by (induction rs rule: first_broken.induct) (auto split: option.splits)

lemma AllInvariants_are_registered:
  "energy_AllInvariants E est = first_broken (energy_RegisterInvariants E est)"
  "oracle_AllInvariants E ost = first_broken (oracle_RegisterInvariants E ost)"
  "identity_AllInvariants E ist = first_broken (identity_RegisterInvariants E ist)"
  "audit_AllInvariants E ast = first_broken (audit_RegisterInvariants E ast)"
  by (simp_all add: energy_AllInvariants_def energy_RegisterInvariants_def oracle_AllInvariants_def oracle_RegisterInvariants_def
      identity_AllInvariants_def identity_RegisterInvariants_def audit_AllInvariants_def audit_RegisterInvariants_def
      split: option.split)

end
