(* ===== verification/AppWiring.thy ===== *)
theory AppWiring
  imports PrecompileClaims MempoolSetup Broadcaster "HOL-Library.List_Lexorder"
begin

text \<open>
  \<^verbatim>\<open>app.go\<close>, \<^verbatim>\<open>genesis.go\<close> and \<^verbatim>\<open>config/permissions.go\<close>: the stores, module orders, precompiles,
  default genesis and shutdown of the application.  The modules of the SDK, IBC and cosmos/evm, and
  the default genesis states they provide, are arguments or only named.
\<close>

section \<open>Modules, stores and orders\<close>

text \<open>One constructor per module name constant, after the Go package it comes from.\<close>

datatype app_module =
    AuthM | BankM | DistrM | StakingM | SlashingM | GovM | MintM | IbcM | EvmM | FeemarketM | Erc20M | TransferM
  | GenutilM | EvidenceM | AuthzM | FeegrantM | UpgradeM | VestingM | ConsensusM | TmLightClientM
  | EnergyM | OracleM | IdentityM | AuditM

datatype store_key = KVKey app_module | ObjectKey app_module | TransientKey app_module

definition KVStoreKeys :: "store_key list" where
  "KVStoreKeys = map KVKey
     [AuthM, BankM, StakingM, MintM, DistrM, SlashingM, GovM, ConsensusM, UpgradeM, FeegrantM, EvidenceM, AuthzM,
      IbcM, TransferM, EvmM, FeemarketM, Erc20M, EnergyM, OracleM, IdentityM, AuditM]"

definition ObjectStoreKeys :: "store_key list" where
  "ObjectStoreKeys = [ObjectKey BankM, ObjectKey EvmM]"

definition TransientStoreKeys :: "store_key list" where
  "TransientStoreKeys = [TransientKey EnergyM, TransientKey AuditM]"

text \<open>Go iterates over the two maps in no fixed order; the set is what the conflict detector gets.\<close>

definition collectNonTransientKeys :: "store_key list \<Rightarrow> store_key list \<Rightarrow> store_key list" where
  "collectNonTransientKeys kvKeys oKeys = kvKeys @ oKeys"

definition module_manager :: "app_module list" where
  "module_manager =
     [GenutilM, AuthM, BankM, FeegrantM, GovM, MintM, SlashingM, DistrM, StakingM, UpgradeM, EvidenceM, AuthzM,
      ConsensusM, VestingM, IbcM, TmLightClientM, TransferM, EvmM, FeemarketM, Erc20M, EnergyM, OracleM, IdentityM, AuditM]"

definition OrderPreBlockers :: "app_module list" where
  "OrderPreBlockers = [UpgradeM, AuthM, EvmM]"

definition OrderBeginBlockers :: "app_module list" where
  "OrderBeginBlockers =
     [MintM, IbcM, TransferM, Erc20M, FeemarketM, EvmM, DistrM, SlashingM, EvidenceM, StakingM, AuthM, BankM, GovM,
      GenutilM, AuthzM, FeegrantM, ConsensusM, VestingM, EnergyM, OracleM, IdentityM, AuditM]"

definition OrderEndBlockers :: "app_module list" where
  "OrderEndBlockers =
     [BankM, GovM, StakingM, AuthM, EvmM, Erc20M, FeemarketM, IbcM, TransferM, DistrM, SlashingM, MintM, GenutilM,
      EvidenceM, AuthzM, FeegrantM, UpgradeM, ConsensusM, VestingM, EnergyM, OracleM, IdentityM, AuditM]"

definition genesisModuleOrder :: "app_module list" where
  "genesisModuleOrder =
     [AuthM, BankM, DistrM, StakingM, SlashingM, GovM, MintM, IbcM, EvmM, FeemarketM, Erc20M, TransferM, GenutilM,
      EvidenceM, AuthzM, FeegrantM, UpgradeM, VestingM, EnergyM, OracleM, IdentityM, AuditM]"

text \<open>The stores of the four custom keepers: the persistent one and, where there is one, the transient one.\<close>

definition custom_keeper_stores :: "app_module \<Rightarrow> store_key list" where
  "custom_keeper_stores m =
     (case m of
        EnergyM \<Rightarrow> [KVKey EnergyM, TransientKey EnergyM]
      | OracleM \<Rightarrow> [KVKey OracleM]
      | IdentityM \<Rightarrow> [KVKey IdentityM]
      | AuditM \<Rightarrow> [KVKey AuditM, TransientKey AuditM]
      | _ \<Rightarrow> [])"

definition precedes :: "'a list \<Rightarrow> 'a \<Rightarrow> 'a \<Rightarrow> bool" where
  "precedes xs a b \<longleftrightarrow> b \<in> set (tl (dropWhile (\<lambda>x. x \<noteq> a) xs))"

lemma precedes_split: "distinct xs \<Longrightarrow> precedes xs a b \<longleftrightarrow> (\<exists>us vs ws. xs = us @ a # vs @ b # ws)"
proof (induction xs)
  case (Cons x xs)
  show ?case
  proof (cases "x = a")
    case True
    then have "precedes (x # xs) a b \<longleftrightarrow> b \<in> set xs" by (simp add: precedes_def)
    also have "\<dots> \<longleftrightarrow> (\<exists>us vs ws. x # xs = us @ a # vs @ b # ws)"
    proof
      assume "b \<in> set xs"
      then obtain vs ws where "xs = vs @ b # ws" by (auto simp: in_set_conv_decomp)
      then have "x # xs = [] @ a # vs @ b # ws" by (simp add: True)
      then show "\<exists>us vs ws. x # xs = us @ a # vs @ b # ws" by blast
    next
      assume "\<exists>us vs ws. x # xs = us @ a # vs @ b # ws"
      then obtain us vs ws where "x # xs = us @ a # vs @ b # ws" by blast
      then show "b \<in> set xs" by (cases us) auto
    qed
    finally show ?thesis .
  next
    case False
    then have "precedes (x # xs) a b \<longleftrightarrow> precedes xs a b" by (simp add: precedes_def)
    also have "\<dots> \<longleftrightarrow> (\<exists>us vs ws. xs = us @ a # vs @ b # ws)" using Cons by simp
    also have "\<dots> \<longleftrightarrow> (\<exists>us vs ws. x # xs = us @ a # vs @ b # ws)"
      using False by (metis append_Cons append_eq_Cons_conv list.inject)
    finally show ?thesis .
  qed
qed (simp add: precedes_def)

section \<open>Precompiles and blocked addresses\<close>

text \<open>\<open>Available\<close> is \<^verbatim>\<open>evmtypes.AvailableStaticPrecompiles\<close>; \<^verbatim>\<open>sort.Strings\<close> compares bytes.\<close>

definition ActiveStaticPrecompiles :: "string list \<Rightarrow> string list" where
  "ActiveStaticPrecompiles Available = sort (Available @ [energy_PrecompileAddress, identity_PrecompileAddress])"

text \<open>The addresses with an implementation, given those of \<^verbatim>\<open>DefaultStaticPrecompiles\<close>.\<close>

definition registered_precompiles :: "string set \<Rightarrow> string set" where
  "registered_precompiles defaults = insert identity_PrecompileAddress (insert energy_PrecompileAddress defaults)"

datatype module_account =
    FeeCollector | DistrAccount | TransferAccount | MintAccount | BondedPool | NotBondedPool | GovAccount
  | EvmAccount | FeemarketAccount | Erc20Account

datatype permission = Minter | Burner | Staking

definition maccPerms :: "(module_account \<times> permission list) list" where
  "maccPerms =
     [(FeeCollector, []), (DistrAccount, []), (TransferAccount, [Minter, Burner]), (MintAccount, [Minter]),
      (BondedPool, [Burner, Staking]), (NotBondedPool, [Burner, Staking]), (GovAccount, [Burner]),
      (EvmAccount, [Minter, Burner]), (FeemarketAccount, []), (Erc20Account, [Minter, Burner])]"

text \<open>
  \<open>ModuleAddress\<close> is the bech32 address of a module account, \<open>Bech32\<close> the one of a hex address,
  \<open>Prague\<close> the hex addresses of Ethereum's own precompiles.
\<close>

definition BlockedAddresses ::
  "(module_account \<Rightarrow> string) \<Rightarrow> (string \<Rightarrow> string) \<Rightarrow> string list \<Rightarrow> string list \<Rightarrow> string list" where
  "BlockedAddresses ModuleAddress Bech32 Available Prague =
     map (ModuleAddress \<circ> fst) maccPerms @ map Bech32 (Available @ Prague)"

section \<open>Genesis\<close>

definition NativeDenom :: string where "NativeDenom = ''uecy''"
definition NativeERC20Contract :: string where "NativeERC20Contract = ''0xEeeeeEeeeEeEeeEeEeEeeEEEeeeeEeeeeeeeEEeE''"

text \<open>The fields of the library's genesis records that the application sets.\<close>

record evm_genesis =
  vg_ActiveStaticPrecompiles :: "string list"
  vg_Preinstalls :: "string list"

record token_pair =
  tp_Erc20Address :: string
  tp_Denom :: string
  tp_Enabled :: bool
  tp_OwnerModule :: bool

record erc20_genesis =
  cg_TokenPairs :: "token_pair list"
  cg_NativePrecompiles :: "string list"

record mint_genesis =
  mg_MintDenom :: string

record feemarket_genesis =
  fg_NoBaseFee :: bool

definition NewEVMGenesisState :: "string list \<Rightarrow> string list \<Rightarrow> 'a evm_genesis_scheme \<Rightarrow> 'a evm_genesis_scheme" where
  "NewEVMGenesisState Available DefaultPreinstalls d =
     d\<lparr>vg_ActiveStaticPrecompiles := ActiveStaticPrecompiles Available, vg_Preinstalls := DefaultPreinstalls\<rparr>"

definition NewErc20GenesisState :: "'a erc20_genesis_scheme \<Rightarrow> 'a erc20_genesis_scheme" where
  "NewErc20GenesisState d =
     d\<lparr>cg_TokenPairs := [\<lparr>tp_Erc20Address = NativeERC20Contract, tp_Denom = NativeDenom, tp_Enabled = True, tp_OwnerModule = True\<rparr>],
       cg_NativePrecompiles := [NativeERC20Contract]\<rparr>"

definition NewMintGenesisState :: "'a mint_genesis_scheme \<Rightarrow> 'a mint_genesis_scheme" where
  "NewMintGenesisState d = d\<lparr>mg_MintDenom := NativeDenom\<rparr>"

definition NewFeeMarketGenesisState :: "'a feemarket_genesis_scheme \<Rightarrow> 'a feemarket_genesis_scheme" where
  "NewFeeMarketGenesisState d = d\<lparr>fg_NoBaseFee := False\<rparr>"

text \<open>
  The default genesis: the modules' defaults, with four entries replaced.  The raw messages are
  \<open>'bz\<close>; the last four arguments marshal the four states.
\<close>

definition app_DefaultGenesis :: "(app_module \<rightharpoonup> 'bz) \<Rightarrow> 'bz \<Rightarrow> 'bz \<Rightarrow> 'bz \<Rightarrow> 'bz \<Rightarrow> app_module \<rightharpoonup> 'bz" where
  "app_DefaultGenesis basics mint evm erc20 feemarket =
     ((((basics(MintM \<mapsto> mint))(EvmM \<mapsto> evm))(Erc20M \<mapsto> erc20))(FeemarketM \<mapsto> feemarket))"

section \<open>Listeners and shutdown\<close>

definition RegisterPendingTxListener :: "'l \<Rightarrow> 'l list \<Rightarrow> 'l list" where
  "RegisterPendingTxListener listener listeners = listeners @ [listener]"

text \<open>Every listener is called with the hash, in the order of registration.\<close>

definition onPendingTx :: "'h \<Rightarrow> ('h \<Rightarrow> 's \<Rightarrow> 's) list \<Rightarrow> 's \<Rightarrow> 's" where
  "onPendingTx hash listeners s = fold (\<lambda>listener. listener hash) listeners s"

datatype closed = ClosedMempool | ClosedBroadcaster | ClosedBaseApp

text \<open>
  \<^verbatim>\<open>Close\<close>: the errors joined and what was closed, in order; \<open>None\<close> is the panic of closing the
  broadcaster's channel a second time.  Its wait for the goroutine is \<open>Close_returns\<close>.
\<close>

definition app_Close ::
  "string option \<Rightarrow> string option \<Rightarrow> ('ante, 'bcast, 'lp) evm_mempool option \<Rightarrow> ('tx, 'ctx) broadcaster option \<Rightarrow>
     (string list \<times> closed list \<times> ('tx, 'ctx) broadcaster option) option" where
  "app_Close mempool_close base_close pool bc =
     (let (err, done) = (case pool of
            Some (ExperimentalEVM cfg n) \<Rightarrow> ((case mempool_close of None \<Rightarrow> [] | Some e \<Rightarrow> [e]), [ClosedMempool])
          | _ \<Rightarrow> ([], []));
          finish = (\<lambda>done bc. (err @ (case base_close of None \<Rightarrow> [] | Some e \<Rightarrow> [e]), done @ [ClosedBaseApp], bc)) in
      case bc of
        None \<Rightarrow> Some (finish done None)
      | Some b \<Rightarrow>
          (case Close_done b of
             None \<Rightarrow> None
           | Some b' \<Rightarrow> Some (finish (done @ [ClosedBroadcaster]) (Some b'))))"

section \<open>Properties\<close>

text \<open>
  The orders list distinct modules, all known to the module manager, and respect the constraints the
  code states for them.
\<close>

lemma module_orders_distinct:
  "distinct module_manager" "distinct OrderPreBlockers" "distinct OrderBeginBlockers"
  "distinct OrderEndBlockers" "distinct genesisModuleOrder"
  by (simp_all add: module_manager_def OrderPreBlockers_def OrderBeginBlockers_def OrderEndBlockers_def genesisModuleOrder_def)

theorem module_orders:
  "set OrderPreBlockers \<union> set OrderBeginBlockers \<union> set OrderEndBlockers \<union> set genesisModuleOrder \<subseteq> set module_manager \<and>
   set module_manager - set genesisModuleOrder = {ConsensusM, TmLightClientM} \<and>
   hd OrderPreBlockers = UpgradeM \<and>
   precedes OrderBeginBlockers DistrM SlashingM \<and> precedes OrderBeginBlockers FeemarketM EvmM \<and>
   (\<forall>m \<in> {EvmM, Erc20M, BankM, GovM, StakingM, AuthM}. precedes OrderEndBlockers m FeemarketM) \<and>
   (\<forall>m \<in> {StakingM, AuthM, FeemarketM}. precedes genesisModuleOrder m GenutilM)"
  by code_simp

text \<open>
  Every custom keeper has stores of its own, all mounted, and the transient ones are not among the
  keys the conflict detector of the parallel runner sees.
\<close>
theorem custom_stores_separate:
  "(\<forall>m \<in> set module_manager. \<forall>m' \<in> set module_manager. m \<noteq> m' \<longrightarrow> set (custom_keeper_stores m) \<inter> set (custom_keeper_stores m') = {}) \<and>
   (\<forall>m \<in> set module_manager. set (custom_keeper_stores m) \<subseteq> set (KVStoreKeys @ TransientStoreKeys)) \<and>
   set (collectNonTransientKeys KVStoreKeys ObjectStoreKeys) \<inter> set TransientStoreKeys = {}"
  by code_simp

text \<open>
  The default genesis activates exactly the library's static precompiles and the two custom ones,
  in the byte order the EVM module requires, without duplicates when the library's list has none of
  the custom addresses, and each of them has a registered implementation.
\<close>
theorem genesis_precompiles:
  fixes d :: "'a evm_genesis_scheme" and preinstalls :: "string list"
  assumes "distinct Available" and "energy_PrecompileAddress \<notin> set Available" and "identity_PrecompileAddress \<notin> set Available"
    and "set Available \<subseteq> defaults"
  defines "active \<equiv> vg_ActiveStaticPrecompiles (NewEVMGenesisState Available preinstalls d)"
  shows "sorted active \<and> distinct active \<and>
    set active = set Available \<union> {energy_PrecompileAddress, identity_PrecompileAddress} \<and>
    set active \<subseteq> registered_precompiles defaults"
proof -
  have "energy_PrecompileAddress \<noteq> identity_PrecompileAddress"
    by (simp add: energy_PrecompileAddress_def identity_PrecompileAddress_def)
  then show ?thesis
    using assms by (auto simp: NewEVMGenesisState_def ActiveStaticPrecompiles_def registered_precompiles_def)
qed

theorem genesis_precompiles_witness:
  "vg_ActiveStaticPrecompiles (NewEVMGenesisState [''0x0000000000000000000000000000000000000800''] []
      (\<lparr>vg_ActiveStaticPrecompiles = [], vg_Preinstalls = []\<rparr> :: evm_genesis)) \<noteq> [] \<and>
   sorted (vg_ActiveStaticPrecompiles (NewEVMGenesisState [''0x0000000000000000000000000000000000000800''] []
      (\<lparr>vg_ActiveStaticPrecompiles = [], vg_Preinstalls = []\<rparr> :: evm_genesis)))"
proof -
  let ?A = "[''0x0000000000000000000000000000000000000800'']"
  let ?d = "\<lparr>vg_ActiveStaticPrecompiles = [], vg_Preinstalls = []\<rparr> :: evm_genesis"
  have p: "distinct ?A" "energy_PrecompileAddress \<notin> set ?A" "identity_PrecompileAddress \<notin> set ?A" "set ?A \<subseteq> set ?A"
    by (simp_all add: energy_PrecompileAddress_def identity_PrecompileAddress_def)
  from genesis_precompiles [OF p, of "[]" ?d]
  have "energy_PrecompileAddress \<in> set (vg_ActiveStaticPrecompiles (NewEVMGenesisState ?A [] ?d))"
      "sorted (vg_ActiveStaticPrecompiles (NewEVMGenesisState ?A [] ?d))" by blast+
  then show ?thesis by (metis list.set(1) empty_iff)
qed

text \<open>
  The two custom precompiles are active but not blocked: the list of blocked addresses is built from
  the library's precompiles only.
\<close>
theorem custom_precompiles_not_blocked:
  assumes "inj Bech32" and "\<forall>m. Bech32 a \<noteq> ModuleAddress m" and "a \<notin> set Available" and "a \<notin> set Prague"
  shows "Bech32 a \<notin> set (BlockedAddresses ModuleAddress Bech32 Available Prague)"
  using assms by (auto simp: BlockedAddresses_def dest: injD)

text \<open>
  C35: Shutdown closes the broadcaster once and always reaches the base application, whose error it
  reports; a second shutdown panics.  The mempool is closed only when it is the experimental one: with
  the exclusive mempool configured, it is left open.
\<close>
theorem app_close_behaviour:
  fixes b :: "('tx, 'ctx) broadcaster" and app :: "('ante, 'bcast, 'lp) mempool_app"
  assumes "configureEVMMempool opts app = (None, app')" and "mo_ChainConfigSet opts" and "0 \<le> mo_CosmosPoolMaxTx opts"
    and "\<not> bb_done b"
  shows "\<exists>errs done b'. app_Close mempool_close base_close (ma_EVMMempool app') (Some b) = Some (errs, done, Some b') \<and>
      last done = ClosedBaseApp \<and> set_option base_close \<subseteq> set errs \<and> bb_done b' \<and>
      (ClosedMempool \<in> set done \<longleftrightarrow> \<not> mo_OperateExclusively opts) \<and>
      app_Close mempool_close base_close (ma_EVMMempool app') (Some b') = None"
proof -
  have pool: "ma_EVMMempool app' = Some (if mo_OperateExclusively opts
      then Krakatoa (createKrakatoaMempoolConfig app opts) (mo_CosmosPoolMaxTx opts)
      else ExperimentalEVM (createMempoolConfig app opts) (mo_CosmosPoolMaxTx opts))"
    using assms(1-3) by (auto simp: configureEVMMempool_def Let_def split: if_splits)
  have closing: "Close_done b = Some (b\<lparr>bb_done := True\<rparr>)" "Close_done (b\<lparr>bb_done := True\<rparr>) = None"
    using assms(4) by (simp_all add: Close_done_def)
  show ?thesis
    by (cases base_close; cases "mo_OperateExclusively opts") (simp_all add: app_Close_def pool closing)
qed

theorem app_close_behaviour_witness:
  "app_Close None None (ma_EVMMempool (snd (configureEVMMempool (sample_opts\<lparr>mo_OperateExclusively := True\<rparr>) sample_app)))
     (Some (newPromotedTxBroadcaster :: (string, unit) broadcaster)) \<noteq> None"
proof -
  let ?o = "sample_opts\<lparr>mo_OperateExclusively := True\<rparr>"
  obtain app' where c: "configureEVMMempool ?o sample_app = (None, app')"
    by (simp add: configureEVMMempool_def sample_opts_def Let_def)
  have "mo_ChainConfigSet ?o" "0 \<le> mo_CosmosPoolMaxTx ?o" "\<not> bb_done (newPromotedTxBroadcaster :: (string, unit) broadcaster)"
    by (simp_all add: sample_opts_def newPromotedTxBroadcaster_def)
  from app_close_behaviour [OF c this, of None None] show ?thesis by (auto simp: c)
qed

end
