(* ===== verification/ChainGenesis.thy ===== *)
theory ChainGenesis
  imports ModuleGlue AppWiring
begin

text \<open>
  Genesis of the whole application: \<^verbatim>\<open>InitChainer\<close> and the genesis export of \<^verbatim>\<open>app.go\<close> and
  \<^verbatim>\<open>export.go\<close>, over the state of the four custom modules.  The other modules have their own stores
  and leave these four alone.
\<close>

section \<open>State and codecs\<close>

record chain_state =
  ch_energy :: energy_state
  ch_oracle :: oracle_state
  ch_identity :: identity_state
  ch_audit :: audit_state

definition chain_empty :: chain_state where
  "chain_empty = \<lparr>ch_energy = energy_empty, ch_oracle = oracle_empty, ch_identity = identity_empty, ch_audit = audit_empty\<rparr>"

record 'bz chain_codec =
  cc_energy :: "(energy_GenesisState, 'bz) json_codec"
  cc_oracle :: "(oracle_GenesisState, 'bz) json_codec"
  cc_identity :: "(identity_GenesisState, 'bz) json_codec"
  cc_audit :: "(audit_GenesisState, 'bz) json_codec"

datatype chain_panic =
    EnergyPanic "energy_error glue_panic"
  | OraclePanic "oracle_error glue_panic"
  | IdentityPanic "identity_error glue_panic"
  | AuditPanic "audit_error glue_panic"

section \<open>Module manager\<close>

definition init_module :: "'bz chain_codec \<Rightarrow> env \<Rightarrow> app_module \<Rightarrow> 'bz \<Rightarrow> chain_state \<Rightarrow> chain_panic option \<times> chain_state" where
  "init_module J E m data st =
     (case m of
        EnergyM \<Rightarrow> (case energy_module_InitGenesis (cc_energy J) E data (ch_energy st) of
            (p, s) \<Rightarrow> (map_option EnergyPanic p, st\<lparr>ch_energy := s\<rparr>))
      | OracleM \<Rightarrow> (case oracle_module_InitGenesis (cc_oracle J) E data (ch_oracle st) of
            (p, s) \<Rightarrow> (map_option OraclePanic p, st\<lparr>ch_oracle := s\<rparr>))
      | IdentityM \<Rightarrow> (case identity_module_InitGenesis (cc_identity J) E data (ch_identity st) of
            (p, s) \<Rightarrow> (map_option IdentityPanic p, st\<lparr>ch_identity := s\<rparr>))
      | AuditM \<Rightarrow> (case audit_module_InitGenesis (cc_audit J) E data (ch_audit st) of
            (p, s) \<Rightarrow> (map_option AuditPanic p, st\<lparr>ch_audit := s\<rparr>))
      | _ \<Rightarrow> (None, st))"

text \<open>The manager goes through the order; a module without an entry is skipped, a panic ends it.\<close>

fun manager_InitGenesis ::
  "'bz chain_codec \<Rightarrow> env \<Rightarrow> app_module list \<Rightarrow> (app_module \<rightharpoonup> 'bz) \<Rightarrow> chain_state \<Rightarrow> chain_panic option \<times> chain_state" where
  "manager_InitGenesis J E [] genesis st = (None, st)"
| "manager_InitGenesis J E (m # ms) genesis st =
     (case genesis m of
        None \<Rightarrow> manager_InitGenesis J E ms genesis st
      | Some data \<Rightarrow>
          (case init_module J E m data st of
             (Some p, st') \<Rightarrow> (Some p, st')
           | (None, st') \<Rightarrow> manager_InitGenesis J E ms genesis st'))"

text \<open>The exported entry of a custom module; \<open>None\<close> for the others, whose entries are not modelled.\<close>

definition export_module :: "'bz chain_codec \<Rightarrow> env \<Rightarrow> app_module \<Rightarrow> chain_state \<Rightarrow> (chain_panic + 'bz) option" where
  "export_module J E m st =
     (case m of
        EnergyM \<Rightarrow> Some (map_sum EnergyPanic id (energy_module_ExportGenesis (cc_energy J) E (ch_energy st)))
      | OracleM \<Rightarrow> Some (map_sum OraclePanic id (oracle_module_ExportGenesis (cc_oracle J) E (ch_oracle st)))
      | IdentityM \<Rightarrow> Some (map_sum IdentityPanic id (identity_module_ExportGenesis (cc_identity J) E (ch_identity st)))
      | AuditM \<Rightarrow> Some (map_sum AuditPanic id (audit_module_ExportGenesis (cc_audit J) E (ch_audit st)))
      | _ \<Rightarrow> None)"

fun manager_ExportGenesis ::
  "'bz chain_codec \<Rightarrow> env \<Rightarrow> app_module list \<Rightarrow> chain_state \<Rightarrow> chain_panic + (app_module \<rightharpoonup> 'bz)" where
  "manager_ExportGenesis J E [] st = Inr Map.empty"
| "manager_ExportGenesis J E (m # ms) st =
     (case export_module J E m st of
        Some (Inl p) \<Rightarrow> Inl p
      | Some (Inr bz) \<Rightarrow> (case manager_ExportGenesis J E ms st of Inl p \<Rightarrow> Inl p | Inr g \<Rightarrow> Inr (g(m \<mapsto> bz)))
      | None \<Rightarrow> manager_ExportGenesis J E ms st)"

section \<open>The application\<close>

datatype init_panic = UnmarshalAppState string | SetVersionMap string | ModulePanic chain_panic

text \<open>
  \<^verbatim>\<open>InitChainer\<close>: \<open>Unmarshal\<close> reads the application state of the request, \<open>SetModuleVersionMap\<close>
  is the upgrade keeper's.
\<close>

definition InitChainer ::
  "'bz chain_codec \<Rightarrow> env \<Rightarrow> ('req \<Rightarrow> string + (app_module \<rightharpoonup> 'bz)) \<Rightarrow> string option \<Rightarrow> 'req \<Rightarrow> chain_state \<Rightarrow>
     init_panic option \<times> chain_state" where
  "InitChainer J E Unmarshal SetModuleVersionMap req st =
     (case Unmarshal req of
        Inl e \<Rightarrow> (Some (UnmarshalAppState e), st)
      | Inr genesisState \<Rightarrow>
          (case SetModuleVersionMap of
             Some e \<Rightarrow> (Some (SetVersionMap e), st)
           | None \<Rightarrow> (case manager_InitGenesis J E genesisModuleOrder genesisState st of
               (p, st') \<Rightarrow> (map_option ModulePanic p, st'))))"

text \<open>The modules to export: all of them when the request names none.\<close>

definition modules_to_export :: "app_module list \<Rightarrow> app_module list" where
  "modules_to_export ms = (if ms = [] then genesisModuleOrder else ms)"

record ('req, 'val, 'cp) exported_app =
  xa_AppState :: 'req
  xa_Validators :: "'val list"
  xa_Height :: int64
  xa_ConsensusParams :: 'cp

text \<open>
  \<^verbatim>\<open>ExportAppStateAndValidators\<close>: \<open>prep\<close> is the outcome of \<^verbatim>\<open>prepForZeroHeightGenesis\<close>, which
  works on the stores of staking, distribution and slashing; \<open>MarshalIndent\<close> writes the application
  state; \<open>WriteValidators\<close> returns its list and error together, and so does the export.
\<close>

definition ExportAppStateAndValidators ::
  "'bz chain_codec \<Rightarrow> env \<Rightarrow> string option \<Rightarrow> ((app_module \<rightharpoonup> 'bz) \<Rightarrow> string + 'req) \<Rightarrow> 'val list \<times> string option \<Rightarrow> 'cp \<Rightarrow>
     int64 \<Rightarrow> bool \<Rightarrow> app_module list \<Rightarrow> chain_state \<Rightarrow> chain_panic + ('req, 'val, 'cp) exported_app option \<times> string option" where
  "ExportAppStateAndValidators J E prep MarshalIndent WriteValidators ConsensusParams LastBlockHeight forZeroHeight ms st =
     (let height = LastBlockHeight + 1;
          height = (if forZeroHeight then 0 else height) in
      case (if forZeroHeight then prep else None) of
        Some e \<Rightarrow> Inr (None, Some e)
      | None \<Rightarrow>
          (case manager_ExportGenesis J E (modules_to_export ms) st of
             Inl p \<Rightarrow> Inl p
           | Inr genState \<Rightarrow>
               Inr (case MarshalIndent genState of
                      Inl e \<Rightarrow> (None, Some e)
                    | Inr appState \<Rightarrow>
                        (Some \<lparr>xa_AppState = appState, xa_Validators = fst WriteValidators, xa_Height = height,
                           xa_ConsensusParams = ConsensusParams\<rparr>, snd WriteValidators))))"

section \<open>Facts\<close>

lemma init_json_faithful:
  "json_Unmarshal J bz = Inr gs \<Longrightarrow> init gs st = (None, st') \<Longrightarrow> init_json name J init bz st = (None, st')"
  by (simp add: init_json_def)

lemma marshal_faithful: "json_faithful J gs \<Longrightarrow> \<exists>bz. marshal_or_panic name J gs = Inr bz \<and> json_Unmarshal J bz = Inr gs"
  by (auto simp: json_faithful_def marshal_or_panic_def)

definition custom :: "app_module \<Rightarrow> bool" where
  "custom m \<longleftrightarrow> m \<in> {EnergyM, OracleM, IdentityM, AuditM}"

lemma init_other: "\<not> custom m \<Longrightarrow> init_module J E m data st = (None, st)"
  by (cases m) (simp_all add: custom_def init_module_def)

lemma export_other: "\<not> custom m \<Longrightarrow> export_module J E m st = None"
  by (cases m) (simp_all add: custom_def export_module_def)

lemma init_skips_other:
  "manager_InitGenesis J E (filter custom ms) g st = manager_InitGenesis J E ms g st"
  by (induction ms arbitrary: st) (auto simp: init_other split: option.split prod.split)

lemma export_skips_other:
  "manager_ExportGenesis J E (filter custom ms) st = manager_ExportGenesis J E ms st"
  by (induction ms) (auto simp: export_other split: option.split sum.split)

lemma custom_order: "filter custom genesisModuleOrder = [EnergyM, OracleM, IdentityM, AuditM]"
  by (simp add: genesisModuleOrder_def custom_def)


text \<open>Init of one module on an entry that its codec reads back.\<close>

lemma init_module_custom:
  "json_Unmarshal (cc_energy J) bz = Inr eg \<Longrightarrow> energy_InitGenesis E eg (ch_energy st) = (None, e') \<Longrightarrow>
    init_module J E EnergyM bz st = (None, st\<lparr>ch_energy := e'\<rparr>)"
  "json_Unmarshal (cc_oracle J) bz = Inr og \<Longrightarrow> oracle_InitGenesis E og (ch_oracle st) = (None, o') \<Longrightarrow>
    init_module J E OracleM bz st = (None, st\<lparr>ch_oracle := o'\<rparr>)"
  "json_Unmarshal (cc_identity J) bz = Inr ig \<Longrightarrow> identity_InitGenesis E ig (ch_identity st) = (None, i') \<Longrightarrow>
    init_module J E IdentityM bz st = (None, st\<lparr>ch_identity := i'\<rparr>)"
  "json_Unmarshal (cc_audit J) bz = Inr ag \<Longrightarrow> audit_InitGenesis E ag (ch_audit st) = (None, a') \<Longrightarrow>
    init_module J E AuditM bz st = (None, st\<lparr>ch_audit := a'\<rparr>)"
  by (simp_all add: init_module_def energy_module_InitGenesis_def oracle_module_InitGenesis_def
      identity_module_InitGenesis_def audit_module_InitGenesis_def init_json_def)

definition chain_faithful :: "'bz chain_codec \<Rightarrow> env \<Rightarrow> chain_state \<Rightarrow> bool" where
  "chain_faithful J E st \<longleftrightarrow>
     json_faithful (cc_energy J) (energy_ExportGenesis E (ch_energy st)) \<and>
     json_faithful (cc_oracle J) (oracle_ExportGenesis E (ch_oracle st)) \<and>
     json_faithful (cc_identity J) (identity_ExportGenesis E (ch_identity st)) \<and>
     json_faithful (cc_audit J) (audit_ExportGenesis E (ch_audit st))"

lemma export_faithful:
  assumes "chain_faithful J E st"
  obtains be bo bi ba where
    "manager_ExportGenesis J E genesisModuleOrder st =
       Inr ((((Map.empty(AuditM \<mapsto> ba))(IdentityM \<mapsto> bi))(OracleM \<mapsto> bo))(EnergyM \<mapsto> be))"
    "json_Unmarshal (cc_energy J) be = Inr (energy_ExportGenesis E (ch_energy st))"
    "json_Unmarshal (cc_oracle J) bo = Inr (oracle_ExportGenesis E (ch_oracle st))"
    "json_Unmarshal (cc_identity J) bi = Inr (identity_ExportGenesis E (ch_identity st))"
    "json_Unmarshal (cc_audit J) ba = Inr (audit_ExportGenesis E (ch_audit st))"
proof -
  obtain be bo bi ba where
    m: "json_Marshal (cc_energy J) (energy_ExportGenesis E (ch_energy st)) = Inr be"
      "json_Marshal (cc_oracle J) (oracle_ExportGenesis E (ch_oracle st)) = Inr bo"
      "json_Marshal (cc_identity J) (identity_ExportGenesis E (ch_identity st)) = Inr bi"
      "json_Marshal (cc_audit J) (audit_ExportGenesis E (ch_audit st)) = Inr ba"
    and u: "json_Unmarshal (cc_energy J) be = Inr (energy_ExportGenesis E (ch_energy st))"
      "json_Unmarshal (cc_oracle J) bo = Inr (oracle_ExportGenesis E (ch_oracle st))"
      "json_Unmarshal (cc_identity J) bi = Inr (identity_ExportGenesis E (ch_identity st))"
      "json_Unmarshal (cc_audit J) ba = Inr (audit_ExportGenesis E (ch_audit st))"
    using assms unfolding chain_faithful_def json_faithful_def by blast
  have "manager_ExportGenesis J E (filter custom genesisModuleOrder) st =
      Inr ((((Map.empty(AuditM \<mapsto> ba))(IdentityM \<mapsto> bi))(OracleM \<mapsto> bo))(EnergyM \<mapsto> be))"
    by (simp add: custom_order export_module_def energy_module_ExportGenesis_def oracle_module_ExportGenesis_def
        identity_module_ExportGenesis_def audit_module_ExportGenesis_def marshal_or_panic_def m)
  then show ?thesis using u that by (simp add: export_skips_other)
qed

definition chain_wf :: "chain_state \<Rightarrow> bool" where
  "chain_wf st \<longleftrightarrow> energy_wf (ch_energy st) \<and> oracle_wf (ch_oracle st) \<and> identity_wf (ch_identity st) \<and> audit_wf (ch_audit st)"

section \<open>Properties\<close>


text \<open>A codec that keeps the genesis states as they are, over a well-formed sample chain.\<close>

datatype sample_json = SEnergy energy_GenesisState | SOracle oracle_GenesisState | SIdentity identity_GenesisState | SAudit audit_GenesisState

definition sample_chain_codec :: "sample_json chain_codec" where
  "sample_chain_codec = \<lparr>
     cc_energy = \<lparr>json_Marshal = \<lambda>gs. Inr (SEnergy gs), json_Unmarshal = \<lambda>b. case b of SEnergy gs \<Rightarrow> Inr gs | _ \<Rightarrow> Inl ''json''\<rparr>,
     cc_oracle = \<lparr>json_Marshal = \<lambda>gs. Inr (SOracle gs), json_Unmarshal = \<lambda>b. case b of SOracle gs \<Rightarrow> Inr gs | _ \<Rightarrow> Inl ''json''\<rparr>,
     cc_identity = \<lparr>json_Marshal = \<lambda>gs. Inr (SIdentity gs), json_Unmarshal = \<lambda>b. case b of SIdentity gs \<Rightarrow> Inr gs | _ \<Rightarrow> Inl ''json''\<rparr>,
     cc_audit = \<lparr>json_Marshal = \<lambda>gs. Inr (SAudit gs), json_Unmarshal = \<lambda>b. case b of SAudit gs \<Rightarrow> Inr gs | _ \<Rightarrow> Inl ''json''\<rparr>\<rparr>"

definition sample_chain :: chain_state where
  "sample_chain = \<lparr>ch_energy = energy_run sample_env ''gov'' sample_txs energy_empty, ch_oracle = sample_oracle_state,
     ch_identity = sample_registry, ch_audit = audit_run sample_env ''gov'' sample_audit_txs audit_empty\<rparr>"

lemma sample_chain_wf: "chain_wf sample_chain"
  by (simp add: chain_wf_def sample_chain_def sample_oracle_wf sample_registry_wf energy_run_wf energy_wf_empty
      audit_run_wf [OF sample_readable audit_wf_empty])


end
