(* ===== verification/ZeroHeight.thy ===== *)
theory ZeroHeight
  imports GoPrelude
begin

text \<open>
  \<^verbatim>\<open>prepForZeroHeightGenesis\<close> of \<^verbatim>\<open>export.go\<close>.  The stores of staking and slashing that it rewrites are
  lists in store order; the state \<open>'d\<close> of the distribution keeper and its operations are arguments, as
  are the faults of the stores.
\<close>

section \<open>State and libraries\<close>

record validator =
  vl_Operator :: string
  vl_Jailed :: bool
  vl_UnbondingHeight :: int64

record delegation =
  dg_Delegator :: string
  dg_Validator :: string

text \<open>Redelegations and unbonding delegations: their key and the creation heights of their entries.\<close>

record 'd zh_state =
  zh_distr :: 'd
  zh_validators :: "(bytes \<times> validator) list"
  zh_redelegations :: "(bytes \<times> int64 list) list"
  zh_unbondings :: "(bytes \<times> int64 list) list"
  zh_infos :: "(bytes \<times> int64) list"

record ('d, 'coins, 'pool) distr_lib =
  dl_WithdrawValidatorCommission :: "bytes \<Rightarrow> 'd \<Rightarrow> 'd"
  dl_WithdrawDelegationRewards :: "bytes \<Rightarrow> bytes \<Rightarrow> 'd \<Rightarrow> 'd"
  dl_BeforeDelegationCreated :: "bytes \<Rightarrow> bytes \<Rightarrow> 'd \<Rightarrow> string option \<times> 'd"
  dl_AfterDelegationModified :: "bytes \<Rightarrow> bytes \<Rightarrow> 'd \<Rightarrow> string option \<times> 'd"
  dl_DeleteAllValidatorSlashEvents :: "'d \<Rightarrow> 'd"
  dl_DeleteAllValidatorHistoricalRewards :: "'d \<Rightarrow> 'd"
  dl_GetValidatorOutstandingRewardsCoins :: "bytes \<Rightarrow> 'd \<Rightarrow> string + 'coins"
  dl_FeePool_Get :: "'d \<Rightarrow> string + 'pool"
  dl_AddCommunityPool :: "'coins \<Rightarrow> 'pool \<Rightarrow> 'pool"
  dl_FeePool_Set :: "'pool \<Rightarrow> 'd \<Rightarrow> string option \<times> 'd"
  dl_AfterValidatorCreated :: "int64 \<Rightarrow> bytes \<Rightarrow> 'd \<Rightarrow> string option \<times> 'd"

record stake_lib =
  kl_ValAddressFromBech32 :: "string \<Rightarrow> string + bytes"
  kl_AccAddressFromBech32 :: "string \<Rightarrow> string + bytes"
  kl_ValAddressString :: "bytes \<Rightarrow> string"
  kl_GetAllDelegations :: "string + delegation list"
  kl_IterateValidators :: "nat \<Rightarrow> string option"
  kl_IterateRedelegations :: "string option"
  kl_SetRedelegation :: "bytes \<Rightarrow> string option"
  kl_IterateUnbondingDelegations :: "string option"
  kl_SetUnbondingDelegation :: "bytes \<Rightarrow> string option"
  kl_GetValidator :: "bytes \<Rightarrow> string option"
  kl_SetValidator :: "bytes \<Rightarrow> string option"
  kl_IterClose :: "string option"
  kl_ApplyValidatorSetUpdates :: "string option"
  kl_IterateSigningInfos :: "string option"
  kl_SetSigningInfo :: "bytes \<Rightarrow> string option"

text \<open>\<open>kl_IterateValidators\<close> is the outcome of the first and of the second iteration.\<close>

text \<open>How the preparation ends; \<^verbatim>\<open>log.Fatal\<close> exits the process.\<close>

datatype zh_result = ZDone | ZErr string | ZFatal string | ZPanic string

definition ended :: "string option \<Rightarrow> (string \<Rightarrow> zh_result) \<Rightarrow> zh_result" where
  "ended e how = (case e of None \<Rightarrow> ZDone | Some m \<Rightarrow> how m)"

definition and_then :: "zh_result \<times> 's \<Rightarrow> ('s \<Rightarrow> zh_result \<times> 's) \<Rightarrow> zh_result \<times> 's" where
  "and_then rs k = (if fst rs = ZDone then k (snd rs) else rs)"

section \<open>Distribution\<close>

text \<open>\<^verbatim>\<open>sdk.ValAddress(val.GetOperator())\<close> converts the bytes of the operator string as they are.\<close>

definition ValAddress :: "string \<Rightarrow> bytes" where
  "ValAddress s = s"

fun check_allowed :: "stake_lib \<Rightarrow> string list \<Rightarrow> zh_result" where
  "check_allowed K [] = ZDone"
| "check_allowed K (a # as) = (case kl_ValAddressFromBech32 K a of Inl e \<Rightarrow> ZFatal e | Inr _ \<Rightarrow> check_allowed K as)"

definition withdraw_commissions :: "('d, 'coins, 'pool) distr_lib \<Rightarrow> validator list \<Rightarrow> 'd \<Rightarrow> 'd" where
  "withdraw_commissions D vals d = fold (\<lambda>v. dl_WithdrawValidatorCommission D (ValAddress (vl_Operator v))) vals d"

fun withdraw_rewards :: "stake_lib \<Rightarrow> ('d, 'coins, 'pool) distr_lib \<Rightarrow> delegation list \<Rightarrow> 'd \<Rightarrow> zh_result \<times> 'd" where
  "withdraw_rewards K D [] d = (ZDone, d)"
| "withdraw_rewards K D (del # dels) d =
     (case kl_ValAddressFromBech32 K (dg_Validator del) of
        Inl e \<Rightarrow> (ZPanic e, d)
      | Inr valAddr \<Rightarrow>
          (case kl_AccAddressFromBech32 K (dg_Delegator del) of
             Inl e \<Rightarrow> (ZPanic e, d)
           | Inr delAddr \<Rightarrow> withdraw_rewards K D dels (dl_WithdrawDelegationRewards D delAddr valAddr d)))"

fun reinit_delegations :: "stake_lib \<Rightarrow> ('d, 'coins, 'pool) distr_lib \<Rightarrow> delegation list \<Rightarrow> 'd \<Rightarrow> zh_result \<times> 'd" where
  "reinit_delegations K D [] d = (ZDone, d)"
| "reinit_delegations K D (del # dels) d =
     (case kl_ValAddressFromBech32 K (dg_Validator del) of
        Inl e \<Rightarrow> (ZPanic e, d)
      | Inr valAddr \<Rightarrow>
          (case kl_AccAddressFromBech32 K (dg_Delegator del) of
             Inl e \<Rightarrow> (ZPanic e, d)
           | Inr delAddr \<Rightarrow>
               (case dl_BeforeDelegationCreated D delAddr valAddr d of
                  (Some e, d1) \<Rightarrow> (ZPanic (''error while incrementing period: '' @ e), d1)
                | (None, d1) \<Rightarrow>
                    (case dl_AfterDelegationModified D delAddr valAddr d1 of
                       (Some e, d2) \<Rightarrow> (ZPanic (''error while creating a new delegation period record: '' @ e), d2)
                     | (None, d2) \<Rightarrow> reinit_delegations K D dels d2))))"

text \<open>
  The callback that reinitialises the validators at height 0: its errors only stop the iteration, they
  are not returned.
\<close>

fun reinit_validators :: "('d, 'coins, 'pool) distr_lib \<Rightarrow> validator list \<Rightarrow> 'd \<Rightarrow> 'd" where
  "reinit_validators D [] d = d"
| "reinit_validators D (v # vs) d =
     (case dl_GetValidatorOutstandingRewardsCoins D (ValAddress (vl_Operator v)) d of
        Inl e \<Rightarrow> d
      | Inr scraps \<Rightarrow>
          (case dl_FeePool_Get D d of
             Inl e \<Rightarrow> d
           | Inr feePool \<Rightarrow>
               (case dl_FeePool_Set D (dl_AddCommunityPool D scraps feePool) d of
                  (Some e, d1) \<Rightarrow> d1
                | (None, d1) \<Rightarrow>
                    (case dl_AfterValidatorCreated D 0 (ValAddress (vl_Operator v)) d1 of
                       (Some e, d2) \<Rightarrow> d2
                     | (None, d2) \<Rightarrow> reinit_validators D vs d2))))"

section \<open>Staking and slashing\<close>

text \<open>Resetting creation heights up to the first write that fails, whose error is kept.\<close>

fun reset_entries :: "(bytes \<Rightarrow> string option) \<Rightarrow> (bytes \<times> int64 list) list \<Rightarrow> string option \<times> (bytes \<times> int64 list) list" where
  "reset_entries fault [] = (None, [])"
| "reset_entries fault ((k, hs) # rs) =
     (case fault k of
        Some e \<Rightarrow> (Some e, (k, hs) # rs)
      | None \<Rightarrow> (case reset_entries fault rs of (e, rs') \<Rightarrow> (e, (k, map (\<lambda>_. 0) hs) # rs')))"

text \<open>The loop over the validators runs from the greatest key down.\<close>

fun reset_validators ::
  "stake_lib \<Rightarrow> bool \<Rightarrow> string set \<Rightarrow> (bytes \<times> validator) list \<Rightarrow> string option \<times> (bytes \<times> validator) list" where
  "reset_validators K applyAllowed allowed [] = (None, [])"
| "reset_validators K applyAllowed allowed ((addr, v) # vs) =
     (case kl_GetValidator K addr of
        Some e \<Rightarrow> (Some (''expected validator not found: '' @ e), (addr, v) # vs)
      | None \<Rightarrow>
          let v1 = v\<lparr>vl_UnbondingHeight := 0\<rparr>;
              v2 = (if applyAllowed \<and> kl_ValAddressString K addr \<notin> allowed then v1\<lparr>vl_Jailed := True\<rparr> else v1) in
          (case kl_SetValidator K addr of
             Some e \<Rightarrow> (Some e, (addr, v) # vs)
           | None \<Rightarrow> (case reset_validators K applyAllowed allowed vs of (e, vs') \<Rightarrow> (e, (addr, v2) # vs'))))"

fun reset_infos :: "(bytes \<Rightarrow> string option) \<Rightarrow> (bytes \<times> int64) list \<Rightarrow> string option \<times> (bytes \<times> int64) list" where
  "reset_infos fault [] = (None, [])"
| "reset_infos fault ((a, h) # is) =
     (case fault a of
        Some e \<Rightarrow> (Some e, (a, h) # is)
      | None \<Rightarrow> (case reset_infos fault is of (e, is') \<Rightarrow> (e, (a, 0) # is')))"

section \<open>The preparation\<close>

definition prep_distribution ::
  "stake_lib \<Rightarrow> ('d, 'coins, 'pool) distr_lib \<Rightarrow> 'd zh_state \<Rightarrow> zh_result \<times> 'd zh_state" where
  "prep_distribution K D st =
     (let vals = map snd (zh_validators st);
          st1 = st\<lparr>zh_distr := withdraw_commissions D vals (zh_distr st)\<rparr> in
      case kl_IterateValidators K 0 of
        Some e \<Rightarrow> (ZErr e, st1)
      | None \<Rightarrow>
          (case kl_GetAllDelegations K of
             Inl e \<Rightarrow> (ZErr e, st1)
           | Inr dels \<Rightarrow>
               (case and_then (withdraw_rewards K D dels (zh_distr st1)) (reinit_delegations K D dels) of
                  (r, d2) \<Rightarrow>
                    if r \<noteq> ZDone then (r, st1\<lparr>zh_distr := d2\<rparr>)
                    else
                      let d3 = dl_DeleteAllValidatorHistoricalRewards D (dl_DeleteAllValidatorSlashEvents D d2);
                          d4 = reinit_validators D vals d3 in
                      (ended (kl_IterateValidators K 1) ZErr, st1\<lparr>zh_distr := d4\<rparr>))))"

definition prep_staking ::
  "stake_lib \<Rightarrow> string list \<Rightarrow> 'd zh_state \<Rightarrow> zh_result \<times> 'd zh_state" where
  "prep_staking K jailAllowedAddrs st =
     (case reset_entries (kl_SetRedelegation K) (zh_redelegations st) of
        (iterErr, reds) \<Rightarrow>
          let st1 = st\<lparr>zh_redelegations := reds\<rparr> in
          and_then (ended (kl_IterateRedelegations K) ZErr, st1) (\<lambda>st1.
          and_then (ended iterErr ZErr, st1) (\<lambda>st1.
            (case reset_entries (kl_SetUnbondingDelegation K) (zh_unbondings st1) of
               (iterErr, ubds) \<Rightarrow>
                 let st2 = st1\<lparr>zh_unbondings := ubds\<rparr> in
                 and_then (ended (kl_IterateUnbondingDelegations K) ZErr, st2) (\<lambda>st2.
                 and_then (ended iterErr ZErr, st2) (\<lambda>st2.
                   (case reset_validators K (jailAllowedAddrs \<noteq> []) (set jailAllowedAddrs) (rev (zh_validators st2)) of
                      (err, vals) \<Rightarrow> (ended err ZErr, st2\<lparr>zh_validators := rev vals\<rparr>))))))))"

definition prep_slashing :: "stake_lib \<Rightarrow> 'd zh_state \<Rightarrow> zh_result \<times> 'd zh_state" where
  "prep_slashing K st =
     (case reset_infos (kl_SetSigningInfo K) (zh_infos st) of
        (iterErr, infos) \<Rightarrow>
          let st1 = st\<lparr>zh_infos := infos\<rparr> in
          and_then (ended (kl_IterateSigningInfos K) ZErr, st1) (\<lambda>st1. (ended iterErr ZErr, st1)))"

text \<open>An error of \<^verbatim>\<open>iter.Close\<close> is logged, and the preparation ends there without an error.\<close>

definition prepForZeroHeightGenesis ::
  "stake_lib \<Rightarrow> ('d, 'coins, 'pool) distr_lib \<Rightarrow> string list \<Rightarrow> 'd zh_state \<Rightarrow> zh_result \<times> 'd zh_state" where
  "prepForZeroHeightGenesis K D jailAllowedAddrs st =
     and_then (check_allowed K jailAllowedAddrs, st) (\<lambda>st.
     and_then (prep_distribution K D st) (\<lambda>st.
     and_then (prep_staking K jailAllowedAddrs st) (\<lambda>st.
       if kl_IterClose K \<noteq> None then (ZDone, st)
       else
         and_then (ended (kl_ApplyValidatorSetUpdates K) ZFatal, st) (prep_slashing K))))"

section \<open>Facts\<close>

lemma ended_Done [simp]: "(\<And>e. how e \<noteq> ZDone) \<Longrightarrow> ended m how = ZDone \<longleftrightarrow> m = None"
  by (auto simp: ended_def split: option.split)

lemma and_then_Done: "and_then rs k = (ZDone, s') \<longleftrightarrow> fst rs = ZDone \<and> k (snd rs) = (ZDone, s')"
  by (cases rs) (auto simp: and_then_def)

lemma reset_entries_done:
  "reset_entries fault rs = (None, rs') \<Longrightarrow> rs' = map (\<lambda>(k, hs). (k, map (\<lambda>_. 0) hs)) rs"
  by (induction rs arbitrary: rs') (auto split: option.splits prod.splits)

lemma reset_infos_done: "reset_infos fault is = (None, is') \<Longrightarrow> is' = map (\<lambda>(a, h). (a, 0)) is"
  by (induction "is" arbitrary: is') (auto split: option.splits prod.splits)

definition reset_validator :: "stake_lib \<Rightarrow> string list \<Rightarrow> bytes \<Rightarrow> validator \<Rightarrow> validator" where
  "reset_validator K allowed addr v =
     v\<lparr>vl_UnbondingHeight := 0, vl_Jailed := vl_Jailed v \<or> allowed \<noteq> [] \<and> kl_ValAddressString K addr \<notin> set allowed\<rparr>"

lemma reset_validators_done:
  "reset_validators K (allowed \<noteq> []) (set allowed) vs = (None, vs') \<Longrightarrow>
    vs' = map (\<lambda>(a, v). (a, reset_validator K allowed a v)) vs"
proof (induction vs arbitrary: vs')
  case (Cons av vs)
  obtain a v where "av = (a, v)" by (cases av)
  with Cons show ?case
    by (cases "allowed \<noteq> [] \<and> kl_ValAddressString K a \<notin> set allowed")
      (auto simp: reset_validator_def Let_def split: option.splits prod.splits)
qed simp

lemma prep_distribution_frame:
  "prep_distribution K D st = (r, st') \<Longrightarrow>
    zh_validators st' = zh_validators st \<and> zh_redelegations st' = zh_redelegations st \<and>
    zh_unbondings st' = zh_unbondings st \<and> zh_infos st' = zh_infos st"
  by (auto simp: prep_distribution_def Let_def split: option.splits sum.splits prod.splits if_splits)

lemma prep_staking_done:
  assumes "prep_staking K allowed st = (ZDone, st')"
  shows "zh_redelegations st' = map (\<lambda>(k, hs). (k, map (\<lambda>_. 0) hs)) (zh_redelegations st)"
    and "zh_unbondings st' = map (\<lambda>(k, hs). (k, map (\<lambda>_. 0) hs)) (zh_unbondings st)"
    and "zh_validators st' = map (\<lambda>(a, v). (a, reset_validator K allowed a v)) (zh_validators st)"
    and "zh_infos st' = zh_infos st"
  using assms
  by (auto simp: prep_staking_def and_then_Done Let_def rev_map [symmetric]
      dest!: reset_entries_done reset_validators_done split: prod.splits)

lemma prep_slashing_done:
  assumes "prep_slashing K st = (ZDone, st')"
  shows "zh_infos st' = map (\<lambda>(a, h). (a, 0)) (zh_infos st)" and "zh_validators st' = zh_validators st"
    and "zh_redelegations st' = zh_redelegations st" and "zh_unbondings st' = zh_unbondings st"
  using assms
  by (auto simp: prep_slashing_def and_then_Done Let_def dest!: reset_infos_done split: prod.splits)


section \<open>Properties\<close>


definition sample_distr :: "(bytes list, unit, unit) distr_lib" where
  "sample_distr = \<lparr>
     dl_WithdrawValidatorCommission = (\<lambda>a d. d @ [a]), dl_WithdrawDelegationRewards = (\<lambda>_ _ d. d),
     dl_BeforeDelegationCreated = (\<lambda>_ _ d. (None, d)), dl_AfterDelegationModified = (\<lambda>_ _ d. (None, d)),
     dl_DeleteAllValidatorSlashEvents = id, dl_DeleteAllValidatorHistoricalRewards = id,
     dl_GetValidatorOutstandingRewardsCoins = (\<lambda>_ _. Inr ()), dl_FeePool_Get = (\<lambda>_. Inr ()),
     dl_AddCommunityPool = (\<lambda>_ p. p), dl_FeePool_Set = (\<lambda>_ d. (None, d)), dl_AfterValidatorCreated = (\<lambda>_ _ d. (None, d))\<rparr>"

definition sample_stake :: stake_lib where
  "sample_stake = \<lparr>
     kl_ValAddressFromBech32 = (\<lambda>s. Inr (drop 3 s)), kl_AccAddressFromBech32 = Inr, kl_ValAddressString = (\<lambda>a. ''val'' @ a),
     kl_GetAllDelegations = Inr [], kl_IterateValidators = (\<lambda>_. None), kl_IterateRedelegations = None,
     kl_SetRedelegation = (\<lambda>_. None), kl_IterateUnbondingDelegations = None, kl_SetUnbondingDelegation = (\<lambda>_. None),
     kl_GetValidator = (\<lambda>_. None), kl_SetValidator = (\<lambda>_. None), kl_IterClose = None, kl_ApplyValidatorSetUpdates = None,
     kl_IterateSigningInfos = None, kl_SetSigningInfo = (\<lambda>_. None)\<rparr>"

definition sample_staking :: "bytes list zh_state" where
  "sample_staking = \<lparr>zh_distr = [],
     zh_validators = [(''a'', \<lparr>vl_Operator = ''vala'', vl_Jailed = False, vl_UnbondingHeight = 7\<rparr>),
       (''b'', \<lparr>vl_Operator = ''valb'', vl_Jailed = False, vl_UnbondingHeight = 9\<rparr>)],
     zh_redelegations = [(''r'', [5, 6])], zh_unbondings = [], zh_infos = [(''a'', 3)]\<rparr>"


text \<open>
  When closing the iterator fails, the preparation still reports no error, although it has skipped the
  update of the validator set and left the signing infos as they were.
\<close>
theorem zero_height_close_error_silent:
  assumes "check_allowed K allowed = ZDone" and "prep_distribution K D st = (ZDone, st1)"
    and "prep_staking K allowed st1 = (ZDone, st2)" and "kl_IterClose K = Some e"
  shows "prepForZeroHeightGenesis K D allowed st = (ZDone, st2) \<and> zh_infos st2 = zh_infos st"
  using assms prep_distribution_frame [OF assms(2)] prep_staking_done [OF assms(3)]
  by (simp add: prepForZeroHeightGenesis_def and_then_def)

text \<open>
  The distribution keeper is called with the text of the operator addresses: on the sample, where the
  validators' addresses are the decoded texts, no commission is withdrawn from either of them.
\<close>
theorem zero_height_addresses_not_decoded:
  "zh_distr (snd (prepForZeroHeightGenesis sample_stake sample_distr [] sample_staking)) = [''vala'', ''valb''] \<and>
   map fst (zh_validators sample_staking) = [''a'', ''b'']"
  by code_simp

end
