(* ===== verification/ClientCli.thy ===== *)
theory ClientCli
  imports Merkle EnergyMsgServer OracleTypes IdentityTypes AuditTypes
begin

text \<open>
  The transaction commands of the four modules (\<^verbatim>\<open>client/cli/tx.go\<close>): how the arguments become
  messages.  \<open>sender\<close> is the client context's outcome, the \<^verbatim>\<open>--from\<close> address or its error; signing and
  broadcasting the message is the SDK's.  JSON decoding of the batch items is an argument.
\<close>

section \<open>Arguments\<close>

datatype cli_error = CliArgs nat | CliContext string | CliItems string

text \<open>\<^verbatim>\<open>cobra.RangeArgs\<close> (or \<^verbatim>\<open>ExactArgs\<close>) and then the client context.\<close>

definition run_command :: "nat \<Rightarrow> nat \<Rightarrow> string + string \<Rightarrow> (string \<Rightarrow> string list \<Rightarrow> cli_error + 'msg) \<Rightarrow> string list \<Rightarrow> cli_error + 'msg" where
  "run_command lo hi sender body args =
     (if length args < lo \<or> hi < length args then Inl (CliArgs (length args))
      else case sender of Inl e \<Rightarrow> Inl (CliContext e) | Inr addr \<Rightarrow> body addr args)"

definition optional_arg :: "string list \<Rightarrow> nat \<Rightarrow> string" where
  "optional_arg args n = (if length args = n + 1 then args ! n else [])"

section \<open>x/energy\<close>

definition isHexDigit :: "char \<Rightarrow> bool" where
  "isHexDigit c \<longleftrightarrow> CHR ''0'' \<le> c \<and> c \<le> CHR ''9'' \<or> CHR ''a'' \<le> c \<and> c \<le> CHR ''f'' \<or> CHR ''A'' \<le> c \<and> c \<le> CHR ''F''"

definition isHex :: "string \<Rightarrow> bool" where
  "isHex s = (if length s mod 2 \<noteq> 0 \<or> length s = 0 then False else list_all isHexDigit s)"

definition normaliseHex :: "string \<Rightarrow> string" where
  "normaliseHex s =
     (let s = TrimSpace s in
      if s = [] then s
      else if HasPrefix s ''0x'' \<or> HasPrefix s ''0X'' then s
      else if isHex s then ''0x'' @ s
      else s)"

text \<open>
  \<open>UnmarshalRich\<close> reads an array of objects, as pairs of data hash and metadata; \<open>UnmarshalHashes\<close>
  an array of strings.
\<close>

definition parseBatchItems ::
  "(string \<Rightarrow> string + (string \<times> string) list) \<Rightarrow> (string \<Rightarrow> string + string list) \<Rightarrow> string \<Rightarrow> string + BatchItem list" where
  "parseBatchItems UnmarshalRich UnmarshalHashes raw0 =
     (let raw = TrimSpace raw0;
          plain = (case UnmarshalHashes raw of
              Inl e \<Rightarrow> Inl (''invalid items json: '' @ e)
            | Inr hashes \<Rightarrow> Inr (map (\<lambda>h. \<lparr>bi_DataHash = normaliseHex h, bi_Metadata = []\<rparr>) hashes)) in
      if raw = [] \<or> raw = ''[]'' then Inr []
      else
        (case UnmarshalRich raw of
           Inl _ \<Rightarrow> plain
         | Inr rich \<Rightarrow>
             if length rich > 0 \<and> fst (rich ! 0) \<noteq> []
             then Inr (map (\<lambda>(dataHash, metadata). \<lparr>bi_DataHash = normaliseHex dataHash, bi_Metadata = metadata\<rparr>) rich)
             else plain))"

definition cli_energy_submit :: "string + string \<Rightarrow> string list \<Rightarrow> cli_error + MsgSubmitEnergyData" where
  "cli_energy_submit sender =
     run_command 2 3 sender (\<lambda>addr args. Inr
       \<lparr>ms_Submitter = addr, ms_Category = args ! 0, ms_DataHash = normaliseHex (args ! 1), ms_Metadata = optional_arg args 2\<rparr>)"

definition cli_energy_batch_submit ::
  "(string \<Rightarrow> string + (string \<times> string) list) \<Rightarrow> (string \<Rightarrow> string + string list) \<Rightarrow> string + string \<Rightarrow> string \<Rightarrow> string list \<Rightarrow>
     cli_error + MsgBatchSubmit" where
  "cli_energy_batch_submit UnmarshalRich UnmarshalHashes sender itemsRaw =
     run_command 2 2 sender (\<lambda>addr args.
       case parseBatchItems UnmarshalRich UnmarshalHashes itemsRaw of
         Inl e \<Rightarrow> Inl (CliItems e)
       | Inr items \<Rightarrow> Inr
           \<lparr>mb_Submitter = addr, mb_Category = args ! 0, mb_Items = items, mb_MerkleRoot = normaliseHex (args ! 1)\<rparr>)"

section \<open>x/oracle\<close>

text \<open>\<open>now\<close> is the client's clock, used when the flag is 0.\<close>

definition cli_oracle_submit :: "string + string \<Rightarrow> int64 \<Rightarrow> int64 \<Rightarrow> string list \<Rightarrow> cli_error + MsgSubmitData" where
  "cli_oracle_submit sender timestamp now =
     run_command 2 3 sender (\<lambda>addr args. Inr
       \<lparr>od_ms_Submitter = addr, od_ms_Category = TrimSpace (args ! 0), od_ms_Value = TrimSpace (args ! 1),
        od_ms_Metadata = optional_arg args 2, od_ms_Timestamp = (if timestamp = 0 then now else timestamp)\<rparr>)"

definition cli_oracle_add :: "string + string \<Rightarrow> string list \<Rightarrow> string list \<Rightarrow> cli_error + MsgAddOracle" where
  "cli_oracle_add sender cats =
     run_command 1 2 sender (\<lambda>addr args. Inr
       \<lparr>ma_Authority = addr, ma_OracleAddress = TrimSpace (args ! 0), ma_Name = optional_arg args 1, ma_AuthorizedCategories = cats\<rparr>)"

definition cli_oracle_remove :: "string + string \<Rightarrow> string list \<Rightarrow> cli_error + MsgRemoveOracle" where
  "cli_oracle_remove sender =
     run_command 1 1 sender (\<lambda>addr args. Inr \<lparr>mr_Authority = addr, mr_OracleAddress = TrimSpace (args ! 0)\<rparr>)"

section \<open>x/identity\<close>

definition cli_identity_register :: "string + string \<Rightarrow> string list \<Rightarrow> cli_error + MsgRegisterIdentity" where
  "cli_identity_register sender =
     run_command 3 4 sender (\<lambda>addr args. Inr
       \<lparr>rg_Creator = addr, rg_Address = TrimSpace (args ! 0), rg_Name = args ! 1, rg_Role = args ! 2, rg_Metadata = optional_arg args 3\<rparr>)"

definition cli_identity_update :: "string + string \<Rightarrow> string list \<Rightarrow> cli_error + MsgUpdateIdentity" where
  "cli_identity_update sender =
     run_command 2 3 sender (\<lambda>addr args. Inr
       \<lparr>up_Creator = addr, up_Address = TrimSpace (args ! 0), up_Name = args ! 1, up_Metadata = optional_arg args 2\<rparr>)"

definition cli_identity_revoke :: "string + string \<Rightarrow> string list \<Rightarrow> cli_error + MsgRevokeIdentity" where
  "cli_identity_revoke sender =
     run_command 1 2 sender (\<lambda>addr args. Inr
       \<lparr>rv_Creator = addr, rv_Address = TrimSpace (args ! 0), rv_Reason = optional_arg args 1\<rparr>)"

section \<open>x/audit\<close>

definition cli_audit_record :: "string + string \<Rightarrow> string list \<Rightarrow> cli_error + MsgRecordAudit" where
  "cli_audit_record sender =
     run_command 3 4 sender (\<lambda>addr args. Inr
       \<lparr>ra_Creator = addr, ra_EventType = TrimSpace (args ! 0), ra_Target = TrimSpace (args ! 1), ra_Action = TrimSpace (args ! 2),
        ra_Data = optional_arg args 3\<rparr>)"

section \<open>Facts\<close>

lemma hex_not_space: "isHexDigit c \<Longrightarrow> \<not> is_space c"
  by (auto simp: isHexDigit_def is_space_def less_eq_char_def)

lemma hex_digit_not_x: "isHexDigit c \<Longrightarrow> c \<noteq> CHR ''x'' \<and> c \<noteq> CHR ''X''"
  by (auto simp: isHexDigit_def less_eq_char_def)

lemma of_char_of_eq_small: "n < 256 \<Longrightarrow> of_char (char_of (n :: nat)) = n"
  by (simp add: of_char_of take_bit_eq_mod)

text \<open>A string is trimmed when it neither starts nor ends with a space.\<close>

lemma trimmed_iff: "TrimSpace s = s \<longleftrightarrow> s = [] \<or> \<not> is_space (hd s) \<and> \<not> is_space (last s)"
proof
  assume t: "TrimSpace s = s"
  show "s = [] \<or> \<not> is_space (hd s) \<and> \<not> is_space (last s)"
  proof (rule disjCI)
    assume n: "\<not> (\<not> is_space (hd s) \<and> \<not> is_space (last s))"
    show "s = []"
    proof (rule ccontr)
      assume s: "s \<noteq> []"
      have le: "length (TrimSpace s) \<le> length (dropWhile is_space s)" "length (dropWhile is_space s) \<le> length s"
        using length_dropWhile_le [of is_space "rev (dropWhile is_space s)"] length_dropWhile_le [of is_space s]
        by (simp_all add: TrimSpace_def)
      show False
      proof (cases "is_space (hd s)")
        case True
        then have "length (dropWhile is_space s) < length s"
          using s length_dropWhile_le [of is_space "tl s"] by (cases s) auto
        then show False using le t by simp
      next
        case False
        then have "dropWhile is_space s = s" using s by (cases s) auto
        moreover have "length (dropWhile is_space (rev s)) < length s"
          using n False s length_dropWhile_le [of is_space "tl (rev s)"] by (cases "rev s") (auto simp: hd_rev)
        ultimately show False using t by (simp add: TrimSpace_def) (metis length_rev less_irrefl)
      qed
    qed
  qed
next
  assume "s = [] \<or> \<not> is_space (hd s) \<and> \<not> is_space (last s)"
  then show "TrimSpace s = s"
  proof
    assume a: "\<not> is_space (hd s) \<and> \<not> is_space (last s)"
    then have "dropWhile is_space s = s" by (cases s) auto
    moreover have "dropWhile is_space (rev s) = rev s" using a by (cases "rev s") (auto simp: last_rev [symmetric] dest: arg_cong [of _ _ rev])
    ultimately show ?thesis by (simp add: TrimSpace_def)
  qed (simp add: TrimSpace_def)
qed


lemma dropWhile_hd: "dropWhile P s \<noteq> [] \<Longrightarrow> \<not> P (hd (dropWhile P s))"
  by (metis hd_dropWhile)

lemma TrimSpace_ends: "TrimSpace s \<noteq> [] \<Longrightarrow> \<not> is_space (hd (TrimSpace s)) \<and> \<not> is_space (last (TrimSpace s))"
proof -
  let ?a = "dropWhile is_space s"
  let ?b = "dropWhile is_space (rev ?a)"
  assume "TrimSpace s \<noteq> []"
  then have b: "?b \<noteq> []" by (simp add: TrimSpace_def)
  have "\<exists>us. rev ?a = us @ ?b" by (metis takeWhile_dropWhile_id)
  then obtain us where us: "rev ?a = us @ ?b" by blast
  then have a: "?a = rev ?b @ rev us" by (metis rev_append rev_rev_ident)
  have "rev ?b \<noteq> []" using b by simp
  then have "hd (rev ?b) = hd ?a" by (subst a) (rule hd_append2 [symmetric])
  moreover have "?a \<noteq> []" using b by (metis dropWhile.simps(1) rev.simps(1))
  then have "\<not> is_space (hd ?a)" by (rule dropWhile_hd)
  moreover have "last (rev ?b) = hd ?b" using b by (simp add: last_rev)
  moreover have "\<not> is_space (hd ?b)" using b by (rule dropWhile_hd)
  ultimately show ?thesis by (simp add: TrimSpace_def)
qed

lemma TrimSpace_idem [simp]: "TrimSpace (TrimSpace s) = TrimSpace s"
  using TrimSpace_ends by (subst trimmed_iff) blast

lemma isHex_nonempty: "isHex s \<Longrightarrow> s \<noteq> [] \<and> list_all isHexDigit s"
  by (auto simp: isHex_def split: if_splits)

lemma isHex_trimmed: "isHex s \<Longrightarrow> TrimSpace s = s"
  using isHex_nonempty [of s] by (auto simp: trimmed_iff list_all_iff hex_not_space)

lemma prefixed_trimmed: "isHex s \<Longrightarrow> TrimSpace (''0x'' @ s) = ''0x'' @ s"
  using isHex_nonempty [of s] hex_not_space [of "last s"] last_in_set [of s]
  unfolding trimmed_iff by (auto simp: list_all_iff) (simp add: is_space_def)

lemma isHex_no_prefix: "isHex s \<Longrightarrow> \<not> HasPrefix s ''0x'' \<and> \<not> HasPrefix s ''0X''"
proof -
  assume h: "isHex s"
  then obtain a b r where "s = a # b # r" by (auto simp: isHex_def length_Suc_conv neq_Nil_conv split: if_splits) (cases s; cases "tl s"; auto)
  then show ?thesis using isHex_nonempty [OF h] hex_digit_not_x by (auto simp: list_all_iff)
qed

text \<open>The two shapes of a normalised string.\<close>

lemma normaliseHex_cases:
  "normaliseHex s = (if isHex (TrimSpace s) then ''0x'' @ TrimSpace s else TrimSpace s)"
  using isHex_no_prefix [of "TrimSpace s"] isHex_nonempty [of "TrimSpace s"] by (auto simp: normaliseHex_def Let_def)

lemma normaliseHex_idem [simp]: "normaliseHex (normaliseHex s) = normaliseHex s"
proof (cases "isHex (TrimSpace s)")
  case True
  then have "TrimSpace (normaliseHex s) = normaliseHex s" "normaliseHex s = ''0x'' @ TrimSpace s"
    by (simp_all add: normaliseHex_cases prefixed_trimmed del: append_Cons)
  then show ?thesis by (simp add: normaliseHex_def Let_def)
next
  case False
  then show ?thesis by (simp add: normaliseHex_cases)
qed

lemma normaliseHex_prefix: "isHex s \<Longrightarrow> normaliseHex s = ''0x'' @ s \<and> normaliseHex (''0x'' @ s) = ''0x'' @ s"
proof -
  assume h: "isHex s"
  then have "normaliseHex s = ''0x'' @ s" by (simp add: normaliseHex_cases isHex_trimmed)
  then show ?thesis using normaliseHex_idem [of s] by simp
qed

lemma lower_hex_not_x:
  assumes "isHexDigit c"
  shows "lower_char c \<noteq> CHR ''x''"
proof (cases "CHR ''A'' \<le> c \<and> c \<le> CHR ''Z''")
  case True
  have b: "of_char c \<le> (70 :: nat)"
    using assms True by (auto simp: isHexDigit_def less_eq_char_def)
  then have "of_char (char_of (of_char c + 32 :: nat) :: char) = (of_char c + 32 :: nat)"
    by (intro of_char_of_eq_small) simp
  then have "(of_char (lower_char c) :: nat) = of_char c + 32" using True by (simp add: lower_char_def)
  moreover have "(of_char CHR ''x'' :: nat) = 120" by simp
  ultimately have "(of_char (lower_char c) :: nat) \<noteq> of_char CHR ''x''" using b by linarith
  then show ?thesis by metis
next
  case False
  then show ?thesis using hex_digit_not_x [OF assms] by (auto simp: lower_char_def)
qed

text \<open>The chain's check of the root does not see the prefix.\<close>

lemma lower_hex_no_prefix: "isHex s \<Longrightarrow> TrimPrefix (ToLower (''0x'' @ s)) ''0x'' = TrimPrefix (ToLower s) ''0x''"
proof -
  assume h: "isHex s"
  obtain a b r where s: "s = a # b # r" using h by (auto simp: isHex_def length_Suc_conv neq_Nil_conv split: if_splits) (cases s; cases "tl s"; auto)
  have "isHexDigit b" using isHex_nonempty [OF h] s by simp
  then have "lower_char b \<noteq> CHR ''x''" by (rule lower_hex_not_x)
  then show ?thesis by (simp add: s ToLower_def TrimPrefix_def lower_char_def less_eq_char_def)
qed

lemma verify_normalised:
  "verifyMerkleRoot E items (normaliseHex root) = None \<longleftrightarrow> verifyMerkleRoot E items (TrimSpace root) = None"
proof (cases "isHex (TrimSpace root)")
  case True
  then show ?thesis
    using lower_hex_no_prefix [OF True]
    by (auto simp: verifyMerkleRoot_def normaliseHex_cases Let_def simp del: append_Cons split: option.splits if_splits)
qed (simp add: normaliseHex_cases)

lemma parsed_normalised:
  assumes "parseBatchItems R H raw = Inr items" and "it \<in> set items"
  shows "normaliseHex (bi_DataHash it) = bi_DataHash it"
  using assms by (auto simp: parseBatchItems_def Let_def split: if_splits sum.splits)

section \<open>Properties\<close>



end
