(* ===== verification/ServerStart.thy ===== *)
theory ServerStart
  imports GoPrelude
begin

text \<open>
  \<^verbatim>\<open>cmd/energychaind/cmd/evm_server.go\<close>: the start command as a sequence of effects on the process.
  What the servers, CometBFT, the databases and the option readers answer is a record of outcomes;
  the order of the calls, every early return and the deferred releases are the code's.
\<close>

section \<open>Effects and deferred calls\<close>

datatype effect =
    ECreateProfileFile | EStartProfile | EStopProfile | ECloseProfileFile
  | EOpenDB | ECloseDB | ESetEVMLogger | ENewApp | ECloseApp
  | ENodeStart | ENodeStop | ENodeExited | ESetEventBus
  | ERegisterServices | ESetMempoolClientCtx | ESetBroadcastClientCtx
  | EEthMetrics | EStartGrpc | EStartAPI bool | EStartEVM bool | EStartABCI | EWait

text \<open>
  The process: whether the profiler runs (\<^verbatim>\<open>runtime/pprof\<close> has one), the local \<^verbatim>\<open>app\<close> is not
  \<^verbatim>\<open>nil\<close>, the node runs, and the effects so far.
\<close>

record process =
  pr_profiling :: bool
  pr_app :: bool
  pr_node :: bool
  pr_trace :: "effect list"

definition idle :: process where
  "idle = \<lparr>pr_profiling = False, pr_app = False, pr_node = False, pr_trace = []\<rparr>"

definition emit :: "effect \<Rightarrow> process \<Rightarrow> process" where
  "emit e s = s\<lparr>pr_trace := pr_trace s @ [e]\<rparr>"

definition emit_if :: "bool \<Rightarrow> effect \<Rightarrow> process \<Rightarrow> process" where
  "emit_if c e s = (if c then emit e s else s)"

datatype go_exit = Returned "string option" | Panicked

type_synonym run = "process \<Rightarrow> go_exit \<times> process"

definition fail :: "string \<Rightarrow> run" where
  "fail e s = (Returned (Some e), s)"

text \<open>A deferred call runs after the body, whether it returned or panicked.\<close>

definition deferring :: "run \<Rightarrow> (process \<Rightarrow> process) \<Rightarrow> run" where
  "deferring body d s = (case body s of (r, s') \<Rightarrow> (r, d s'))"

section \<open>What the libraries answer\<close>

record server_config =
  sc_API_Enable :: bool
  sc_GRPC_Enable :: bool
  sc_JSONRPC_Enable :: bool
  sc_JSONRPC_EnableIndexer :: bool
  sc_Telemetry_Enabled :: bool

record profile_lib =
  pl_ExpandHome :: "string \<Rightarrow> string + string"
  pl_Create :: "string \<Rightarrow> string option"

text \<open>Errors are \<^verbatim>\<open>Some\<close> message; the booleans are flags and the outcomes of type assertions.\<close>

record start_lib =
  sl_GetClientQueryContext :: "string option"
  sl_WithCometBFT :: bool
  sl_KeyringFile :: bool
  sl_KeyringList :: "string option"
  sl_CPUProfile :: string
  sl_wrapProfile :: profile_lib
  sl_innerProfile :: profile_lib
  sl_DBOpener :: "string option"
  sl_TraceStore :: string
  sl_OpenFile :: "string \<Rightarrow> string option"
  sl_GetConfig :: "string + server_config"
  sl_ValidateBasic :: "server_config \<Rightarrow> string option"
  sl_AppCreatorPanics :: bool
  sl_EVMApplication :: bool
  sl_LoadOrGenNodeKey :: "string option"
  sl_GRPCOnly :: bool
  sl_NewNode :: "string option"
  sl_NodeStart :: "string option"
  sl_EventBusser :: bool
  sl_ExperimentalMempool :: bool
  sl_BroadcastSetter :: bool
  sl_TelemetryNew :: "string option"
  sl_EnableMetrics :: bool
  sl_genDoc :: "string option"
  sl_StartGrpcServer :: "string option"
  sl_PendingTxStream :: bool
  sl_PossiblyExclusive :: bool
  sl_NewServer :: "string option"
  sl_Wait :: "string option"
  sl_NodeStillRunning :: bool

section \<open>Helpers\<close>

definition profiling_in_use :: string where
  "profiling_in_use = ''cpu profiling already in use''"

definition stop_profile :: "process \<Rightarrow> process" where
  "stop_profile s = emit ECloseProfileFile ((emit EStopProfile s)\<lparr>pr_profiling := False\<rparr>)"

definition wrapCPUProfile :: "string \<Rightarrow> profile_lib \<Rightarrow> run \<Rightarrow> run" where
  "wrapCPUProfile cpuProfile P callback s =
     (if cpuProfile = [] then callback s
      else
        (case pl_ExpandHome P cpuProfile of
           Inl e \<Rightarrow> fail e s
         | Inr fp \<Rightarrow>
             (case pl_Create P fp of
                Some e \<Rightarrow> fail e s
              | None \<Rightarrow>
                  let s1 = emit ECreateProfileFile s in
                  if pr_profiling s1 then fail profiling_in_use s1
                  else deferring callback stop_profile ((emit EStartProfile s1)\<lparr>pr_profiling := True\<rparr>))))"

definition openTraceWriter :: "start_lib \<Rightarrow> string option" where
  "openTraceWriter L = (if sl_TraceStore L = [] then None else sl_OpenFile L (sl_TraceStore L))"

definition startTelemetry :: "start_lib \<Rightarrow> server_config \<Rightarrow> string option" where
  "startTelemetry L cfg = (if \<not> sc_Telemetry_Enabled cfg then None else sl_TelemetryNew L)"

definition startAPIServer :: "server_config \<Rightarrow> process \<Rightarrow> process" where
  "startAPIServer cfg s = (if \<not> sc_API_Enable cfg then s else emit (EStartAPI (sc_Telemetry_Enabled cfg)) s)"

text \<open>The deferred releases.\<close>

definition close_db_unless_app :: "process \<Rightarrow> process" where
  "close_db_unless_app s = (if pr_app s then s else emit ECloseDB s)"

definition close_app :: "process \<Rightarrow> process" where
  "close_app s = emit ECloseApp s"

definition stop_node :: "process \<Rightarrow> process" where
  "stop_node s = (if pr_node s then (emit ENodeStop s)\<lparr>pr_node := False\<rparr> else s)"

text \<open>\<^verbatim>\<open>g.Wait\<close>: the node may have ended on its own meanwhile.\<close>

definition group_wait :: "start_lib \<Rightarrow> run" where
  "group_wait L s =
     (let s1 = emit EWait s in
      (Returned (sl_Wait L),
       if pr_node s1 \<and> \<not> sl_NodeStillRunning L then (emit ENodeExited s1)\<lparr>pr_node := False\<rparr> else s1))"

section \<open>Starting in process\<close>

text \<open>From the registration of the query services to the end of \<^verbatim>\<open>customStartInProcess\<close>.\<close>

definition start_services :: "start_lib \<Rightarrow> server_config \<Rightarrow> bool \<Rightarrow> run" where
  "start_services L cfg bftNode s =
     (let reg = (sc_API_Enable cfg \<or> sc_GRPC_Enable cfg \<or> sc_JSONRPC_Enable cfg \<or> sc_JSONRPC_EnableIndexer cfg) \<and> bftNode;
          s1 = emit_if reg ERegisterServices s;
          s2 = emit_if (reg \<and> sl_ExperimentalMempool L) ESetMempoolClientCtx s1;
          s3 = emit_if (reg \<and> sl_BroadcastSetter L) ESetBroadcastClientCtx s2 in
      case startTelemetry L cfg of
        Some e \<Rightarrow> fail e s3
      | None \<Rightarrow>
          let s4 = emit_if (sc_JSONRPC_Enable cfg \<and> sl_EnableMetrics L) EEthMetrics s3 in
          case (if sc_API_Enable cfg \<or> sc_JSONRPC_Enable cfg then sl_genDoc L else None) of
            Some e \<Rightarrow> fail e s4
          | None \<Rightarrow>
              (case sl_StartGrpcServer L of
                 Some e \<Rightarrow> fail e s4
               | None \<Rightarrow>
                   let s5 = startAPIServer cfg (emit EStartGrpc s4) in
                   if \<not> sc_JSONRPC_Enable cfg then group_wait L s5
                   else if \<not> sl_PendingTxStream L then fail ''json-rpc server requires AppWithPendingTxStream'' s5
                   else if \<not> sl_PossiblyExclusive L then fail ''json-rpc server requires PossiblyExclusiveMempool'' s5
                   else group_wait L (emit (EStartEVM (sc_JSONRPC_EnableIndexer cfg)) s5)))"

text \<open>From the type assertion on the created application to the node's start.\<close>

definition start_node :: "start_lib \<Rightarrow> server_config \<Rightarrow> run" where
  "start_node L cfg s =
     (if \<not> sl_EVMApplication L then fail ''app does not implement cosmosevmserver.Application'' s
      else
        (case sl_LoadOrGenNodeKey L of
           Some e \<Rightarrow> fail e s
         | None \<Rightarrow>
             if sl_GRPCOnly L then start_services L (cfg\<lparr>sc_GRPC_Enable := True, sc_JSONRPC_EnableIndexer := False\<rparr>) False s
             else
               (case sl_NewNode L of
                  Some e \<Rightarrow> fail e s
                | None \<Rightarrow>
                    (case sl_NodeStart L of
                       Some e \<Rightarrow> fail e s
                     | None \<Rightarrow>
                         deferring (start_services L cfg True) stop_node
                           (emit_if (sl_EventBusser L) ESetEventBus ((emit ENodeStart s)\<lparr>pr_node := True\<rparr>))))))"

definition create_app :: "start_lib \<Rightarrow> run \<Rightarrow> run" where
  "create_app L k s =
     (let s1 = emit ESetEVMLogger s in
      if sl_AppCreatorPanics L then (Panicked, s1)
      else deferring k close_app ((emit ENewApp s1)\<lparr>pr_app := True\<rparr>))"

definition open_db :: "start_lib \<Rightarrow> run \<Rightarrow> run" where
  "open_db L k s =
     (case sl_DBOpener L of
        Some e \<Rightarrow> fail e s
      | None \<Rightarrow>
          deferring
            (\<lambda>s. case openTraceWriter L of Some e \<Rightarrow> fail e s | None \<Rightarrow> k s)
            close_db_unless_app ((emit EOpenDB s)\<lparr>pr_app := False\<rparr>))"

definition read_config :: "start_lib \<Rightarrow> (server_config \<Rightarrow> run) \<Rightarrow> run" where
  "read_config L k s =
     (case sl_GetConfig L of
        Inl e \<Rightarrow> fail e s
      | Inr cfg \<Rightarrow> (case sl_ValidateBasic L cfg of Some e \<Rightarrow> fail e s | None \<Rightarrow> k cfg s))"

definition customStartInProcess :: "start_lib \<Rightarrow> run" where
  "customStartInProcess L =
     wrapCPUProfile (sl_CPUProfile L) (sl_innerProfile L)
       (open_db L (read_config L (\<lambda>cfg. create_app L (start_node L cfg))))"

section \<open>Starting without CometBFT, and the command\<close>

definition startStandAlone :: "start_lib \<Rightarrow> run" where
  "startStandAlone L =
     open_db L (create_app L (read_config L (\<lambda>cfg s.
       case startTelemetry L cfg of
         Some e \<Rightarrow> fail e s
       | None \<Rightarrow>
           (case sl_NewServer L of
              Some e \<Rightarrow> fail (''error creating listener: '' @ e) s
            | None \<Rightarrow> group_wait L (emit EStartABCI s)))))"

definition start_RunE :: "start_lib \<Rightarrow> run" where
  "start_RunE L s =
     (case sl_GetClientQueryContext L of
        Some e \<Rightarrow> fail e s
      | None \<Rightarrow>
          if \<not> sl_WithCometBFT L then wrapCPUProfile (sl_CPUProfile L) (sl_wrapProfile L) (startStandAlone L) s
          else
            (case (if sl_KeyringFile L then sl_KeyringList L else None) of
               Some e \<Rightarrow> fail e s
             | None \<Rightarrow> wrapCPUProfile (sl_CPUProfile L) (sl_wrapProfile L) (customStartInProcess L) s))"

end
