(* ===== verification/ServerStartClaims.thy ===== *)
theory ServerStartClaims
  imports ServerStart
begin

text \<open>
  What every way of starting the node releases.  The specification is a stack of held resources: an
  effect that acquires pushes, an effect that releases pops and has no meaning when its resource is
  not on top.
\<close>

section \<open>Resources\<close>

datatype resource = RProfileFile | RProfile | RDatabase | RApp | RNode

text \<open>The application takes over the database it is created with, and closes it when it is closed.\<close>

fun hold :: "effect \<Rightarrow> resource list \<Rightarrow> resource list option" where
  "hold ECreateProfileFile st = Some (RProfileFile # st)"
| "hold EStartProfile st = Some (RProfile # st)"
| "hold EOpenDB st = Some (RDatabase # st)"
| "hold ENodeStart st = Some (RNode # st)"
| "hold ENewApp (RDatabase # st) = Some (RApp # st)"
| "hold ENewApp st = None"
| "hold EStopProfile (RProfile # st) = Some st"
| "hold EStopProfile st = None"
| "hold ECloseProfileFile (RProfileFile # st) = Some st"
| "hold ECloseProfileFile st = None"
| "hold ECloseDB (RDatabase # st) = Some st"
| "hold ECloseDB st = None"
| "hold ECloseApp (RApp # st) = Some st"
| "hold ECloseApp st = None"
| "hold ENodeStop (RNode # st) = Some st"
| "hold ENodeStop st = None"
| "hold ENodeExited (RNode # st) = Some st"
| "hold ENodeExited st = None"
| "hold e st = Some st"

fun held :: "effect list \<Rightarrow> resource list \<Rightarrow> resource list option" where
  "held [] st = Some st"
| "held (e # es) st = Option.bind (hold e st) (held es)"

definition holds :: "process \<Rightarrow> resource list option" where
  "holds s = held (pr_trace s) []"

lemma held_append: "held (es @ fs) st = Option.bind (held es st) (held fs)"
  by (induction es arbitrary: st) (auto split: bind_split)

lemma holds_emit [simp]: "holds (emit e s) = Option.bind (holds s) (hold e)"
  by (simp add: holds_def emit_def held_append split: bind_split)

lemma holds_update [simp]:
  "holds (s\<lparr>pr_profiling := p\<rparr>) = holds s" "holds (s\<lparr>pr_app := a\<rparr>) = holds s" "holds (s\<lparr>pr_node := n\<rparr>) = holds s"
  by (simp_all add: holds_def)

lemma emit_flags [simp]:
  "pr_profiling (emit e s) = pr_profiling s" "pr_app (emit e s) = pr_app s" "pr_node (emit e s) = pr_node s"
  by (simp_all add: emit_def)

lemma emit_if_flags [simp]:
  "pr_profiling (emit_if c e s) = pr_profiling s" "pr_app (emit_if c e s) = pr_app s" "pr_node (emit_if c e s) = pr_node s"
  by (simp_all add: emit_if_def)

section \<open>Contracts\<close>

text \<open>
  A run is \<open>tidy\<close> when, from a process without a running node, it ends holding what it held, with
  the profiler as it was and no running node; a \<open>body\<close> may end with the local \<^verbatim>\<open>app\<close> set.
\<close>

definition tidy :: "run \<Rightarrow> bool" where
  "tidy f \<longleftrightarrow> (\<forall>s st r s'. f s = (r, s') \<longrightarrow> holds s = Some st \<longrightarrow> \<not> pr_node s \<longrightarrow>
     holds s' = Some st \<and> \<not> pr_node s' \<and> pr_profiling s' = pr_profiling s)"

definition tidy_app :: "run \<Rightarrow> bool" where
  "tidy_app f \<longleftrightarrow> tidy f \<and> (\<forall>s r s'. f s = (r, s') \<longrightarrow> pr_app s' = pr_app s)"

lemma tidyD: "tidy f \<Longrightarrow> f s = (r, s') \<Longrightarrow> holds s = Some st \<Longrightarrow> \<not> pr_node s \<Longrightarrow>
    holds s' = Some st \<and> \<not> pr_node s' \<and> pr_profiling s' = pr_profiling s"
  unfolding tidy_def by blast

lemma tidy_appD: "tidy_app f \<Longrightarrow> tidy f" "tidy_app f \<Longrightarrow> f s = (r, s') \<Longrightarrow> pr_app s' = pr_app s"
  unfolding tidy_app_def by blast+

text \<open>The services run on a node that is on top of the stack, or on none.\<close>

definition node_top :: "process \<Rightarrow> resource list \<Rightarrow> bool" where
  "node_top s st \<longleftrightarrow> holds s = Some (if pr_node s then RNode # st else st)"

definition neutral :: "effect \<Rightarrow> bool" where
  "neutral e \<longleftrightarrow> (\<forall>st. hold e st = Some st)"

lemma neutral_simps [simp]:
  "neutral ESetEVMLogger" "neutral ESetEventBus" "neutral ERegisterServices" "neutral ESetMempoolClientCtx"
  "neutral ESetBroadcastClientCtx" "neutral EEthMetrics" "neutral EStartGrpc" "neutral (EStartAPI b)"
  "neutral (EStartEVM b)" "neutral EStartABCI" "neutral EWait"
  by (simp_all add: neutral_def)

lemma holds_emit_neutral [simp]: "neutral e \<Longrightarrow> holds (emit e s) = holds s"
  by (simp add: neutral_def split: bind_split)

lemma holds_emit_if [simp]: "neutral e \<Longrightarrow> holds (emit_if c e s) = holds s"
  by (simp add: emit_if_def del: holds_emit)

lemma holds_startAPIServer [simp]:
  "holds (startAPIServer cfg s) = holds s" "pr_profiling (startAPIServer cfg s) = pr_profiling s"
  "pr_app (startAPIServer cfg s) = pr_app s" "pr_node (startAPIServer cfg s) = pr_node s"
  by (simp_all add: startAPIServer_def del: holds_emit)

text \<open>What a run from \<open>s\<close> to \<open>s'\<close> may do on a running node: keep it, or see it end.\<close>

definition node_kept :: "process \<Rightarrow> process \<Rightarrow> bool" where
  "node_kept s s' \<longleftrightarrow> (\<forall>st. node_top s st \<longrightarrow> node_top s' st) \<and> (pr_node s' \<longrightarrow> pr_node s) \<and>
     pr_profiling s' = pr_profiling s \<and> pr_app s' = pr_app s"

lemma node_kept_same:
  "holds s' = holds s \<Longrightarrow> pr_node s' = pr_node s \<Longrightarrow> pr_profiling s' = pr_profiling s \<Longrightarrow> pr_app s' = pr_app s \<Longrightarrow> node_kept s s'"
  by (simp add: node_kept_def node_top_def)

lemma node_kept_trans: "node_kept s s1 \<Longrightarrow> node_kept s1 s2 \<Longrightarrow> node_kept s s2"
  by (auto simp: node_kept_def)

lemma group_wait_kept: "node_kept s (snd (group_wait L s))"
  by (auto simp: node_kept_def node_top_def group_wait_def Let_def split: if_splits bind_splits)

lemma group_wait_from:
  "holds s1 = holds s \<Longrightarrow> pr_node s1 = pr_node s \<Longrightarrow> pr_profiling s1 = pr_profiling s \<Longrightarrow> pr_app s1 = pr_app s \<Longrightarrow>
    node_kept s (snd (group_wait L s1))"
  by (rule node_kept_trans [OF node_kept_same group_wait_kept])

lemma services_kept: "node_kept s (snd (start_services L cfg n s))"
  unfolding start_services_def Let_def fail_def
  by (auto split: option.split simp del: holds_emit intro!: node_kept_same group_wait_from)

lemma tidy_fail [simp]: "tidy (fail e)" "tidy_app (fail e)"
  by (auto simp: tidy_def tidy_app_def fail_def)

lemma kept_tidy:
  assumes "\<And>s. node_kept s (snd (f s))"
  shows "tidy_app f"
proof -
  have "holds s' = Some st \<and> \<not> pr_node s' \<and> pr_profiling s' = pr_profiling s"
    if "f s = (r, s')" and "holds s = Some st" and "\<not> pr_node s" for s st r s'
    using assms [of s] that by (auto simp: node_kept_def node_top_def)
  moreover have "pr_app s' = pr_app s" if "f s = (r, s')" for s r s'
    using assms [of s] that by (simp add: node_kept_def)
  ultimately show ?thesis by (auto simp: tidy_app_def tidy_def)
qed

lemma node_deferring_tidy:
  assumes "\<And>s. node_kept s (snd (f s))" and "neutral e"
  shows "tidy_app (\<lambda>s. deferring f stop_node (emit_if c e ((emit ENodeStart s)\<lparr>pr_node := True\<rparr>)))"
proof -
  let ?b = "\<lambda>s. emit_if c e ((emit ENodeStart s)\<lparr>pr_node := True\<rparr>)"
  have "holds s' = Some st \<and> \<not> pr_node s' \<and> pr_profiling s' = pr_profiling s \<and> pr_app s' = pr_app s"
    if r: "deferring f stop_node (?b s) = (r, s')" and h: "holds s = Some st" for s st r s'
  proof -
    obtain r1 s1 where f: "f (?b s) = (r1, s1)" and s': "s' = stop_node s1"
      using r by (auto simp: deferring_def split: prod.splits)
    have "node_top (?b s) st" using h assms(2) by (simp add: node_top_def)
    then show ?thesis
      using assms(1) [of "?b s"] s' by (auto simp: f node_kept_def node_top_def stop_node_def)
  qed
  moreover have "pr_app s' = pr_app s" if "deferring f stop_node (?b s) = (r, s')" for s r s'
    using that assms(1) [of "?b s"] by (auto simp: deferring_def node_kept_def stop_node_def split: prod.splits if_splits)
  ultimately show ?thesis by (auto simp: tidy_app_def tidy_def)
qed

lemma start_node_tidy: "tidy_app (start_node L cfg)"
proof -
  have s: "tidy_app (start_services L c n)" for c n
    by (rule kept_tidy) (rule services_kept)
  have n: "tidy_app (\<lambda>s. deferring (start_services L cfg True) stop_node
      (emit_if (sl_EventBusser L) ESetEventBus ((emit ENodeStart s)\<lparr>pr_node := True\<rparr>)))"
    by (rule node_deferring_tidy) (rule services_kept, simp)
  show ?thesis
    unfolding start_node_def
    by (cases "sl_EVMApplication L"; cases "sl_LoadOrGenNodeKey L"; cases "sl_GRPCOnly L"; cases "sl_NewNode L"; cases "sl_NodeStart L")
      (simp_all add: s n)
qed

lemma standalone_serve_tidy:
  "tidy_app (\<lambda>s. case startTelemetry L cfg of Some e \<Rightarrow> fail e s
     | None \<Rightarrow> (case sl_NewServer L of Some e \<Rightarrow> fail (m @ e) s | None \<Rightarrow> group_wait L (emit EStartABCI s)))"
  by (cases "startTelemetry L cfg"; cases "sl_NewServer L")
    (auto intro!: kept_tidy group_wait_from simp del: holds_emit)

lemma read_config_tidy: "(\<And>cfg. tidy_app (k cfg)) \<Longrightarrow> tidy_app (read_config L k)"
  unfolding read_config_def
  by (cases "sl_GetConfig L"; simp; cases "sl_ValidateBasic L (projr (sl_GetConfig L))"; simp)

text \<open>
  The contract of what runs under the database's deferred close: it leaves the database on the stack
  unless it created the application, whose close has then taken it off.
\<close>

definition uses_db :: "run \<Rightarrow> bool" where
  "uses_db f \<longleftrightarrow> (\<forall>s st r s'. f s = (r, s') \<longrightarrow> holds s = Some (RDatabase # st) \<longrightarrow> \<not> pr_node s \<longrightarrow> \<not> pr_app s \<longrightarrow>
     holds s' = Some (if pr_app s' then st else RDatabase # st) \<and> \<not> pr_node s' \<and> pr_profiling s' = pr_profiling s)"

lemma uses_db_fail [simp]: "uses_db (fail e)"
  by (auto simp: uses_db_def fail_def)

lemma create_app_uses_db:
  assumes "tidy_app k"
  shows "uses_db (create_app L k)"
  unfolding uses_db_def
proof (intro allI impI)
  fix s st r s' assume c: "create_app L k s = (r, s')" and h: "holds s = Some (RDatabase # st)" "\<not> pr_node s" "\<not> pr_app s"
  let ?b = "(emit ENewApp (emit ESetEVMLogger s))\<lparr>pr_app := True\<rparr>"
  show "holds s' = Some (if pr_app s' then st else RDatabase # st) \<and> \<not> pr_node s' \<and> pr_profiling s' = pr_profiling s"
  proof (cases "sl_AppCreatorPanics L")
    case True
    then show ?thesis using c h by (auto simp: create_app_def)
  next
    case False
    then obtain r1 s1 where k: "k ?b = (r1, s1)" and s': "s' = close_app s1"
      using c by (auto simp: create_app_def deferring_def split: prod.splits)
    have "holds ?b = Some (RApp # st)" using h by simp
    with tidyD [OF tidy_appD(1) [OF assms] k] tidy_appD(2) [OF assms k] h s'
    show ?thesis by (simp add: close_app_def)
  qed
qed

lemma read_config_uses_db: "(\<And>cfg. uses_db (k cfg)) \<Longrightarrow> uses_db (read_config L k)"
  unfolding read_config_def
  by (cases "sl_GetConfig L"; simp; cases "sl_ValidateBasic L (projr (sl_GetConfig L))"; simp)

lemma open_db_tidy:
  assumes "uses_db k"
  shows "tidy (open_db L k)"
  unfolding tidy_def
proof (intro allI impI)
  fix s st r s' assume o: "open_db L k s = (r, s')" and h: "holds s = Some st" "\<not> pr_node s"
  let ?b = "(emit EOpenDB s)\<lparr>pr_app := False\<rparr>"
  let ?k = "\<lambda>s. case openTraceWriter L of Some e \<Rightarrow> fail e s | None \<Rightarrow> k s"
  have u: "uses_db ?k" using assms by (cases "openTraceWriter L") simp_all
  show "holds s' = Some st \<and> \<not> pr_node s' \<and> pr_profiling s' = pr_profiling s"
  proof (cases "sl_DBOpener L")
    case (Some e)
    then show ?thesis using o h by (auto simp: open_db_def fail_def)
  next
    case None
    then obtain r1 s1 where k: "?k ?b = (r1, s1)" and s': "s' = close_db_unless_app s1"
      using o by (auto simp: open_db_def deferring_def split: prod.splits)
    have "holds ?b = Some (RDatabase # st)" using h by simp
    then have "holds s1 = Some (if pr_app s1 then st else RDatabase # st) \<and> \<not> pr_node s1 \<and> pr_profiling s1 = pr_profiling ?b"
      using u k h(2) unfolding uses_db_def by fastforce
    then show ?thesis by (auto simp: s' close_db_unless_app_def)
  qed
qed

lemma customStart_noprofile_tidy: "sl_CPUProfile L = [] \<Longrightarrow> tidy (customStartInProcess L)"
  unfolding customStartInProcess_def wrapCPUProfile_def
  by (simp add: open_db_tidy read_config_uses_db create_app_uses_db start_node_tidy)

lemma startStandAlone_tidy: "tidy (startStandAlone L)"
  unfolding startStandAlone_def
  by (intro open_db_tidy create_app_uses_db read_config_tidy standalone_serve_tidy)


text \<open>The profiler's wrapper around a tidy callback, when the profiler is off.\<close>

lemma wrapCPUProfile_tidy:
  assumes "tidy k" and "wrapCPUProfile fl P k s = (r, s')" and "holds s = Some st" and "\<not> pr_node s" and "\<not> pr_profiling s"
  shows "holds s' = Some st \<and> \<not> pr_node s' \<and> \<not> pr_profiling s'"
proof (cases "fl = [] \<or> isl (pl_ExpandHome P fl) \<or> pl_Create P (projr (pl_ExpandHome P fl)) \<noteq> None")
  case True
  then have "s' = s \<or> k s = (r, s')"
    using assms(2) by (auto simp: wrapCPUProfile_def fail_def split: sum.splits option.splits if_splits)
  then show ?thesis using assms(3-5) tidyD [OF assms(1) _ assms(3,4), of r s'] by auto
next
  case False
  let ?b = "(emit EStartProfile (emit ECreateProfileFile s))\<lparr>pr_profiling := True\<rparr>"
  from False obtain r1 s1 where k: "k ?b = (r1, s1)" and s': "s' = stop_profile s1"
    using assms(2,5) by (cases "pl_ExpandHome P fl") (auto simp: wrapCPUProfile_def Let_def deferring_def split: prod.splits)
  have "holds ?b = Some (RProfile # RProfileFile # st)" using assms(3) by simp
  from tidyD [OF assms(1) k this] assms(4) show ?thesis by (simp add: s' stop_profile_def)
qed

section \<open>Properties\<close>

lemma idle_simps [simp]: "holds idle = Some []" "\<not> pr_node idle" "\<not> pr_profiling idle" "\<not> pr_app idle" "pr_trace idle = []"
  by (simp_all add: idle_def holds_def)


definition sample_start :: start_lib where
  "sample_start = \<lparr>
     sl_GetClientQueryContext = None, sl_WithCometBFT = True, sl_KeyringFile = False, sl_KeyringList = None,
     sl_CPUProfile = [], sl_wrapProfile = \<lparr>pl_ExpandHome = Inr, pl_Create = \<lambda>_. None\<rparr>,
     sl_innerProfile = \<lparr>pl_ExpandHome = Inr, pl_Create = \<lambda>_. None\<rparr>,
     sl_DBOpener = None, sl_TraceStore = [], sl_OpenFile = \<lambda>_. None,
     sl_GetConfig = Inr \<lparr>sc_API_Enable = True, sc_GRPC_Enable = True, sc_JSONRPC_Enable = True,
       sc_JSONRPC_EnableIndexer = True, sc_Telemetry_Enabled = False\<rparr>,
     sl_ValidateBasic = \<lambda>_. None, sl_AppCreatorPanics = False, sl_EVMApplication = True, sl_LoadOrGenNodeKey = None,
     sl_GRPCOnly = False, sl_NewNode = None, sl_NodeStart = None, sl_EventBusser = True, sl_ExperimentalMempool = False,
     sl_BroadcastSetter = True, sl_TelemetryNew = None, sl_EnableMetrics = False, sl_genDoc = None,
     sl_StartGrpcServer = None, sl_PendingTxStream = True, sl_PossiblyExclusive = True, sl_NewServer = None,
     sl_Wait = None, sl_NodeStillRunning = True\<rparr>"


text \<open>
  C36: With CometBFT, a CPU profile can never be taken: the command starts the profiler and then the
  in-process start tries to start it again, which the profiler refuses.  The command always returns
  an error and never opens the database or creates the application.
\<close>
theorem cpu_profile_prevents_start:
  assumes "sl_WithCometBFT L" and "sl_CPUProfile L \<noteq> []" and "start_RunE L idle = (r, s)"
  shows "(\<exists>e. r = Returned (Some e)) \<and>
    set (pr_trace s) \<subseteq> {ECreateProfileFile, EStartProfile, EStopProfile, ECloseProfileFile} \<and>
    (EStartProfile \<in> set (pr_trace s) \<and> (\<forall>f. \<exists>p. pl_ExpandHome (sl_innerProfile L) f = Inr p \<and> pl_Create (sl_innerProfile L) p = None)
      \<longrightarrow> r = Returned (Some profiling_in_use) \<and>
        pr_trace s = [ECreateProfileFile, EStartProfile, ECreateProfileFile, EStopProfile, ECloseProfileFile])"
proof -
  let ?fl = "sl_CPUProfile L" and ?W = "sl_wrapProfile L" and ?I = "sl_innerProfile L"
  let ?on = "(emit EStartProfile (emit ECreateProfileFile idle))\<lparr>pr_profiling := True\<rparr>"
  have inner: "customStartInProcess L ?on =
      (case pl_ExpandHome ?I ?fl of Inl e \<Rightarrow> fail e ?on
       | Inr fp \<Rightarrow> (case pl_Create ?I fp of Some e \<Rightarrow> fail e ?on | None \<Rightarrow> fail profiling_in_use (emit ECreateProfileFile ?on)))"
    using assms(2) by (simp add: customStartInProcess_def wrapCPUProfile_def Let_def split: sum.split option.split)
  have outer: "start_RunE L idle =
      (case sl_GetClientQueryContext L of Some e \<Rightarrow> fail e idle
       | None \<Rightarrow> (case (if sl_KeyringFile L then sl_KeyringList L else None) of Some e \<Rightarrow> fail e idle
         | None \<Rightarrow> (case pl_ExpandHome ?W ?fl of Inl e \<Rightarrow> fail e idle
             | Inr fp \<Rightarrow> (case pl_Create ?W fp of Some e \<Rightarrow> fail e idle
                 | None \<Rightarrow> deferring (customStartInProcess L) stop_profile ?on))))"
    using assms(1,2) by (simp add: start_RunE_def wrapCPUProfile_def Let_def split: sum.split option.split)
  have tr: "pr_trace (stop_profile p) = pr_trace p @ [EStopProfile, ECloseProfileFile]" "pr_trace (emit e p) = pr_trace p @ [e]" for p e
    by (simp_all add: stop_profile_def emit_def)
  show ?thesis
    using assms(3) unfolding outer deferring_def inner
    by (auto simp: fail_def tr split: option.splits sum.splits) (metis Inl_Inr_False Inr_inject option.distinct(1))+
qed

theorem cpu_profile_prevents_start_witness:
  "fst (start_RunE (sample_start\<lparr>sl_CPUProfile := ''cpu.out''\<rparr>) idle) = Returned (Some profiling_in_use)"
proof -
  let ?L = "sample_start\<lparr>sl_CPUProfile := ''cpu.out''\<rparr>"
  have t: "EStartProfile \<in> set (pr_trace (snd (start_RunE ?L idle)))" by code_simp
  have p: "sl_WithCometBFT ?L" "sl_CPUProfile ?L \<noteq> []" by (simp_all add: sample_start_def)
  have i: "\<forall>f. \<exists>p. pl_ExpandHome (sl_innerProfile ?L) f = Inr p \<and> pl_Create (sl_innerProfile ?L) p = None"
    by (simp add: sample_start_def)
  from cpu_profile_prevents_start [OF p surjective_pairing] t i show ?thesis by blast
qed

end
