(* ===== verification/EvmSupervisor.thy ===== *)
theory EvmSupervisor
  imports GoPrelude
begin

text \<open>
  \<^verbatim>\<open>runEVMServicesSupervised\<close> of \<^verbatim>\<open>cmd/energychaind/cmd/evm_server.go\<close>: the endless loop that
  starts the indexer and the JSON-RPC server and restarts them after a failure.  One element of the
  list is what one round of the loop meets; running out of elements means the loop is still running.
\<close>

section \<open>The loop\<close>

text \<open>Durations are in nanoseconds.\<close>

definition Second :: nat where
  "Second = 1000000000"

definition backoff :: "nat \<Rightarrow> nat" where
  "backoff attempt =
     (let shift = (if attempt - 1 > 3 then 3 else attempt - 1);
          delay = 3 * Second * 2 ^ shift in
      if delay > 30 * Second then 30 * Second else delay)"

record round =
  rd_cancelled :: bool                  \<comment> \<open>\<^verbatim>\<open>parentCtx.Err() != nil\<close> at the top\<close>
  rd_cancelled_waiting :: bool          \<comment> \<open>the select takes \<^verbatim>\<open>parentCtx.Done()\<close>\<close>
  rd_OpenIndexerDB :: "string option"
  rd_StartJSONRPC :: "string option"
  rd_cancelled_after :: bool            \<comment> \<open>\<^verbatim>\<open>parentCtx.Err() != nil\<close> after the services ended\<close>

datatype sup_effect = SDelay nat | SOpenIndexerDB | SIndexer | SServe | SCancel

fun supervise :: "bool \<Rightarrow> nat \<Rightarrow> round list \<Rightarrow> sup_effect list \<times> bool" where
  "supervise indexer attempt [] = ([], False)"
| "supervise indexer attempt (rd # rds) =
     (if rd_cancelled rd then ([], True)
      else if attempt > 0 \<and> rd_cancelled_waiting rd then ([], True)
      else
        let waited = (if attempt > 0 then [SDelay (backoff attempt)] else []);
            again = supervise indexer (attempt + 1) rds in
        if indexer \<and> rd_OpenIndexerDB rd \<noteq> None then (waited @ [SCancel] @ fst again, snd again)
        else
          let opened = (if indexer then [SOpenIndexerDB, SIndexer] else []) in
          if rd_StartJSONRPC rd \<noteq> None then (waited @ opened @ [SCancel] @ fst again, snd again)
          else if rd_cancelled_after rd then (waited @ opened @ [SServe, SCancel], True)
          else (waited @ opened @ [SServe, SCancel] @ fst again, snd again))"

section \<open>Facts\<close>

lemma backoff_cases: "backoff n = (if n \<le> 1 then 3 else if n = 2 then 6 else if n = 3 then 12 else 24) * Second"
proof -
  consider "n \<le> 1" | "n = 2" | "n = 3" | "n = 4" | "n > 4" by linarith
  then show ?thesis by cases (auto simp: backoff_def Let_def Second_def)
qed

text \<open>The context's cancellation as the round sees it, at one of the three points where it looks.\<close>

definition sees_cancel :: "bool \<Rightarrow> nat \<Rightarrow> round \<Rightarrow> bool" where
  "sees_cancel indexer attempt rd \<longleftrightarrow> rd_cancelled rd \<or> (attempt > 0 \<and> rd_cancelled_waiting rd) \<or>
     (\<not> (indexer \<and> rd_OpenIndexerDB rd \<noteq> None) \<and> rd_StartJSONRPC rd = None \<and> rd_cancelled_after rd)"

definition delays :: "sup_effect list \<Rightarrow> nat list" where
  "delays es = concat (map (\<lambda>e. case e of SDelay d \<Rightarrow> [d] | _ \<Rightarrow> []) es)"

definition tries :: "sup_effect list \<Rightarrow> nat" where
  "tries es = length (filter (\<lambda>e. e = SCancel) es)"

lemma delays_simps [simp]:
  "delays [] = []" "delays (es @ fs) = delays es @ delays fs" "delays (SDelay d # es) = d # delays es"
  "delays (SOpenIndexerDB # es) = delays es" "delays (SIndexer # es) = delays es"
  "delays (SServe # es) = delays es" "delays (SCancel # es) = delays es"
  by (simp_all add: delays_def)

lemma tries_simps [simp]:
  "tries [] = 0" "tries (es @ fs) = tries es + tries fs" "tries (SCancel # es) = Suc (tries es)"
  "tries (SDelay d # es) = tries es" "tries (SOpenIndexerDB # es) = tries es" "tries (SIndexer # es) = tries es"
  "tries (SServe # es) = tries es"
  by (simp_all add: tries_def)

lemma supervise_end_round:
  "snd (supervise ix n (rd # rds)) \<longleftrightarrow> sees_cancel ix n rd \<or> snd (supervise ix (Suc n) rds)"
proof (cases "ix \<and> rd_OpenIndexerDB rd \<noteq> None")
  case True
  then show ?thesis by (auto simp: sees_cancel_def Let_def)
next
  case False
  then show ?thesis by (cases "rd_StartJSONRPC rd") (auto simp: sees_cancel_def Let_def)
qed

lemma supervise_ends:
  "snd (supervise ix n rds) \<longleftrightarrow> (\<exists>k < length rds. sees_cancel ix (n + k) (rds ! k))"
proof (induction rds arbitrary: n)
  case (Cons rd rds)
  have "(\<exists>k < length (rd # rds). sees_cancel ix (n + k) ((rd # rds) ! k)) \<longleftrightarrow>
      sees_cancel ix n rd \<or> (\<exists>k < length rds. sees_cancel ix (Suc n + k) (rds ! k))"
    by (auto simp: less_Suc_eq_0_disj)
  then show ?case using Cons.IH [of "Suc n"] supervise_end_round by blast
qed simp

lemma supervise_round:
  assumes "\<not> sees_cancel ix n rd"
  shows "tries (fst (supervise ix n (rd # rds))) = Suc (tries (fst (supervise ix (Suc n) rds))) \<and>
    delays (fst (supervise ix n (rd # rds))) = (if n > 0 then [backoff n] else []) @ delays (fst (supervise ix (Suc n) rds))"
proof (cases "ix \<and> rd_OpenIndexerDB rd \<noteq> None")
  case True
  then show ?thesis using assms by (auto simp: sees_cancel_def Let_def)
next
  case False
  then show ?thesis using assms by (cases "rd_StartJSONRPC rd") (auto simp: sees_cancel_def Let_def)
qed

lemma supervise_tries:
  assumes "\<forall>k < length rds. \<not> sees_cancel ix (n + k) (rds ! k)"
  shows "tries (fst (supervise ix n rds)) = length rds \<and>
    delays (fst (supervise ix n rds)) = map backoff (filter (\<lambda>m. m > 0) [n ..< n + length rds])"
  using assms
proof (induction rds arbitrary: n)
  case (Cons rd rds)
  have "\<not> sees_cancel ix n rd" using Cons.prems by force
  moreover have "\<forall>k < length rds. \<not> sees_cancel ix (Suc n + k) (rds ! k)" using Cons.prems by fastforce
  moreover have "filter (\<lambda>m. m > 0) [n ..< n + length (rd # rds)] =
      (if n > 0 then [n] else []) @ filter (\<lambda>m. m > 0) [Suc n ..< Suc n + length rds]"
    by (subst upt_conv_Cons) auto
  ultimately show ?case using Cons.IH [of "Suc n"] supervise_round [of ix n rd rds]
    by (simp del: supervise.simps upt_Suc)
qed simp

section \<open>Properties\<close>

text \<open>
  C32: The supervisor returns exactly when a round sees the parent context cancelled.  As long as none
  does, no failure of any kind ends it: every round makes one attempt, whose context it cancels, and
  the waits before the second, third, fourth and every later attempt are 3, 6, 12 and 24 seconds, so
  that the cap of 30 seconds is never used.
\<close>
theorem supervisor_keeps_restarting:
  fixes rds :: "round list" and ix :: bool
  shows "(snd (supervise ix 0 rds) \<longleftrightarrow> (\<exists>k < length rds. sees_cancel ix k (rds ! k))) \<and>
    (\<not> snd (supervise ix 0 rds) \<longrightarrow>
      tries (fst (supervise ix 0 rds)) = length rds \<and>
      delays (fst (supervise ix 0 rds)) =
        map (\<lambda>s. s * Second) (take (length rds - 1) ([3, 6, 12] @ replicate (length rds) 24))) \<and>
    backoff n < 30 * Second"
proof (intro conjI impI)
  show e: "snd (supervise ix 0 rds) \<longleftrightarrow> (\<exists>k < length rds. sees_cancel ix k (rds ! k))"
    using supervise_ends [of ix 0 rds] by simp
  assume "\<not> snd (supervise ix 0 rds)"
  then have t: "tries (fst (supervise ix 0 rds)) = length rds"
      "delays (fst (supervise ix 0 rds)) = map backoff (filter (\<lambda>m. m > 0) [0 ..< length rds])"
    using supervise_tries [of rds ix 0] e by auto
  show "tries (fst (supervise ix 0 rds)) = length rds" by (rule t)
  have f: "filter (\<lambda>m. m > 0) [0 ..< m] = [1 ..< m]" for m :: nat
    by (induction m) auto
  have "map backoff [1 ..< length rds] =
      map (\<lambda>s. s * Second) (take (length rds - 1) ([3, 6, 12] @ replicate (length rds) 24))"
    by (rule nth_equalityI) (auto simp: backoff_cases nth_append nth_Cons' numeral_eq_Suc)
  then show "delays (fst (supervise ix 0 rds)) =
      map (\<lambda>s. s * Second) (take (length rds - 1) ([3, 6, 12] @ replicate (length rds) 24))"
    by (simp only: t f)
next
  show "backoff n < 30 * Second" by (simp add: backoff_cases Second_def)
qed

definition failing_round :: round where
  "failing_round = \<lparr>rd_cancelled = False, rd_cancelled_waiting = False, rd_OpenIndexerDB = None,
     rd_StartJSONRPC = Some ''address in use'', rd_cancelled_after = False\<rparr>"

theorem supervisor_keeps_restarting_witness:
  "delays (fst (supervise True 0 (replicate 6 failing_round))) = map (\<lambda>s. s * Second) [3, 6, 12, 24, 24]"
proof -
  have "\<not> snd (supervise True 0 (replicate 6 failing_round))"
    by (simp add: supervise_ends sees_cancel_def failing_round_def del: supervise.simps)
  moreover have "take (length (replicate 6 failing_round) - 1) ([3, 6, 12] @ replicate (length (replicate 6 failing_round)) 24) =
      [3, 6, 12, 24, 24 :: nat]" by code_simp
  ultimately show ?thesis
    using supervisor_keeps_restarting [of True "replicate 6 failing_round" 0] by (simp only: simp_thms)
qed

end
