(* ===== verification/TestnetUtils.thy ===== *)
theory TestnetUtils
  imports GoStrings
begin

text \<open>
  \<^verbatim>\<open>cmd/energychaind/cmd/testnet_utils.go\<close>: validator powers, and overrides of the fields of
  CometBFT's configuration by reflection.  A reflected value is a tree whose structs carry their
  fields' names, \<^verbatim>\<open>mapstructure\<close> tags and whether they are exported.  \<^verbatim>\<open>time.ParseDuration\<close> is an
  argument; field names are ASCII, where \<^verbatim>\<open>EqualFold\<close> compares lower-case forms.
\<close>

section \<open>Validator powers\<close>

datatype powers_error = NotPositiveCount | NotPositivePower int

fun check_powers :: "int list \<Rightarrow> nat \<Rightarrow> nat \<Rightarrow> powers_error + int list" where
  "check_powers powers i 0 = Inr []"
| "check_powers powers i (Suc n) =
     (let idx = (if i \<ge> length powers then length powers - 1 else i) in
      if powers ! idx \<le> 0 then Inl (NotPositivePower (powers ! idx))
      else case check_powers powers (i + 1) n of Inl e \<Rightarrow> Inl e | Inr ps \<Rightarrow> Inr (powers ! idx # ps))"

definition parseValidatorPowers :: "int list \<Rightarrow> int \<Rightarrow> powers_error + int list" where
  "parseValidatorPowers powers numValidators =
     (if numValidators \<le> 0 then Inl NotPositiveCount
      else if length powers = 0 then Inr (replicate (nat numValidators) 100)
      else check_powers powers 0 (nat numValidators))"

section \<open>Reflected values\<close>

record field_info =
  fi_Name :: string
  fi_Tag :: string
  fi_Exported :: bool

text \<open>A pointer to a struct carries the zero value that \<^verbatim>\<open>reflect.New\<close> would point to.\<close>

datatype cfg =
    VDuration int64 | VString string | VBool bool | VInt64 int64 | VInt int64 | VStrings "string list" | VOther nat
  | VStruct "(field_info \<times> cfg) list"
  | VPtr cfg "cfg option"

text \<open>\<^verbatim>\<open>FieldByName\<close> on a direct field, and writing it.\<close>

fun FieldByName :: "string \<Rightarrow> (field_info \<times> cfg) list \<Rightarrow> (field_info \<times> cfg) option" where
  "FieldByName n [] = None"
| "FieldByName n (f # fs) = (if fi_Name (fst f) = n then Some f else FieldByName n fs)"

fun put_field :: "string \<Rightarrow> cfg \<Rightarrow> (field_info \<times> cfg) list \<Rightarrow> (field_info \<times> cfg) list" where
  "put_field n v [] = []"
| "put_field n v (f # fs) = (if fi_Name (fst f) = n then (fst f, v) # fs else f # put_field n v fs)"

definition EqualFold :: "string \<Rightarrow> string \<Rightarrow> bool" where
  "EqualFold s t \<longleftrightarrow> ToLower s = ToLower t"

fun getFieldName :: "(field_info \<times> cfg) list \<Rightarrow> string \<Rightarrow> string" where
  "getFieldName [] tagName = []"
| "getFieldName (f # fs) tagName =
     (if fi_Tag (fst f) \<noteq> [] \<and> fi_Tag (fst f) = tagName then fi_Name (fst f)
      else if EqualFold (fi_Name (fst f)) tagName then fi_Name (fst f)
      else getFieldName fs tagName)"

section \<open>Parsing\<close>

fun Split :: "char \<Rightarrow> string \<Rightarrow> string list" where
  "Split c [] = [[]]"
| "Split c (x # xs) = (if x = c then [] # Split c xs else (case Split c xs of [] \<Rightarrow> [[x]] | p # ps \<Rightarrow> (x # p) # ps))"

definition ParseBool :: "string \<Rightarrow> bool option" where
  "ParseBool s =
     (if s \<in> {''1'', ''t'', ''T'', ''TRUE'', ''true'', ''True''} then Some True
      else if s \<in> {''0'', ''f'', ''F'', ''FALSE'', ''false'', ''False''} then Some False
      else None)"

text \<open>\<^verbatim>\<open>strconv.ParseInt(s, 10, 64)\<close> and \<^verbatim>\<open>Atoi\<close>: an optional sign, digits, and the range of int64.\<close>

definition ParseInt64 :: "string \<Rightarrow> int64 option" where
  "ParseInt64 s =
     (let (neg, digits) = (case s of
            [] \<Rightarrow> (False, [])
          | c # cs \<Rightarrow> if c = CHR ''-'' then (True, cs) else if c = CHR ''+'' then (False, cs) else (False, s)) in
      if digits = [] \<or> \<not> list_all is_digit digits then None
      else
        let n = (if neg then - int (dec_value digits) else int (dec_value digits)) in
        if n < - (2 ^ 63) \<or> 2 ^ 63 \<le> n then None else Some (word_of_int n))"

datatype config_error =
    InvalidOverride string | FieldNotFound string | CannotSet string
  | InvalidDuration string | InvalidBoolean string | InvalidInt64 string | InvalidInt string | UnsupportedType
  | FailedToSet string config_error

definition setFieldValue :: "(string \<Rightarrow> int64 option) \<Rightarrow> cfg \<Rightarrow> string \<Rightarrow> config_error + cfg" where
  "setFieldValue ParseDuration field val =
     (case field of
        VDuration _ \<Rightarrow> (case ParseDuration val of None \<Rightarrow> Inl (InvalidDuration val) | Some d \<Rightarrow> Inr (VDuration d))
      | VString _ \<Rightarrow> Inr (VString val)
      | VBool _ \<Rightarrow> (case ParseBool val of None \<Rightarrow> Inl (InvalidBoolean val) | Some b \<Rightarrow> Inr (VBool b))
      | VInt64 _ \<Rightarrow> (case ParseInt64 val of None \<Rightarrow> Inl (InvalidInt64 val) | Some i \<Rightarrow> Inr (VInt64 i))
      | VInt _ \<Rightarrow> (case ParseInt64 val of None \<Rightarrow> Inl (InvalidInt val) | Some i \<Rightarrow> Inr (VInt i))
      | VStrings _ \<Rightarrow> Inr (VStrings (if TrimSpace val \<noteq> [] then map TrimSpace (Split CHR '','' val) else []))
      | _ \<Rightarrow> Inl UnsupportedType)"

definition parseConfigOverride :: "string \<Rightarrow> config_error + string \<times> string" where
  "parseConfigOverride override =
     (case dropWhile (\<lambda>c. c \<noteq> CHR ''='') override of
        [] \<Rightarrow> Inl (InvalidOverride override)
      | _ # val \<Rightarrow> Inr (takeWhile (\<lambda>c. c \<noteq> CHR ''='') override, val))"

section \<open>Overrides\<close>

text \<open>
  A run of the update ends well, with an error, or in a panic of the reflection library (the fields
  of a value that is not a struct, or writing through an unexported field).  The configuration comes
  back in every case: pointers met on the way stay initialised.
\<close>

datatype update_result = Updated | Failed config_error | ReflectPanic

definition set_final :: "(string \<Rightarrow> int64 option) \<Rightarrow> bool \<Rightarrow> string \<Rightarrow> string \<Rightarrow> cfg \<Rightarrow> update_result \<times> cfg" where
  "set_final ParseDuration settable part val current =
     (case current of
        VStruct fs \<Rightarrow>
          (case FieldByName (getFieldName fs part) fs of
             None \<Rightarrow> (Failed (FieldNotFound part), current)
           | Some (info, v) \<Rightarrow>
               if \<not> (settable \<and> fi_Exported info) then (Failed (CannotSet part), current)
               else (case setFieldValue ParseDuration v val of
                       Inl e \<Rightarrow> (Failed e, current)
                     | Inr v' \<Rightarrow> (Updated, VStruct (put_field (fi_Name info) v' fs))))
      | _ \<Rightarrow> (ReflectPanic, current))"

fun join_path :: "string list \<Rightarrow> string" where
  "join_path [] = []"
| "join_path [p] = p"
| "join_path (p # ps) = p @ ''.'' @ join_path ps"

fun set_nested :: "(string \<Rightarrow> int64 option) \<Rightarrow> bool \<Rightarrow> string list \<Rightarrow> string list \<Rightarrow> string \<Rightarrow> cfg \<Rightarrow> update_result \<times> cfg" where
  "set_nested ParseDuration settable seen [] val current = (ReflectPanic, current)"
| "set_nested ParseDuration settable seen [part] val current = set_final ParseDuration settable part val current"
| "set_nested ParseDuration settable seen (part # rest) val current =
     (case current of
        VStruct fs \<Rightarrow>
          (case FieldByName (getFieldName fs part) fs of
             None \<Rightarrow> (Failed (FieldNotFound (join_path (seen @ [part]))), current)
           | Some (info, v) \<Rightarrow>
               let settable' = (settable \<and> fi_Exported info) in
               (case v of
                  VPtr z None \<Rightarrow>
                    if \<not> settable' then (ReflectPanic, current)
                    else (case set_nested ParseDuration True (seen @ [part]) rest val z of
                            (r, w) \<Rightarrow> (r, VStruct (put_field (fi_Name info) (VPtr z (Some w)) fs)))
                | VPtr z (Some u) \<Rightarrow>
                    (case set_nested ParseDuration settable' (seen @ [part]) rest val u of
                       (r, w) \<Rightarrow> (r, VStruct (put_field (fi_Name info) (VPtr z (Some w)) fs)))
                | _ \<Rightarrow>
                    (case set_nested ParseDuration settable' (seen @ [part]) rest val v of
                       (r, w) \<Rightarrow> (r, VStruct (put_field (fi_Name info) w fs)))))
      | _ \<Rightarrow> (ReflectPanic, current))"

text \<open>A path of one part: first the embedded \<^verbatim>\<open>BaseConfig\<close>, then the configuration itself.\<close>

definition set_single :: "(string \<Rightarrow> int64 option) \<Rightarrow> string \<Rightarrow> string \<Rightarrow> (field_info \<times> cfg) list \<Rightarrow> update_result \<times> cfg" where
  "set_single ParseDuration part val fs =
     (let outer = (case FieldByName (getFieldName fs part) fs of
            Some (info, v) \<Rightarrow>
              if getFieldName fs part \<noteq> [] \<and> fi_Exported info then
                (case setFieldValue ParseDuration v val of
                   Inl e \<Rightarrow> (Failed e, VStruct fs)
                 | Inr v' \<Rightarrow> (Updated, VStruct (put_field (fi_Name info) v' fs)))
              else (Failed (FieldNotFound part), VStruct fs)
          | None \<Rightarrow> (Failed (FieldNotFound part), VStruct fs)) in
      case FieldByName ''BaseConfig'' fs of
        None \<Rightarrow> outer
      | Some (binfo, VStruct bs) \<Rightarrow>
          (case FieldByName (getFieldName bs part) bs of
             Some (info, v) \<Rightarrow>
               if getFieldName bs part \<noteq> [] \<and> fi_Exported binfo \<and> fi_Exported info then
                 (case setFieldValue ParseDuration v val of
                    Inl e \<Rightarrow> (Failed e, VStruct fs)
                  | Inr v' \<Rightarrow> (Updated, VStruct (put_field ''BaseConfig'' (VStruct (put_field (fi_Name info) v' bs)) fs)))
               else outer
           | None \<Rightarrow> outer)
      | Some _ \<Rightarrow> (ReflectPanic, VStruct fs))"

definition updateConfigField :: "(string \<Rightarrow> int64 option) \<Rightarrow> cfg \<Rightarrow> string \<Rightarrow> string \<Rightarrow> update_result \<times> cfg" where
  "updateConfigField ParseDuration config fieldPath val =
     (let parts = Split CHR ''.'' fieldPath in
      if length parts = 1 then
        (case config of VStruct fs \<Rightarrow> set_single ParseDuration (parts ! 0) val fs | _ \<Rightarrow> (ReflectPanic, config))
      else set_nested ParseDuration True [] parts val config)"

fun applyConfigOverrides :: "(string \<Rightarrow> int64 option) \<Rightarrow> cfg \<Rightarrow> string list \<Rightarrow> update_result \<times> cfg" where
  "applyConfigOverrides ParseDuration config [] = (Updated, config)"
| "applyConfigOverrides ParseDuration config (override # overrides) =
     (case parseConfigOverride override of
        Inl e \<Rightarrow> (Failed e, config)
      | Inr (fieldPath, val) \<Rightarrow>
          (case updateConfigField ParseDuration config fieldPath val of
             (Failed e, config') \<Rightarrow> (Failed (FailedToSet fieldPath e), config')
           | (ReflectPanic, config') \<Rightarrow> (ReflectPanic, config')
           | (Updated, config') \<Rightarrow> applyConfigOverrides ParseDuration config' overrides))"

definition parseAndApplyConfigChanges :: "(string \<Rightarrow> int64 option) \<Rightarrow> cfg \<Rightarrow> string list \<Rightarrow> update_result \<times> cfg" where
  "parseAndApplyConfigChanges ParseDuration config configChanges =
     (if configChanges = [] then (Updated, config) else applyConfigOverrides ParseDuration config configChanges)"

end
