(* ===== verification/TestnetClaims.thy ===== *)
theory TestnetClaims
  imports TestnetUtils "HOL-Library.Sublist"
begin

text \<open>
  Validator powers and configuration overrides do what they say: the powers are positive and complete,
  and an override changes exactly the field it names.
\<close>

section \<open>Validator powers\<close>

definition power_at :: "int list \<Rightarrow> nat \<Rightarrow> int" where
  "power_at powers i = powers ! min i (length powers - 1)"

lemma check_powers_step:
  assumes "powers \<noteq> []"
  shows "check_powers powers i (Suc n) =
    (if power_at powers i \<le> 0 then Inl (NotPositivePower (power_at powers i))
     else map_sum id ((#) (power_at powers i)) (check_powers powers (Suc i) n))"
proof -
  have "(if i \<ge> length powers then length powers - 1 else i) = min i (length powers - 1)"
    using assms by (cases powers) auto
  then show ?thesis by (simp add: power_at_def Let_def split: sum.split)
qed

lemma check_powers_ok:
  assumes "powers \<noteq> []"
  shows "check_powers powers i n =
    (case filter (\<lambda>p. p \<le> 0) (map (power_at powers) [i ..< i + n]) of
       [] \<Rightarrow> Inr (map (power_at powers) [i ..< i + n]) | p # _ \<Rightarrow> Inl (NotPositivePower p))"
proof (induction n arbitrary: i)
  case (Suc n)
  have "[i ..< i + Suc n] = i # [Suc i ..< Suc i + n]" by (subst upt_conv_Cons) auto
  then show ?case
    by (simp only: check_powers_step [OF assms] Suc.IH [of "Suc i"]) (simp split: list.split del: upt_Suc)
qed simp

section \<open>Reading a configuration\<close>

text \<open>
  The value at a path of field names.  A pointer is followed to what it points to, a \<^verbatim>\<open>nil\<close> one to
  the zero value it would be initialised with.
\<close>

definition deref :: "cfg \<Rightarrow> cfg" where
  "deref v = (case v of VPtr z None \<Rightarrow> z | VPtr z (Some u) \<Rightarrow> u | _ \<Rightarrow> v)"

fun value_at :: "string list \<Rightarrow> cfg \<Rightarrow> cfg option" where
  "value_at [] v = Some v"
| "value_at (n # ns) v =
     (case v of
        VStruct fs \<Rightarrow> (case FieldByName n fs of
            None \<Rightarrow> None | Some (info, w) \<Rightarrow> if ns = [] then Some w else value_at ns (deref w))
      | _ \<Rightarrow> None)"

definition leaf :: "cfg \<Rightarrow> bool" where
  "leaf v \<longleftrightarrow> (\<forall>fs. v \<noteq> VStruct fs) \<and> (\<forall>z u. v \<noteq> VPtr z u)"

definition same_kind :: "cfg \<Rightarrow> cfg \<Rightarrow> bool" where
  "same_kind v w \<longleftrightarrow>
     (case v of VDuration _ \<Rightarrow> \<exists>x. w = VDuration x | VString _ \<Rightarrow> \<exists>x. w = VString x | VBool _ \<Rightarrow> \<exists>x. w = VBool x
      | VInt64 _ \<Rightarrow> \<exists>x. w = VInt64 x | VInt _ \<Rightarrow> \<exists>x. w = VInt x | VStrings _ \<Rightarrow> \<exists>x. w = VStrings x | _ \<Rightarrow> False)"

lemma FieldByName_name: "FieldByName n fs = Some (info, v) \<Longrightarrow> fi_Name info = n"
  by (induction fs) (auto split: if_splits)

lemma FieldByName_put:
  "FieldByName m (put_field n v fs) = (if m = n then map_option (\<lambda>f. (fst f, v)) (FieldByName n fs) else FieldByName m fs)"
  by (induction fs) auto

lemma setFieldValue_kind: "setFieldValue P v val = Inr w \<Longrightarrow> same_kind v w \<and> leaf v \<and> leaf w"
  by (cases v) (auto simp: setFieldValue_def same_kind_def leaf_def split: option.splits)

section \<open>What an update does\<close>

text \<open>Field \<open>n\<close> of a struct is replaced: reading below it, and beside it.\<close>

lemma value_at_put:
  assumes "FieldByName n fs = Some (info, v)"
  shows "value_at (n # ns) (VStruct (put_field n w fs)) = (if ns = [] then Some w else value_at ns (deref w))"
    and "value_at (n # ns) (VStruct fs) = (if ns = [] then Some v else value_at ns (deref v))"
    and "m \<noteq> n \<Longrightarrow> value_at (m # ns) (VStruct (put_field n w fs)) = value_at (m # ns) (VStruct fs)"
  using assms by (simp_all add: FieldByName_put)

text \<open>The effect of an update on a value, one that succeeded or one that did not.\<close>

definition updates :: "(string \<Rightarrow> int64 option) \<Rightarrow> string \<Rightarrow> string list \<Rightarrow> cfg \<Rightarrow> cfg \<Rightarrow> bool" where
  "updates P val ns cur cur' \<longleftrightarrow>
     (\<exists>v v'. value_at ns cur = Some v \<and> setFieldValue P v val = Inr v' \<and> value_at ns cur' = Some v') \<and>
     (\<forall>ms. \<not> prefix ns ms \<longrightarrow> \<not> prefix ms ns \<longrightarrow> value_at ms cur' = value_at ms cur)"

definition keeps_leaves :: "cfg \<Rightarrow> cfg \<Rightarrow> bool" where
  "keeps_leaves cur cur' \<longleftrightarrow> (\<forall>ms v. leaf v \<longrightarrow> (value_at ms cur' = Some v \<longleftrightarrow> value_at ms cur = Some v))"

definition outcome_ok :: "(string \<Rightarrow> int64 option) \<Rightarrow> string \<Rightarrow> cfg \<Rightarrow> update_result \<times> cfg \<Rightarrow> bool" where
  "outcome_ok P val cur res \<longleftrightarrow>
     (if fst res = Updated then \<exists>ns. ns \<noteq> [] \<and> updates P val ns cur (snd res) else keeps_leaves cur (snd res))"

lemma keeps_leaves_refl [simp]: "keeps_leaves c c"
  by (simp add: keeps_leaves_def)

lemma outcome_same [simp]: "r \<noteq> Updated \<Longrightarrow> outcome_ok P val cur (r, cur)"
  by (simp add: outcome_ok_def)

lemma updates_field:
  assumes "FieldByName n fs = Some (info, v)" and "setFieldValue P v val = Inr v'"
  shows "updates P val [n] (VStruct fs) (VStruct (put_field n v' fs))"
proof -
  have "value_at ms (VStruct (put_field n v' fs)) = value_at ms (VStruct fs)" if "\<not> prefix [n] ms" "\<not> prefix ms [n]" for ms
    using that value_at_put(3) [OF assms(1)] by (cases ms) auto
  then show ?thesis
    unfolding updates_def value_at_put(1,2) [OF assms(1)] using assms(2) by auto
qed

text \<open>A field below which a value was updated: the field's own value changes only in what it points to.\<close>

lemma updates_below:
  assumes f: "FieldByName n fs = Some (info, v)" and u: "updates P val ns (deref v) (deref w)" and ns: "ns \<noteq> []"
  shows "updates P val (n # ns) (VStruct fs) (VStruct (put_field n w fs))"
proof -
  have "value_at ms (VStruct (put_field n w fs)) = value_at ms (VStruct fs)"
    if a: "\<not> prefix (n # ns) ms" "\<not> prefix ms (n # ns)" for ms
  proof (cases ms)
    case (Cons m ks)
    show ?thesis
    proof (cases "m = n")
      case True
      then have "\<not> prefix ns ks" "\<not> prefix ks ns" "ks \<noteq> []" using a Cons by auto
      then show ?thesis
        using u True Cons by (simp add: value_at_put(1,2) [OF f] updates_def del: value_at.simps)
    qed (use Cons value_at_put(3) [OF f] in simp)
  qed (use a in simp)
  then show ?thesis
    using u ns by (auto simp: updates_def value_at_put(1,2) [OF f] simp del: value_at.simps)
qed

lemma leaves_below:
  assumes f: "FieldByName n fs = Some (info, v)" and k: "keeps_leaves (deref v) (deref w)"
    and lf: "\<And>x. leaf x \<Longrightarrow> (w = x) = (v = x)"
  shows "keeps_leaves (VStruct fs) (VStruct (put_field n w fs))"
  unfolding keeps_leaves_def
proof (intro allI impI)
  fix ms x assume x: "leaf x"
  show "value_at ms (VStruct (put_field n w fs)) = Some x \<longleftrightarrow> value_at ms (VStruct fs) = Some x"
  proof (cases ms)
    case (Cons m ks)
    show ?thesis
    proof (cases "m = n")
      case True
      show ?thesis
        using x lf k Cons True by (simp add: value_at_put(1,2) [OF f] keeps_leaves_def del: value_at.simps)
    qed (use Cons value_at_put(3) [OF f] in simp)
  next
    case Nil
    then show ?thesis using x by (simp add: leaf_def) metis
  qed
qed

lemma outcome_below:
  assumes f: "FieldByName n fs = Some (info, v)" and o: "outcome_ok P val (deref v) (r, deref w)"
    and lf: "\<And>x. leaf x \<Longrightarrow> r \<noteq> Updated \<Longrightarrow> (w = x) = (v = x)"
  shows "outcome_ok P val (VStruct fs) (r, VStruct (put_field n w fs))"
proof (cases "r = Updated")
  case True
  with o obtain ns where "ns \<noteq> []" "updates P val ns (deref v) (deref w)" by (auto simp: outcome_ok_def)
  with updates_below [OF f] have "updates P val (n # ns) (VStruct fs) (VStruct (put_field n w fs))" by blast
  then show ?thesis using True by (auto simp: outcome_ok_def)
next
  case False
  then show ?thesis using o leaves_below [OF f _ lf] by (simp add: outcome_ok_def)
qed

lemma deref_simps [simp]:
  "deref (VPtr z None) = z" "deref (VPtr z (Some u)) = u" "(\<forall>z p. v \<noteq> VPtr z p) \<Longrightarrow> deref v = v"
  by (auto simp: deref_def split: cfg.split)

lemma set_final_ok: "outcome_ok P val cur (set_final P s part val cur)"
proof (cases cur)
  case (VStruct fs)
  show ?thesis
  proof (cases "FieldByName (getFieldName fs part) fs")
    case (Some f)
    then obtain info v where f: "FieldByName (getFieldName fs part) fs = Some (info, v)" by (cases f) auto
    then have n: "fi_Name info = getFieldName fs part" by (rule FieldByName_name)
    show ?thesis
    proof (cases "setFieldValue P v val")
      case (Inr v')
      then show ?thesis
        using updates_field [OF f Inr] by (auto simp: set_final_def VStruct f n outcome_ok_def)
    qed (simp add: set_final_def VStruct f)
  qed (simp add: set_final_def VStruct)
qed (simp_all add: set_final_def)

text \<open>An update leaves a value that is not a struct alone, and gives a struct for a struct.\<close>

lemma set_final_kind:
  "set_final P s part val v = (r, w) \<Longrightarrow> w = v \<or> (\<exists>fs fs'. v = VStruct fs \<and> w = VStruct fs')"
  by (cases v) (auto simp: set_final_def split: option.splits prod.splits if_splits sum.splits)

lemma set_nested_kind:
  "set_nested P s seen ps val v = (r, w) \<Longrightarrow> w = v \<or> (\<exists>fs fs'. v = VStruct fs \<and> w = VStruct fs')"
proof -
  assume run: "set_nested P s seen ps val v = (r, w)"
  consider "ps = []" | p where "ps = [p]" | p q qs where "ps = p # q # qs" by (metis list.exhaust)
  then show ?thesis
  proof cases
    case 3
    then show ?thesis using run
      by (cases v) (auto simp: Let_def split: option.splits prod.splits if_splits cfg.splits)
  qed (use run set_final_kind in auto)
qed

lemma set_nested_ok: "outcome_ok P val cur (set_nested P s seen parts val cur)"
proof (induction parts arbitrary: s seen cur)
  case (Cons part rest)
  show ?case
  proof (cases rest)
    case Nil
    then show ?thesis by (simp add: set_final_ok)
  next
    case (Cons r1 rs)
    note IH = Cons.IH [unfolded Cons]
    show ?thesis
    proof (cases cur)
      case (VStruct fs)
      show ?thesis
      proof (cases "FieldByName (getFieldName fs part) fs")
        case (Some f)
        then obtain info v where f: "FieldByName (getFieldName fs part) fs = Some (info, v)" by (cases f) auto
        then have n: "fi_Name info = getFieldName fs part" by (rule FieldByName_name)
        let ?s = "s \<and> fi_Exported info"
        consider z where "v = VPtr z None" | z u where "v = VPtr z (Some u)" | "\<forall>z p. v \<noteq> VPtr z p"
          by (metis option.exhaust)
        then show ?thesis
        proof cases
          case 1
          obtain r w where run: "set_nested P True (seen @ [part]) (r1 # rs) val z = (r, w)" by fastforce
          then have "outcome_ok P val (VStruct fs) (r, VStruct (put_field (getFieldName fs part) (VPtr z (Some w)) fs))"
            using IH [of z True "seen @ [part]"] by (intro outcome_below [OF f]) (auto simp: 1 leaf_def)
          then show ?thesis using run by (simp add: Cons VStruct f n 1 Let_def)
        next
          case 2
          obtain r w where run: "set_nested P ?s (seen @ [part]) (r1 # rs) val u = (r, w)" by fastforce
          then have "outcome_ok P val (VStruct fs) (r, VStruct (put_field (getFieldName fs part) (VPtr z (Some w)) fs))"
            using IH [of u ?s "seen @ [part]"] by (intro outcome_below [OF f]) (auto simp: 2 leaf_def)
          then show ?thesis using run by (simp add: Cons VStruct f n 2 Let_def)
        next
          case 3
          obtain r w where run: "set_nested P ?s (seen @ [part]) (r1 # rs) val v = (r, w)" by fastforce
          have body: "set_nested P s seen (part # r1 # rs) val cur = (r, VStruct (put_field (getFieldName fs part) w fs))"
            using run 3 by (cases v) (simp_all add: VStruct f n Let_def)
          have k: "w = v \<or> (\<exists>gs gs'. v = VStruct gs \<and> w = VStruct gs')" by (rule set_nested_kind [OF run])
          then have d: "deref v = v" "deref w = w" using 3 by auto
          have "outcome_ok P val (VStruct fs) (r, VStruct (put_field (getFieldName fs part) w fs))"
            using IH [of v ?s "seen @ [part]"] run k by (intro outcome_below [OF f]) (auto simp: d leaf_def)
          then show ?thesis using body by (simp only: Cons VStruct)
        qed
      qed (simp add: Cons VStruct)
    qed (simp_all add: Cons)
  qed
qed simp

text \<open>Paths of one part: the base configuration's field wins, then the configuration's own.\<close>

lemma set_here_ok:
  assumes "FieldByName n fs = Some (info, v)"
  shows "outcome_ok P val (VStruct fs) (case setFieldValue P v val of Inl e \<Rightarrow> (Failed e, VStruct fs)
      | Inr v' \<Rightarrow> (Updated, VStruct (put_field n v' fs)))"
  using updates_field [OF assms] by (cases "setFieldValue P v val") (auto simp: outcome_ok_def)

lemma set_outer_ok:
  "outcome_ok P val (VStruct fs) (case FieldByName n fs of
      Some (info, v) \<Rightarrow>
        if n \<noteq> [] \<and> fi_Exported info then
          (case setFieldValue P v val of Inl e \<Rightarrow> (Failed e, VStruct fs)
           | Inr v' \<Rightarrow> (Updated, VStruct (put_field (fi_Name info) v' fs)))
        else (Failed (FieldNotFound part), VStruct fs)
    | None \<Rightarrow> (Failed (FieldNotFound part), VStruct fs))"
proof (cases "FieldByName n fs")
  case (Some f)
  obtain info v where "f = (info, v)" by (cases f)
  with Some set_here_ok [of _ fs info v] FieldByName_name [of _ fs info v] show ?thesis by auto
qed simp

lemma set_base_ok:
  assumes "FieldByName ''BaseConfig'' fs = Some (binfo, VStruct bs)" and "FieldByName n bs = Some (info, v)"
    and "setFieldValue P v val = Inr v'"
  shows "outcome_ok P val (VStruct fs)
    (Updated, VStruct (put_field ''BaseConfig'' (VStruct (put_field (fi_Name info) v' bs)) fs))"
proof -
  have "updates P val [fi_Name info] (VStruct bs) (VStruct (put_field (fi_Name info) v' bs))"
    using updates_field [of _ bs info v] assms(2,3) FieldByName_name by auto
  then show ?thesis
    using updates_below [OF assms(1), of P val "[fi_Name info]" "VStruct (put_field (fi_Name info) v' bs)"]
    by (auto simp: outcome_ok_def)
qed

lemma set_single_ok: "outcome_ok P val (VStruct fs) (set_single P part val fs)"
proof (cases "FieldByName ''BaseConfig'' fs")
  case None
  then show ?thesis using set_outer_ok by (simp add: set_single_def)
next
  case (Some b)
  obtain binfo bv where b: "b = (binfo, bv)" by (cases b)
  note base = Some [unfolded b]
  show ?thesis
  proof (cases bv)
    case (VStruct bs)
    show ?thesis
    proof (cases "FieldByName (getFieldName bs part) bs")
      case None
      then show ?thesis using set_outer_ok base by (simp add: set_single_def VStruct)
    next
      case (Some f)
      obtain info v where f: "FieldByName (getFieldName bs part) bs = Some (info, v)" using Some by (cases f) simp
      show ?thesis
        using set_outer_ok base set_base_ok [OF base [unfolded VStruct] f]
        by (cases "setFieldValue P v val") (simp_all add: set_single_def VStruct f)
    qed
  qed (use set_outer_ok base in \<open>simp_all add: set_single_def\<close>)
qed

lemma updateConfigField_ok: "outcome_ok P val cfg (updateConfigField P cfg path val)"
  by (cases cfg) (simp_all add: updateConfigField_def Let_def set_single_ok set_nested_ok)


section \<open>Properties\<close>

text \<open>
  An override that succeeds changes one field, which has a value of the kind it had, parsed from
  the given text: reading the field gives the new value, and every path that does not lead to it or
  below it reads as before.  An override that fails or panics changes no value of the configuration.
\<close>
theorem override_changes_one_field:
  "case updateConfigField ParseDuration config path val of
     (Updated, config') \<Rightarrow> \<exists>ns v v'. ns \<noteq> [] \<and> value_at ns config = Some v \<and> setFieldValue ParseDuration v val = Inr v' \<and>
        same_kind v v' \<and> value_at ns config' = Some v' \<and>
        (\<forall>ms. \<not> prefix ns ms \<longrightarrow> \<not> prefix ms ns \<longrightarrow> value_at ms config' = value_at ms config)
   | (_, config') \<Rightarrow> \<forall>ms v. leaf v \<longrightarrow> (value_at ms config' = Some v \<longleftrightarrow> value_at ms config = Some v)"
proof -
  obtain r config' where run: "updateConfigField ParseDuration config path val = (r, config')" by fastforce
  have ok: "outcome_ok ParseDuration val config (r, config')"
    using updateConfigField_ok [of ParseDuration val config path] by (simp add: run)
  show ?thesis
  proof (cases "r = Updated")
    case True
    then obtain ns v v' where "ns \<noteq> []" "value_at ns config = Some v" "setFieldValue ParseDuration v val = Inr v'"
        "value_at ns config' = Some v'" "\<forall>ms. \<not> prefix ns ms \<longrightarrow> \<not> prefix ms ns \<longrightarrow> value_at ms config' = value_at ms config"
      using ok unfolding outcome_ok_def updates_def by auto
    moreover from this have "same_kind v v'" using setFieldValue_kind by blast
    ultimately show ?thesis unfolding run True prod.case update_result.case by blast
  next
    case False
    then show ?thesis using ok by (cases r) (simp_all add: run outcome_ok_def keeps_leaves_def)
  qed
qed

definition sample_config :: cfg where
  "sample_config = VStruct
     [(\<lparr>fi_Name = ''BaseConfig'', fi_Tag = '',squash'', fi_Exported = True\<rparr>, VStruct
        [(\<lparr>fi_Name = ''LogLevel'', fi_Tag = ''log_level'', fi_Exported = True\<rparr>, VString ''info'')]),
      (\<lparr>fi_Name = ''Consensus'', fi_Tag = ''consensus'', fi_Exported = True\<rparr>,
        VPtr (VStruct []) (Some (VStruct
          [(\<lparr>fi_Name = ''DoubleSignCheckHeight'', fi_Tag = ''double_sign_check_height'', fi_Exported = True\<rparr>, VInt64 0),
           (\<lparr>fi_Name = ''TimeoutPropose'', fi_Tag = ''timeout_propose'', fi_Exported = True\<rparr>, VDuration 3)])))]"

theorem override_changes_one_field_witness:
  "\<exists>ns v'. fst (updateConfigField (\<lambda>_. None) sample_config ''log_level'' ''debug'') = Updated \<and> ns \<noteq> [] \<and>
     value_at ns (snd (updateConfigField (\<lambda>_. None) sample_config ''log_level'' ''debug'')) = Some v' \<and> leaf v'"
proof -
  have u: "fst (updateConfigField (\<lambda>_. None) sample_config ''log_level'' ''debug'') = Updated" by code_simp
  obtain c' where c: "updateConfigField (\<lambda>_. None) sample_config ''log_level'' ''debug'' = (Updated, c')"
    by (rule that [of "snd (updateConfigField (\<lambda>_. None) sample_config ''log_level'' ''debug'')"]) (simp add: prod_eq_iff u)
  obtain ns v v' where "ns \<noteq> []" "setFieldValue (\<lambda>_. None) v ''debug'' = Inr v'" "value_at ns c' = Some v'"
    using override_changes_one_field [where ParseDuration = "\<lambda>_. None" and config = sample_config and path = "''log_level''" and val = "''debug''"]
    unfolding c prod.case update_result.case by blast
  then show ?thesis unfolding c fst_conv snd_conv using setFieldValue_kind by blast
qed

text \<open>
  A path that continues below a field that is not a struct panics in the reflection library instead of
  being refused as a field that is not found.
\<close>
theorem override_below_scalar_panics:
  "updateConfigField (\<lambda>_. None) sample_config ''consensus.timeout_propose.x'' ''1'' = (ReflectPanic, sample_config)"
  by code_simp

text \<open>
  Validator powers: one positive power per validator, the given ones in order and the last one repeated,
  or 100 each when none is given; refused exactly when the count or one of the powers used is not positive.
\<close>
theorem validator_powers:
  "parseValidatorPowers powers numValidators =
    (if numValidators \<le> 0 then Inl NotPositiveCount
     else if powers = [] then Inr (replicate (nat numValidators) 100)
     else case filter (\<lambda>p. p \<le> 0) (map (power_at powers) [0 ..< nat numValidators]) of
        [] \<Rightarrow> Inr (map (power_at powers) [0 ..< nat numValidators])
      | p # _ \<Rightarrow> Inl (NotPositivePower p))"
  using check_powers_ok [of powers 0 "nat numValidators", unfolded add_0]
  by (cases "powers = []") (simp_all add: parseValidatorPowers_def del: check_powers.simps)

end
