(* ===== verification/NodeConfig.thy ===== *)
theory NodeConfig
  imports AppWiring
begin

text \<open>
  How the node's configuration and its application are made: \<^verbatim>\<open>config/config.go\<close>, the CometBFT
  defaults, the pre-run handler and the application constructors of \<^verbatim>\<open>cmd/energychaind/cmd/root.go\<close>, and
  the second pair of constructors in \<^verbatim>\<open>creator.go\<close>.  The library defaults, databases and readers are
  arguments.
\<close>

section \<open>The configuration template\<close>

fun Contains :: "string \<Rightarrow> string \<Rightarrow> bool" where
  "Contains [] p \<longleftrightarrow> p = []"
| "Contains (c # s) p \<longleftrightarrow> HasPrefix (c # s) p \<or> Contains s p"

text \<open>\<^verbatim>\<open>strings.Replace\<close> with count 1.\<close>

fun Replace1 :: "string \<Rightarrow> string \<Rightarrow> string \<Rightarrow> string" where
  "Replace1 [] old new = (if old = [] then new else [])"
| "Replace1 (c # s) old new = (if HasPrefix (c # s) old then new @ drop (length old) (c # s) else c # Replace1 s old new)"

definition operate_exclusively_key :: string where
  "operate_exclusively_key = ''operate-exclusively''"

definition template_marker :: string where
  "template_marker = ''# PendingTxProposalTimeout is the amount of time to spend waiting for rechecking of the mempool to complete when creating a proposal''"

definition template_injected :: string where
  "template_injected =
     ''# OperateExclusively determines if the EVM mempool assumes CometBFT is using the app-side mempool.'' @ [CHR 0x0A] @
     operate_exclusively_key @ '' = {{ .EVM.Mempool.OperateExclusively }}'' @ [CHR 0x0A, CHR 0x0A]"

text \<open>\<open>None\<close> is the panic on a template without the marker.\<close>

definition injectOperateExclusivelyTemplate :: "string \<Rightarrow> string option" where
  "injectOperateExclusivelyTemplate template =
     (if Contains template operate_exclusively_key then Some template
      else if \<not> Contains template template_marker then None
      else Some (Replace1 template template_marker (template_injected @ template_marker)))"

text \<open>The template of the node: the SDK's followed by the one of the EVM library with the key.\<close>

definition EVMAppTemplate :: "string \<Rightarrow> string \<Rightarrow> string option" where
  "EVMAppTemplate DefaultConfigTemplate DefaultEVMConfigTemplate =
     map_option (\<lambda>t. DefaultConfigTemplate @ t) (injectOperateExclusivelyTemplate DefaultEVMConfigTemplate)"

section \<open>Defaults\<close>

text \<open>
  The fields of the library configurations that are set; the rest of each record is kept.
  \<open>InitAppConfig\<close> gives the configurations; the template beside them is \<open>EVMAppTemplate\<close>.
\<close>

definition EVMChainID :: uint64 where "EVMChainID = 9001"

record server_cfg =
  sv_MinGasPrices :: string

record evm_cfg =
  ec_EVMChainID :: uint64
  ec_OperateExclusively :: bool

record jsonrpc_cfg =
  jc_API :: "string list"

record comet_cfg =
  cm_MempoolType :: string
  cm_MempoolSize :: int

definition InitAppConfig ::
  "string \<Rightarrow> uint64 \<Rightarrow> 'a server_cfg_scheme \<Rightarrow> 'b evm_cfg_scheme \<Rightarrow> 'c jsonrpc_cfg_scheme \<Rightarrow>
     'a server_cfg_scheme \<times> 'b evm_cfg_scheme \<times> 'c jsonrpc_cfg_scheme" where
  "InitAppConfig denom evmChainID srvCfg evmCfg jsonRPCCfg =
     (srvCfg\<lparr>sv_MinGasPrices := ''10000000000'' @ denom\<rparr>,
      evmCfg\<lparr>ec_EVMChainID := evmChainID, ec_OperateExclusively := True\<rparr>,
      jsonRPCCfg\<lparr>jc_API := [''eth'', ''net'', ''web3'']\<rparr>)"

definition initCometConfig :: "'a comet_cfg_scheme \<Rightarrow> 'a comet_cfg_scheme" where
  "initCometConfig cfg = cfg\<lparr>cm_MempoolType := ''app'', cm_MempoolSize := 20000\<rparr>"

section \<open>Creating the application\<close>

datatype creator_panic = PruningOptions string | GenesisFile string string | SnapshotDB string | SnapshotStore string

record ('pruning, 'snap) baseapp_options =
  bo_ChainID :: string
  bo_Pruning :: 'pruning
  bo_MinGasPrices :: string
  bo_HaltHeight :: uint64
  bo_HaltTime :: uint64
  bo_MinRetainBlocks :: uint64
  bo_InterBlockCache :: bool
  bo_Trace :: bool
  bo_IndexEvents :: "string list"
  bo_SnapshotStore :: 'snap
  bo_SnapshotInterval :: uint64
  bo_SnapshotKeepRecent :: uint32
  bo_IAVLCacheSize :: int64
  bo_QueryGasLimit :: "uint64 option"
  bo_IAVLDisableFastNode :: "bool option"

text \<open>
  What the options say, and what reading the genesis file and opening the snapshot store give.
  An option the constructor does not set is \<open>None\<close> above.
\<close>

record ('pruning, 'snapdb, 'snap) creator_lib =
  cl_InterBlockCache :: bool
  cl_PruningOptions :: "string + 'pruning"
  cl_ChainIDFlag :: string
  cl_GenesisPath :: string
  cl_AppGenesisChainID :: "string \<Rightarrow> string + string"
  cl_SnapshotDB :: "string + 'snapdb"
  cl_SnapshotStore :: "'snapdb \<Rightarrow> string + 'snap"
  cl_Home :: string
  cl_GetChainIDFromHome :: "string \<Rightarrow> string + string"
  cl_GetSnapshotStore :: "string + 'snap"
  cl_QueryGasLimit :: uint64
  cl_DisableIAVLFastNode :: bool
  cl_SnapshotInterval :: uint64
  cl_SnapshotKeepRecent :: uint32
  cl_MinGasPrices :: string
  cl_Trace :: bool
  cl_IndexEvents :: "string list"
  cl_IAVLCacheSize :: int64
  cl_HaltHeight :: uint64
  cl_HaltTime :: uint64
  cl_MinRetainBlocks :: uint64

definition creator_newApp ::
  "('pruning, 'snapdb, 'snap) creator_lib \<Rightarrow> creator_panic + ('pruning, 'snap) baseapp_options" where
  "creator_newApp L =
     (case cl_PruningOptions L of
        Inl e \<Rightarrow> Inl (PruningOptions e)
      | Inr pruningOpts \<Rightarrow>
          (case (if cl_ChainIDFlag L = []
                 then (case cl_AppGenesisChainID L (cl_GenesisPath L) of
                         Inl e \<Rightarrow> Inl (GenesisFile (cl_GenesisPath L) e) | Inr chainID \<Rightarrow> Inr chainID)
                 else Inr (cl_ChainIDFlag L)) of
             Inl p \<Rightarrow> Inl p
           | Inr chainID \<Rightarrow>
               (case cl_SnapshotDB L of
                  Inl e \<Rightarrow> Inl (SnapshotDB e)
                | Inr snapshotDB \<Rightarrow>
                    (case cl_SnapshotStore L snapshotDB of
                       Inl e \<Rightarrow> Inl (SnapshotStore e)
                     | Inr snapshotStore \<Rightarrow>
                         Inr \<lparr>bo_ChainID = chainID, bo_Pruning = pruningOpts, bo_MinGasPrices = cl_MinGasPrices L,
                           bo_HaltHeight = cl_HaltHeight L, bo_HaltTime = cl_HaltTime L,
                           bo_MinRetainBlocks = cl_MinRetainBlocks L, bo_InterBlockCache = cl_InterBlockCache L,
                           bo_Trace = cl_Trace L, bo_IndexEvents = cl_IndexEvents L, bo_SnapshotStore = snapshotStore,
                           bo_SnapshotInterval = cl_SnapshotInterval L,
                           bo_SnapshotKeepRecent = cl_SnapshotKeepRecent L, bo_IAVLCacheSize = cl_IAVLCacheSize L,
                           bo_QueryGasLimit = None, bo_IAVLDisableFastNode = None\<rparr>))))"

text \<open>
  The export command: \<open>Create\<close> builds the application, with the latest version loaded or none;
  \<open>home\<close> is the home option when it is a string; \<open>isViper\<close> says that the options are viper's, on
  which the invariant check period is then set to 1.
\<close>

definition creator_appExport ::
  "string option \<Rightarrow> bool \<Rightarrow> (bool \<Rightarrow> 'app) \<Rightarrow> (int64 \<Rightarrow> 'app \<Rightarrow> string + 'app) \<Rightarrow> ('app \<Rightarrow> string + 'exported) \<Rightarrow> int64 \<Rightarrow>
     string + 'exported" where
  "creator_appExport home isViper Create LoadHeight Export height =
     (if home = None \<or> home = Some [] then Inl ''application home is not set''
      else if \<not> isViper then Inl ''appOpts is not viper.Viper''
      else
        let loadLatest = (height = - 1);
            app = Create loadLatest in
        if height \<noteq> - 1 then (case LoadHeight height app of Inl e \<Rightarrow> Inl e | Inr app' \<Rightarrow> Export app')
        else Export app)"

section \<open>The constructors of root.go\<close>

definition getChainIDFromOpts :: "('pruning, 'snapdb, 'snap) creator_lib \<Rightarrow> string + string" where
  "getChainIDFromOpts L =
     (if cl_ChainIDFlag L = [] then cl_GetChainIDFromHome L (cl_Home L) else Inr (cl_ChainIDFlag L))"

text \<open>An \<open>Inl\<close> is the panic with the library's error.\<close>

definition newApp ::
  "('pruning, 'snapdb, 'snap) creator_lib \<Rightarrow> string + ('pruning, 'snap) baseapp_options" where
  "newApp L =
     (case cl_PruningOptions L of
        Inl e \<Rightarrow> Inl e
      | Inr pruningOpts \<Rightarrow>
          (case getChainIDFromOpts L of
             Inl e \<Rightarrow> Inl e
           | Inr chainID \<Rightarrow>
               (case cl_GetSnapshotStore L of
                  Inl e \<Rightarrow> Inl e
                | Inr snapshotStore \<Rightarrow>
                    Inr \<lparr>bo_ChainID = chainID, bo_Pruning = pruningOpts, bo_MinGasPrices = cl_MinGasPrices L,
                      bo_HaltHeight = cl_HaltHeight L, bo_HaltTime = cl_HaltTime L,
                      bo_MinRetainBlocks = cl_MinRetainBlocks L, bo_InterBlockCache = cl_InterBlockCache L,
                      bo_Trace = cl_Trace L, bo_IndexEvents = cl_IndexEvents L, bo_SnapshotStore = snapshotStore,
                      bo_SnapshotInterval = cl_SnapshotInterval L,
                      bo_SnapshotKeepRecent = cl_SnapshotKeepRecent L, bo_IAVLCacheSize = cl_IAVLCacheSize L,
                      bo_QueryGasLimit = Some (cl_QueryGasLimit L),
                      bo_IAVLDisableFastNode = Some (cl_DisableIAVLFastNode L)\<rparr>)))"

text \<open>\<open>Create\<close> takes the chain identifier and says whether the latest version is loaded.\<close>

definition appExport ::
  "string option \<Rightarrow> bool \<Rightarrow> (string + string) \<Rightarrow> (string \<Rightarrow> bool \<Rightarrow> 'app) \<Rightarrow> (int64 \<Rightarrow> 'app \<Rightarrow> string + 'app) \<Rightarrow>
     ('app \<Rightarrow> string + 'exported) \<Rightarrow> int64 \<Rightarrow> string + 'exported" where
  "appExport home isViper chainIDFromOpts Create LoadHeight Export height =
     (if home = None \<or> home = Some [] then Inl ''application home not set''
      else if \<not> isViper then Inl ''appOpts is not viper.Viper''
      else
        (case chainIDFromOpts of
           Inl e \<Rightarrow> Inl e
         | Inr chainID \<Rightarrow>
             if height \<noteq> - 1 then
               (case LoadHeight height (Create chainID False) of Inl e \<Rightarrow> Inl e | Inr app \<Rightarrow> Export app)
             else Export (Create chainID True)))"

section \<open>The pre-run handler\<close>

text \<open>The client context is the library's; the steps on it are arguments, in the order they run.\<close>

record 'ctx prerun_lib =
  pr_ReadPersistentCommandFlags :: "'ctx \<Rightarrow> string + 'ctx"
  pr_ReadFromClientConfig :: "'ctx \<Rightarrow> string + 'ctx"
  pr_Offline :: "'ctx \<Rightarrow> bool"
  pr_WithTextualTxConfig :: "'ctx \<Rightarrow> string + 'ctx"
  pr_SetCmdClientContextHandler :: "'ctx \<Rightarrow> string option"

text \<open>
  The result is the error, or the configurations that are handed to \<^verbatim>\<open>InterceptConfigsPreRunHandler\<close>
  with the context in force.
\<close>

definition PersistentPreRunE ::
  "'ctx prerun_lib \<Rightarrow> 'a server_cfg_scheme \<Rightarrow> 'b evm_cfg_scheme \<Rightarrow> 'c jsonrpc_cfg_scheme \<Rightarrow> 'd comet_cfg_scheme \<Rightarrow>
     'ctx \<Rightarrow>
     string + 'ctx \<times> ('a server_cfg_scheme \<times> 'b evm_cfg_scheme \<times> 'c jsonrpc_cfg_scheme) \<times> 'd comet_cfg_scheme" where
  "PersistentPreRunE L srv evm rpc comet ctx =
     (case pr_ReadPersistentCommandFlags L ctx of
        Inl e \<Rightarrow> Inl e
      | Inr ctx1 \<Rightarrow>
          (case pr_ReadFromClientConfig L ctx1 of
             Inl e \<Rightarrow> Inl e
           | Inr ctx2 \<Rightarrow>
               (case (if \<not> pr_Offline L ctx2 then pr_WithTextualTxConfig L ctx2 else Inr ctx2) of
                  Inl e \<Rightarrow> Inl e
                | Inr ctx3 \<Rightarrow>
                    (case pr_SetCmdClientContextHandler L ctx3 of
                       Some e \<Rightarrow> Inl e
                     | None \<Rightarrow> Inr (ctx3, InitAppConfig NativeDenom EVMChainID srv evm rpc, initCometConfig comet)))))"

section \<open>Facts\<close>

lemma HasPrefix_split: "HasPrefix s p \<longleftrightarrow> (\<exists>v. s = p @ v)"
proof
  assume "HasPrefix s p"
  then have "s = p @ drop (length p) s" by (metis HasPrefix_iff append_take_drop_id)
  then show "\<exists>v. s = p @ v" ..
qed auto

lemma Contains_split: "Contains s p \<longleftrightarrow> (\<exists>u v. s = u @ p @ v)"
proof (induction s)
  case (Cons c s)
  show ?case
  proof
    assume "Contains (c # s) p"
    then consider "HasPrefix (c # s) p" | "Contains s p" by auto
    then show "\<exists>u v. c # s = u @ p @ v"
    proof cases
      case 1
      then obtain v where "c # s = [] @ p @ v" unfolding HasPrefix_split by auto
      then show ?thesis by blast
    next
      case 2
      then obtain u v where "s = u @ p @ v" using Cons by blast
      then have "c # s = (c # u) @ p @ v" by simp
      then show ?thesis by blast
    qed
  next
    assume "\<exists>u v. c # s = u @ p @ v"
    then obtain u v where uv: "c # s = u @ p @ v" by blast
    show "Contains (c # s) p"
    proof (cases u)
      case Nil
      then have "HasPrefix (c # s) p" unfolding HasPrefix_split using uv by simp
      then show ?thesis unfolding Contains.simps(2) ..
    next
      case (Cons a w)
      then have "s = w @ p @ v" using uv by simp
      then show ?thesis using Cons.IH by auto
    qed
  qed
qed auto

text \<open>The first occurrence is replaced, what is before and after it stays.\<close>

lemma Replace1_split:
  assumes "Contains s old"
  shows "\<exists>u v. s = u @ old @ v \<and> Replace1 s old new = u @ new @ v"
  using assms
proof (induction s)
  case (Cons c s)
  show ?case
  proof (cases "HasPrefix (c # s) old")
    case True
    then obtain v where v: "c # s = old @ v" using HasPrefix_split by blast
    then have "drop (length old) (c # s) = v" by (metis append_eq_conv_conj)
    then have "Replace1 (c # s) old new = [] @ new @ v" unfolding Replace1.simps(2) if_P [OF True] by simp
    moreover have "c # s = [] @ old @ v" using v by simp
    ultimately show ?thesis by blast
  next
    case False
    then have "Contains s old" using Cons.prems by simp
    then obtain u v where uv: "s = u @ old @ v" "Replace1 s old new = u @ new @ v" using Cons.IH by blast
    then have "c # s = (c # u) @ old @ v" by simp
    moreover have "Replace1 (c # s) old new = (c # u) @ new @ v"
      unfolding Replace1.simps(2) if_not_P [OF False] uv(2) by simp
    ultimately show ?thesis by blast
  qed
qed simp

lemma template_injected_key: "\<exists>a b. template_injected = a @ operate_exclusively_key @ b"
  unfolding template_injected_def by (rule exI, rule exI, subst append_assoc [symmetric], rule refl)

section \<open>Properties\<close>

text \<open>
  The template injection adds the key once: it fails exactly on a template that has neither the key
  nor the marker; its result has the key, only inserts the injected lines, and is left alone by a
  second injection.
\<close>
theorem inject_template:
  "case injectOperateExclusivelyTemplate template of
     None \<Rightarrow> \<not> Contains template operate_exclusively_key \<and> \<not> Contains template template_marker
   | Some t \<Rightarrow> Contains t operate_exclusively_key \<and> injectOperateExclusivelyTemplate t = Some t \<and>
       (t = template \<or> (\<exists>u v. template = u @ v \<and> t = u @ template_injected @ v))"
proof (cases "Contains template operate_exclusively_key \<or> \<not> Contains template template_marker")
  case True
  then show ?thesis by (auto simp: injectOperateExclusivelyTemplate_def)
next
  case False
  let ?t = "Replace1 template template_marker (template_injected @ template_marker)"
  obtain u v where uv: "template = u @ template_marker @ v" "?t = u @ (template_injected @ template_marker) @ v"
    using Replace1_split False by blast
  obtain a b where "template_injected = a @ operate_exclusively_key @ b" using template_injected_key by blast
  with uv(2) have "?t = (u @ a) @ operate_exclusively_key @ (b @ template_marker @ v)" by simp
  then have k: "Contains ?t operate_exclusively_key" unfolding Contains_split by blast
  have "\<exists>u v. template = u @ v \<and> ?t = u @ template_injected @ v" using uv by (metis append.assoc)
  then show ?thesis using False k by (simp add: injectOperateExclusivelyTemplate_def)
qed

text \<open>
  A node on the default configuration uses CometBFT's application-side mempool and configures the
  exclusive mempool in the application: the two defaults agree.
\<close>
theorem default_node_is_exclusive:
  assumes "mo_OperateExclusively opts = ec_OperateExclusively (fst (snd (InitAppConfig denom chainID srv evm rpc)))"
    and "mo_ChainConfigSet opts" and "0 \<le> mo_CosmosPoolMaxTx opts"
  shows "cm_MempoolType (initCometConfig comet) = ''app'' \<and>
    (\<exists>app' cfg n. configureEVMMempool opts app = (None, app') \<and> ma_EVMMempool app' = Some (Krakatoa cfg n))"
  using assms by (auto simp: InitAppConfig_def initCometConfig_def configureEVMMempool_def Let_def)

text \<open>
  A node whose chain identifier is given never reads the genesis file; otherwise it takes the
  identifier of that file, or fails naming it.
\<close>
theorem newApp_chain_id:
  "creator_newApp L = Inr opts \<Longrightarrow>
     (if cl_ChainIDFlag L \<noteq> [] then bo_ChainID opts = cl_ChainIDFlag L
      else cl_AppGenesisChainID L (cl_GenesisPath L) = Inr (bo_ChainID opts))"
  "creator_newApp L = Inl (GenesisFile path e) \<Longrightarrow>
     cl_ChainIDFlag L = [] \<and> path = cl_GenesisPath L \<and> cl_AppGenesisChainID L path = Inl e"
  by (auto simp: creator_newApp_def split: sum.splits if_splits)

text \<open>The export command exports the version it was asked for, the latest when asked for -1.\<close>

theorem creator_appExport_height:
  assumes "home \<noteq> None" and "home \<noteq> Some []"
  shows "creator_appExport home True Create LoadHeight Export height =
    (if height = - 1 then Export (Create True)
     else case LoadHeight height (Create False) of Inl e \<Rightarrow> Inl e | Inr app \<Rightarrow> Export app)"
  using assms by (cases home) (simp_all add: creator_appExport_def Let_def)

text \<open>
  Where both succeed, the two constructors differ in nothing but the query gas limit and the fast-node
  switch, which only the one of \<^verbatim>\<open>root.go\<close> sets: when they take the chain identifier and the snapshot
  store from the same places, all other options agree.
\<close>
theorem newApp_agrees:
  assumes "newApp L = Inr o1" and "creator_newApp L = Inr o2"
    and "cl_GetChainIDFromHome L (cl_Home L) = cl_AppGenesisChainID L (cl_GenesisPath L)"
    and "\<And>db st. cl_SnapshotDB L = Inr db \<Longrightarrow> cl_SnapshotStore L db = Inr st \<Longrightarrow> cl_GetSnapshotStore L = Inr st"
  shows "o1 = o2\<lparr>bo_QueryGasLimit := Some (cl_QueryGasLimit L),
                 bo_IAVLDisableFastNode := Some (cl_DisableIAVLFastNode L)\<rparr>"
  using assms
  by (auto simp: newApp_def creator_newApp_def getChainIDFromOpts_def split: sum.splits if_splits)

text \<open>
  An export that finds its chain identifier exports the requested version, and one that does not find
  it creates no application: the libraries' \<open>Create\<close> is not consulted.
\<close>
theorem appExport_height:
  assumes "home \<noteq> None" and "home \<noteq> Some []"
  shows "appExport home True (getChainIDFromOpts L) Create LoadHeight Export height =
    (case getChainIDFromOpts L of
       Inl e \<Rightarrow> Inl e
     | Inr c \<Rightarrow> (if height = - 1 then Export (Create c True)
                else case LoadHeight height (Create c False) of Inl e \<Rightarrow> Inl e | Inr app \<Rightarrow> Export app))"
  using assms by (cases home) (auto simp: appExport_def split: sum.split)

text \<open>
  A command that passes the pre-run handler runs with minimum gas prices in the native denomination and
  with the application-side mempool on both sides; offline it never builds a textual signing
  configuration, so it needs no node.
\<close>
theorem prerun_configuration:
  assumes "PersistentPreRunE L srv evm rpc comet ctx = Inr (ctx', (s, e, j), c)"
  shows "sv_MinGasPrices s = ''10000000000uecy''" and "ec_OperateExclusively e" and "ec_EVMChainID e = 9001" and "cm_MempoolType c = ''app''"
    and "\<And>t. (\<And>x. pr_Offline L x) \<Longrightarrow>
      PersistentPreRunE (L\<lparr>pr_WithTextualTxConfig := t\<rparr>) srv evm rpc comet ctx = Inr (ctx', (s, e, j), c)"
  using assms
  by (auto simp: PersistentPreRunE_def InitAppConfig_def initCometConfig_def NativeDenom_def EVMChainID_def
      split: sum.splits option.splits if_splits)

end
