(* ===== verification/ChainHistory.thy ===== *)
theory ChainHistory
  imports ChainGenesis TxHistory
begin

text \<open>
  The four modules under one transaction runner.  A transaction carries messages for any of the modules;
  the message router hands each to its module's message server (\<^verbatim>\<open>RegisterServices\<close> of the
  \<^verbatim>\<open>module.go\<close> files).  Running transactions is the SDK's: the runner is an argument, and
  \<open>atomic_runner\<close> is what it documents, that a transaction takes effect as a whole or not at all.  A
  block is a list of transactions under one block context; at its end the transient stores are emptied.
  None of the four modules has begin or end blockers.
\<close>

section \<open>Messages\<close>

datatype chain_msg =
    EnergyMsg energy_tx
  | OracleMsg oracle_tx
  | IdentityMsg identity_tx
  | AuditMsg audit_tx

text \<open>The stateless checks of the messages; a block boundary is not a message, so nothing routes it.\<close>

fun energy_valid :: "env \<Rightarrow> energy_tx \<Rightarrow> bool" where
  "energy_valid E (TxSubmit m) \<longleftrightarrow> MsgSubmitEnergyData_ValidateBasic E m = None"
| "energy_valid E (TxBatch m) \<longleftrightarrow> MsgBatchSubmit_ValidateBasic E m = None"
| "energy_valid E (TxUpdateParams m) \<longleftrightarrow> energy_MsgUpdateParams_ValidateBasic E m = None"
| "energy_valid E NextBlock \<longleftrightarrow> False"

fun audit_valid :: "env \<Rightarrow> audit_tx \<Rightarrow> bool" where
  "audit_valid E (TxRecord m) \<longleftrightarrow> MsgRecordAudit_ValidateBasic E m = None"
| "audit_valid E (TxAuditParams m) \<longleftrightarrow> audit_MsgUpdateParams_ValidateBasic E m = None"
| "audit_valid E AuditNextBlock \<longleftrightarrow> False"

fun msg_valid :: "env \<Rightarrow> chain_msg \<Rightarrow> bool" where
  "msg_valid E (EnergyMsg tx) \<longleftrightarrow> energy_valid E tx"
| "msg_valid E (OracleMsg tx) \<longleftrightarrow> oracle_ValidateBasic E tx = None"
| "msg_valid E (IdentityMsg tx) \<longleftrightarrow> identity_ValidateBasic E tx = None"
| "msg_valid E (AuditMsg tx) \<longleftrightarrow> audit_valid E tx"

text \<open>The message servers: \<open>None\<close> when the handler answers with an error.\<close>

definition energy_route :: "env \<Rightarrow> string \<Rightarrow> sdk_ctx \<Rightarrow> energy_tx \<Rightarrow> energy_state \<Rightarrow> energy_state option" where
  "energy_route E auth ctx tx st =
     (if energy_accepts E auth ctx tx st then Some (energy_deliver E auth ctx tx st) else None)"

definition oracle_route :: "env \<Rightarrow> string \<Rightarrow> sdk_ctx \<Rightarrow> oracle_tx \<Rightarrow> oracle_state \<Rightarrow> oracle_state option" where
  "oracle_route E auth ctx tx st =
     (if succeeds (oracle_handle E auth ctx tx (st\<lparr>os_events := []\<rparr>)) then Some (oracle_deliver E auth ctx tx st) else None)"

definition identity_route :: "env \<Rightarrow> string \<Rightarrow> sdk_ctx \<Rightarrow> identity_tx \<Rightarrow> identity_state \<Rightarrow> identity_state option" where
  "identity_route E auth ctx tx st =
     (if succeeds (identity_handle E auth ctx tx (st\<lparr>is_events := []\<rparr>)) then Some (identity_deliver E auth ctx tx st) else None)"

definition audit_route :: "env \<Rightarrow> string \<Rightarrow> sdk_ctx \<Rightarrow> audit_tx \<Rightarrow> audit_state \<Rightarrow> audit_state option" where
  "audit_route E auth ctx tx st =
     (if audit_accepts E auth ctx tx st then Some (audit_deliver E auth ctx tx st) else None)"

fun msg_route :: "env \<Rightarrow> string \<Rightarrow> sdk_ctx \<Rightarrow> chain_msg \<Rightarrow> chain_state \<Rightarrow> chain_state option" where
  "msg_route E auth ctx (EnergyMsg tx) st = map_option (\<lambda>s. st\<lparr>ch_energy := s\<rparr>) (energy_route E auth ctx tx (ch_energy st))"
| "msg_route E auth ctx (OracleMsg tx) st = map_option (\<lambda>s. st\<lparr>ch_oracle := s\<rparr>) (oracle_route E auth ctx tx (ch_oracle st))"
| "msg_route E auth ctx (IdentityMsg tx) st = map_option (\<lambda>s. st\<lparr>ch_identity := s\<rparr>) (identity_route E auth ctx tx (ch_identity st))"
| "msg_route E auth ctx (AuditMsg tx) st = map_option (\<lambda>s. st\<lparr>ch_audit := s\<rparr>) (audit_route E auth ctx tx (ch_audit st))"

section \<open>Transactions and blocks\<close>

fun run_msgs :: "env \<Rightarrow> string \<Rightarrow> sdk_ctx \<Rightarrow> chain_msg list \<Rightarrow> chain_state \<Rightarrow> chain_state option" where
  "run_msgs E auth ctx [] st = Some st"
| "run_msgs E auth ctx (m # ms) st =
     (case msg_route E auth ctx m st of None \<Rightarrow> None | Some st' \<Rightarrow> run_msgs E auth ctx ms st')"

text \<open>A transaction: its bytes, which the message context carries, and its messages.\<close>

type_synonym chain_tx = "bytes \<times> chain_msg list"

definition tx_ctx :: "sdk_ctx \<Rightarrow> chain_tx \<Rightarrow> sdk_ctx" where
  "tx_ctx c tx = c\<lparr>TxBytes := fst tx\<rparr>"

text \<open>
  The runner gives the state after the transaction, or \<open>None\<close> when it is rolled back, be it for a
  handler's error or for reasons outside the modules (fees, gas, signatures).
\<close>

type_synonym runner = "sdk_ctx \<Rightarrow> chain_tx \<Rightarrow> chain_state \<Rightarrow> chain_state option"

definition atomic_runner :: "env \<Rightarrow> string \<Rightarrow> runner \<Rightarrow> bool" where
  "atomic_runner E auth R \<longleftrightarrow>
     (\<forall>c tx st st'. R c tx st = Some st' \<longrightarrow>
        list_all (msg_valid E) (snd tx) \<and> run_msgs E auth (tx_ctx c tx) (snd tx) st = Some st')"

definition deliver_tx :: "runner \<Rightarrow> sdk_ctx \<Rightarrow> chain_tx \<Rightarrow> chain_state \<Rightarrow> chain_state" where
  "deliver_tx R c tx st = (case R c tx st of None \<Rightarrow> st | Some st' \<Rightarrow> st')"

definition end_block :: "env \<Rightarrow> string \<Rightarrow> sdk_ctx \<Rightarrow> chain_state \<Rightarrow> chain_state" where
  "end_block E auth ctx st =
     st\<lparr>ch_energy := energy_deliver E auth ctx NextBlock (ch_energy st),
        ch_audit := audit_deliver E auth ctx AuditNextBlock (ch_audit st)\<rparr>"

type_synonym block = "sdk_ctx \<times> chain_tx list"

definition run_block :: "env \<Rightarrow> string \<Rightarrow> runner \<Rightarrow> block \<Rightarrow> chain_state \<Rightarrow> chain_state" where
  "run_block E auth R b st = end_block E auth (fst b) (fold (deliver_tx R (fst b)) (snd b) st)"

definition chain_run :: "env \<Rightarrow> string \<Rightarrow> runner \<Rightarrow> block list \<Rightarrow> chain_state \<Rightarrow> chain_state" where
  "chain_run E auth R bs st = fold (run_block E auth R) bs st"

section \<open>Events\<close>

text \<open>
  The specification: the messages of the transactions that commit, one after the other, with the block
  boundaries between them.
\<close>

datatype chain_event = Msg chain_msg | Boundary

fun event_deliver :: "env \<Rightarrow> string \<Rightarrow> sdk_ctx \<Rightarrow> chain_event \<Rightarrow> chain_state \<Rightarrow> chain_state" where
  "event_deliver E auth ctx (Msg (EnergyMsg tx)) st = st\<lparr>ch_energy := energy_deliver E auth ctx tx (ch_energy st)\<rparr>"
| "event_deliver E auth ctx (Msg (OracleMsg tx)) st = st\<lparr>ch_oracle := oracle_deliver E auth ctx tx (ch_oracle st)\<rparr>"
| "event_deliver E auth ctx (Msg (IdentityMsg tx)) st = st\<lparr>ch_identity := identity_deliver E auth ctx tx (ch_identity st)\<rparr>"
| "event_deliver E auth ctx (Msg (AuditMsg tx)) st = st\<lparr>ch_audit := audit_deliver E auth ctx tx (ch_audit st)\<rparr>"
| "event_deliver E auth ctx Boundary st = end_block E auth ctx st"

fun replay :: "env \<Rightarrow> string \<Rightarrow> (sdk_ctx \<times> chain_event) list \<Rightarrow> chain_state \<Rightarrow> chain_state" where
  "replay E auth [] st = st"
| "replay E auth ((ctx, e) # es) st = replay E auth es (event_deliver E auth ctx e st)"

definition tx_events :: "sdk_ctx \<Rightarrow> chain_tx \<Rightarrow> (sdk_ctx \<times> chain_event) list" where
  "tx_events c tx = map (\<lambda>m. (tx_ctx c tx, Msg m)) (snd tx)"

text \<open>Everything a list of blocks submits, and the part of it that commits.\<close>

definition submitted :: "block list \<Rightarrow> (sdk_ctx \<times> chain_event) list" where
  "submitted bs = concat (map (\<lambda>(c, txs). concat (map (tx_events c) txs) @ [(c, Boundary)]) bs)"

fun committed_txs :: "runner \<Rightarrow> sdk_ctx \<Rightarrow> chain_tx list \<Rightarrow> chain_state \<Rightarrow> (sdk_ctx \<times> chain_event) list" where
  "committed_txs R c [] st = []"
| "committed_txs R c (tx # txs) st =
     (if R c tx st \<noteq> None then tx_events c tx else []) @ committed_txs R c txs (deliver_tx R c tx st)"

fun committed :: "env \<Rightarrow> string \<Rightarrow> runner \<Rightarrow> block list \<Rightarrow> chain_state \<Rightarrow> (sdk_ctx \<times> chain_event) list" where
  "committed E auth R [] st = []"
| "committed E auth R (b # bs) st =
     committed_txs R (fst b) (snd b) st @ (fst b, Boundary) # committed E auth R bs (run_block E auth R b st)"

fun energy_part :: "chain_event \<Rightarrow> energy_tx option" where
  "energy_part (Msg (EnergyMsg tx)) = Some tx"
| "energy_part Boundary = Some NextBlock"
| "energy_part _ = None"

fun oracle_part :: "chain_event \<Rightarrow> oracle_tx option" where
  "oracle_part (Msg (OracleMsg tx)) = Some tx"
| "oracle_part _ = None"

fun identity_part :: "chain_event \<Rightarrow> identity_tx option" where
  "identity_part (Msg (IdentityMsg tx)) = Some tx"
| "identity_part _ = None"

fun audit_part :: "chain_event \<Rightarrow> audit_tx option" where
  "audit_part (Msg (AuditMsg tx)) = Some tx"
| "audit_part Boundary = Some AuditNextBlock"
| "audit_part _ = None"

section \<open>The modules are components of the chain\<close>

interpretation chain_hist: tx_history "event_deliver E auth" "replay E auth" for E auth
  by unfold_locales simp_all

lemma event_cases:
  obtains (energy) tx where "e = Msg (EnergyMsg tx)" | (orc) tx where "e = Msg (OracleMsg tx)"
    | (identity) tx where "e = Msg (IdentityMsg tx)" | (audit) tx where "e = Msg (AuditMsg tx)" | (boundary) "e = Boundary"
proof (cases e)
  case (Msg m)
  then show ?thesis by (cases m) (auto intro: that)
qed (auto intro: that)

interpretation chain_energy: component_history "event_deliver E auth" "replay E auth"
  "energy_deliver E auth" "energy_run E auth" ch_energy energy_part for E auth
proof
  fix c e s
  show "ch_energy (event_deliver E auth c e s) =
      (case energy_part e of None \<Rightarrow> ch_energy s | Some t \<Rightarrow> energy_deliver E auth c t (ch_energy s))"
    by (cases e rule: event_cases) (simp_all add: end_block_def)
qed

interpretation chain_oracle: component_history "event_deliver E auth" "replay E auth"
  "oracle_deliver E auth" "oracle_run E auth" ch_oracle oracle_part for E auth
proof
  fix c e s
  show "ch_oracle (event_deliver E auth c e s) =
      (case oracle_part e of None \<Rightarrow> ch_oracle s | Some t \<Rightarrow> oracle_deliver E auth c t (ch_oracle s))"
    by (cases e rule: event_cases) (simp_all add: end_block_def)
qed

interpretation chain_identity: component_history "event_deliver E auth" "replay E auth"
  "identity_deliver E auth" "identity_run E auth" ch_identity identity_part for E auth
proof
  fix c e s
  show "ch_identity (event_deliver E auth c e s) =
      (case identity_part e of None \<Rightarrow> ch_identity s | Some t \<Rightarrow> identity_deliver E auth c t (ch_identity s))"
    by (cases e rule: event_cases) (simp_all add: end_block_def)
qed

interpretation chain_audit: component_history "event_deliver E auth" "replay E auth"
  "audit_deliver E auth" "audit_run E auth" ch_audit audit_part for E auth
proof
  fix c e s
  show "ch_audit (event_deliver E auth c e s) =
      (case audit_part e of None \<Rightarrow> ch_audit s | Some t \<Rightarrow> audit_deliver E auth c t (ch_audit s))"
    by (cases e rule: event_cases) (simp_all add: end_block_def)
qed

lemmas chain_projections = chain_energy.run_parts chain_oracle.run_parts chain_identity.run_parts chain_audit.run_parts

end
