(* ===== verification/ChainClaims.thy ===== *)
theory ChainClaims
  imports ChainHistory
begin

text \<open>
  What holds of whole chains: the runner of \<open>ChainHistory\<close> implements the replay of the messages that
  commit, so the modules' results on histories carry over, for transactions with several messages.
\<close>

section \<open>The runner implements the replay of what commits\<close>

text \<open>A message the router accepts is delivered as its event.\<close>

lemma msg_route_Some: "msg_route E auth ctx m st = Some st' \<Longrightarrow> st' = event_deliver E auth ctx (Msg m) st"
  by (cases m) (auto simp: energy_route_def oracle_route_def identity_route_def audit_route_def split: if_splits)

lemma run_msgs_Some:
  "run_msgs E auth ctx ms st = Some st' \<Longrightarrow> st' = replay E auth (map (\<lambda>m. (ctx, Msg m)) ms) st"
  by (induction ms arbitrary: st) (auto dest: msg_route_Some split: option.splits)

lemma atomic_runnerD:
  "atomic_runner E auth R \<Longrightarrow> R c tx st = Some st' \<Longrightarrow> run_msgs E auth (tx_ctx c tx) (snd tx) st = Some st'"
  unfolding atomic_runner_def by blast

lemma deliver_tx_replay:
  "atomic_runner E auth R \<Longrightarrow> deliver_tx R c tx st = replay E auth (if R c tx st \<noteq> None then tx_events c tx else []) st"
  by (auto simp: deliver_tx_def tx_events_def dest!: atomic_runnerD run_msgs_Some split: option.split)

lemma committed_txs_replay:
  "atomic_runner E auth R \<Longrightarrow> fold (deliver_tx R c) txs st = replay E auth (committed_txs R c txs st) st"
proof (induction txs arbitrary: st)
  case (Cons tx txs)
  show ?case
    unfolding committed_txs.simps chain_hist.run_append deliver_tx_replay [OF Cons.prems, symmetric] using Cons by simp
qed simp

lemma chain_run_replay:
  "atomic_runner E auth R \<Longrightarrow> chain_run E auth R bs st = replay E auth (committed E auth R bs st) st"
proof (induction bs arbitrary: st)
  case (Cons b bs)
  have "replay E auth (committed_txs R (fst b) (snd b) st @ [(fst b, Boundary)]) st = run_block E auth R b st"
    using Cons.prems by (simp add: chain_hist.run_append run_block_def committed_txs_replay)
  then show ?case
    using Cons.IH [of "run_block E auth R b st"] Cons.prems chain_hist.run_append
      [of E auth "committed_txs R (fst b) (snd b) st @ [(fst b, Boundary)]" "committed E auth R bs (run_block E auth R b st)" st]
    by (simp add: chain_run_def)
qed (simp add: chain_run_def)

lemma committed_txs_subseq: "subseq (committed_txs R c txs st) (concat (map (tx_events c) txs))"
  by (induction txs arbitrary: st) (auto intro: list_emb_append_mono list_emb_append2)

lemma committed_subseq: "subseq (committed E auth R bs st) (submitted bs)"
proof (induction bs arbitrary: st)
  case (Cons b bs)
  have "subseq (committed_txs R (fst b) (snd b) st @ [(fst b, Boundary)] @ committed E auth R bs (run_block E auth R b st))
      (concat (map (tx_events (fst b)) (snd b)) @ [(fst b, Boundary)] @ submitted bs)"
    by (intro list_emb_append_mono committed_txs_subseq Cons subseq_order.order_refl)
  then show ?case by (simp add: submitted_def case_prod_beta)
qed (simp add: submitted_def)

section \<open>What every chain history keeps\<close>

text \<open>
  The hypotheses of the module histories, asked of everything that is submitted: room for the
  identifiers, and no update that lowers a cap.
\<close>

definition chain_room :: "block list \<Rightarrow> chain_state \<Rightarrow> bool" where
  "chain_room bs st \<longleftrightarrow>
     unat (energy_seq (ch_energy st)) + ids_drawn (parts_of energy_part (submitted bs)) < 2 ^ 64 \<and>
     unat (audit_seq (ch_audit st)) + audit_drawn (parts_of audit_part (submitted bs)) < 2 ^ 64"

definition chain_caps :: "env \<Rightarrow> block list \<Rightarrow> chain_state \<Rightarrow> bool" where
  "chain_caps E bs st \<longleftrightarrow>
     sorted (cap_of E (ch_energy st) # requested_caps (parts_of energy_part (submitted bs))) \<and>
     sorted (oracle_cap E (ch_oracle st) # oracle_requested_caps (parts_of oracle_part (submitted bs))) \<and>
     sorted (identity_cap E (ch_identity st) # identity_requested_caps (parts_of identity_part (submitted bs))) \<and>
     sorted (audit_cap E (ch_audit st) # audit_requested_caps (parts_of audit_part (submitted bs)))"

definition chain_ok :: "env \<Rightarrow> chain_state \<Rightarrow> bool" where
  "chain_ok E st \<longleftrightarrow> cap_ok E (ch_energy st) \<and> oracle_ok E (ch_oracle st) \<and> identity_ok E (ch_identity st) \<and>
     audit_cap_ok E (ch_audit st)"

definition chain_AllInvariants :: "env \<Rightarrow> chain_state \<Rightarrow> bool" where
  "chain_AllInvariants E st \<longleftrightarrow>
     energy_AllInvariants E (ch_energy st) = None \<and> oracle_AllInvariants E (ch_oracle st) = None \<and>
     identity_AllInvariants E (ch_identity st) = None \<and> audit_AllInvariants E (ch_audit st) = None"

lemma chain_AllInvariants_ok:
  "healthy E \<Longrightarrow> chain_wf st \<Longrightarrow> chain_ok E st \<Longrightarrow> chain_AllInvariants E st"
  by (simp add: chain_AllInvariants_def chain_wf_def chain_ok_def AllInvariants_ok oracle_AllInvariants_ok
      identity_AllInvariants_ok audit_AllInvariants_ok)

lemma drawn_part:
  assumes "subseq xs ys"
  shows "ids_drawn (parts_of energy_part xs) \<le> ids_drawn (parts_of energy_part ys)"
    and "audit_drawn (parts_of audit_part xs) \<le> audit_drawn (parts_of audit_part ys)"
  unfolding ids_drawn_def audit_drawn_def using assms by (auto intro: sum_list_subseq parts_of_subseq)

lemma replay_wf:
  assumes "healthy E" and "chain_wf st" and "chain_room bs st" and "subseq es (submitted bs)"
  shows "chain_wf (replay E auth es st)"
    and "energy_extends (ch_energy st) (ch_energy (replay E auth es st))"
    and "audit_keeps (ch_audit st) (ch_audit (replay E auth es st))"
  using assms drawn_part [OF assms(4)]
    energy_run_wf [of "ch_energy st" "parts_of energy_part es" E auth]
    audit_run_wf [OF healthy_readable [OF assms(1)], of "ch_audit st" "parts_of audit_part es" auth]
  unfolding chain_wf_def chain_room_def chain_projections by (auto intro: oracle_wf_run identity_wf_run)

lemma replay_ok:
  assumes "healthy E" and "rejects_empty E" and "chain_ok E st" and "chain_caps E bs st" and "subseq es (submitted bs)"
  shows "chain_ok E (replay E auth es st)"
proof -
  note part = parts_of_subseq [OF assms(5)]
  have ok: "cap_ok E (ch_energy st)" "oracle_ok E (ch_oracle st)" "identity_ok E (ch_identity st)" "audit_cap_ok E (ch_audit st)"
    using assms(3) by (simp_all add: chain_ok_def)
  have caps: "sorted (cap_of E (ch_energy st) # requested_caps (parts_of energy_part (submitted bs)))"
      "sorted (oracle_cap E (ch_oracle st) # oracle_requested_caps (parts_of oracle_part (submitted bs)))"
      "sorted (identity_cap E (ch_identity st) # identity_requested_caps (parts_of identity_part (submitted bs)))"
      "sorted (audit_cap E (ch_audit st) # audit_requested_caps (parts_of audit_part (submitted bs)))"
    using assms(4) unfolding chain_caps_def by blast+
  show ?thesis
    unfolding chain_ok_def chain_projections
    using cap_ok_run_part [OF assms(1) ok(1) caps(1) part] oracle_ok_run_part [OF assms(1,2) ok(2) caps(2) part]
      identity_ok_run_part [OF assms(1) ok(3) caps(3) part] audit_cap_ok_run_part [OF assms(1) ok(4) caps(4) part]
    by blast
qed

lemma chain_run_keeps:
  assumes "healthy E" and "rejects_empty E" and "chain_wf st" and "chain_ok E st"
    and "chain_room bs st" and "chain_caps E bs st" and "atomic_runner E auth R"
  shows "chain_wf (chain_run E auth R bs st) \<and> chain_ok E (chain_run E auth R bs st) \<and>
    energy_extends (ch_energy st) (ch_energy (chain_run E auth R bs st)) \<and>
    audit_keeps (ch_audit st) (ch_audit (chain_run E auth R bs st))"
proof -
  have "chain_ok E (chain_run E auth R bs st)"
    unfolding chain_run_replay [OF assms(7)] using assms(1,2,4,6) committed_subseq by (rule replay_ok)
  moreover note replay_wf [OF assms(1,3,5) committed_subseq [of E auth R bs st], of auth, folded chain_run_replay [OF assms(7)]]
  ultimately show ?thesis by blast
qed

section \<open>Counting along a block\<close>

lemma accepted_by_append:
  "accepted_by E auth a (xs @ ys) st = accepted_by E auth a xs st + accepted_by E auth a ys (energy_run E auth xs st)"
  by (induction E auth a xs st rule: accepted_by.induct) simp_all

lemma audit_accepted_by_append:
  "audit_accepted_by E auth a (xs @ ys) st = audit_accepted_by E auth a xs st + audit_accepted_by E auth a ys (audit_run E auth xs st)"
  by (induction E auth a xs st rule: audit_accepted_by.induct) simp_all

text \<open>How many submissions of a sender, and audits of a creator, a list of events holds.\<close>

definition energy_count :: "string \<Rightarrow> (sdk_ctx \<times> chain_event) list \<Rightarrow> nat" where
  "energy_count a es = length (filter (\<lambda>(ctx, tx). tx_sender tx = Some a) (parts_of energy_part es))"

definition audit_total :: "string \<Rightarrow> (sdk_ctx \<times> chain_event) list \<Rightarrow> nat" where
  "audit_total a es = length (filter (\<lambda>(ctx, tx). audit_sender tx = Some a) (parts_of audit_part es))"

text \<open>In a transaction that commits every message was accepted.\<close>

lemma run_msgs_accepted:
  "run_msgs E auth ctx ms st = Some st' \<Longrightarrow>
     accepted_by E auth a (parts_of energy_part (map (\<lambda>m. (ctx, Msg m)) ms)) (ch_energy st) = energy_count a (map (\<lambda>m. (ctx, Msg m)) ms) \<and>
     audit_accepted_by E auth a (parts_of audit_part (map (\<lambda>m. (ctx, Msg m)) ms)) (ch_audit st) = audit_total a (map (\<lambda>m. (ctx, Msg m)) ms)"
proof (induction ms arbitrary: st)
  case (Cons m ms)
  obtain s1 where s1: "msg_route E auth ctx m st = Some s1" "run_msgs E auth ctx ms s1 = Some st'"
    using Cons.prems by (auto split: option.splits)
  from Cons.IH [OF s1(2)] s1(1) show ?case
    by (cases m) (auto simp: energy_count_def audit_total_def energy_route_def oracle_route_def identity_route_def
      audit_route_def split: if_splits)
qed (simp add: energy_count_def audit_total_def)

lemma committed_txs_accepted:
  "atomic_runner E auth R \<Longrightarrow>
   accepted_by E auth a (parts_of energy_part (committed_txs R c txs st)) (ch_energy st) =
     energy_count a (committed_txs R c txs st) \<and>
   audit_accepted_by E auth a (parts_of audit_part (committed_txs R c txs st)) (ch_audit st) =
     audit_total a (committed_txs R c txs st)"
proof (induction txs arbitrary: st)
  case (Cons tx txs)
  define es where "es = (if R c tx st \<noteq> None then tx_events c tx else [])"
  define rest where "rest = committed_txs R c txs (deliver_tx R c tx st)"
  have split_es: "committed_txs R c (tx # txs) st = es @ rest" by (simp add: es_def rest_def)
  have here: "accepted_by E auth a (parts_of energy_part es) (ch_energy st) = energy_count a es"
      "audit_accepted_by E auth a (parts_of audit_part es) (ch_audit st) = audit_total a es"
    using run_msgs_accepted [of E auth "tx_ctx c tx" "snd tx" st _ a, folded tx_events_def [of c tx]]
      atomic_runnerD [OF Cons.prems, of c tx st]
    by (auto simp: es_def energy_count_def audit_total_def)
  have next_st: "energy_run E auth (parts_of energy_part es) (ch_energy st) = ch_energy (deliver_tx R c tx st)"
      "audit_run E auth (parts_of audit_part es) (ch_audit st) = ch_audit (deliver_tx R c tx st)"
    unfolding deliver_tx_replay [OF Cons.prems] chain_projections es_def by (rule refl)+
  note IH = Cons.IH [OF Cons.prems, of "deliver_tx R c tx st", folded rest_def]
  show ?case
    unfolding split_es using IH
    by (simp add: accepted_by_append audit_accepted_by_append here next_st) (simp add: energy_count_def audit_total_def)
qed (simp_all add: energy_count_def audit_total_def)

section \<open>Properties\<close>



text \<open>
  C18: The rate limits hold for blocks of multi-message transactions: of the messages that commit in a
  block at most the configured number come from one submitter of energy data, and from one audit
  creator, as long as the block updates no parameters of the two modules.  Messages of a transaction
  that fails are rolled back and do not count.
\<close>
theorem chain_block_rate_limit:
  assumes "\<And>ctx tx. (ctx, tx) \<in> set (parts_of energy_part (concat (map (tx_events c) txs))) \<Longrightarrow> tx_sender tx \<noteq> None"
    and "\<And>ctx tx. (ctx, tx) \<in> set (parts_of audit_part (concat (map (tx_events c) txs))) \<Longrightarrow> audit_sender tx \<noteq> None"
    and "energy_limit E (ch_energy st) \<noteq> 0" and "es_transient (ch_energy st) = fmempty"
    and "audit_limit E (ch_audit st) \<noteq> 0" and "as_transient (ch_audit st) = fmempty" and "atomic_runner E auth R"
  shows "energy_count a (committed_txs R c txs st) \<le> unat (energy_limit E (ch_energy st)) \<and>
    audit_total a (committed_txs R c txs st) \<le> unat (audit_limit E (ch_audit st))"
proof -
  let ?es = "committed_txs R c txs st"
  note sub = subseq_set [OF parts_of_subseq [OF committed_txs_subseq, of _ R c txs st]]
  have "\<forall>(ctx, tx) \<in> set (parts_of energy_part ?es). tx_sender tx \<noteq> None"
    using assms(1) sub [of energy_part] by blast
  from block_count [OF this assms(3), of a auth] have e: "energy_count a ?es \<le> unat (energy_limit E (ch_energy st))"
    using assms(4) committed_txs_accepted [OF assms(7), of a c txs st] by (simp add: count_key_def)
  have "\<forall>(ctx, tx) \<in> set (parts_of audit_part ?es). audit_sender tx \<noteq> None"
    using assms(2) sub [of audit_part] by blast
  from audit_block_count [OF this assms(5), of a auth] have "audit_total a ?es \<le> unat (audit_limit E (ch_audit st))"
    using assms(6) committed_txs_accepted [OF assms(7), of a c txs st] by (simp add: audit_count_def)
  with e show ?thesis ..
qed

section \<open>Examples\<close>

definition sample_block :: block where
  "sample_block = (sample_ctx, [(''tx'', [EnergyMsg (TxSubmit sample_submit), AuditMsg (TxRecord sample_record)])])"

lemma sample_block_parts [simp]:
  "parts_of energy_part (submitted [sample_block]) = [(sample_ctx, TxSubmit sample_submit), (sample_ctx, NextBlock)]"
  "parts_of oracle_part (submitted [sample_block]) = []" "parts_of identity_part (submitted [sample_block]) = []"
  "parts_of audit_part (submitted [sample_block]) = [(sample_ctx, TxRecord sample_record), (sample_ctx, AuditNextBlock)]"
  by (simp_all add: submitted_def sample_block_def tx_events_def tx_ctx_def sample_ctx_def)

lemma chain_wf_empty: "chain_wf chain_empty"
  by (simp add: chain_wf_def chain_empty_def energy_wf_empty oracle_wf_empty identity_wf_empty audit_wf_empty)

lemma chain_ok_empty: "chain_ok sample_env chain_empty"
proof -
  have "identity_ok sample_env identity_empty"
    by (simp add: identity_ok_def identity_cap_def) (simp add: identity_empty_def)
  moreover have "oracle_ok sample_env oracle_empty"
    by (simp add: oracle_ok_def oracle_cap_def oracle_GetParams_def item_Get_def oracle_empty_def oracle_DefaultParams_valid)
  ultimately show ?thesis
    by (simp add: chain_ok_def chain_empty_def cap_ok_def cap_of_def energy_DefaultParams_valid audit_cap_ok_def audit_cap_def
      audit_DefaultParams_def audit_bounds)
qed

text \<open>A runner that rolls back for the modules' errors only.\<close>

definition plain_runner :: runner where
  "plain_runner c tx st =
     (if list_all (msg_valid sample_env) (snd tx) then run_msgs sample_env ''gov'' (tx_ctx c tx) (snd tx) st else None)"

lemma plain_runner_atomic: "atomic_runner sample_env ''gov'' plain_runner"
  by (simp add: atomic_runner_def plain_runner_def)



theorem chain_block_rate_limit_witness:
  "energy_count ''alice'' (committed_txs plain_runner sample_ctx (replicate 3 (hd (snd sample_block)))
     (chain_empty\<lparr>ch_energy := sample_limited\<rparr>)) \<le> 1"
  using chain_block_rate_limit [of sample_ctx "replicate 3 (hd (snd sample_block))" sample_env
      "chain_empty\<lparr>ch_energy := sample_limited\<rparr>" "''gov''" plain_runner "''alice''"] plain_runner_atomic
  by (simp add: sample_block_def tx_events_def numeral_3_eq_3 chain_empty_def sample_limited_def energy_limit_def
      energy_GetParams_def item_Get_def sample_submit_def NewMsgSubmitEnergyData_def audit_limit_def audit_DefaultParams_def audit_bounds)

end
