(* ===== verification/ChainBoot.thy ===== *)
theory ChainBoot
  imports ChainClaims
begin

text \<open>
  From genesis to any block: what the modules' own validation accepts boots into a chain whose
  invariants hold and keep holding.
\<close>

section \<open>What a validated genesis boots into\<close>

lemma oracle_wf_put_oracle: "oracle_wf st \<Longrightarrow> oracle_wf (put_oracle i st)"
  unfolding oracle_wf_def by (simp add: put_oracle_def)

lemma oracle_booted_ok:
  assumes "healthy E" and "oracle_Genesis_Validate gs = None"
  shows "oracle_wf (oracle_booted gs)" and "oracle_ok E (oracle_booted gs)"
proof -
  note v = assms(2) [unfolded oracle_Genesis_Validate_None]
  have stored: "oracle_wf (fold oracle_store ds st)" if "oracle_wf st" for ds st
    using that by (induction ds arbitrary: st) (simp_all add: oracle_wf_store)
  have put: "oracle_wf (fold put_oracle os st)" if "oracle_wf st" for os st
    using that by (induction os arbitrary: st) (simp_all add: oracle_wf_put_oracle)
  show "oracle_wf (oracle_booted gs)"
    unfolding oracle_booted_def by (intro stored put) (simp add: oracle_wf_empty)
  have params: "oracle_GetParams E (oracle_booted gs) = og_Params gs"
    using assms(1) by (simp add: oracle_GetParams_def item_Get_def oracle_booted_fields)
  have addr: "fmlookup (os_Oracles (oracle_booted gs)) [] = None"
  proof (rule ccontr)
    assume "fmlookup (os_Oracles (oracle_booted gs)) [] \<noteq> None"
    then obtain i where "fmlookup (fold (\<lambda>i. fmupd (oi_Address i) i) (og_Oracles gs) fmempty) [] = Some i"
      unfolding oracle_booted_fields by blast
    then show False using v by (auto dest!: fold_fmupd_lookup)
  qed
  have "u32_len (od_Metadata d) \<le> op_MaxMetadataSize (og_Params gs)"
    if "fmlookup (os_Data (oracle_booted gs)) k = Some d" for k d
    using v that unfolding oracle_booted_fields by (auto simp: data_well_formed_def dest!: fold_fmupd_lookup)
  then show "oracle_ok E (oracle_booted gs)"
    using v addr unfolding oracle_ok_def oracle_cap_def params by blast
qed

lemma identity_booted_ok:
  assumes "healthy E" and "identity_Genesis_Validate E gs = None"
  shows "identity_wf (identity_booted gs)" and "identity_ok E (identity_booted gs)"
proof -
  note v = assms(2) [unfolded identity_Genesis_Validate_None]
  show "identity_wf (identity_booted gs)" using v by (intro identity_booted_wf) simp
  have "identity_GetParams E (identity_booted gs) = ig_Params gs"
    using assms(1) by (simp add: identity_GetParams_def item_Get_def identity_booted_fields)
  then show "identity_ok E (identity_booted gs)"
    using v by (auto simp: identity_ok_def identity_cap_def identity_booted_fields dest!: fold_fmupd_lookup)
qed

lemma audit_booted_ok:
  assumes "healthy E" and "audit_Genesis_Validate gs = None"
  shows "audit_wf (audit_booted gs)" and "audit_cap_ok E (audit_booted gs)"
proof -
  note v = assms(2) [unfolded audit_Genesis_Validate_None]
  have look: "fmlookup (as_Logs (audit_booted gs)) i = Some l \<longleftrightarrow> l \<in> set (ag_Logs gs) \<and> al_ID l = i" for i l
    using v fold_fmupd_in [of al_ID "ag_Logs gs" l fmempty]
    by (auto simp: audit_booted_fields dest: fold_fmupd_lookup)
  have "al_ID l \<le> audit_maxID gs" if "l \<in> set (ag_Logs gs)" for l
    using that audit_maxID_le [of gs "audit_maxID gs"] by simp
  then show "audit_wf (audit_booted gs)"
    unfolding audit_wf_def audit_index_defs look by (auto simp: audit_booted_fields)
  have "audit_GetParams E (audit_booted gs) = ag_Params gs"
    using assms(1) by (simp add: audit_GetParams_def item_Get_def audit_booted_fields)
  then show "audit_cap_ok E (audit_booted gs)"
    using v audit_Params_Validate_cap [of "ag_Params gs"] unfolding audit_cap_ok_def audit_cap_def look
    by auto
qed

lemma energy_booted_ok:
  assumes "healthy E" and "energy_Genesis_Validate gs = None"
  shows "energy_wf (booted gs)" and "cap_ok E (booted gs)"
proof -
  note v = assms(2) [unfolded energy_Genesis_Validate_None]
  show "energy_wf (booted gs)" using v by (intro booted_wf) simp
  have "energy_GetParams E (booted gs) = eg_Params gs"
    using assms(1) by (simp add: energy_GetParams_def item_Get_def booted_fields)
  then show "cap_ok E (booted gs)"
    using v by (auto simp: cap_ok_def cap_of_def booted_fields dest!: fold_fmupd_lookup)
qed

section \<open>From genesis to any block\<close>

lemma validate_json_None: "validate_json nm J validate bz = None \<longleftrightarrow> (\<exists>gs. json_Unmarshal J bz = Inr gs \<and> validate gs = None)"
  by (auto simp: validate_json_def split: sum.split)

lemma InitChainer_boots:
  assumes "healthy E" and "Unmarshal req = Inr g"
    and "g EnergyM = Some be" "energy_module_ValidateGenesis (cc_energy J) be = None"
    and "g OracleM = Some bo" "oracle_module_ValidateGenesis (cc_oracle J) bo = None"
    and "g IdentityM = Some bi" "identity_module_ValidateGenesis (cc_identity J) E bi = None"
    and "g AuditM = Some ba" "audit_module_ValidateGenesis (cc_audit J) ba = None"
  obtains st where "InitChainer J E Unmarshal None req chain_empty = (None, st)" "chain_wf st" "chain_ok E st"
proof -
  obtain eg where e: "json_Unmarshal (cc_energy J) be = Inr eg" "energy_Genesis_Validate eg = None"
    using assms(4) by (auto simp: energy_module_ValidateGenesis_def validate_json_None)
  obtain og where o: "json_Unmarshal (cc_oracle J) bo = Inr og" "oracle_Genesis_Validate og = None"
    using assms(6) by (auto simp: oracle_module_ValidateGenesis_def validate_json_None)
  obtain ig where i: "json_Unmarshal (cc_identity J) bi = Inr ig" "identity_Genesis_Validate E ig = None"
    using assms(8) by (auto simp: identity_module_ValidateGenesis_def validate_json_None)
  obtain ag where a: "json_Unmarshal (cc_audit J) ba = Inr ag" "audit_Genesis_Validate ag = None"
    using assms(10) by (auto simp: audit_module_ValidateGenesis_def validate_json_None)
  let ?st = "\<lparr>ch_energy = booted eg, ch_oracle = oracle_booted og, ch_identity = identity_booted ig, ch_audit = audit_booted ag\<rparr>"
  have "manager_InitGenesis J E (filter custom genesisModuleOrder) g chain_empty = (None, ?st)"
    using e(1) o(1) i(1) a(1) assms(3,5,7,9) InitGenesis_booted [OF assms(1), of eg] oracle_InitGenesis_booted [OF assms(1), of og]
      identity_InitGenesis_booted [OF assms(1), of ig] audit_InitGenesis_booted [OF assms(1), of ag]
    by (simp add: custom_order chain_empty_def init_module_custom)
  then have "InitChainer J E Unmarshal None req chain_empty = (None, ?st)"
    by (simp add: InitChainer_def assms(2) init_skips_other)
  moreover have "chain_wf ?st" "chain_ok E ?st"
    using energy_booted_ok [OF assms(1) e(2)] oracle_booted_ok [OF assms(1) o(2)]
      identity_booted_ok [OF assms(1) i(2)] audit_booted_ok [OF assms(1) a(2)]
    by (simp_all add: chain_wf_def chain_ok_def)
  ultimately show thesis by (rule that)
qed


definition sample_app_genesis :: "app_module \<rightharpoonup> sample_json" where
  "sample_app_genesis = [EnergyM \<mapsto> SEnergy energy_DefaultGenesis, OracleM \<mapsto> SOracle oracle_DefaultGenesis,
     IdentityM \<mapsto> SIdentity identity_DefaultGenesis, AuditM \<mapsto> SAudit audit_DefaultGenesis]"


end
