(* ===== verification/ParallelRunner.thy ===== *)
theory ParallelRunner
  imports ChainClaims AppWiring
begin

text \<open>
  What running the transactions of a block in parallel may rely on: the modules act on disjoint parts of
  the state, so transactions of different modules commute; and the set of stores
  \<^verbatim>\<open>collectNonTransientKeys\<close> hands to the runner's conflict detector.
\<close>

section \<open>Slots\<close>

text \<open>
  A slot of a composite state: the messages it owns step on it alone, the others leave it alone.
  \<open>local\<close> is the step on the slot itself.
\<close>

fun run_opt :: "('m \<Rightarrow> 'c \<Rightarrow> 'c option) \<Rightarrow> 'm list \<Rightarrow> 'c \<Rightarrow> 'c option" where
  "run_opt step [] c = Some c"
| "run_opt step (m # ms) c = (case step m c of None \<Rightarrow> None | Some c' \<Rightarrow> run_opt step ms c')"

definition keep_old :: "('m \<Rightarrow> 'c \<Rightarrow> 'c option) \<Rightarrow> 'm list \<Rightarrow> 'c \<Rightarrow> 'c" where
  "keep_old step ms c = (case run_opt step ms c of None \<Rightarrow> c | Some c' \<Rightarrow> c')"

locale state_slot =
  fixes get :: "'c \<Rightarrow> 's" and put :: "'s \<Rightarrow> 'c \<Rightarrow> 'c" and step :: "'m \<Rightarrow> 'c \<Rightarrow> 'c option"
    and owns :: "'m \<Rightarrow> bool" and local :: "'m \<Rightarrow> 's \<Rightarrow> 's option"
  assumes get_put: "get (put s c) = s"
    and put_get: "put (get c) c = c"
    and put_put: "put s (put s' c) = put s c"
    and owned: "owns m \<Longrightarrow> step m c = map_option (\<lambda>s. put s c) (local m (get c))"
    and foreign: "\<not> owns m \<Longrightarrow> step m c = Some c' \<Longrightarrow> get c' = get c"
begin

lemma run_owned: "list_all owns ms \<Longrightarrow> run_opt step ms c = map_option (\<lambda>s. put s c) (run_opt local ms (get c))"
  by (induction ms arbitrary: c) (auto simp: put_get owned get_put put_put option.map_comp comp_def split: option.split)

lemma run_foreign: "list_all (\<lambda>m. \<not> owns m) ms \<Longrightarrow> run_opt step ms c = Some c' \<Longrightarrow> get c' = get c"
  by (induction ms arbitrary: c) (auto dest: foreign split: option.splits)

lemma keep_owned: "list_all owns ms \<Longrightarrow> get (keep_old step ms c) = keep_old local ms (get c)"
  by (auto simp: keep_old_def run_owned get_put split: option.split)

lemma keep_foreign: "list_all (\<lambda>m. \<not> owns m) ms \<Longrightarrow> get (keep_old step ms c) = get c"
  by (auto simp: keep_old_def dest: run_foreign split: option.split)

text \<open>The slot after a list of transactions depends on the slot's own ones only.\<close>

lemma fold_owned:
  assumes "\<forall>ms \<in> set txs. list_all owns ms \<or> list_all (\<lambda>m. \<not> owns m) ms"
  shows "get (fold (keep_old step) txs c) = fold (keep_old local) (filter (list_all owns) txs) (get c)"
  using assms
proof (induction txs arbitrary: c)
  case (Cons ms txs)
  show ?case
  proof (cases "list_all owns ms")
    case True
    with Cons show ?thesis by (simp add: keep_owned)
  next
    case False
    with Cons.prems have "list_all (\<lambda>m. \<not> owns m) ms" by simp
    with Cons False show ?thesis by (simp add: keep_foreign)
  qed
qed simp

end

section \<open>The four modules\<close>

fun msg_module :: "chain_msg \<Rightarrow> app_module" where
  "msg_module (EnergyMsg _) = EnergyM"
| "msg_module (OracleMsg _) = OracleM"
| "msg_module (IdentityMsg _) = IdentityM"
| "msg_module (AuditMsg _) = AuditM"

definition custom_modules :: "app_module list" where
  "custom_modules = [EnergyM, OracleM, IdentityM, AuditM]"

definition for_module :: "app_module \<Rightarrow> chain_tx \<Rightarrow> bool" where
  "for_module m tx \<longleftrightarrow> list_all (\<lambda>x. msg_module x = m) (snd tx)"

text \<open>The runner that rolls back for the modules' errors only, and its steps.\<close>

definition module_runner :: "env \<Rightarrow> string \<Rightarrow> runner" where
  "module_runner E auth c tx st =
     (if list_all (msg_valid E) (snd tx) then run_msgs E auth (tx_ctx c tx) (snd tx) st else None)"

lemma module_runner_atomic: "atomic_runner E auth (module_runner E auth)"
  by (simp add: atomic_runner_def module_runner_def)

text \<open>One routed message with its context.\<close>

definition step_msg :: "env \<Rightarrow> string \<Rightarrow> sdk_ctx \<times> chain_msg \<Rightarrow> chain_state \<Rightarrow> chain_state option" where
  "step_msg E auth cm st = msg_route E auth (fst cm) (snd cm) st"

abbreviation of_module :: "app_module \<Rightarrow> sdk_ctx \<times> chain_msg \<Rightarrow> bool" where
  "of_module m cm \<equiv> msg_module (snd cm) = m"

fun energy_local :: "env \<Rightarrow> string \<Rightarrow> sdk_ctx \<times> chain_msg \<Rightarrow> energy_state \<Rightarrow> energy_state option" where
  "energy_local E auth (c, EnergyMsg tx) s = energy_route E auth c tx s"
| "energy_local E auth (c, _) s = None"

fun oracle_local :: "env \<Rightarrow> string \<Rightarrow> sdk_ctx \<times> chain_msg \<Rightarrow> oracle_state \<Rightarrow> oracle_state option" where
  "oracle_local E auth (c, OracleMsg tx) s = oracle_route E auth c tx s"
| "oracle_local E auth (c, _) s = None"

fun identity_local :: "env \<Rightarrow> string \<Rightarrow> sdk_ctx \<times> chain_msg \<Rightarrow> identity_state \<Rightarrow> identity_state option" where
  "identity_local E auth (c, IdentityMsg tx) s = identity_route E auth c tx s"
| "identity_local E auth (c, _) s = None"

fun audit_local :: "env \<Rightarrow> string \<Rightarrow> sdk_ctx \<times> chain_msg \<Rightarrow> audit_state \<Rightarrow> audit_state option" where
  "audit_local E auth (c, AuditMsg tx) s = audit_route E auth c tx s"
| "audit_local E auth (c, _) s = None"

lemma step_msg_owned:
  "of_module EnergyM cm \<Longrightarrow> step_msg E auth cm st = map_option (\<lambda>s. st\<lparr>ch_energy := s\<rparr>) (energy_local E auth cm (ch_energy st))"
  "of_module OracleM cm \<Longrightarrow> step_msg E auth cm st = map_option (\<lambda>s. st\<lparr>ch_oracle := s\<rparr>) (oracle_local E auth cm (ch_oracle st))"
  "of_module IdentityM cm \<Longrightarrow> step_msg E auth cm st = map_option (\<lambda>s. st\<lparr>ch_identity := s\<rparr>) (identity_local E auth cm (ch_identity st))"
  "of_module AuditM cm \<Longrightarrow> step_msg E auth cm st = map_option (\<lambda>s. st\<lparr>ch_audit := s\<rparr>) (audit_local E auth cm (ch_audit st))"
  by (cases cm; cases "snd cm"; auto simp: step_msg_def)+

lemma step_msg_foreign:
  "\<not> of_module EnergyM cm \<Longrightarrow> step_msg E auth cm st = Some st' \<Longrightarrow> ch_energy st' = ch_energy st"
  "\<not> of_module OracleM cm \<Longrightarrow> step_msg E auth cm st = Some st' \<Longrightarrow> ch_oracle st' = ch_oracle st"
  "\<not> of_module IdentityM cm \<Longrightarrow> step_msg E auth cm st = Some st' \<Longrightarrow> ch_identity st' = ch_identity st"
  "\<not> of_module AuditM cm \<Longrightarrow> step_msg E auth cm st = Some st' \<Longrightarrow> ch_audit st' = ch_audit st"
  by (cases cm; cases "snd cm"; auto simp: step_msg_def)+

interpretation energy_slot:
  state_slot ch_energy "\<lambda>s st. st\<lparr>ch_energy := s\<rparr>" "step_msg E auth" "of_module EnergyM" "energy_local E auth" for E auth
  by unfold_locales (simp_all add: step_msg_owned step_msg_foreign)

interpretation oracle_slot:
  state_slot ch_oracle "\<lambda>s st. st\<lparr>ch_oracle := s\<rparr>" "step_msg E auth" "of_module OracleM" "oracle_local E auth" for E auth
  by unfold_locales (simp_all add: step_msg_owned step_msg_foreign)

interpretation identity_slot:
  state_slot ch_identity "\<lambda>s st. st\<lparr>ch_identity := s\<rparr>" "step_msg E auth" "of_module IdentityM" "identity_local E auth" for E auth
  by unfold_locales (simp_all add: step_msg_owned step_msg_foreign)

interpretation audit_slot:
  state_slot ch_audit "\<lambda>s st. st\<lparr>ch_audit := s\<rparr>" "step_msg E auth" "of_module AuditM" "audit_local E auth" for E auth
  by unfold_locales (simp_all add: step_msg_owned step_msg_foreign)

text \<open>A transaction as the list of its messages with their context; an invalid one does nothing.\<close>

definition checked_msgs :: "env \<Rightarrow> sdk_ctx \<Rightarrow> chain_tx \<Rightarrow> (sdk_ctx \<times> chain_msg) list" where
  "checked_msgs E c tx = (if list_all (msg_valid E) (snd tx) then map (Pair (tx_ctx c tx)) (snd tx) else [])"

lemma run_msgs_opt: "run_msgs E auth c ms st = run_opt (step_msg E auth) (map (Pair c) ms) st"
  by (induction ms arbitrary: st) (auto simp: step_msg_def split: option.split)

lemma deliver_checked: "deliver_tx (module_runner E auth) c tx = keep_old (step_msg E auth) (checked_msgs E c tx)"
  by (rule ext) (simp add: deliver_tx_def module_runner_def keep_old_def checked_msgs_def run_msgs_opt)

lemma fold_checked:
  "fold (deliver_tx (module_runner E auth) c) txs st = fold (keep_old (step_msg E auth)) (map (checked_msgs E c) txs) st"
  by (induction txs arbitrary: st) (simp_all add: deliver_checked)

lemma filter_checked:
  assumes "\<forall>tx \<in> set txs. for_module m tx \<or> list_all (\<lambda>x. msg_module x \<noteq> m) (snd tx)"
  shows "fold (keep_old f) (filter (list_all (of_module m)) (map (checked_msgs E c) txs)) s =
    fold (keep_old f) (map (checked_msgs E c) (filter (for_module m) txs)) s"
  using assms
proof (induction txs arbitrary: s)
  case (Cons tx txs)
  have "for_module m tx \<Longrightarrow> list_all (of_module m) (checked_msgs E c tx)"
    by (simp add: for_module_def checked_msgs_def list.pred_map comp_def)
  moreover have "\<not> for_module m tx \<Longrightarrow> list_all (of_module m) (checked_msgs E c tx) \<Longrightarrow> checked_msgs E c tx = []"
    using Cons.prems by (cases "snd tx") (auto simp: for_module_def checked_msgs_def)
  moreover have "keep_old f [] s = s" by (simp add: keep_old_def)
  ultimately show ?case using Cons by (cases "for_module m tx") (auto simp: keep_old_def)
qed simp

definition single_module :: "chain_tx \<Rightarrow> bool" where
  "single_module tx \<longleftrightarrow> list_ex (\<lambda>m. for_module m tx) custom_modules"

lemma single_module_split:
  "single_module tx \<Longrightarrow> m \<in> set custom_modules \<Longrightarrow> for_module m tx \<or> list_all (\<lambda>x. msg_module x \<noteq> m) (snd tx)"
  by (auto simp: single_module_def for_module_def custom_modules_def list_all_iff)



section \<open>Tracked stores\<close>

text \<open>What a store of the four modules holds; the SDK's and the EVM's own stores are not looked at.\<close>

datatype store_contents =
    EnergyStore energy_state | OracleStore oracle_state | IdentityStore identity_state | AuditStore audit_state
  | CounterStore tstore | OtherStore

fun store_view :: "store_key \<Rightarrow> chain_state \<Rightarrow> store_contents" where
  "store_view (KVKey EnergyM) st = EnergyStore ((ch_energy st)\<lparr>es_transient := fmempty, es_events := []\<rparr>)"
| "store_view (TransientKey EnergyM) st = CounterStore (es_transient (ch_energy st))"
| "store_view (KVKey OracleM) st = OracleStore ((ch_oracle st)\<lparr>os_events := []\<rparr>)"
| "store_view (KVKey IdentityM) st = IdentityStore ((ch_identity st)\<lparr>is_events := []\<rparr>)"
| "store_view (KVKey AuditM) st = AuditStore ((ch_audit st)\<lparr>as_transient := fmempty, as_events := []\<rparr>)"
| "store_view (TransientKey AuditM) st = CounterStore (as_transient (ch_audit st))"
| "store_view _ st = OtherStore"

definition agree_on :: "store_key list \<Rightarrow> chain_state \<Rightarrow> chain_state \<Rightarrow> bool" where
  "agree_on ks st st' \<longleftrightarrow> list_all (\<lambda>k. store_view k st = store_view k st') ks"

lemma agree_transient:
  "agree_on (collectNonTransientKeys KVStoreKeys ObjectStoreKeys) st (st\<lparr>ch_energy := (ch_energy st)\<lparr>es_transient := t\<rparr>\<rparr>)"
  "agree_on (collectNonTransientKeys KVStoreKeys ObjectStoreKeys) st (st\<lparr>ch_audit := (ch_audit st)\<lparr>as_transient := t\<rparr>\<rparr>)"
  by (simp_all add: agree_on_def collectNonTransientKeys_def KVStoreKeys_def ObjectStoreKeys_def)

text \<open>The state in which the sender has used up its submissions of the block.\<close>

definition full_energy :: "env \<Rightarrow> string \<Rightarrow> chain_state \<Rightarrow> chain_state" where
  "full_energy E a st = st\<lparr>ch_energy := (ch_energy st)\<lparr>es_transient :=
     fmupd (GetSubmitCountByAddrKey a) (PutUint32 (energy_limit E (ch_energy st))) (es_transient (ch_energy st))\<rparr>\<rparr>"

definition full_audit :: "env \<Rightarrow> string \<Rightarrow> chain_state \<Rightarrow> chain_state" where
  "full_audit E a st = st\<lparr>ch_audit := (ch_audit st)\<lparr>as_transient :=
     fmupd (GetAuditCountByCreatorKey a) (PutUint32 (audit_limit E (ch_audit st))) (as_transient (ch_audit st))\<rparr>\<rparr>"

text \<open>
  C38: The stores the parallel runner tracks do not decide which transactions commit: on states that agree
  on all of them, the same energy submission and the same audit are accepted or refused, as the
  transient counters, which other transactions of the block write, have it.
\<close>
theorem untracked_counters_decide:
  assumes "healthy E" and "submit_allowed E m ((ch_energy st)\<lparr>es_events := []\<rparr>)" and "energy_limit E (ch_energy st) \<noteq> 0"
    and "audit_allowed E r ((ch_audit st)\<lparr>as_events := []\<rparr>)" and "audit_limit E (ch_audit st) \<noteq> 0"
  shows "let tracked = collectNonTransientKeys KVStoreKeys ObjectStoreKeys;
      est = full_energy E (ms_Submitter m) st; ast = full_audit E (ra_Creator r) st in
    agree_on tracked st est \<and> msg_route E auth c (EnergyMsg (TxSubmit m)) st \<noteq> None \<and>
    msg_route E auth c (EnergyMsg (TxSubmit m)) est = None \<and>
    agree_on tracked st ast \<and> msg_route E auth c (AuditMsg (TxRecord r)) st \<noteq> None \<and>
    msg_route E auth c (AuditMsg (TxRecord r)) ast = None"
proof -
  let ?est = "full_energy E (ms_Submitter m) st" and ?ast = "full_audit E (ra_Creator r) st"
  have "succeeds (msg_SubmitEnergyData E c m ((ch_energy st)\<lparr>es_events := []\<rparr>))"
    using msg_SubmitEnergyData_healthy [OF assms(1,2), of c] by (auto simp: succeeds_def)
  then have e1: "msg_route E auth c (EnergyMsg (TxSubmit m)) st \<noteq> None" by (simp add: energy_route_def)
  have "\<not> submit_allowed E m ((ch_energy ?est)\<lparr>es_events := []\<rparr>)"
    using assms(3) by (simp add: full_energy_def submit_allowed_def count_key_def energy_limit_def energy_GetParams_def)
  then have "\<not> succeeds (msg_SubmitEnergyData E c m ((ch_energy ?est)\<lparr>es_events := []\<rparr>))"
    using msg_SubmitEnergyData_ok [of E c m "(ch_energy ?est)\<lparr>es_events := []\<rparr>"]
    by (cases "msg_SubmitEnergyData E c m ((ch_energy ?est)\<lparr>es_events := []\<rparr>)") (auto simp: succeeds_def split: sum.splits)
  then have e2: "msg_route E auth c (EnergyMsg (TxSubmit m)) ?est = None" by (simp add: energy_route_def)
  have "succeeds (msg_RecordAudit E c r ((ch_audit st)\<lparr>as_events := []\<rparr>))"
    using msg_RecordAudit_healthy [OF assms(1), of r "(ch_audit st)\<lparr>as_events := []\<rparr>" c] assms(4) by (auto simp: succeeds_def)
  then have a1: "msg_route E auth c (AuditMsg (TxRecord r)) st \<noteq> None" by (simp add: audit_route_def)
  have "\<not> audit_allowed E r ((ch_audit ?ast)\<lparr>as_events := []\<rparr>)"
    using assms(5) by (simp add: full_audit_def audit_allowed_def audit_count_def audit_limit_def audit_GetParams_def)
  then have "\<not> succeeds (msg_RecordAudit E c r ((ch_audit ?ast)\<lparr>as_events := []\<rparr>))"
    using msg_RecordAudit_ok [of E c r "(ch_audit ?ast)\<lparr>as_events := []\<rparr>"]
    by (cases "msg_RecordAudit E c r ((ch_audit ?ast)\<lparr>as_events := []\<rparr>)") (auto simp: succeeds_def split: sum.splits)
  then have a2: "msg_route E auth c (AuditMsg (TxRecord r)) ?ast = None" by (simp add: audit_route_def)
  show ?thesis using e1 e2 a1 a2 by (simp add: Let_def agree_transient full_energy_def full_audit_def)
qed

theorem untracked_counters_decide_witness:
  "\<exists>st. agree_on (collectNonTransientKeys KVStoreKeys ObjectStoreKeys) chain_empty st \<and>
     msg_route sample_env ''gov'' sample_ctx (EnergyMsg (TxSubmit sample_submit)) chain_empty \<noteq> None \<and>
     msg_route sample_env ''gov'' sample_ctx (EnergyMsg (TxSubmit sample_submit)) st = None"
proof -
  have e: "energy_empty\<lparr>es_events := []\<rparr> = energy_empty" "audit_empty\<lparr>as_events := []\<rparr> = audit_empty"
    by (simp_all add: energy_empty_def audit_empty_def)
  have "submit_allowed sample_env sample_submit ((ch_energy chain_empty)\<lparr>es_events := []\<rparr>)"
    "audit_allowed sample_env sample_record ((ch_audit chain_empty)\<lparr>as_events := []\<rparr>)"
    using sample_submit_allowed sample_record_allowed by (simp_all add: chain_empty_def e)
  moreover have "energy_limit sample_env (ch_energy chain_empty) \<noteq> 0"
    by (simp add: energy_limit_def chain_empty_def energy_DefaultParams_def energy_bounds)
  moreover have "audit_limit sample_env (ch_audit chain_empty) \<noteq> 0"
    by (simp add: audit_limit_def chain_empty_def audit_GetParams_def item_Get_def audit_empty_def audit_DefaultParams_def
        DefaultAuditMaxPerBlock_def)
  ultimately show ?thesis
    using untracked_counters_decide [OF sample_healthy, of sample_submit chain_empty sample_record "''gov''" sample_ctx]
    unfolding Let_def by blast
qed

end
