(* ===== verification/AutoCli.thy ===== *)
theory AutoCli
  imports Main
begin

text \<open>
  What the four modules declare about their services: the command descriptors of \<^verbatim>\<open>autocli.go\<close> and the
  message registrations of \<^verbatim>\<open>types/codec.go\<close>, against the services and requests of the \<^verbatim>\<open>.proto\<close>
  files.  The SDK turns descriptors into commands; what it needs from them is stated as
  \<open>descriptor_ok\<close>.
\<close>

section \<open>Descriptors\<close>

record positional_arg =
  pa_ProtoField :: string
  pa_Varargs :: bool

record rpc_option =
  ro_RpcMethod :: string
  ro_Use :: string
  ro_Short :: string
  ro_PositionalArgs :: "positional_arg list"
  ro_GovProposal :: bool
  ro_Skip :: bool

record service_descriptor =
  sd_Service :: string
  sd_EnhanceCustomCommand :: bool
  sd_RpcCommandOptions :: "rpc_option list"

definition arg :: "string \<Rightarrow> positional_arg" where
  "arg f = \<lparr>pa_ProtoField = f, pa_Varargs = False\<rparr>"

definition varargs :: "string \<Rightarrow> positional_arg" where
  "varargs f = \<lparr>pa_ProtoField = f, pa_Varargs = True\<rparr>"

definition rpc :: "string \<Rightarrow> string \<Rightarrow> string \<Rightarrow> positional_arg list \<Rightarrow> rpc_option" where
  "rpc method_name use_line short_text args =
     \<lparr>ro_RpcMethod = method_name, ro_Use = use_line, ro_Short = short_text, ro_PositionalArgs = args,
      ro_GovProposal = False, ro_Skip = False\<rparr>"

definition gov_proposal :: "rpc_option \<Rightarrow> rpc_option" where
  "gov_proposal opt = opt\<lparr>ro_GovProposal := True\<rparr>"

definition skipped :: "string \<Rightarrow> rpc_option" where
  "skipped method_name = (rpc method_name [] [] [])\<lparr>ro_Skip := True\<rparr>"

definition energy_autocli_Query :: service_descriptor where
  "energy_autocli_Query = \<lparr>sd_Service = ''energychain.energy.v1.Query'', sd_EnhanceCustomCommand = False, sd_RpcCommandOptions = [
     rpc ''EnergyData'' ''energy-data [id]''
       ''Query an energy data record by ID'' [arg ''id''],
     rpc ''EnergyDataByCategory'' ''by-category [category]''
       ''List paginated energy data records for a category'' [arg ''category''],
     rpc ''EnergyDataBySubmitter'' ''by-submitter [submitter]''
       ''List paginated energy data records by submitter'' [arg ''submitter''],
     rpc ''Batch'' ''batch [id]''
       ''Query a batch submission by ID'' [arg ''id''],
     rpc ''Params'' ''params''
       ''Query the current energy module parameters'' []]\<rparr>"

definition energy_autocli_Tx :: service_descriptor where
  "energy_autocli_Tx = \<lparr>sd_Service = ''energychain.energy.v1.Msg'', sd_EnhanceCustomCommand = True, sd_RpcCommandOptions = [
     rpc ''SubmitEnergyData'' ''submit [category] [data-hash] [metadata]''
       ''Submit an energy data record'' [arg ''category'', arg ''data_hash'', arg ''metadata''],
     gov_proposal (rpc ''UpdateParams'' ''update-params-proposal [params]''
       ''Submit a governance proposal to update energy module params (entire Params object required)'' [arg ''params'']),
     skipped ''BatchSubmit'']\<rparr>"

definition oracle_autocli_Query :: service_descriptor where
  "oracle_autocli_Query = \<lparr>sd_Service = ''energychain.oracle.v1.Query'', sd_EnhanceCustomCommand = False, sd_RpcCommandOptions = [
     rpc ''LatestData'' ''latest [category]''
       ''Query the most recent oracle datapoint for a category'' [arg ''category''],
     rpc ''DataHistory'' ''history [category]''
       ''Query historical oracle datapoints for a category'' [arg ''category''],
     rpc ''Oracle'' ''oracle [address]''
       ''Query a single registered oracle by address'' [arg ''address''],
     rpc ''AllOracles'' ''all-oracles''
       ''List every registered oracle (paginated)'' [],
     rpc ''Params'' ''params''
       ''Query the current oracle module parameters'' []]\<rparr>"

definition oracle_autocli_Tx :: service_descriptor where
  "oracle_autocli_Tx = \<lparr>sd_Service = ''energychain.oracle.v1.Msg'', sd_EnhanceCustomCommand = True, sd_RpcCommandOptions = [
     rpc ''SubmitData'' ''submit-data [category] [value] [metadata] [timestamp]''
       ''Submit a new oracle datapoint'' [arg ''category'', arg ''value'', arg ''metadata'', arg ''timestamp''],
     gov_proposal (rpc ''AddOracle'' ''add-oracle-proposal [oracle-address] [name] [authorized-categories...]''
       ''Submit a governance proposal to register a new oracle'' [arg ''oracle_address'', arg ''name'', varargs ''authorized_categories'']),
     gov_proposal (rpc ''RemoveOracle'' ''remove-oracle-proposal [oracle-address]''
       ''Submit a governance proposal to remove an oracle'' [arg ''oracle_address'']),
     gov_proposal (rpc ''UpdateParams'' ''update-params-proposal [params]''
       ''Submit a governance proposal to update oracle module params'' [arg ''params''])]\<rparr>"

definition identity_autocli_Query :: service_descriptor where
  "identity_autocli_Query = \<lparr>sd_Service = ''energychain.identity.v1.Query'', sd_EnhanceCustomCommand = False, sd_RpcCommandOptions = [
     rpc ''Identity'' ''identity [address]''
       ''Query an identity by address'' [arg ''address''],
     rpc ''IdentitiesByRole'' ''by-role [role]''
       ''List identities holding a particular role (paginated)'' [arg ''role''],
     rpc ''AllIdentities'' ''all''
       ''List every registered identity (paginated)'' [],
     rpc ''Params'' ''params''
       ''Query the current identity module parameters'' []]\<rparr>"

definition identity_autocli_Tx :: service_descriptor where
  "identity_autocli_Tx = \<lparr>sd_Service = ''energychain.identity.v1.Msg'', sd_EnhanceCustomCommand = True, sd_RpcCommandOptions = [
     rpc ''RegisterIdentity'' ''register [address] [name] [role] [metadata]''
       ''Register a new identity (admin-gated)'' [arg ''address'', arg ''name'', arg ''role'', arg ''metadata''],
     rpc ''UpdateIdentity'' ''update [address] [name] [metadata]''
       ''Update an existing identity's name / metadata (admin-gated)'' [arg ''address'', arg ''name'', arg ''metadata''],
     rpc ''RevokeIdentity'' ''revoke [address] [reason]''
       ''Revoke an identity (admin-gated)'' [arg ''address'', arg ''reason''],
     gov_proposal (rpc ''UpdateParams'' ''update-params-proposal [params]''
       ''Submit a governance proposal to update identity module params'' [arg ''params''])]\<rparr>"

definition audit_autocli_Query :: service_descriptor where
  "audit_autocli_Query = \<lparr>sd_Service = ''energychain.audit.v1.Query'', sd_EnhanceCustomCommand = False, sd_RpcCommandOptions = [
     rpc ''AuditLog'' ''log [id]''
       ''Query a single audit log by ID'' [arg ''id''],
     rpc ''AuditLogs'' ''logs''
       ''List paginated audit logs filtered by actor / event-type / time range'' [],
     rpc ''Params'' ''params''
       ''Query the current audit module parameters'' []]\<rparr>"

definition audit_autocli_Tx :: service_descriptor where
  "audit_autocli_Tx = \<lparr>sd_Service = ''energychain.audit.v1.Msg'', sd_EnhanceCustomCommand = True, sd_RpcCommandOptions = [
     rpc ''RecordAudit'' ''record [event-type] [target] [action] [data]''
       ''Record an audit log entry'' [arg ''event_type'', arg ''target'', arg ''action'', arg ''data''],
     gov_proposal (rpc ''UpdateParams'' ''update-params-proposal [params]''
       ''Submit a governance proposal to update audit module params'' [arg ''params''])]\<rparr>"

section \<open>Services\<close>

text \<open>A method with its request, the signer annotation, and the request's fields; a repeated field is marked.\<close>

record rpc_method =
  rm_Name :: string
  rm_Request :: string
  rm_Signer :: "string option"
  rm_Fields :: "(string \<times> bool) list"

definition service_method :: "string \<Rightarrow> string \<Rightarrow> string option \<Rightarrow> (string \<times> bool) list \<Rightarrow> rpc_method" where
  "service_method nm req signer flds = \<lparr>rm_Name = nm, rm_Request = req, rm_Signer = signer, rm_Fields = flds\<rparr>"

definition energy_service_Query :: "rpc_method list" where
  "energy_service_Query = [
     service_method ''EnergyData'' ''QueryEnergyDataRequest'' None [(''id'', False)],
     service_method ''EnergyDataByCategory'' ''QueryEnergyDataByCategoryRequest'' None [(''category'', False), (''pagination'', False)],
     service_method ''EnergyDataBySubmitter'' ''QueryEnergyDataBySubmitterRequest'' None [(''submitter'', False), (''pagination'', False)],
     service_method ''Batch'' ''QueryBatchRequest'' None [(''id'', False)],
     service_method ''Params'' ''QueryParamsRequest'' None []]"

definition energy_service_Tx :: "rpc_method list" where
  "energy_service_Tx = [
     service_method ''SubmitEnergyData'' ''MsgSubmitEnergyData'' (Some ''submitter'') [(''submitter'', False), (''category'', False), (''data_hash'', False), (''metadata'', False)],
     service_method ''BatchSubmit'' ''MsgBatchSubmit'' (Some ''submitter'') [(''submitter'', False), (''category'', False), (''items'', True), (''merkle_root'', False)],
     service_method ''UpdateParams'' ''MsgUpdateParams'' (Some ''authority'') [(''authority'', False), (''params'', False)]]"

definition oracle_service_Query :: "rpc_method list" where
  "oracle_service_Query = [
     service_method ''LatestData'' ''QueryLatestDataRequest'' None [(''category'', False)],
     service_method ''DataHistory'' ''QueryDataHistoryRequest'' None [(''category'', False), (''from_time'', False), (''to_time'', False), (''pagination'', False)],
     service_method ''Oracle'' ''QueryOracleRequest'' None [(''address'', False)],
     service_method ''AllOracles'' ''QueryAllOraclesRequest'' None [(''pagination'', False)],
     service_method ''Params'' ''QueryParamsRequest'' None []]"

definition oracle_service_Tx :: "rpc_method list" where
  "oracle_service_Tx = [
     service_method ''SubmitData'' ''MsgSubmitData'' (Some ''submitter'') [(''submitter'', False), (''category'', False), (''value'', False), (''metadata'', False), (''timestamp'', False)],
     service_method ''AddOracle'' ''MsgAddOracle'' (Some ''authority'') [(''authority'', False), (''oracle_address'', False), (''name'', False), (''authorized_categories'', True)],
     service_method ''RemoveOracle'' ''MsgRemoveOracle'' (Some ''authority'') [(''authority'', False), (''oracle_address'', False)],
     service_method ''UpdateParams'' ''MsgUpdateParams'' (Some ''authority'') [(''authority'', False), (''params'', False)]]"

definition identity_service_Query :: "rpc_method list" where
  "identity_service_Query = [
     service_method ''Identity'' ''QueryIdentityRequest'' None [(''address'', False)],
     service_method ''IdentitiesByRole'' ''QueryIdentitiesByRoleRequest'' None [(''role'', False), (''pagination'', False)],
     service_method ''AllIdentities'' ''QueryAllIdentitiesRequest'' None [(''pagination'', False)],
     service_method ''Params'' ''QueryParamsRequest'' None []]"

definition identity_service_Tx :: "rpc_method list" where
  "identity_service_Tx = [
     service_method ''RegisterIdentity'' ''MsgRegisterIdentity'' (Some ''creator'') [(''creator'', False), (''address'', False), (''name'', False), (''role'', False), (''metadata'', False)],
     service_method ''UpdateIdentity'' ''MsgUpdateIdentity'' (Some ''creator'') [(''creator'', False), (''address'', False), (''name'', False), (''metadata'', False)],
     service_method ''RevokeIdentity'' ''MsgRevokeIdentity'' (Some ''creator'') [(''creator'', False), (''address'', False), (''reason'', False)],
     service_method ''UpdateParams'' ''MsgUpdateParams'' (Some ''authority'') [(''authority'', False), (''params'', False)]]"

definition audit_service_Query :: "rpc_method list" where
  "audit_service_Query = [
     service_method ''AuditLog'' ''QueryAuditLogRequest'' None [(''id'', False)],
     service_method ''AuditLogs'' ''QueryAuditLogsRequest'' None [(''actor'', False), (''event_type'', False), (''from_timestamp'', False), (''to_timestamp'', False), (''pagination'', False)],
     service_method ''Params'' ''QueryParamsRequest'' None []]"

definition audit_service_Tx :: "rpc_method list" where
  "audit_service_Tx = [
     service_method ''RecordAudit'' ''MsgRecordAudit'' (Some ''creator'') [(''creator'', False), (''event_type'', False), (''target'', False), (''action'', False), (''data'', False)],
     service_method ''UpdateParams'' ''MsgUpdateParams'' (Some ''authority'') [(''authority'', False), (''params'', False)]]"

section \<open>Registration of the messages\<close>

definition energy_RegisterCodec :: "(string \<times> string) list" where
  "energy_RegisterCodec = [(''MsgSubmitEnergyData'', ''energy/MsgSubmitEnergyData''), (''MsgBatchSubmit'', ''energy/MsgBatchSubmit''), (''MsgUpdateParams'', ''energy/MsgUpdateParams'')]"

definition energy_RegisterInterfaces :: "string list" where
  "energy_RegisterInterfaces = [''MsgSubmitEnergyData'', ''MsgBatchSubmit'', ''MsgUpdateParams'']"

definition oracle_RegisterCodec :: "(string \<times> string) list" where
  "oracle_RegisterCodec = [(''MsgSubmitData'', ''oracle/MsgSubmitData''), (''MsgAddOracle'', ''oracle/MsgAddOracle''), (''MsgRemoveOracle'', ''oracle/MsgRemoveOracle''), (''MsgUpdateParams'', ''oracle/MsgUpdateParams'')]"

definition oracle_RegisterInterfaces :: "string list" where
  "oracle_RegisterInterfaces = [''MsgSubmitData'', ''MsgAddOracle'', ''MsgRemoveOracle'', ''MsgUpdateParams'']"

definition identity_RegisterCodec :: "(string \<times> string) list" where
  "identity_RegisterCodec = [(''MsgRegisterIdentity'', ''identity/MsgRegisterIdentity''), (''MsgUpdateIdentity'', ''identity/MsgUpdateIdentity''), (''MsgRevokeIdentity'', ''identity/MsgRevokeIdentity''), (''MsgUpdateParams'', ''identity/MsgUpdateParams'')]"

definition identity_RegisterInterfaces :: "string list" where
  "identity_RegisterInterfaces = [''MsgRegisterIdentity'', ''MsgUpdateIdentity'', ''MsgRevokeIdentity'', ''MsgUpdateParams'']"

definition audit_RegisterCodec :: "(string \<times> string) list" where
  "audit_RegisterCodec = [(''MsgRecordAudit'', ''audit/MsgRecordAudit''), (''MsgUpdateParams'', ''audit/MsgUpdateParams'')]"

definition audit_RegisterInterfaces :: "string list" where
  "audit_RegisterInterfaces = [''MsgRecordAudit'', ''MsgUpdateParams'']"

section \<open>Agreement\<close>

text \<open>The bracketed words of a usage line.\<close>

fun placeholders :: "string \<Rightarrow> nat" where
  "placeholders [] = 0"
| "placeholders (c # s) = (if c = CHR ''['' then Suc (placeholders s) else placeholders s)"

definition positional_ok :: "rpc_method \<Rightarrow> rpc_option \<Rightarrow> bool" where
  "positional_ok m opt \<longleftrightarrow>
     list_all (\<lambda>a. map_of (rm_Fields m) (pa_ProtoField a) = Some (pa_Varargs a) \<and> rm_Signer m \<noteq> Some (pa_ProtoField a))
       (ro_PositionalArgs opt) \<and>
     distinct (map pa_ProtoField (ro_PositionalArgs opt)) \<and>
     list_all (\<lambda>a. \<not> pa_Varargs a) (butlast (ro_PositionalArgs opt)) \<and>
     placeholders (ro_Use opt) = length (ro_PositionalArgs opt)"

text \<open>A transaction command sets every field but the signer's, and exactly governance's are proposals.\<close>

definition tx_ok :: "rpc_method \<Rightarrow> rpc_option \<Rightarrow> bool" where
  "tx_ok m opt \<longleftrightarrow> ro_Skip opt \<or>
     positional_ok m opt \<and> Some (fst (hd (rm_Fields m))) = rm_Signer m \<and>
     map pa_ProtoField (ro_PositionalArgs opt) = map fst (tl (rm_Fields m)) \<and>
     (ro_GovProposal opt \<longleftrightarrow> rm_Signer m = Some ''authority'')"

definition query_ok :: "rpc_method \<Rightarrow> rpc_option \<Rightarrow> bool" where
  "query_ok m opt \<longleftrightarrow> positional_ok m opt \<and> \<not> ro_Skip opt \<and> \<not> ro_GovProposal opt"

text \<open>Every method of the service has one descriptor, and every descriptor fits its method.\<close>

definition descriptor_ok :: "(rpc_method \<Rightarrow> rpc_option \<Rightarrow> bool) \<Rightarrow> rpc_method list \<Rightarrow> service_descriptor \<Rightarrow> bool" where
  "descriptor_ok ok ms sd \<longleftrightarrow>
     distinct (map ro_RpcMethod (sd_RpcCommandOptions sd)) \<and>
     length (sd_RpcCommandOptions sd) = length ms \<and>
     list_all (\<lambda>m. \<exists>opt \<in> set (sd_RpcCommandOptions sd). ro_RpcMethod opt = rm_Name m \<and> ok m opt) ms"

lemmas autocli_defs =
  arg_def varargs_def rpc_def gov_proposal_def skipped_def service_method_def descriptor_ok_def query_ok_def tx_ok_def positional_ok_def

lemma query_descriptors:
  "descriptor_ok query_ok energy_service_Query energy_autocli_Query" "descriptor_ok query_ok oracle_service_Query oracle_autocli_Query"
  "descriptor_ok query_ok identity_service_Query identity_autocli_Query" "descriptor_ok query_ok audit_service_Query audit_autocli_Query"
  by code_simp+

lemma tx_descriptors:
  "descriptor_ok tx_ok energy_service_Tx energy_autocli_Tx" "descriptor_ok tx_ok oracle_service_Tx oracle_autocli_Tx"
  "descriptor_ok tx_ok identity_service_Tx identity_autocli_Tx" "descriptor_ok tx_ok audit_service_Tx audit_autocli_Tx"
  by code_simp+

text \<open>
  The requests of each \<^verbatim>\<open>Msg\<close> service are exactly the messages the module registers, with the interface
  registry and with amino, and no two amino names of the four modules are the same.
\<close>
theorem messages_registered:
  "map rm_Request energy_service_Tx = energy_RegisterInterfaces \<and> map fst energy_RegisterCodec = energy_RegisterInterfaces \<and>
   map rm_Request oracle_service_Tx = oracle_RegisterInterfaces \<and> map fst oracle_RegisterCodec = oracle_RegisterInterfaces \<and>
   map rm_Request identity_service_Tx = identity_RegisterInterfaces \<and> map fst identity_RegisterCodec = identity_RegisterInterfaces \<and>
   map rm_Request audit_service_Tx = audit_RegisterInterfaces \<and> map fst audit_RegisterCodec = audit_RegisterInterfaces \<and>
   distinct (map snd (energy_RegisterCodec @ oracle_RegisterCodec @ identity_RegisterCodec @ audit_RegisterCodec))"
  by code_simp

text \<open>
  The commands of the four modules cover their services: every query and transaction method has one
  descriptor; its positional arguments are fields of the request, as many as the usage line shows, with
  a variable number only for a repeated field in last place; a transaction command sets every field
  but the signer's, and is a governance proposal exactly when the signer is the authority.  The one
  method left out is \<^verbatim>\<open>BatchSubmit\<close>.
\<close>
theorem autocli_covers_services:
  "descriptor_ok query_ok energy_service_Query energy_autocli_Query \<and> descriptor_ok query_ok oracle_service_Query oracle_autocli_Query \<and>
   descriptor_ok query_ok identity_service_Query identity_autocli_Query \<and> descriptor_ok query_ok audit_service_Query audit_autocli_Query \<and>
   descriptor_ok tx_ok energy_service_Tx energy_autocli_Tx \<and> descriptor_ok tx_ok oracle_service_Tx oracle_autocli_Tx \<and>
   descriptor_ok tx_ok identity_service_Tx identity_autocli_Tx \<and> descriptor_ok tx_ok audit_service_Tx audit_autocli_Tx \<and>
   map ro_RpcMethod (filter ro_Skip (concat (map sd_RpcCommandOptions
     [energy_autocli_Tx, oracle_autocli_Tx, identity_autocli_Tx, audit_autocli_Tx]))) = [''BatchSubmit'']"
proof (intro conjI query_descriptors tx_descriptors)
  show "map ro_RpcMethod (filter ro_Skip (concat (map sd_RpcCommandOptions
     [energy_autocli_Tx, oracle_autocli_Tx, identity_autocli_Tx, audit_autocli_Tx]))) = [''BatchSubmit'']"
    by code_simp
qed

end
