(* ===== verification/AppKeepers.thy ===== *)
theory AppKeepers
  imports AppWiring Upgrade
begin

text \<open>
  The construction of the application, \<^verbatim>\<open>NewEnergyChainApp\<close> in \<^verbatim>\<open>app.go\<close>: which keeper is built from
  which stores and which other keepers, in program order, and the stages that can stop it.  Go copies
  a struct and shares a pointer, so a keeper taken by value before its field is replaced or changed is
  stale; the model counts the changes of every field and remembers who took which.
\<close>

section \<open>Fields, operands and statements\<close>

datatype keeper_field =
    AccountKeeper | BankKeeper | StakingKeeper | SlashingKeeper | MintKeeper | DistrKeeper | GovKeeper | UpgradeKeeper
  | AuthzKeeper | EvidenceKeeper | FeeGrantKeeper | ConsensusParamsKeeper | IBCKeeper | TransferKeeper | CallbackKeeper
  | FeeMarketKeeper | EVMKeeper | Erc20Keeper | EnergyKeeper | OracleKeeper | IdentityKeeper | AuditKeeper

definition keeper_fields :: "keeper_field list" where
  "keeper_fields =
     [AccountKeeper, BankKeeper, StakingKeeper, SlashingKeeper, MintKeeper, DistrKeeper, GovKeeper, UpgradeKeeper,
      AuthzKeeper, EvidenceKeeper, FeeGrantKeeper, ConsensusParamsKeeper, IBCKeeper, TransferKeeper, CallbackKeeper,
      FeeMarketKeeper, EVMKeeper, Erc20Keeper, EnergyKeeper, OracleKeeper, IdentityKeeper, AuditKeeper]"

text \<open>The fields the struct declares with a pointer type; the others hold the keeper itself.\<close>

fun pointer_field :: "keeper_field \<Rightarrow> bool" where
  "pointer_field StakingKeeper = True"
| "pointer_field UpgradeKeeper = True"
| "pointer_field IBCKeeper = True"
| "pointer_field TransferKeeper = True"
| "pointer_field EVMKeeper = True"
| "pointer_field _ = False"

text \<open>
  How an expression takes a field: \<^verbatim>\<open>app.F\<close>, \<^verbatim>\<open>*app.F\<close>, \<^verbatim>\<open>&app.F\<close>, or a part or method value of it, such as
  \<^verbatim>\<open>app.F.ChannelKeeper\<close> or \<^verbatim>\<open>app.F.Hooks()\<close>, which a nil pointer does not have.
\<close>

datatype operand = Value keeper_field | Deref keeper_field | Address keeper_field | Member keeper_field

datatype holder =
    Keeper keeper_field | ParamStore | TextualSignMode | StakingHooks | StaticPrecompiles | EnergyPrecompile
  | IdentityPrecompile | TransferStack | TransferStackV2 | LightClient | ModuleManager | UpgradeHandlers
  | SimulationManager | AnteHandler | EVMMempool | IBCTesting

text \<open>
  \<open>Assign\<close> builds a keeper from stores, an authority and operands; \<open>Mutate\<close> changes it in place (or
  replaces a value by a copy with one store more); \<open>Pass\<close> hands operands to something else.
\<close>

datatype stmt =
    Assign keeper_field "store_key list" "module_account option" "operand list"
  | Mutate keeper_field "store_key list"
  | Pass holder "operand list"

record app_fields =
  af_assigned :: "keeper_field \<Rightarrow> nat"
  af_version :: "keeper_field \<Rightarrow> nat"
  af_held :: "(holder \<times> operand \<times> nat \<times> nat) list"
  af_stores :: "(keeper_field \<times> store_key) list"
  af_authority :: "(keeper_field \<times> module_account) list"

definition zero_app :: app_fields where
  "zero_app = \<lparr>af_assigned = \<lambda>_. 0, af_version = \<lambda>_. 0, af_held = [], af_stores = [], af_authority = []\<rparr>"

fun field_of :: "operand \<Rightarrow> keeper_field" where
  "field_of (Value f) = f"
| "field_of (Deref f) = f"
| "field_of (Address f) = f"
| "field_of (Member f) = f"

text \<open>Dereferencing a nil pointer panics.\<close>

fun operand_ok :: "app_fields \<Rightarrow> operand \<Rightarrow> bool" where
  "operand_ok a (Value f) = True"
| "operand_ok a (Address f) = True"
| "operand_ok a (Deref f) = (0 < af_assigned a f)"
| "operand_ok a (Member f) = (pointer_field f \<longrightarrow> 0 < af_assigned a f)"

definition take_operands :: "holder \<Rightarrow> operand list \<Rightarrow> app_fields \<Rightarrow> app_fields option" where
  "take_operands h ops a =
     (if list_all (operand_ok a) ops
      then Some (a\<lparr>af_held := af_held a @ map (\<lambda>p. (h, p, af_assigned a (field_of p), af_version a (field_of p))) ops\<rparr>)
      else None)"

fun exec_stmt :: "stmt \<Rightarrow> app_fields \<Rightarrow> app_fields option" where
  "exec_stmt (Assign f ks auth ops) a =
     map_option (\<lambda>a'. a'\<lparr>af_assigned := (af_assigned a')(f := Suc (af_assigned a' f)),
         af_version := (af_version a')(f := Suc (af_version a' f)),
         af_stores := af_stores a' @ map (Pair f) ks,
         af_authority := af_authority a' @ (case auth of None \<Rightarrow> [] | Some m \<Rightarrow> [(f, m)])\<rparr>)
       (take_operands (Keeper f) ops a)"
| "exec_stmt (Mutate f ks) a =
     (if pointer_field f \<and> af_assigned a f = 0 then None
      else Some (a\<lparr>af_version := (af_version a)(f := Suc (af_version a f)), af_stores := af_stores a @ map (Pair f) ks\<rparr>))"
| "exec_stmt (Pass h ops) a = take_operands h ops a"

fun exec_stmts :: "stmt list \<Rightarrow> app_fields \<Rightarrow> app_fields option" where
  "exec_stmts [] a = Some a"
| "exec_stmts (s # ss) a = (case exec_stmt s a of None \<Rightarrow> None | Some a' \<Rightarrow> exec_stmts ss a')"

text \<open>
  What a holder has is current: a pointer to the object that is still the field's, a copy of its
  latest version, or the address of a field that has been set.
\<close>

fun fresh :: "app_fields \<Rightarrow> holder \<times> operand \<times> nat \<times> nat \<Rightarrow> bool" where
  "fresh a (h, Value f, n, v) = (0 < n \<and> (if pointer_field f then n = af_assigned a f else v = af_version a f))"
| "fresh a (h, Member f, n, v) = (0 < n \<and> (if pointer_field f then n = af_assigned a f else v = af_version a f))"
| "fresh a (h, Deref f, n, v) = (0 < n \<and> v = af_version a f)"
| "fresh a (h, Address f, n, v) = (0 < af_assigned a f)"

section \<open>The statements of the constructor\<close>

definition base_keepers :: "stmt list" where
  "base_keepers =
     [Assign ConsensusParamsKeeper [KVKey ConsensusM] (Some GovAccount) [],
      Pass ParamStore [Member ConsensusParamsKeeper],
      Assign AccountKeeper [KVKey AuthM] (Some GovAccount) [],
      Assign BankKeeper [KVKey BankM] (Some GovAccount) [Value AccountKeeper],
      Mutate BankKeeper [ObjectKey BankM],
      Pass TextualSignMode [Value BankKeeper]]"

definition sdk_keepers :: "stmt list" where
  "sdk_keepers =
     [Assign StakingKeeper [KVKey StakingM] (Some GovAccount) [Value AccountKeeper, Value BankKeeper],
      Assign MintKeeper [KVKey MintM] (Some GovAccount) [Value StakingKeeper, Value AccountKeeper, Value BankKeeper],
      Assign DistrKeeper [KVKey DistrM] (Some GovAccount) [Value AccountKeeper, Value BankKeeper, Value StakingKeeper],
      Assign SlashingKeeper [KVKey SlashingM] (Some GovAccount) [Value StakingKeeper],
      Assign FeeGrantKeeper [KVKey FeegrantM] None [Value AccountKeeper],
      Pass StakingHooks [Member DistrKeeper, Member SlashingKeeper],
      Mutate StakingKeeper [],
      Assign AuthzKeeper [KVKey AuthzM] None [Value AccountKeeper],
      Assign UpgradeKeeper [KVKey UpgradeM] (Some GovAccount) []]"

definition ibc_gov_keepers :: "stmt list" where
  "ibc_gov_keepers =
     [Assign IBCKeeper [KVKey IbcM] (Some GovAccount) [Value UpgradeKeeper],
      Assign GovKeeper [KVKey GovM] (Some GovAccount)
        [Value AccountKeeper, Value BankKeeper, Value DistrKeeper, Value StakingKeeper],
      Assign EvidenceKeeper [KVKey EvidenceM] None [Value StakingKeeper, Value SlashingKeeper, Member AccountKeeper],
      Assign FeeMarketKeeper [KVKey FeemarketM] (Some GovAccount) [],
      Assign TransferKeeper [KVKey TransferM] (Some GovAccount) [Member IBCKeeper, Value AccountKeeper, Value BankKeeper]]"

text \<open>The static precompiles are an argument of the method that completes the EVM keeper.\<close>

definition evm_keepers :: "stmt list" where
  "evm_keepers =
     [Pass StaticPrecompiles [Deref StakingKeeper, Value DistrKeeper, Value BankKeeper, Address Erc20Keeper, Value TransferKeeper,
        Member IBCKeeper, Member IBCKeeper, Value GovKeeper, Value SlashingKeeper],
      Assign EVMKeeper [KVKey EvmM, ObjectKey EvmM] (Some GovAccount)
        [Value AccountKeeper, Value BankKeeper, Value StakingKeeper, Value FeeMarketKeeper, Address ConsensusParamsKeeper,
         Address Erc20Keeper],
      Mutate EVMKeeper [],
      Mutate EVMKeeper [],
      Assign Erc20Keeper [KVKey Erc20M] (Some GovAccount)
        [Value AccountKeeper, Value BankKeeper, Value EVMKeeper, Value StakingKeeper, Value TransferKeeper]]"

definition custom_keepers :: "stmt list" where
  "custom_keepers =
     [Assign EnergyKeeper [KVKey EnergyM, TransientKey EnergyM] (Some GovAccount) [],
      Assign OracleKeeper [KVKey OracleM] (Some GovAccount) [],
      Assign IdentityKeeper [KVKey IdentityM] (Some GovAccount) [],
      Assign AuditKeeper [KVKey AuditM, TransientKey AuditM] (Some GovAccount) [],
      Pass EnergyPrecompile [Value EnergyKeeper],
      Mutate EVMKeeper [],
      Pass IdentityPrecompile [Value IdentityKeeper],
      Mutate EVMKeeper []]"

definition ibc_stacks :: "stmt list" where
  "ibc_stacks =
     [Pass TransferStack [Value TransferKeeper, Value Erc20Keeper],
      Assign CallbackKeeper [] None [Value AccountKeeper, Value EVMKeeper, Value Erc20Keeper],
      Pass TransferStack [Value CallbackKeeper, Member IBCKeeper],
      Pass TransferStackV2 [Value TransferKeeper, Value Erc20Keeper],
      Mutate IBCKeeper [],
      Mutate IBCKeeper [],
      Pass LightClient [Member IBCKeeper],
      Mutate IBCKeeper []]"

definition module_keepers :: "stmt list" where
  "module_keepers =
     [Pass ModuleManager
       [Value TransferKeeper,
        Value AccountKeeper, Value StakingKeeper,
        Value AccountKeeper,
        Value BankKeeper, Value AccountKeeper,
        Value AccountKeeper, Value BankKeeper, Value FeeGrantKeeper,
        Address GovKeeper, Value AccountKeeper, Value BankKeeper,
        Value MintKeeper, Value AccountKeeper,
        Value SlashingKeeper, Value AccountKeeper, Value BankKeeper, Value StakingKeeper,
        Value DistrKeeper, Value AccountKeeper, Value BankKeeper, Value StakingKeeper,
        Value StakingKeeper, Value AccountKeeper, Value BankKeeper,
        Value UpgradeKeeper, Member AccountKeeper,
        Value EvidenceKeeper,
        Value AuthzKeeper, Value AccountKeeper, Value BankKeeper,
        Value ConsensusParamsKeeper,
        Value AccountKeeper, Value BankKeeper,
        Value IBCKeeper,
        Value EVMKeeper, Value AccountKeeper, Value BankKeeper, Member AccountKeeper,
        Value FeeMarketKeeper,
        Value Erc20Keeper, Value AccountKeeper,
        Value EnergyKeeper, Value OracleKeeper, Value IdentityKeeper, Value AuditKeeper]]"

definition upgrade_handler_keepers :: "stmt list" where
  "upgrade_handler_keepers = [Pass UpgradeHandlers [Value EnergyKeeper], Mutate UpgradeKeeper []]"

definition simulation_keepers :: "stmt list" where
  "simulation_keepers = [Pass SimulationManager [Value AccountKeeper]]"

definition setAnteHandler :: "stmt list" where
  "setAnteHandler =
     [Pass AnteHandler [Value AccountKeeper, Value BankKeeper, Value EVMKeeper, Value FeeGrantKeeper, Value IBCKeeper,
        Value FeeMarketKeeper]]"

text \<open>Both mempools take the same two keepers.\<close>

definition mempool_keepers :: "stmt list" where
  "mempool_keepers = [Pass EVMMempool [Value EVMKeeper, Value FeeMarketKeeper]]"

definition construct_keepers :: "stmt list" where
  "construct_keepers =
     base_keepers @ sdk_keepers @ ibc_gov_keepers @ evm_keepers @ custom_keepers @ ibc_stacks @ module_keepers @
     upgrade_handler_keepers @ simulation_keepers @ setAnteHandler @ mempool_keepers"

text \<open>Setters of the IBC testing interface: they replace a field after construction.\<close>

definition SetErc20Keeper :: stmt where
  "SetErc20Keeper = Assign Erc20Keeper [] None []"

definition SetTransferKeeper :: stmt where
  "SetTransferKeeper = Assign TransferKeeper [] None []"

text \<open>Everything held is current and every field is set.\<close>

definition all_current :: "app_fields \<Rightarrow> bool" where
  "all_current a \<longleftrightarrow> list_all (fresh a) (af_held a) \<and> (\<forall>f. 0 < af_assigned a f)"

section \<open>Facts\<close>

lemma keeper_fields_all: "f \<in> set keeper_fields"
  by (cases f) (simp_all add: keeper_fields_def)

lemmas keeper_stmts =
  base_keepers_def sdk_keepers_def ibc_gov_keepers_def evm_keepers_def custom_keepers_def ibc_stacks_def module_keepers_def
  upgrade_handler_keepers_def simulation_keepers_def setAnteHandler_def mempool_keepers_def construct_keepers_def

lemma exec_stmts_append: "exec_stmts (ss @ ts) a = (case exec_stmts ss a of None \<Rightarrow> None | Some b \<Rightarrow> exec_stmts ts b)"
  by (induction ss arbitrary: a) (auto split: option.split)

lemma take_operands_some:
  assumes "take_operands h ops a = Some b"
  shows "af_assigned b = af_assigned a \<and> af_version b = af_version a \<and> set (af_held a) \<subseteq> set (af_held b)"
  using assms by (auto simp: take_operands_def split: if_splits)

text \<open>Counters only grow, and what was taken stays on the record.\<close>

definition later :: "app_fields \<Rightarrow> app_fields \<Rightarrow> bool" where
  "later a b \<longleftrightarrow> af_assigned a \<le> af_assigned b \<and> af_version a \<le> af_version b \<and> set (af_held a) \<subseteq> set (af_held b)"

text \<open>Nobody holds a version that does not exist yet.\<close>

definition held_past :: "app_fields \<Rightarrow> bool" where
  "held_past a \<longleftrightarrow> (\<forall>(h, p, n, v) \<in> set (af_held a). n \<le> af_assigned a (field_of p) \<and> v \<le> af_version a (field_of p))"

lemma later_trans: "later a b \<Longrightarrow> later b c \<Longrightarrow> later a c"
  by (fastforce simp: later_def intro: order_trans)

lemma held_past_grow:
  assumes "held_past a" and "af_assigned a \<le> af_assigned b" and "af_version a \<le> af_version b" and "af_held b = af_held a"
  shows "held_past b"
  unfolding held_past_def
proof safe
  fix h p n v assume "(h, p, n, v) \<in> set (af_held b)"
  with assms(1,4) have "n \<le> af_assigned a (field_of p)" "v \<le> af_version a (field_of p)" by (auto simp: held_past_def)
  with assms(2,3) show "n \<le> af_assigned b (field_of p)" "v \<le> af_version b (field_of p)" by (meson le_funD order_trans)+
qed

lemma held_past_take: "take_operands h ops a = Some b \<Longrightarrow> held_past a \<Longrightarrow> held_past b"
  by (auto simp: take_operands_def held_past_def split: if_splits)

lemma le_upd: "c \<le> c(f := Suc (c f))" for c :: "'a \<Rightarrow> nat"
  by (simp add: le_fun_def)

lemma exec_stmt_later:
  assumes "exec_stmt s a = Some b"
  shows "later a b \<and> (held_past a \<longrightarrow> held_past b)"
proof (cases s)
  case (Assign f ks auth ops)
  with assms obtain a' where t: "take_operands (Keeper f) ops a = Some a'"
    and b: "af_assigned b = (af_assigned a')(f := Suc (af_assigned a' f))" "af_version b = (af_version a')(f := Suc (af_version a' f))"
      "af_held b = af_held a'"
    by auto
  have "held_past b" if "held_past a'"
    by (rule held_past_grow [OF that]) (simp_all only: b le_upd)
  with take_operands_some [OF t] held_past_take [OF t] show ?thesis by (simp add: later_def b le_upd)
next
  case (Mutate f ks)
  with assms have b: "af_assigned b = af_assigned a" "af_version b = (af_version a)(f := Suc (af_version a f))" "af_held b = af_held a"
    by (auto split: if_splits)
  have "held_past b" if "held_past a"
    by (rule held_past_grow [OF that]) (simp_all only: b le_upd order_refl)
  then show ?thesis by (simp add: later_def b le_upd)
next
  case (Pass h ops)
  with assms have "take_operands h ops a = Some b" by simp
  from take_operands_some [OF this] held_past_take [OF this] show ?thesis by (simp add: later_def)
qed

lemma exec_stmts_later: "exec_stmts ss a = Some b \<Longrightarrow> later a b \<and> (held_past a \<longrightarrow> held_past b)"
proof (induction ss arbitrary: a)
  case (Cons s ss)
  then obtain c where c: "exec_stmt s a = Some c" "exec_stmts ss c = Some b" by (auto split: option.splits)
  with Cons.IH [OF c(2)] exec_stmt_later [OF c(1)] show ?case by (blast intro: later_trans)
qed (simp add: later_def)

lemma held_past_zero: "held_past zero_app"
  by (simp add: held_past_def zero_app_def)

text \<open>
  Staleness is for ever: what is current in the end has been current since it was taken.  (The address
  of a field may be taken before the field is set.)
\<close>
theorem fresh_earlier:
  assumes "exec_stmts ss zero_app = Some a" and "exec_stmts ts a = Some b" and "x \<in> set (af_held a)" and "fresh b x"
    and "\<nexists>h f n v. x = (h, Address f, n, v)"
  shows "fresh a x"
proof -
  obtain h p n v where x: "x = (h, p, n, v)" by (cases x) auto
  from exec_stmts_later [OF assms(1)] held_past_zero have "held_past a" by blast
  with assms(3) have le: "n \<le> af_assigned a (field_of p)" "v \<le> af_version a (field_of p)"
    by (auto simp: held_past_def x)
  from exec_stmts_later [OF assms(2)]
  have "af_assigned a (field_of p) \<le> af_assigned b (field_of p)" "af_version a (field_of p) \<le> af_version b (field_of p)"
    by (auto simp: later_def le_fun_def)
  with le assms(4,5) show ?thesis by (cases p) (auto simp: x split: if_splits)
qed

lemma construction_current:
  "\<exists>a. exec_stmts construct_keepers zero_app = Some a \<and> list_all (fresh a) (af_held a) \<and>
     list_all (\<lambda>f. 0 < af_assigned a f) keeper_fields \<and> distinct (map snd (af_stores a)) \<and>
     set (map snd (af_stores a)) = set (KVStoreKeys @ ObjectStoreKeys @ TransientStoreKeys) \<and>
     map (\<lambda>(f, m). map snd (filter (\<lambda>(g, k). g = f) (af_stores a)) = custom_keeper_stores m)
       [(EnergyKeeper, EnergyM), (OracleKeeper, OracleM), (IdentityKeeper, IdentityM), (AuditKeeper, AuditM)] = replicate 4 True \<and>
     set (map snd (af_authority a)) = {GovAccount}"
  by (simp add: keeper_stmts zero_app_def take_operands_def keeper_fields_def KVStoreKeys_def ObjectStoreKeys_def
        TransientStoreKeys_def custom_keeper_stores_def eval_nat_numeral) auto


text \<open>
  The setters of the testing interface do leave stale keepers: exactly the holders of a copy, or of a
  pointer to the replaced object, keep the old one.
\<close>
lemma set_erc20_stale:
  "\<exists>a. exec_stmts (construct_keepers @ [SetErc20Keeper]) zero_app = Some a \<and>
     remdups (map fst (filter (\<lambda>x. \<not> fresh a x) (af_held a))) = [TransferStack, Keeper CallbackKeeper, TransferStackV2, ModuleManager]"
  by (simp add: SetErc20Keeper_def keeper_stmts zero_app_def take_operands_def)

lemma set_transfer_stale:
  "\<exists>a. exec_stmts (construct_keepers @ [SetTransferKeeper]) zero_app = Some a \<and>
     remdups (map fst (filter (\<lambda>x. \<not> fresh a x) (af_held a))) =
       [StaticPrecompiles, Keeper Erc20Keeper, TransferStack, TransferStackV2, ModuleManager]"
  by (simp add: SetTransferKeeper_def keeper_stmts zero_app_def take_operands_def)

end
