(* ===== verification/AppBuild.thy ===== *)
theory AppBuild
  imports AppKeepers
begin

text \<open>
  \<^verbatim>\<open>NewEnergyChainApp\<close> as a sequence of stages on the application under construction, each of which may
  panic or end the process.  What the libraries answer at each stage is the environment \<open>build_env\<close>.
\<close>

section \<open>State and outcomes\<close>

datatype build_stage =
    OptimisticExecution | BlockSTMRunner | BlockGasMeter | StreamingServices | VersionDBCheck | BaseKeepers | TxConfig
  | OtherKeepers | ModuleOrders | RegisterServices | RegisterUpgrades | QueryServices | Simulation | MountStores
  | BlockHandlers | SetAnteHandler | SetMempool | SetPostHandler | ProtoRegistry | ProtoAnnotations | LoadLatestVersion

datatype build_panic =
    NilKeeper | VersionDBUnsupported | TxConfigError string | ServicesError string | UpgradeInfoError string
  | ReflectionError string | AnteOptionsError string | MempoolError mempool_error | PostHandlerError string
  | ProtoRegistryError string

datatype build_stop = Panics build_panic | Exits string

record ('ante, 'bcast, 'lp, 'vm) building =
  bd_done :: "build_stage list"
  bd_keepers :: app_fields
  bd_mempool :: "('ante, 'bcast, 'lp) mempool_app"
  bd_upgrade :: "'vm upgrade_app"
  bd_warnings :: "string list"

record ('ante, 'lp, 'vm) build_env =
  be_streaming :: "string option"
  be_versiondb :: bool
  be_txconfig :: "string option"
  be_services :: "string option"
  be_upgrades :: "'vm upgradeEntry list"
  be_diskInfo :: "string + string \<times> int64"
  be_IsSkipHeight :: "int64 \<Rightarrow> bool"
  be_reflection :: "string option"
  be_anteOptions :: "string option"
  be_anteHandler :: 'ante
  be_mempool :: "'lp mempool_opts"
  be_postHandler :: "string option"
  be_registry :: "string option"
  be_annotations :: "string option"
  be_load :: "string option"

section \<open>Stages\<close>

text \<open>An operation stops with the state it leaves, or goes on.\<close>

type_synonym ('ante, 'bcast, 'lp, 'vm) build_op =
  "('ante, 'bcast, 'lp, 'vm) building \<Rightarrow>
     (build_stop \<times> ('ante, 'bcast, 'lp, 'vm) building) + ('ante, 'bcast, 'lp, 'vm) building"

definition stage_done :: "build_stage \<Rightarrow> ('ante, 'bcast, 'lp, 'vm) building \<Rightarrow> ('ante, 'bcast, 'lp, 'vm) building" where
  "stage_done st b = b\<lparr>bd_done := bd_done b @ [st]\<rparr>"

definition plain_stage :: "build_stage \<Rightarrow> ('ante, 'bcast, 'lp, 'vm) build_op" where
  "plain_stage st b = Inr (stage_done st b)"

definition checked_stage :: "build_stage \<Rightarrow> string option \<Rightarrow> (string \<Rightarrow> build_stop) \<Rightarrow> ('ante, 'bcast, 'lp, 'vm) build_op" where
  "checked_stage st err stop b = (case err of Some e \<Rightarrow> Inl (stop e, b) | None \<Rightarrow> Inr (stage_done st b))"

definition keeper_stage :: "build_stage \<Rightarrow> stmt list \<Rightarrow> ('ante, 'bcast, 'lp, 'vm) build_op" where
  "keeper_stage st ss b =
     (case exec_stmts ss (bd_keepers b) of
        None \<Rightarrow> Inl (Panics NilKeeper, b)
      | Some a \<Rightarrow> Inr (stage_done st (b\<lparr>bd_keepers := a\<rparr>)))"

definition upgrade_stage :: "('ante, 'lp, 'vm) build_env \<Rightarrow> ('ante, 'bcast, 'lp, 'vm) build_op" where
  "upgrade_stage E b =
     (case RegisterUpgradeHandlers (be_upgrades E) (be_diskInfo E) (be_IsSkipHeight E) (bd_upgrade b) of
        Inl e \<Rightarrow> Inl (Panics (UpgradeInfoError e), b\<lparr>bd_upgrade := SetUpgradeHandlers (be_upgrades E) (bd_upgrade b)\<rparr>)
      | Inr u \<Rightarrow> keeper_stage RegisterUpgrades upgrade_handler_keepers (b\<lparr>bd_upgrade := u\<rparr>))"

definition ante_stage :: "('ante, 'lp, 'vm) build_env \<Rightarrow> ('ante, 'bcast, 'lp, 'vm) build_op" where
  "ante_stage E b =
     (case be_anteOptions E of
        Some e \<Rightarrow> Inl (Panics (AnteOptionsError e), b)
      | None \<Rightarrow> keeper_stage SetAnteHandler setAnteHandler
          (b\<lparr>bd_mempool := (bd_mempool b)\<lparr>ma_AnteHandler := be_anteHandler E\<rparr>\<rparr>))"

text \<open>The mempool takes its keepers only when it is installed.\<close>

definition mempool_stage :: "('ante, 'lp, 'vm) build_env \<Rightarrow> ('ante, 'bcast, 'lp, 'vm) build_op" where
  "mempool_stage E b =
     (case configureEVMMempool (be_mempool E) (bd_mempool b) of
        (Some e, m) \<Rightarrow> Inl (Panics (MempoolError e), b\<lparr>bd_mempool := m\<rparr>)
      | (None, m) \<Rightarrow>
          keeper_stage SetMempool (case ma_EVMMempool m of None \<Rightarrow> [] | Some _ \<Rightarrow> mempool_keepers) (b\<lparr>bd_mempool := m\<rparr>))"

text \<open>Wrong annotations are only printed.\<close>

definition annotation_stage :: "('ante, 'lp, 'vm) build_env \<Rightarrow> ('ante, 'bcast, 'lp, 'vm) build_op" where
  "annotation_stage E b =
     Inr (stage_done ProtoAnnotations
       (b\<lparr>bd_warnings := bd_warnings b @ (case be_annotations E of Some e \<Rightarrow> [e] | None \<Rightarrow> [])\<rparr>))"

fun run_ops :: "('s \<Rightarrow> ('e \<times> 's) + 's) list \<Rightarrow> 's \<Rightarrow> ('e \<times> 's) + 's" where
  "run_ops [] b = Inr b"
| "run_ops (f # fs) b = (case f b of Inl stop \<Rightarrow> Inl stop | Inr b' \<Rightarrow> run_ops fs b')"

definition build_ops :: "('ante, 'lp, 'vm) build_env \<Rightarrow> bool \<Rightarrow> ('ante, 'bcast, 'lp, 'vm) build_op list" where
  "build_ops E loadLatest =
     [plain_stage OptimisticExecution,
      plain_stage BlockSTMRunner,
      plain_stage BlockGasMeter,
      checked_stage StreamingServices (be_streaming E) Exits,
      checked_stage VersionDBCheck (if be_versiondb E then Some [] else None) (\<lambda>_. Panics VersionDBUnsupported),
      keeper_stage BaseKeepers base_keepers,
      checked_stage TxConfig (be_txconfig E) (Panics \<circ> TxConfigError),
      keeper_stage OtherKeepers (sdk_keepers @ ibc_gov_keepers @ evm_keepers @ custom_keepers @ ibc_stacks @ module_keepers),
      plain_stage ModuleOrders,
      checked_stage RegisterServices (be_services E) (Panics \<circ> ServicesError),
      upgrade_stage E,
      checked_stage QueryServices (be_reflection E) (Panics \<circ> ReflectionError),
      keeper_stage Simulation simulation_keepers,
      plain_stage MountStores,
      plain_stage BlockHandlers,
      ante_stage E,
      mempool_stage E,
      checked_stage SetPostHandler (be_postHandler E) (Panics \<circ> PostHandlerError),
      checked_stage ProtoRegistry (be_registry E) (Panics \<circ> ProtoRegistryError),
      annotation_stage E] @
     (if loadLatest then [checked_stage LoadLatestVersion (be_load E) Exits] else [])"

text \<open>
  The application before the first stage: \<open>ante0\<close> is the ante handler of a fresh \<^verbatim>\<open>BaseApp\<close>, \<open>bcast\<close> the
  method value \<^verbatim>\<open>broadcastPromotedEVMTxs\<close>.
\<close>

definition new_building :: "'ante \<Rightarrow> 'bcast \<Rightarrow> ('ante, 'bcast, 'lp, 'vm) building" where
  "new_building ante0 bcast =
     \<lparr>bd_done = [], bd_keepers = zero_app,
      bd_mempool = \<lparr>ma_AnteHandler = ante0, ma_broadcastPromotedEVMTxs = bcast, ma_InsertTxHandler = None, ma_ReapTxsHandler = None,
        ma_CheckTxHandler = None, ma_PrepareProposal = None, ma_EVMMempool = None, ma_Mempool = None\<rparr>,
      bd_upgrade = \<lparr>ua_handlers = Map.empty, ua_storeLoader = None\<rparr>, bd_warnings = []\<rparr>"

definition NewEnergyChainApp ::
  "('ante, 'lp, 'vm) build_env \<Rightarrow> bool \<Rightarrow> 'ante \<Rightarrow> 'bcast \<Rightarrow>
     (build_stop \<times> ('ante, 'bcast, 'lp, 'vm) building) + ('ante, 'bcast, 'lp, 'vm) building" where
  "NewEnergyChainApp E loadLatest ante0 bcast = run_ops (build_ops E loadLatest) (new_building ante0 bcast)"

section \<open>Facts\<close>

text \<open>What the construction needs.\<close>

definition mempool_accepted :: "'lp mempool_opts \<Rightarrow> bool" where
  "mempool_accepted opts \<longleftrightarrow>
     (mo_ChainConfigSet opts \<and> 0 \<le> mo_CosmosPoolMaxTx opts \<and> \<not> mo_OperateExclusively opts \<longrightarrow> allow_fallback opts)"

definition libraries_ok :: "('ante, 'lp, 'vm) build_env \<Rightarrow> bool \<Rightarrow> bool" where
  "libraries_ok E loadLatest \<longleftrightarrow>
     be_streaming E = None \<and> \<not> be_versiondb E \<and> be_txconfig E = None \<and> be_services E = None \<and> \<not> isl (be_diskInfo E) \<and>
     be_reflection E = None \<and> be_anteOptions E = None \<and> mempool_accepted (be_mempool E) \<and> be_postHandler E = None \<and>
     be_registry E = None \<and> (loadLatest \<longrightarrow> be_load E = None)"

text \<open>All stages, in order.\<close>

definition build_stages :: "build_stage list" where
  "build_stages = [OptimisticExecution, BlockSTMRunner, BlockGasMeter, StreamingServices, VersionDBCheck, BaseKeepers, TxConfig,
     OtherKeepers, ModuleOrders, RegisterServices, RegisterUpgrades, QueryServices, Simulation, MountStores,
     BlockHandlers, SetAnteHandler, SetMempool, SetPostHandler, ProtoRegistry, ProtoAnnotations, LoadLatestVersion]"

text \<open>The ante handler a mempool was configured with.\<close>

fun pool_ante :: "('ante, 'bcast, 'lp) evm_mempool \<Rightarrow> 'ante" where
  "pool_ante (Krakatoa cfg n) = mc_AnteHandler (kc_EVMMempoolConfig cfg)"
| "pool_ante (ExperimentalEVM cfg n) = mc_AnteHandler cfg"

lemma exec_stmts_split:
  assumes "exec_stmts (ss @ ts) a = Some c"
  obtains b where "exec_stmts ss a = Some b" and "exec_stmts ts b = Some c"
  using assms by (auto simp: exec_stmts_append split: option.splits)

text \<open>The keeper stages one by one; without a mempool the last one is left out.\<close>

lemma keeper_stages:
  obtains k1 k2 k3 k4 k5 k6 where "exec_stmts base_keepers zero_app = Some k1"
    and "exec_stmts (sdk_keepers @ ibc_gov_keepers @ evm_keepers @ custom_keepers @ ibc_stacks @ module_keepers) k1 = Some k2"
    and "exec_stmts upgrade_handler_keepers k2 = Some k3" and "exec_stmts simulation_keepers k3 = Some k4"
    and "exec_stmts setAnteHandler k4 = Some k5" and "exec_stmts mempool_keepers k5 = Some k6"
    and "all_current k5" and "all_current k6"
proof -
  from construction_current obtain k6 where run: "exec_stmts construct_keepers zero_app = Some k6"
    and cur: "all_current k6" by (auto simp: all_current_def list_all_iff keeper_fields_all)
  have "construct_keepers = base_keepers @ (sdk_keepers @ ibc_gov_keepers @ evm_keepers @ custom_keepers @ ibc_stacks @ module_keepers) @
      upgrade_handler_keepers @ simulation_keepers @ setAnteHandler @ mempool_keepers"
    by (simp add: construct_keepers_def)
  with run have "exec_stmts (base_keepers @ (sdk_keepers @ ibc_gov_keepers @ evm_keepers @ custom_keepers @ ibc_stacks @ module_keepers) @
      upgrade_handler_keepers @ simulation_keepers @ setAnteHandler @ mempool_keepers) zero_app = Some k6" by (simp only:)
  then obtain k1 where k1: "exec_stmts base_keepers zero_app = Some k1"
    and r: "exec_stmts ((sdk_keepers @ ibc_gov_keepers @ evm_keepers @ custom_keepers @ ibc_stacks @ module_keepers) @
      upgrade_handler_keepers @ simulation_keepers @ setAnteHandler @ mempool_keepers) k1 = Some k6"
    by (rule exec_stmts_split)
  from r obtain k2 where k2: "exec_stmts (sdk_keepers @ ibc_gov_keepers @ evm_keepers @ custom_keepers @ ibc_stacks @ module_keepers) k1 = Some k2"
    and r: "exec_stmts (upgrade_handler_keepers @ simulation_keepers @ setAnteHandler @ mempool_keepers) k2 = Some k6"
    by (rule exec_stmts_split)
  from r obtain k3 where k3: "exec_stmts upgrade_handler_keepers k2 = Some k3"
    and r: "exec_stmts (simulation_keepers @ setAnteHandler @ mempool_keepers) k3 = Some k6" by (rule exec_stmts_split)
  from r obtain k4 where k4: "exec_stmts simulation_keepers k3 = Some k4"
    and r: "exec_stmts (setAnteHandler @ mempool_keepers) k4 = Some k6" by (rule exec_stmts_split)
  from r obtain k5 where k5: "exec_stmts setAnteHandler k4 = Some k5" and k6: "exec_stmts mempool_keepers k5 = Some k6"
    by (rule exec_stmts_split)
  note k = k1 k2 k3 k4 k5 k6
  have "exec_stmt (Pass EVMMempool [Value EVMKeeper, Value FeeMarketKeeper]) k5 = Some k6"
    using k(6) by (simp add: mempool_keepers_def split: option.splits)
  then have tk: "take_operands EVMMempool [Value EVMKeeper, Value FeeMarketKeeper] k5 = Some k6" by simp
  have same: "fresh k5 x = fresh k6 x" for x
    using take_operands_some [OF tk] by (cases "(k5, x)" rule: fresh.cases) auto
  have "all_current k5"
    using cur take_operands_some [OF tk] by (auto simp: all_current_def list_all_iff same)
  from that [OF k this cur] show thesis .
qed

lemma mempool_result:
  assumes "ma_EVMMempool m = None" and "configureEVMMempool opts m = (err, m')"
  shows "err = None \<longleftrightarrow> mempool_accepted opts" and "\<forall>p. ma_EVMMempool m' = Some p \<longrightarrow> pool_ante p = ma_AnteHandler m"
  using assms by (auto simp: configureEVMMempool_def mempool_accepted_def createKrakatoaMempoolConfig_def createMempoolConfig_def Let_def split: if_splits)

lemma upgrade_result: "(\<exists>u. RegisterUpgradeHandlers us d skip a = Inr u) \<longleftrightarrow> \<not> isl d"
  by (cases d) (auto simp: RegisterUpgradeHandlers_def Let_def split: prod.splits)

lemma run_plain: "run_ops (plain_stage st # fs) b = run_ops fs (stage_done st b)"
  by (simp add: plain_stage_def)

lemma run_checked:
  "run_ops (checked_stage st err stop # fs) b =
    (case err of Some e \<Rightarrow> Inl (stop e, b) | None \<Rightarrow> run_ops fs (stage_done st b))"
  by (simp add: checked_stage_def split: option.split)

lemma run_keepers:
  "exec_stmts ss (bd_keepers b) = Some a \<Longrightarrow>
   run_ops (keeper_stage st ss # fs) b = run_ops fs (stage_done st (b\<lparr>bd_keepers := a\<rparr>))"
  by (simp add: keeper_stage_def)

lemma stage_done_sel:
  "bd_done (stage_done st b) = bd_done b @ [st]" "bd_keepers (stage_done st b) = bd_keepers b"
  "bd_mempool (stage_done st b) = bd_mempool b" "bd_upgrade (stage_done st b) = bd_upgrade b" 
  "bd_warnings (stage_done st b) = bd_warnings b"
  by (simp_all add: stage_done_def)


lemma run_ops_append:
  "run_ops (fs @ gs) b = (case run_ops fs b of Inl stop \<Rightarrow> Inl stop | Inr b' \<Rightarrow> run_ops gs b')"
  by (induction fs arbitrary: b) (auto split: sum.split)

definition front_ops :: "('ante, 'lp, 'vm) build_env \<Rightarrow> ('ante, 'bcast, 'lp, 'vm) build_op list" where
  "front_ops E = build_ops E False"

lemma run_upgrade:
  assumes "exec_stmts upgrade_handler_keepers (bd_keepers b) = Some a"
  shows "run_ops (upgrade_stage E # fs) b =
     (case RegisterUpgradeHandlers (be_upgrades E) (be_diskInfo E) (be_IsSkipHeight E) (bd_upgrade b) of
        Inl e \<Rightarrow> Inl (Panics (UpgradeInfoError e), b\<lparr>bd_upgrade := SetUpgradeHandlers (be_upgrades E) (bd_upgrade b)\<rparr>)
      | Inr u \<Rightarrow> run_ops fs (stage_done RegisterUpgrades (b\<lparr>bd_upgrade := u, bd_keepers := a\<rparr>)))"
  using assms by (simp add: upgrade_stage_def keeper_stage_def split: sum.split)

lemma run_ante:
  assumes "exec_stmts setAnteHandler (bd_keepers b) = Some a"
  shows "run_ops (ante_stage E # fs) b =
     (case be_anteOptions E of
        Some e \<Rightarrow> Inl (Panics (AnteOptionsError e), b)
      | None \<Rightarrow> run_ops fs (stage_done SetAnteHandler
          (b\<lparr>bd_mempool := (bd_mempool b)\<lparr>ma_AnteHandler := be_anteHandler E\<rparr>, bd_keepers := a\<rparr>)))"
  using assms by (simp add: ante_stage_def keeper_stage_def split: option.split)

lemma run_mempool:
  assumes "exec_stmts mempool_keepers (bd_keepers b) = Some a" and "configureEVMMempool (be_mempool E) (bd_mempool b) = (err, m)"
  shows "run_ops (mempool_stage E # fs) b =
     (case err of Some e \<Rightarrow> Inl (Panics (MempoolError e), b\<lparr>bd_mempool := m\<rparr>)
      | None \<Rightarrow> run_ops fs (stage_done SetMempool
          (b\<lparr>bd_mempool := m, bd_keepers := (if ma_EVMMempool m = None then bd_keepers b else a)\<rparr>)))"
  using assms by (auto simp: mempool_stage_def keeper_stage_def split: option.split)

lemma run_annotation:
  "run_ops (annotation_stage E # fs) b = run_ops fs (stage_done ProtoAnnotations
       (b\<lparr>bd_warnings := bd_warnings b @ (case be_annotations E of Some e \<Rightarrow> [e] | None \<Rightarrow> [])\<rparr>))"
  by (simp add: annotation_stage_def)

lemmas run_stages = run_plain run_checked run_keepers run_upgrade run_ante run_mempool run_annotation stage_done_sel

lemma front:
   "case run_ops (front_ops E) (new_building ante0 bcast) of
     Inr b \<Rightarrow> libraries_ok E False \<and> bd_done b = butlast build_stages \<and>
       all_current (bd_keepers b) \<and> 
       (\<forall>p. ma_EVMMempool (bd_mempool b) = Some p \<longrightarrow> pool_ante p = be_anteHandler E) \<and>
       RegisterUpgradeHandlers (be_upgrades E) (be_diskInfo E) (be_IsSkipHeight E) \<lparr>ua_handlers = Map.empty, ua_storeLoader = None\<rparr> = Inr (bd_upgrade b) \<and>
       bd_warnings b = (case be_annotations E of Some e \<Rightarrow> [e] | None \<Rightarrow> [])
   | Inl (stop, b) \<Rightarrow> \<not> libraries_ok E False \<and> LoadLatestVersion \<notin> set (bd_done b)"
proof -
  obtain k1 k2 k3 k4 k5 k6 where k: "exec_stmts base_keepers zero_app = Some k1"
    "exec_stmts (sdk_keepers @ ibc_gov_keepers @ evm_keepers @ custom_keepers @ ibc_stacks @ module_keepers) k1 = Some k2"
    "exec_stmts upgrade_handler_keepers k2 = Some k3" "exec_stmts simulation_keepers k3 = Some k4"
    "exec_stmts setAnteHandler k4 = Some k5" "exec_stmts mempool_keepers k5 = Some k6" and cur: "all_current k5" "all_current k6"
    by (rule keeper_stages)
  let ?u0 = "\<lparr>ua_handlers = Map.empty, ua_storeLoader = None\<rparr>"
  let ?m = "\<lparr>ma_AnteHandler = be_anteHandler E, ma_broadcastPromotedEVMTxs = bcast, ma_InsertTxHandler = None, ma_ReapTxsHandler = None,
        ma_CheckTxHandler = None, ma_PrepareProposal = None, ma_EVMMempool = None, ma_Mempool = None\<rparr>"
  obtain err m' where m: "configureEVMMempool (be_mempool E) ?m = (err, m')" by (cases "configureEVMMempool (be_mempool E) ?m")
  have m0: "ma_EVMMempool ?m = None" by simp
  note mr = mempool_result [OF m0 m]
  have ur: "isl (be_diskInfo E) = isl (RegisterUpgradeHandlers (be_upgrades E) (be_diskInfo E) (be_IsSkipHeight E) ?u0)"
    using upgrade_result [of "be_upgrades E" "be_diskInfo E" "be_IsSkipHeight E" ?u0] by (cases "RegisterUpgradeHandlers (be_upgrades E) (be_diskInfo E) (be_IsSkipHeight E) ?u0") auto
  have ma: "mempool_accepted (be_mempool E) = (err = None)" using mr by simp
  show ?thesis
    by (simp add: front_ops_def build_ops_def new_building_def libraries_ok_def run_stages k cur m ur ma mr(2) build_stages_def
      del: run_ops.simps(2) split: option.split sum.split)
qed

lemma build_ops_split:
  "build_ops E True = front_ops E @ [checked_stage LoadLatestVersion (be_load E) Exits]" "build_ops E False = front_ops E"
  by (simp_all add: front_ops_def build_ops_def)

lemma libraries_ok_latest: "libraries_ok E True \<longleftrightarrow> libraries_ok E False \<and> be_load E = None"
  by (auto simp: libraries_ok_def)

lemma build_succeeds_iff: "isl (NewEnergyChainApp E loadLatest ante0 bcast) \<longleftrightarrow> \<not> libraries_ok E loadLatest"
proof (cases loadLatest)
  case True
  then have on: "loadLatest = True" by simp
  show ?thesis using front [of E ante0 bcast]
    by (cases "run_ops (front_ops E) (new_building ante0 bcast)"; cases "be_load E")
      (auto simp: NewEnergyChainApp_def build_ops_split run_ops_append checked_stage_def libraries_ok_latest on)
next
  case False
  then have off: "loadLatest = False" by simp
  show ?thesis using front [of E ante0 bcast]
    by (cases "run_ops (front_ops E) (new_building ante0 bcast)") (auto simp: NewEnergyChainApp_def build_ops_split off)
qed

text \<open>
  C17: Constructing the application succeeds exactly when every library call the constructor checks does and
  the mempool configuration is accepted; wrong protobuf annotations do not matter.  Then all stages ran
  in order, nobody holds a stale keeper, an installed mempool checks with the application's own ante
  handler, and the upgrade handlers are registered.  On a failure the stored state has not been loaded.
\<close>
theorem app_build_outcome:
  "case NewEnergyChainApp E loadLatest ante0 bcast of
     Inr b \<Rightarrow> libraries_ok E loadLatest \<and>
       bd_done b = (if loadLatest then build_stages else butlast build_stages) \<and> all_current (bd_keepers b) \<and>
       (case ma_EVMMempool (bd_mempool b) of None \<Rightarrow> True | Some pool \<Rightarrow> pool_ante pool = be_anteHandler E) \<and>
       RegisterUpgradeHandlers (be_upgrades E) (be_diskInfo E) (be_IsSkipHeight E)
         \<lparr>ua_handlers = Map.empty, ua_storeLoader = None\<rparr> = Inr (bd_upgrade b) \<and>
       bd_warnings b = (case be_annotations E of Some e \<Rightarrow> [e] | None \<Rightarrow> [])
   | Inl (stop, b) \<Rightarrow> \<not> libraries_ok E loadLatest \<and> LoadLatestVersion \<notin> set (bd_done b)"
proof -
  let ?b0 = "new_building ante0 bcast"
  have last: "build_stages = butlast build_stages @ [LoadLatestVersion]" by (simp add: build_stages_def)
  have early: "LoadLatestVersion \<notin> set (butlast build_stages)" by (simp add: build_stages_def)
  show ?thesis
  proof (cases loadLatest)
    case True
    then have on: "loadLatest = True" by simp
    show ?thesis using front [of E ante0 bcast]
      by (cases "run_ops (front_ops E) ?b0"; cases "be_load E")
        (auto simp: NewEnergyChainApp_def build_ops_split run_ops_append checked_stage_def stage_done_def libraries_ok_latest early on split: option.split simp flip: last)
  next
    case False
    then have off: "loadLatest = False" by simp
    show ?thesis using front [of E ante0 bcast]
      by (cases "run_ops (front_ops E) ?b0") (auto simp: NewEnergyChainApp_def build_ops_split off split: option.split)
  qed
qed

end
