(* ===== verification/CommandTree.thy ===== *)
theory CommandTree
  imports AutoCli AppBuild
begin

text \<open>
  \<^verbatim>\<open>main.go\<close>, \<^verbatim>\<open>config/bech32.go\<close> and the command tree of \<^verbatim>\<open>cmd/root.go\<close> with the transaction commands of
  the modules.  Commands of libraries are leaves named by their constructors; cobra runs the tree.
\<close>

section \<open>Address prefixes\<close>

text \<open>The words the SDK builds prefixes from are its constants: an argument.\<close>

record prefix_words =
  pw_Public :: string
  pw_Validator :: string
  pw_Operator :: string
  pw_Consensus :: string

definition Bech32Prefix :: string where "Bech32Prefix = ''energy''"

definition Bech32PrefixAccAddr :: string where "Bech32PrefixAccAddr = Bech32Prefix"

definition Bech32PrefixAccPub :: "prefix_words \<Rightarrow> string" where
  "Bech32PrefixAccPub w = Bech32Prefix @ pw_Public w"

definition Bech32PrefixValAddr :: "prefix_words \<Rightarrow> string" where
  "Bech32PrefixValAddr w = Bech32Prefix @ pw_Validator w @ pw_Operator w"

definition Bech32PrefixValPub :: "prefix_words \<Rightarrow> string" where
  "Bech32PrefixValPub w = Bech32Prefix @ pw_Validator w @ pw_Operator w @ pw_Public w"

definition Bech32PrefixConsAddr :: "prefix_words \<Rightarrow> string" where
  "Bech32PrefixConsAddr w = Bech32Prefix @ pw_Validator w @ pw_Consensus w"

definition Bech32PrefixConsPub :: "prefix_words \<Rightarrow> string" where
  "Bech32PrefixConsPub w = Bech32Prefix @ pw_Validator w @ pw_Consensus w @ pw_Public w"

text \<open>The pairs of address and public key prefix of the SDK's configuration, and its seal.\<close>

record sdk_config =
  sc_Account :: "string \<times> string"
  sc_Validator :: "string \<times> string"
  sc_Consensus :: "string \<times> string"
  sc_sealed :: bool

text \<open>The setters panic on a sealed configuration.\<close>

definition SetBech32Prefixes :: "prefix_words \<Rightarrow> sdk_config \<Rightarrow> sdk_config option" where
  "SetBech32Prefixes w cfg =
     (if sc_sealed cfg then None
      else Some (cfg\<lparr>sc_Account := (Bech32PrefixAccAddr, Bech32PrefixAccPub w),
        sc_Validator := (Bech32PrefixValAddr w, Bech32PrefixValPub w),
        sc_Consensus := (Bech32PrefixConsAddr w, Bech32PrefixConsPub w)\<rparr>))"

definition Seal :: "sdk_config \<Rightarrow> sdk_config" where
  "Seal cfg = cfg\<lparr>sc_sealed := True\<rparr>"

definition setupSDKConfig :: "prefix_words \<Rightarrow> sdk_config \<Rightarrow> sdk_config option" where
  "setupSDKConfig w cfg = map_option Seal (SetBech32Prefixes w cfg)"

section \<open>Commands\<close>

text \<open>
  \<open>Lib\<close> is a command of a library, \<open>Own\<close> the start command of this repository (\<open>ServerStart\<close>), \<open>Group\<close> a
  command with aliases and sub-commands, \<open>MsgCmd\<close> one that builds a message, with the least and the
  greatest number of its arguments.
\<close>

datatype command =
    Lib string
  | Own string
  | Group string "string list" "command list"
  | MsgCmd string string nat nat

definition energy_GetTxCmd :: command where
  "energy_GetTxCmd = Group ''energy'' []
     [MsgCmd ''submit [category] [data-hash] [metadata]'' ''MsgSubmitEnergyData'' 2 3,
      MsgCmd ''batch-submit [category] [merkle-root]'' ''MsgBatchSubmit'' 2 2]"

definition oracle_GetTxCmd :: command where
  "oracle_GetTxCmd = Group ''oracle'' []
     [MsgCmd ''submit [category] [value] [metadata]'' ''MsgSubmitData'' 2 3,
      MsgCmd ''add-oracle [address] [name]'' ''MsgAddOracle'' 1 2,
      MsgCmd ''remove-oracle [address]'' ''MsgRemoveOracle'' 1 1]"

definition identity_GetTxCmd :: command where
  "identity_GetTxCmd = Group ''identity'' []
     [MsgCmd ''register [address] [name] [role] [metadata]'' ''MsgRegisterIdentity'' 3 4,
      MsgCmd ''update [address] [name] [metadata]'' ''MsgUpdateIdentity'' 2 3,
      MsgCmd ''revoke [address] [reason]'' ''MsgRevokeIdentity'' 1 2]"

definition audit_GetTxCmd :: command where
  "audit_GetTxCmd = Group ''audit'' []
     [MsgCmd ''record [event-type] [target] [action] [data]'' ''MsgRecordAudit'' 3 4]"

definition queryCommand :: command where
  "queryCommand = Group ''query'' [''q'']
     [Lib ''rpc.QueryEventForTxCmd'', Lib ''rpc.ValidatorCommand'', Lib ''authcmd.QueryTxsByEventsCmd'', Lib ''authcmd.QueryTxCmd'',
      Lib ''sdkserver.QueryBlockCmd'', Lib ''sdkserver.QueryBlockResultsCmd'']"

definition txCommand :: command where
  "txCommand = Group ''tx'' []
     ([Lib ''authcmd.GetSignCommand'', Lib ''authcmd.GetSignBatchCommand'', Lib ''authcmd.GetMultiSignCommand'',
       Lib ''authcmd.GetMultiSignBatchCmd'', Lib ''authcmd.GetValidateSignaturesCommand'', Lib ''authcmd.GetBroadcastCommand'',
       Lib ''authcmd.GetEncodeCommand'', Lib ''authcmd.GetDecodeCommand'', Lib ''authcmd.GetSimulateCmd''] @
      [energy_GetTxCmd, oracle_GetTxCmd, identity_GetTxCmd, audit_GetTxCmd])"

definition cometbftCmd :: command where
  "cometbftCmd = Group ''comet'' [''cometbft'']
     [Lib ''sdkserver.ShowNodeIDCmd'', Lib ''sdkserver.ShowValidatorCmd'', Lib ''sdkserver.ShowAddressCmd'',
      Lib ''sdkserver.VersionCmd'', Lib ''cmtcmd.ResetAllCmd'', Lib ''cmtcmd.ResetStateCmd'', Lib ''sdkserver.BootstrapStateCmd'']"

text \<open>The configuration is sealed (again) first; \<open>flags_err\<close> is the error of \<^verbatim>\<open>AddTxFlags\<close>.\<close>

definition initRootCmd :: "string option \<Rightarrow> sdk_config \<Rightarrow> (string + command) \<times> sdk_config" where
  "initRootCmd flags_err cfg =
     (case flags_err of
        Some e \<Rightarrow> (Inl e, Seal cfg)
      | None \<Rightarrow>
          (Inr (Group ''energychaind'' []
             ([Lib ''genutilcli.InitCmd'', Lib ''genutilcli.Commands'', Lib ''cmtcli.NewCompletionCmd'', Lib ''evmdebug.Cmd'',
               Lib ''confixcmd.ConfigCommand'', Lib ''pruning.Cmd'', Lib ''snapshot.Cmd''] @
              [Own ''start'', cometbftCmd, Lib ''sdkserver.ExportCmd'', Lib ''sdkversion.NewVersionCommand'',
               Lib ''sdkserver.NewRollbackCmd'', Lib ''cosmosevmserver.NewIndexTxCmd''] @
              [Lib ''cosmosevmcmd.KeyCommands''] @
              [Lib ''sdkserver.StatusCommand'', queryCommand, txCommand])), Seal cfg))"

section \<open>The root command\<close>

datatype root_panic = TempApp build_stop | TxFlags string | AutoCliError string

text \<open>
  \<^verbatim>\<open>NewRootCmd\<close>: a temporary application first, loaded from an empty database, then the tree, which the
  auto-CLI may extend (\<open>Enhance\<close>).
\<close>

definition NewRootCmd ::
  "('ante, 'lp, 'vm) build_env \<Rightarrow> 'ante \<Rightarrow> 'bcast \<Rightarrow> string option \<Rightarrow> (command \<Rightarrow> string + command) \<Rightarrow> sdk_config \<Rightarrow>
     (root_panic + command) \<times> sdk_config" where
  "NewRootCmd E ante0 bcast flags_err Enhance cfg =
     (case NewEnergyChainApp E True ante0 bcast of
        Inl (stop, _) \<Rightarrow> (Inl (TempApp stop), cfg)
      | Inr _ \<Rightarrow>
          (case initRootCmd flags_err cfg of
             (Inl e, cfg') \<Rightarrow> (Inl (TxFlags e), cfg')
           | (Inr root, cfg') \<Rightarrow>
               (case Enhance root of
                  Inl e \<Rightarrow> (Inl (AutoCliError e), cfg')
                | Inr root' \<Rightarrow> (Inr root', cfg'))))"

section \<open>The program\<close>

datatype main_outcome = MainPanics root_panic | SealedConfig | ExitStatus nat

text \<open>\<open>NewRoot\<close> is \<open>NewRootCmd\<close> with the libraries' answers; \<open>Execute\<close> runs the tree.\<close>

definition main :: "prefix_words \<Rightarrow> (sdk_config \<Rightarrow> (root_panic + command) \<times> sdk_config) \<Rightarrow>
     (command \<Rightarrow> sdk_config \<Rightarrow> string option) \<Rightarrow> sdk_config \<Rightarrow> main_outcome \<times> sdk_config" where
  "main w NewRoot Execute cfg =
     (case setupSDKConfig w cfg of
        None \<Rightarrow> (SealedConfig, cfg)
      | Some cfg1 \<Rightarrow>
          (case NewRoot cfg1 of
             (Inl p, cfg2) \<Rightarrow> (MainPanics p, cfg2)
           | (Inr root, cfg2) \<Rightarrow>
               (case Execute root cfg2 of Some e \<Rightarrow> (ExitStatus 1, cfg2) | None \<Rightarrow> (ExitStatus 0, cfg2))))"

section \<open>Facts\<close>

text \<open>What a tree's commands send, and where their usage lines and argument counts disagree.\<close>

fun messages_of :: "command \<Rightarrow> string list" where
  "messages_of (MsgCmd u m lo hi) = [m]"
| "messages_of (Group n as cs) = concat (map messages_of cs)"
| "messages_of _ = []"

fun usage_ok :: "command \<Rightarrow> bool" where
  "usage_ok (MsgCmd u m lo hi) \<longleftrightarrow> lo \<le> hi \<and> placeholders u = hi"
| "usage_ok (Group n as cs) \<longleftrightarrow> list_all usage_ok cs"
| "usage_ok _ \<longleftrightarrow> True"

fun command_name :: "command \<Rightarrow> string" where
  "command_name (MsgCmd u m lo hi) = takeWhile (\<lambda>c. c \<noteq> CHR '' '') u"
| "command_name (Group n as cs) = n"
| "command_name (Lib n) = n"
| "command_name (Own n) = n"

fun names_ok :: "command \<Rightarrow> bool" where
  "names_ok (Group n as cs) \<longleftrightarrow> distinct (map command_name cs) \<and> list_all names_ok cs"
| "names_ok _ \<longleftrightarrow> True"

definition custom_messages :: "string list" where
  "custom_messages = energy_RegisterInterfaces @ oracle_RegisterInterfaces @ identity_RegisterInterfaces @ audit_RegisterInterfaces"

lemmas command_defs =
  queryCommand_def txCommand_def cometbftCmd_def energy_GetTxCmd_def oracle_GetTxCmd_def identity_GetTxCmd_def audit_GetTxCmd_def

text \<open>
  The hand-written transaction commands send every message of the four modules but the parameter
  updates, each by one command; their usage lines show as many arguments as they take, and no two
  sub-commands have the same name.  None of the query commands belongs to the modules.
\<close>
theorem commands_cover_messages:
  "\<exists>root. fst (initRootCmd None cfg) = Inr root \<and> names_ok root \<and> usage_ok root \<and>
     messages_of root = filter (\<lambda>m. m \<noteq> ''MsgUpdateParams'') custom_messages \<and> messages_of queryCommand = []"
proof -
  obtain root where root: "fst (initRootCmd None cfg) = Inr root" by (simp add: initRootCmd_def)
  have "names_ok root" "usage_ok root"
    using root by (auto simp: initRootCmd_def command_defs)
  moreover have "messages_of root = filter (\<lambda>m. m \<noteq> ''MsgUpdateParams'') custom_messages"
    using root by (auto simp: initRootCmd_def command_defs custom_messages_def energy_RegisterInterfaces_def
        oracle_RegisterInterfaces_def identity_RegisterInterfaces_def audit_RegisterInterfaces_def)
  moreover have "messages_of queryCommand = []" by (simp add: queryCommand_def)
  ultimately show ?thesis using root by blast
qed

text \<open>
  Creating the root command fails exactly when a library the temporary application needs does, or the
  flags, or the auto-CLI; with empty application options the mempool is never the reason.
\<close>
theorem root_command_outcome:
  assumes "mo_IsEmptyAppOptions (be_mempool E)" and "mo_AllowFallback (be_mempool E) = None"
  shows "mempool_accepted (be_mempool E)"
    and "(\<exists>root. fst (NewRootCmd E ante0 bcast flags_err Enhance cfg) = Inr root) \<longleftrightarrow>
      libraries_ok E True \<and> flags_err = None \<and> (\<exists>c root. fst (initRootCmd None cfg) = Inr c \<and> Enhance c = Inr root)"
    and "sc_sealed cfg \<Longrightarrow> snd (NewRootCmd E ante0 bcast flags_err Enhance cfg) = cfg"
proof -
  show "mempool_accepted (be_mempool E)"
    using assms by (simp add: mempool_accepted_def allow_fallback_def)
  have build: "libraries_ok E True \<longleftrightarrow> (\<exists>b. NewEnergyChainApp E True ante0 bcast = Inr b)"
    using build_succeeds_iff [of E True ante0 bcast] by (cases "NewEnergyChainApp E True ante0 bcast") auto
  show "(\<exists>root. fst (NewRootCmd E ante0 bcast flags_err Enhance cfg) = Inr root) \<longleftrightarrow>
      libraries_ok E True \<and> flags_err = None \<and> (\<exists>c root. fst (initRootCmd None cfg) = Inr c \<and> Enhance c = Inr root)"
    unfolding build by (cases flags_err) (auto simp: NewRootCmd_def initRootCmd_def split: sum.splits)
  show "sc_sealed cfg \<Longrightarrow> snd (NewRootCmd E ante0 bcast flags_err Enhance cfg) = cfg"
    by (cases cfg; cases flags_err) (auto simp: NewRootCmd_def initRootCmd_def Seal_def split: sum.splits)
qed

text \<open>
  The program sets the prefixes, once, before the first application is built and any command runs, and
  nothing can change them afterwards.
\<close>
theorem prefixes_fixed_first:
  assumes "\<not> sc_sealed cfg" and "pw_Validator w @ pw_Operator w \<noteq> []" and "pw_Validator w @ pw_Consensus w \<noteq> []"
    and "pw_Operator w \<noteq> pw_Consensus w"
  shows "\<exists>cfg1. setupSDKConfig w cfg = Some cfg1 \<and> main w NewRoot Execute cfg =
      (case NewRoot cfg1 of
         (Inl p, cfg2) \<Rightarrow> (MainPanics p, cfg2)
       | (Inr root, cfg2) \<Rightarrow> (ExitStatus (if Execute root cfg2 = None then 0 else 1), cfg2)) \<and>
      SetBech32Prefixes w' cfg1 = None \<and> Seal cfg1 = cfg1 \<and>
      distinct [fst (sc_Account cfg1), fst (sc_Validator cfg1), fst (sc_Consensus cfg1)]"
  using assms
  by (auto simp: main_def setupSDKConfig_def SetBech32Prefixes_def Seal_def Bech32PrefixAccAddr_def Bech32PrefixValAddr_def
      Bech32PrefixConsAddr_def split: prod.split sum.split option.split)

end
