(* ===== verification/StartFlags.thy ===== *)
theory StartFlags
  imports MempoolSetup
begin

text \<open>
  The flags of the start command, \<^verbatim>\<open>CustomStartCmd\<close> in \<^verbatim>\<open>evm_server.go\<close>: their declarations, the early
  handler, and how an option is read when flags, environment and \<^verbatim>\<open>app.toml\<close> are bound together.  A flag
  is named by the constant the code uses, and a default that is a library's constant by that constant.
\<close>

section \<open>Flags\<close>

datatype flag_kind =
    KBool | KDuration | KFloat64 | KInt | KInt32 | KIntSlice | KString | KStringSlice | KUint | KUint32 | KUint64

datatype flag_value = FBool bool | FNum int | FStr string | FList "string list" | FLib string

record flag =
  fl_Kind :: flag_kind
  fl_Value :: flag_value
  fl_Changed :: bool

type_synonym flags = "(string \<times> flag) list"

datatype flag_stmt = Declare flag_kind string flag_value | SetFlag string flag_value

text \<open>Declaring a flag twice panics, and so does this code when setting one fails.\<close>

fun set_flag :: "string \<Rightarrow> flag_value \<Rightarrow> flags \<Rightarrow> flags option" where
  "set_flag n v [] = None"
| "set_flag n v ((m, fl) # fs) =
     (if m = n then Some ((m, fl\<lparr>fl_Value := v, fl_Changed := True\<rparr>) # fs) else map_option ((#) (m, fl)) (set_flag n v fs))"

fun exec_flag :: "flag_stmt \<Rightarrow> flags \<Rightarrow> flags option" where
  "exec_flag (Declare k n v) fs =
     (if n \<in> fst ` set fs then None else Some (fs @ [(n, \<lparr>fl_Kind = k, fl_Value = v, fl_Changed = False\<rparr>)]))"
| "exec_flag (SetFlag n v) fs = set_flag n v fs"

fun run_flags :: "flag_stmt list \<Rightarrow> flags \<Rightarrow> flags option" where
  "run_flags [] fs = Some fs"
| "run_flags (s # ss) fs = (case exec_flag s fs of None \<Rightarrow> None | Some fs' \<Rightarrow> run_flags ss fs')"

definition early_flags :: "flag_stmt list" where
  "early_flags =
     [Declare KString ''flags.FlagHome'' (FLib ''opts.DefaultNodeHome''),
      Declare KBool ''srvflags.WithCometBFT'' (FBool True),
      Declare KString ''srvflags.Address'' (FStr ''tcp://0.0.0.0:26658''),
      Declare KString ''srvflags.Transport'' (FStr ''socket''),
      Declare KString ''srvflags.TraceStore'' (FStr []),
      Declare KString ''server.FlagMinGasPrices'' (FStr []),
      Declare KIntSlice ''server.FlagUnsafeSkipUpgrades'' (FList []),
      Declare KUint64 ''server.FlagHaltHeight'' (FNum 0),
      Declare KUint64 ''server.FlagHaltTime'' (FNum 0),
      Declare KBool ''server.FlagInterBlockCache'' (FBool True),
      Declare KString ''srvflags.CPUProfile'' (FStr []),
      Declare KBool ''server.FlagTrace'' (FBool False),
      Declare KString ''server.FlagPruning'' (FLib ''pruningtypes.PruningOptionDefault''),
      Declare KUint64 ''server.FlagPruningKeepRecent'' (FNum 0),
      Declare KUint64 ''server.FlagPruningInterval'' (FNum 0),
      Declare KUint ''server.FlagInvCheckPeriod'' (FNum 0),
      Declare KUint64 ''server.FlagMinRetainBlocks'' (FNum 0),
      Declare KString ''srvflags.AppDBBackend'' (FStr []),
      Declare KInt ''server.FlagMempoolMaxTxs'' (FNum 0)]"

definition late_flags :: "flag_stmt list" where
  "late_flags =
     [Declare KBool ''srvflags.GRPCOnly'' (FBool False),
      Declare KBool ''srvflags.GRPCEnable'' (FLib ''cosmosevmserverconfig.DefaultGRPCEnable''),
      Declare KString ''srvflags.GRPCAddress'' (FLib ''serverconfig.DefaultGRPCAddress''),
      Declare KBool ''srvflags.GRPCWebEnable'' (FLib ''cosmosevmserverconfig.DefaultGRPCWebEnable''),
      Declare KString ''srvflags.GRPCWebAddress'' (FLib ''cosmosevmserverconfig.DefaultGRPCAddress''),
      Declare KBool ''srvflags.RPCEnable'' (FLib ''cosmosevmserverconfig.DefaultAPIEnable''),
      Declare KBool ''srvflags.EnabledUnsafeCors'' (FBool False),
      Declare KBool ''srvflags.JSONRPCEnable'' (FLib ''cosmosevmserverconfig.DefaultJSONRPCEnable''),
      Declare KStringSlice ''srvflags.JSONRPCAPI'' (FList [''eth'', ''txpool'', ''net'', ''web3'']),
      Declare KString ''srvflags.JSONRPCAddress'' (FLib ''cosmosevmserverconfig.DefaultJSONRPCAddress''),
      Declare KString ''srvflags.JSONWsAddress'' (FLib ''cosmosevmserverconfig.DefaultJSONRPCWsAddress''),
      Declare KStringSlice ''srvflags.JSONRPCWSOrigins'' (FLib ''cosmosevmserverconfig.GetDefaultWSOrigins()''),
      Declare KUint64 ''srvflags.JSONRPCGasCap'' (FLib ''cosmosevmserverconfig.DefaultGasCap''),
      Declare KBool ''srvflags.JSONRPCAllowInsecureUnlock'' (FLib ''cosmosevmserverconfig.DefaultJSONRPCAllowInsecureUnlock''),
      Declare KFloat64 ''srvflags.JSONRPCTxFeeCap'' (FLib ''cosmosevmserverconfig.DefaultTxFeeCap''),
      Declare KInt32 ''srvflags.JSONRPCFilterCap'' (FLib ''cosmosevmserverconfig.DefaultFilterCap''),
      Declare KDuration ''srvflags.JSONRPCEVMTimeout'' (FLib ''cosmosevmserverconfig.DefaultEVMTimeout''),
      Declare KDuration ''srvflags.JSONRPCHTTPTimeout'' (FLib ''cosmosevmserverconfig.DefaultHTTPTimeout''),
      Declare KDuration ''srvflags.JSONRPCHTTPIdleTimeout'' (FLib ''cosmosevmserverconfig.DefaultHTTPIdleTimeout''),
      Declare KBool ''srvflags.JSONRPCAllowUnprotectedTxs'' (FLib ''cosmosevmserverconfig.DefaultAllowUnprotectedTxs''),
      Declare KInt ''srvflags.JSONRPCBatchRequestLimit'' (FLib ''cosmosevmserverconfig.DefaultBatchRequestLimit''),
      Declare KInt ''srvflags.JSONRPCBatchResponseMaxSize'' (FLib ''cosmosevmserverconfig.DefaultBatchResponseMaxSize''),
      Declare KInt32 ''srvflags.JSONRPCLogsCap'' (FLib ''cosmosevmserverconfig.DefaultLogsCap''),
      Declare KInt32 ''srvflags.JSONRPCBlockRangeCap'' (FLib ''cosmosevmserverconfig.DefaultBlockRangeCap''),
      Declare KInt ''srvflags.JSONRPCMaxOpenConnections'' (FLib ''cosmosevmserverconfig.DefaultMaxOpenConnections''),
      Declare KBool ''srvflags.JSONRPCEnableIndexer'' (FBool False),
      Declare KBool ''srvflags.JSONRPCEnableMetrics'' (FBool False),
      Declare KBool ''srvflags.JSONRPCEnableProfiling'' (FBool False),
      Declare KString ''srvflags.EVMTracer'' (FLib ''cosmosevmserverconfig.DefaultEVMTracer''),
      Declare KUint64 ''srvflags.EVMMaxTxGasWanted'' (FLib ''cosmosevmserverconfig.DefaultMaxTxGasWanted''),
      Declare KBool ''srvflags.EVMEnablePreimageRecording'' (FLib ''cosmosevmserverconfig.DefaultEnablePreimageRecording''),
      Declare KUint64 ''srvflags.EVMChainID'' (FLib ''cosmosevmserverconfig.DefaultEVMChainID''),
      Declare KUint64 ''srvflags.EVMMinTip'' (FLib ''cosmosevmserverconfig.DefaultEVMMinTip''),
      Declare KString ''srvflags.EvmGethMetricsAddress'' (FLib ''cosmosevmserverconfig.DefaultGethMetricsAddress''),
      Declare KUint64 ''srvflags.EVMMempoolPriceLimit'' (FLib ''cosmosevmserverconfig.DefaultMempoolConfig().PriceLimit''),
      Declare KUint64 ''srvflags.EVMMempoolPriceBump'' (FLib ''cosmosevmserverconfig.DefaultMempoolConfig().PriceBump''),
      Declare KUint64 ''srvflags.EVMMempoolAccountSlots'' (FLib ''cosmosevmserverconfig.DefaultMempoolConfig().AccountSlots''),
      Declare KUint64 ''srvflags.EVMMempoolGlobalSlots'' (FLib ''cosmosevmserverconfig.DefaultMempoolConfig().GlobalSlots''),
      Declare KUint64 ''srvflags.EVMMempoolAccountQueue'' (FLib ''cosmosevmserverconfig.DefaultMempoolConfig().AccountQueue''),
      Declare KUint64 ''srvflags.EVMMempoolGlobalQueue'' (FLib ''cosmosevmserverconfig.DefaultMempoolConfig().GlobalQueue''),
      Declare KDuration ''srvflags.EVMMempoolLifetime'' (FLib ''cosmosevmserverconfig.DefaultMempoolConfig().Lifetime''),
      Declare KBool ''srvflags.EVMMempoolOperateExclusively'' (FBool True),
      Declare KDuration ''srvflags.EVMMempoolPendingTxProposalTimeout'' (FLib ''cosmosevmserverconfig.DefaultMempoolConfig().PendingTxProposalTimeout''),
      Declare KInt ''srvflags.EVMMempoolInsertQueueSize'' (FLib ''cosmosevmserverconfig.DefaultMempoolConfig().InsertQueueSize''),
      Declare KBool ''flagAllowUnsafeExperimentalMempoolFallback'' (FBool False),
      Declare KString ''srvflags.TLSCertPath'' (FStr []),
      Declare KString ''srvflags.TLSKeyPath'' (FStr []),
      Declare KUint64 ''server.FlagStateSyncSnapshotInterval'' (FNum 0),
      Declare KUint32 ''server.FlagStateSyncSnapshotKeepRecent'' (FNum 2)]"

text \<open>The declarations, with the one flag that is set right after it is declared.\<close>

definition CustomStartCmd_flags :: "flag_stmt list" where
  "CustomStartCmd_flags = early_flags @ [SetFlag ''server.FlagMempoolMaxTxs'' (FNum 0)] @ late_flags"

text \<open>The handler that runs first: both errors are returned.\<close>

definition start_PreRunE :: "string option \<Rightarrow> string + 'p \<Rightarrow> string option" where
  "start_PreRunE BindPFlags PruningOptions =
     (case BindPFlags of
        Some e \<Rightarrow> Some e
      | None \<Rightarrow> (case PruningOptions of Inl e \<Rightarrow> Some e | Inr _ \<Rightarrow> None))"

section \<open>Reading an option\<close>

text \<open>What the user gives on the command line.\<close>

definition parse_args :: "(string \<times> flag_value) list \<Rightarrow> flags \<Rightarrow> flags option" where
  "parse_args args fs = run_flags (map (\<lambda>(n, v). SetFlag n v) args) fs"

text \<open>
  The option reader is the library's; its documented order is a flag that was set, then the environment,
  then the configuration file, then the default of the flag.
\<close>

type_synonym option_reader =
  "flags \<Rightarrow> (string \<rightharpoonup> flag_value) \<Rightarrow> (string \<rightharpoonup> flag_value) \<Rightarrow> string \<Rightarrow> flag_value option"

definition documented_order :: "option_reader \<Rightarrow> bool" where
  "documented_order Get \<longleftrightarrow>
     (\<forall>fs envir config n fl. map_of fs n = Some fl \<longrightarrow>
        Get fs envir config n =
          (if fl_Changed fl then Some (fl_Value fl)
           else (case envir n of
                   Some v \<Rightarrow> Some v
                 | None \<Rightarrow> (case config n of Some v \<Rightarrow> Some v | None \<Rightarrow> Some (fl_Value fl)))))"

section \<open>Facts\<close>

fun declared :: "flag_stmt \<Rightarrow> string \<times> flag" where
  "declared (Declare k n v) = (n, \<lparr>fl_Kind = k, fl_Value = v, fl_Changed = False\<rparr>)"
| "declared (SetFlag n v) = (n, \<lparr>fl_Kind = KString, fl_Value = v, fl_Changed = True\<rparr>)"

fun is_declare :: "flag_stmt \<Rightarrow> bool" where
  "is_declare (Declare k n v) = True"
| "is_declare (SetFlag n v) = False"

lemma run_declares:
  assumes "list_all is_declare ss" and "distinct (map fst (fs @ map declared ss))"
  shows "run_flags ss fs = Some (fs @ map declared ss)"
  using assms
proof (induction ss arbitrary: fs)
  case (Cons s ss)
  then obtain k n v where s: "s = Declare k n v" by (cases s) auto
  with Cons.prems have "n \<notin> fst ` set fs" by auto
  moreover have "run_flags ss (fs @ [declared s]) = Some ((fs @ [declared s]) @ map declared ss)"
    using Cons.prems by (intro Cons.IH) auto
  ultimately show ?case by (simp add: s)
qed simp

lemma run_flags_append: "run_flags (ss @ ts) fs = (case run_flags ss fs of None \<Rightarrow> None | Some fs' \<Rightarrow> run_flags ts fs')"
  by (induction ss arbitrary: fs) (auto split: option.split)

lemma set_flag_some:
  "set_flag n v fs = Some fs' \<Longrightarrow> map fst fs' = map fst fs \<and>
     (\<forall>m. map_of fs' m = (if m = n then map_option (\<lambda>fl. fl\<lparr>fl_Value := v, fl_Changed := True\<rparr>) (map_of fs n) else map_of fs m))"
  by (induction fs arbitrary: fs') (auto split: if_splits)

lemma set_flag_defined: "n \<in> fst ` set fs \<Longrightarrow> \<exists>fs'. set_flag n v fs = Some fs'"
  by (induction fs) force+

lemma start_flag_names: "distinct (map (fst \<circ> declared) (early_flags @ late_flags))"
  by (simp add: early_flags_def late_flags_def)

lemma start_flag_kinds: "list_all is_declare (early_flags @ late_flags)"
  by (simp add: early_flags_def late_flags_def)

lemma set_flag_last: "n \<notin> fst ` set fs \<Longrightarrow>
    set_flag n v (fs @ [(n, fl)]) = Some (fs @ [(n, fl\<lparr>fl_Value := v, fl_Changed := True\<rparr>)])"
  by (induction fs) auto

lemma run_sets_frame:
  "list_all (\<lambda>s. \<not> is_declare s) ss \<Longrightarrow> n \<notin> fst ` declared ` set ss \<Longrightarrow> run_flags ss fs = Some fs' \<Longrightarrow> map_of fs' n = map_of fs n"
proof (induction ss arbitrary: fs)
  case (Cons s ss)
  then obtain m v where s: "s = SetFlag m v" by (cases s) auto
  with Cons.prems obtain fs1 where 1: "set_flag m v fs = Some fs1" "run_flags ss fs1 = Some fs'" by (auto split: option.splits)
  from set_flag_some [OF 1(1)] Cons.prems(2) have "map_of fs1 n = map_of fs n" by (auto simp: s)
  with Cons.IH [OF _ _ 1(2)] Cons.prems show ?case by simp
qed simp

lemma early_split:
  obtains ss where "early_flags = ss @ [Declare KInt ''server.FlagMempoolMaxTxs'' (FNum 0)]"
proof
  show "early_flags = butlast early_flags @ [Declare KInt ''server.FlagMempoolMaxTxs'' (FNum 0)]"
    by (simp add: early_flags_def)
qed

lemma start_flags_run:
  obtains ss where "early_flags = ss @ [Declare KInt ''server.FlagMempoolMaxTxs'' (FNum 0)]"
    and "run_flags CustomStartCmd_flags [] =
      Some (map declared ss @ [(''server.FlagMempoolMaxTxs'', \<lparr>fl_Kind = KInt, fl_Value = FNum 0, fl_Changed = True\<rparr>)] @
        map declared late_flags)"
proof -
  obtain ss where ss: "early_flags = ss @ [Declare KInt ''server.FlagMempoolMaxTxs'' (FNum 0)]" by (rule early_split)
  have names: "distinct (map (fst \<circ> declared) (ss @ Declare KInt ''server.FlagMempoolMaxTxs'' (FNum 0) # late_flags))"
    using start_flag_names by (simp add: ss)
  have kinds: "list_all is_declare ss" "list_all is_declare late_flags" "list_all is_declare early_flags"
    using start_flag_kinds by (simp_all add: ss)
  let ?n = "''server.FlagMempoolMaxTxs''"
  have "run_flags early_flags [] = Some ([] @ map declared early_flags)"
    using names by (intro run_declares kinds) (auto simp: ss)
  then have first: "run_flags early_flags [] =
      Some (map declared ss @ [(?n, \<lparr>fl_Kind = KInt, fl_Value = FNum 0, fl_Changed = False\<rparr>)])"
    by (subst (asm) (2) ss) simp
  have "set_flag ?n (FNum 0) (map declared ss @ [(?n, \<lparr>fl_Kind = KInt, fl_Value = FNum 0, fl_Changed = False\<rparr>)]) =
      Some (map declared ss @ [(?n, \<lparr>fl_Kind = KInt, fl_Value = FNum 0, fl_Changed = True\<rparr>)])"
    using names by (subst set_flag_last) (auto simp: image_image)
  moreover have "run_flags late_flags (map declared ss @ [(?n, \<lparr>fl_Kind = KInt, fl_Value = FNum 0, fl_Changed = True\<rparr>)]) =
      Some ((map declared ss @ [(?n, \<lparr>fl_Kind = KInt, fl_Value = FNum 0, fl_Changed = True\<rparr>)]) @ map declared late_flags)"
    using names by (intro run_declares kinds) (auto simp: image_image)
  ultimately show thesis
    by (intro that [OF ss]) (simp add: CustomStartCmd_flags_def run_flags_append first)
qed

lemma declared_unchanged: "list_all is_declare ss \<Longrightarrow> filter (\<lambda>(n, fl). fl_Changed fl) (map declared ss) = []"
proof (induction ss)
  case (Cons s ss)
  then show ?case by (cases s) auto
qed simp

text \<open>
  Declaring the flags of the start command does not panic, and leaves exactly one of them set: the
  mempool's transaction limit, to zero.
\<close>
theorem start_flags_set:
  "\<exists>fs. run_flags CustomStartCmd_flags [] = Some fs \<and> length fs = 68 \<and> distinct (map fst fs) \<and>
     filter (\<lambda>(n, fl). fl_Changed fl) fs = [(''server.FlagMempoolMaxTxs'', \<lparr>fl_Kind = KInt, fl_Value = FNum 0, fl_Changed = True\<rparr>)]"
proof -
  obtain ss where ss: "early_flags = ss @ [Declare KInt ''server.FlagMempoolMaxTxs'' (FNum 0)]"
    and run: "run_flags CustomStartCmd_flags [] =
      Some (map declared ss @ [(''server.FlagMempoolMaxTxs'', \<lparr>fl_Kind = KInt, fl_Value = FNum 0, fl_Changed = True\<rparr>)] @
        map declared late_flags)"
    by (rule start_flags_run)
  have len: "length (early_flags @ late_flags) = 68" by (simp add: early_flags_def late_flags_def)
  show ?thesis
    unfolding run
    using declared_unchanged [of ss] declared_unchanged [of late_flags] start_flag_kinds start_flag_names len
    by (auto simp: ss image_image comp_def)
qed

text \<open>
  C39: How the options of the start command are read when the user does not give them: the limit of the
  mempool is zero whatever the environment and \<^verbatim>\<open>app.toml\<close> say; every other option follows them.
\<close>
theorem start_options:
  assumes "documented_order Get" and "run_flags CustomStartCmd_flags [] = Some fs" and "parse_args args fs = Some fs'"
    and "map_of fs n = Some fl" and "n \<notin> fst ` set args"
  shows "Get fs' envir config n =
    (if n = ''server.FlagMempoolMaxTxs'' then Some (FNum 0)
     else (case envir n of
             Some v \<Rightarrow> Some v
           | None \<Rightarrow> (case config n of Some v \<Rightarrow> Some v | None \<Rightarrow> Some (fl_Value fl))))"
proof -
  obtain ss where ss: "early_flags = ss @ [Declare KInt ''server.FlagMempoolMaxTxs'' (FNum 0)]"
    and run: "run_flags CustomStartCmd_flags [] =
      Some (map declared ss @ [(''server.FlagMempoolMaxTxs'', \<lparr>fl_Kind = KInt, fl_Value = FNum 0, fl_Changed = True\<rparr>)] @
        map declared late_flags)"
    by (rule start_flags_run)
  let ?all = "map declared ss @ [(''server.FlagMempoolMaxTxs'', \<lparr>fl_Kind = KInt, fl_Value = FNum 0, fl_Changed = True\<rparr>)] @
        map declared late_flags"
  have fs: "fs = ?all" using run assms(2) by simp
  have "map_of fs' n = map_of fs n"
  proof (rule run_sets_frame)
    show "run_flags (map (\<lambda>(n, v). SetFlag n v) args) fs = Some fs'" using assms(3) by (simp add: parse_args_def)
    show "list_all (\<lambda>s. \<not> is_declare s) (map (\<lambda>(n, v). SetFlag n v) args)" by (simp add: list_all_iff split_def)
    show "n \<notin> fst ` declared ` set (map (\<lambda>(n, v). SetFlag n v) args)" using assms(5) by (auto simp: image_iff split_def)
  qed
  then have get: "Get fs' envir config n =
      (if fl_Changed fl then Some (fl_Value fl)
       else (case envir n of
               Some v \<Rightarrow> Some v
             | None \<Rightarrow> (case config n of Some v \<Rightarrow> Some v | None \<Rightarrow> Some (fl_Value fl))))"
    using assms(1,4) by (simp add: documented_order_def)
  have entry: "(n, fl) \<in> set ?all" using map_of_SomeD [OF assms(4)] by (simp only: fs)
  show ?thesis
  proof (cases "n = ''server.FlagMempoolMaxTxs''")
    case True
    have "distinct (map fst ?all)" using start_flag_names by (auto simp: ss image_image comp_def)
    moreover have "(n, \<lparr>fl_Kind = KInt, fl_Value = FNum 0, fl_Changed = True\<rparr>) \<in> set ?all" by (simp add: True)
    ultimately have "fl = \<lparr>fl_Kind = KInt, fl_Value = FNum 0, fl_Changed = True\<rparr>"
      using entry eq_key_imp_eq_value by metis
    then show ?thesis using get True by simp
  next
    case False
    have "\<not> fl_Changed fl'" if "(n, fl') \<in> set (map declared xs)" "list_all is_declare xs" for xs fl'
      using declared_unchanged [OF that(2)] that(1) by (auto simp: filter_empty_conv)
    then have "\<not> fl_Changed fl" using entry False start_flag_kinds by (auto simp: ss)
    then show ?thesis using get False by simp
  qed
qed

text \<open>A reader with the documented order.\<close>

definition sample_reader :: option_reader where
  "sample_reader fs envir config n =
     (case map_of fs n of
        None \<Rightarrow> (case envir n of Some v \<Rightarrow> Some v | None \<Rightarrow> config n)
      | Some fl \<Rightarrow>
          if fl_Changed fl then Some (fl_Value fl)
          else (case envir n of
                  Some v \<Rightarrow> Some v
                | None \<Rightarrow> (case config n of Some v \<Rightarrow> Some v | None \<Rightarrow> Some (fl_Value fl))))"

theorem start_options_witness:
  "\<exists>fs. run_flags CustomStartCmd_flags [] = Some fs \<and>
     sample_reader fs Map.empty [''server.FlagMempoolMaxTxs'' \<mapsto> FNum 5000] ''server.FlagMempoolMaxTxs'' = Some (FNum 0)"
proof -
  have order: "documented_order sample_reader" by (simp add: documented_order_def sample_reader_def)
  obtain ss where run: "run_flags CustomStartCmd_flags [] =
      Some (map declared ss @ [(''server.FlagMempoolMaxTxs'', \<lparr>fl_Kind = KInt, fl_Value = FNum 0, fl_Changed = True\<rparr>)] @
        map declared late_flags)" (is "_ = Some ?fs")
    by (rule start_flags_run)
  have none: "parse_args [] ?fs = Some ?fs" by (simp add: parse_args_def)
  obtain fl where fl: "map_of ?fs ''server.FlagMempoolMaxTxs'' = Some fl"
    by (cases "map_of (map declared ss) ''server.FlagMempoolMaxTxs''") (auto simp: map_add_def)
  from start_options [OF order run none fl, of Map.empty "[''server.FlagMempoolMaxTxs'' \<mapsto> FNum 5000]"] run
  show ?thesis by auto
qed

end
