(* ===== verification/StoreLayout.thy ===== *)
theory StoreLayout
  imports EnergyHistory AuditHistory OracleKeeper IdentityKeeper SampleEnv
begin

text \<open>
  The bytes behind the collections.  A module's key-value store maps byte strings to values; a
  collection is the part of it under one prefix byte (\<^verbatim>\<open>types/keys.go\<close>), and its keys are the
  outputs of the key codec that \<^verbatim>\<open>NewKeeper\<close> hands it.  The codecs are part of
  \<^verbatim>\<open>cosmossdk.io/collections\<close>, so they are a parameter here.  This theory says which bytes a state
  of each module is, shows from the prefixes that no two collections share a key, and that the
  keepers' writes and reads on the typed containers are writes and reads of those bytes.
\<close>

section \<open>Key codecs\<close>

text \<open>
  What the collections rely on in a codec: two keys of one shape with the same bytes are the same
  key.  A codec may reject a key (a string that is not last in a pair must not hold a zero byte),
  and then the write fails.
\<close>

datatype key_shape = SUnit | SStr | SU64 | SPair key_shape key_shape

fun shape_of :: "ckey \<Rightarrow> key_shape" where
  "shape_of KUnit = SUnit"
| "shape_of (KStr s) = SStr"
| "shape_of (KU64 n) = SU64"
| "shape_of (KPair a b) = SPair (shape_of a) (shape_of b)"

type_synonym codec = "ckey \<Rightarrow> bytes option"

definition key_codec :: "codec \<Rightarrow> bool" where
  "key_codec enc \<longleftrightarrow> (\<forall>k k' b. shape_of k = shape_of k' \<longrightarrow> enc k = Some b \<longrightarrow> enc k' = Some b \<longrightarrow> k = k')"

definition rejects_unencodable :: "codec \<Rightarrow> env \<Rightarrow> bool" where
  "rejects_unencodable enc E \<longleftrightarrow> (\<forall>c k. write_fault E c k = None \<longrightarrow> enc k \<noteq> None)"

section \<open>Cells\<close>

text \<open>
  A cell is a prefix, a key and a value; the raw store holds the encodable cells under the prefix
  byte followed by the encoded key.
\<close>

type_synonym 'v cell = "(nat \<times> ckey) \<times> 'v"

definition item_cells :: "unit coll \<Rightarrow> ('a \<Rightarrow> 'v) \<Rightarrow> 'a option \<Rightarrow> 'v cell list" where
  "item_cells c mk i = (case i of None \<Rightarrow> [] | Some v \<Rightarrow> [((c_prefix c, c_key c ()), mk v)])"

definition map_cells :: "('k::linorder) coll \<Rightarrow> ('a \<Rightarrow> 'v) \<Rightarrow> ('k, 'a) fmap \<Rightarrow> 'v cell list" where
  "map_cells c mk m = map (\<lambda>(k, v). ((c_prefix c, c_key c k), mk v)) (entries m)"

definition set_cells :: "('k::linorder) coll \<Rightarrow> 'v \<Rightarrow> 'k fset \<Rightarrow> 'v cell list" where
  "set_cells c v s = map (\<lambda>k. ((c_prefix c, c_key c k), v)) (keys s)"

definition cell_bytes :: "codec \<Rightarrow> 'v cell \<Rightarrow> (bytes \<times> 'v) option" where
  "cell_bytes enc c = (case c of ((p, k), v) \<Rightarrow> map_option (\<lambda>b. (char_of p # b, v)) (enc k))"

definition raw_of :: "codec \<Rightarrow> 'v cell list \<Rightarrow> bytes \<rightharpoonup> 'v" where
  "raw_of enc cells = map_of (List.map_filter (cell_bytes enc) cells)"

definition raw_write :: "codec \<Rightarrow> ('k::linorder) coll \<Rightarrow> 'k \<Rightarrow> 'v \<Rightarrow> (bytes \<rightharpoonup> 'v) \<Rightarrow> (bytes \<rightharpoonup> 'v)" where
  "raw_write enc c k v m = (case enc (c_key c k) of None \<Rightarrow> m | Some b \<Rightarrow> m(char_of (c_prefix c) # b \<mapsto> v))"

definition laid_out :: "(nat \<times> key_shape) list \<Rightarrow> 'v cell list \<Rightarrow> bool" where
  "laid_out L cells \<longleftrightarrow> list_all (\<lambda>((p, k), v). (p, shape_of k) \<in> set L) cells"

definition encodable_cells :: "codec \<Rightarrow> 'v cell list \<Rightarrow> bool" where
  "encodable_cells enc cells \<longleftrightarrow> list_all (\<lambda>((p, k), v). enc k \<noteq> None) cells"

text \<open>
  The contract a schema keeps: one byte per prefix, and each collection its own.  From it: distinct
  cells never share their bytes, so the raw store is the cells read through the codec.
\<close>

locale store_layout =
  fixes L :: "(nat \<times> key_shape) list"
  assumes prefixes: "distinct (map fst L)"
    and one_byte: "list_all (\<lambda>(p, s). p < 256) L"
begin

lemma shapes_agree:
  assumes "(p, s) \<in> set L" and "(p', s') \<in> set L" and "(char_of p :: char) = char_of p'"
  shows "p = p' \<and> s = s'"
proof -
  have "p < 256" "p' < 256" using one_byte assms(1,2) by (auto simp: list_all_iff)
  moreover have "(of_char (char_of p :: char) :: nat) = of_char (char_of p' :: char)" using assms(3) by simp
  ultimately have "p = p'" by simp
  then show ?thesis using prefixes assms(1,2) by (metis eq_key_imp_eq_value)
qed

lemma raw_key_inject:
  assumes codec: "key_codec enc" and "(p, shape_of k) \<in> set L" and "(p', shape_of k') \<in> set L" and "enc k = Some b" and "enc k' = Some b'"
    and "(char_of p :: char) # b = char_of p' # b'"
  shows "p = p' \<and> k = k'"
  using shapes_agree [OF assms(2,3)] assms(4-6) codec unfolding key_codec_def by auto

lemma raw_lookup:
  assumes codec: "key_codec enc" and "laid_out L cells" and "(p, shape_of k) \<in> set L" and "enc k = Some b"
  shows "raw_of enc cells (char_of p # b) = map_of cells (p, k)"
  using assms(2)
proof (induction cells)
  case (Cons c cells)
  obtain p' k' v where c: "c = ((p', k'), v)" by (cases c) auto
  have in_L: "(p', shape_of k') \<in> set L" and IH: "raw_of enc cells (char_of p # b) = map_of cells (p, k)"
    using Cons by (auto simp: laid_out_def c)
  show ?case
  proof (cases "enc k'")
    case None
    then have "(p', k') \<noteq> (p, k)" using assms(4) by auto
    then show ?thesis using IH None by (auto simp: c raw_of_def List.map_filter_simps cell_bytes_def)
  next
    case (Some b')
    then show ?thesis
      using IH raw_key_inject [OF codec assms(3) in_L assms(4) Some] assms(4)
      by (auto simp: c raw_of_def List.map_filter_simps cell_bytes_def)
  qed
qed (simp add: raw_of_def List.map_filter_simps)

lemma raw_dom:
  assumes "raw_of enc cells b = Some v"
  shows "\<exists>p k b'. ((p, k), v) \<in> set cells \<and> enc k = Some b' \<and> b = char_of p # b'"
proof -
  have "(b, v) \<in> set (List.map_filter (cell_bytes enc) cells)" using assms by (auto simp: raw_of_def dest: map_of_SomeD)
  then show ?thesis by (force simp: List.map_filter_def cell_bytes_def)
qed

text \<open>Two contents with the same cells have the same bytes, and one write is one key.\<close>

lemma raw_le:
  assumes codec: "key_codec enc" and "laid_out L cells" "laid_out L cells'"
    and "\<And>p k v. enc k \<noteq> None \<Longrightarrow> char_of p = b1 \<Longrightarrow> map_of cells (p, k) = Some v \<Longrightarrow> map_of cells' (p, k) = Some v"
    and "raw_of enc cells (b1 # b2) = Some v"
  shows "raw_of enc cells' (b1 # b2) = Some v"
proof -
  obtain p k where k: "((p, k), v) \<in> set cells" "enc k = Some b2" "b1 = char_of p"
    using raw_dom [OF assms(5)] by auto
  have L: "(p, shape_of k) \<in> set L" using assms(2) k(1) by (auto simp: laid_out_def list_all_iff)
  have "map_of cells (p, k) = Some v"
    using raw_lookup [OF codec assms(2) L k(2)] assms(5) k(3) by simp
  then have "map_of cells' (p, k) = Some v" using assms(4) k by simp
  then show ?thesis using raw_lookup [OF codec assms(3) L k(2)] k(3) by simp
qed

lemma raw_update:
  assumes codec: "key_codec enc" and "laid_out L cells" "laid_out L cells'" and "(p, shape_of k) \<in> set L"
    and "map_of cells' = (map_of cells)((p, k) \<mapsto> v)"
  shows "raw_of enc cells' = (case enc k of None \<Rightarrow> raw_of enc cells | Some b \<Rightarrow> (raw_of enc cells)(char_of p # b \<mapsto> v))"
    (is "_ = ?r")
proof
  fix x
  show "raw_of enc cells' x = ?r x"
  proof (cases "\<exists>q j b. (q, shape_of j) \<in> set L \<and> enc j = Some b \<and> x = char_of q # b")
    case True
    then obtain q j b where q: "(q, shape_of j) \<in> set L" "enc j = Some b" "x = char_of q # b" by blast
    then show ?thesis
      using raw_lookup [OF codec assms(2) q(1,2)] raw_lookup [OF codec assms(3) q(1,2)] raw_key_inject [OF codec assms(4) q(1) _ q(2)]
      by (auto simp: assms(5) split: option.splits)
  next
    case False
    have none: "raw_of enc cs x = None" if "laid_out L cs" for cs
    proof (rule ccontr)
      assume "raw_of enc cs x \<noteq> None"
      then obtain v where "raw_of enc cs x = Some v" by blast
      from raw_dom [OF this] show False using False that by (fastforce simp: laid_out_def list_all_iff)
    qed
    show ?thesis using False assms(4) none [OF assms(2)] none [OF assms(3)] by (auto split: option.splits)
  qed
qed

text \<open>The bytes determine every encodable cell.\<close>

lemma raw_determines:
  assumes codec: "key_codec enc" and "laid_out L cells" "laid_out L cells'" and "encodable_cells enc cells"
    and "encodable_cells enc cells'" and "raw_of enc cells = raw_of enc cells'"
  shows "map_of cells = map_of cells'"
proof -
  have half: "map_of b (p, k) = Some v"
    if h: "laid_out L a" "laid_out L b" "encodable_cells enc a" "raw_of enc a = raw_of enc b"
      "map_of a (p, k) = Some v" for a b p k v
  proof -
    from h(5) have m: "((p, k), v) \<in> set a" by (rule map_of_SomeD)
    then obtain x where x: "enc k = Some x" using h(3) by (auto simp: encodable_cells_def list_all_iff)
    have "(p, shape_of k) \<in> set L" using m h(1) by (auto simp: laid_out_def list_all_iff)
    from raw_lookup [OF codec h(1) this x] raw_lookup [OF codec h(2) this x] h(4,5) show ?thesis by simp
  qed
  have le: "map_of a \<subseteq>\<^sub>m map_of b"
    if "laid_out L a" "laid_out L b" "encodable_cells enc a" "raw_of enc a = raw_of enc b" for a b
    using half [OF that] by (force simp: map_le_def)
  show ?thesis
    using le [OF assms(2,3,4,6)] le [OF assms(3,2,5) assms(6) [symmetric]] by (rule map_le_antisym)
qed

end


section \<open>The cells of a collection\<close>

lemma map_of_item_cells [simp]:
  "map_of (item_cells c mk i) (p, k) = (if p = c_prefix c \<and> k = c_key c () then map_option mk i else None)"
  by (auto simp: item_cells_def split: option.split)

lemma map_of_entries: "map_of (entries m) k = fmlookup m k"
proof (cases "map_of (entries m) k")
  case None
  then have "\<And>v. (k, v) \<notin> set (entries m)" by (force simp: map_of_eq_None_iff)
  then show ?thesis using None by (cases "fmlookup m k") (auto simp: set_entries)
next
  case (Some a)
  then show ?thesis using map_of_SomeD [OF Some] by (simp add: set_entries)
qed

lemma map_of_map_cells:
  "inj (c_key c) \<Longrightarrow> map_of (map_cells c mk m) (c_prefix c, c_key c k) = map_option mk (fmlookup m k)"
proof -
  assume inj: "inj (c_key c)"
  have "map_of (map (\<lambda>(k, v). ((c_prefix c, c_key c k), mk v)) es) (c_prefix c, c_key c k) = map_option mk (map_of es k)" for es
    using inj by (induction es) (auto simp: inj_def)
  then show ?thesis by (simp add: map_cells_def map_of_entries)
qed

lemma map_of_cells_other [simp]:
  "p \<noteq> c_prefix c \<Longrightarrow> map_of (map_cells c mk m) (p, k) = None"
  "p \<noteq> c_prefix c \<Longrightarrow> map_of (set_cells c v s) (p, k) = None"
  by (auto simp: map_of_eq_None_iff map_cells_def set_cells_def)

lemma map_of_cells_Some:
  "map_of (map_cells c mk m) (p, k) = Some v \<Longrightarrow> \<exists>j. p = c_prefix c \<and> k = c_key c j"
  "map_of (set_cells c u s) (p, k) = Some v \<Longrightarrow> \<exists>j. p = c_prefix c \<and> k = c_key c j"
  by (auto dest!: map_of_SomeD simp: map_cells_def set_cells_def)

lemma map_of_set_cells:
  "inj (c_key c) \<Longrightarrow> map_of (set_cells c v s) (c_prefix c, c_key c k) = (if k |\<in>| s then Some v else None)"
proof -
  assume inj: "inj (c_key c)"
  have "map_of (map (\<lambda>k. ((c_prefix c, c_key c k), v)) ks) (c_prefix c, c_key c k) = (if k \<in> set ks then Some v else None)" for ks
    using inj by (induction ks) (auto simp: inj_def)
  then show ?thesis by (simp add: set_cells_def)
qed

lemma map_cells_upd:
  assumes "inj (c_key c)"
  shows "map_of (map_cells c mk (fmupd k v m)) = (map_of (map_cells c mk m))((c_prefix c, c_key c k) \<mapsto> mk v)"
proof (rule ext, clarify)
  fix p j
  show "map_of (map_cells c mk (fmupd k v m)) (p, j) = ((map_of (map_cells c mk m))((c_prefix c, c_key c k) \<mapsto> mk v)) (p, j)"
  proof (cases "\<exists>i. p = c_prefix c \<and> j = c_key c i")
    case True
    then show ?thesis using assms by (auto simp: map_of_map_cells inj_def)
  next
    case False
    then have "map_of (map_cells c mk m') (p, j) = None" for m'
      using map_of_cells_Some(1) [of c mk m' p j] by fastforce
    then show ?thesis using False by auto
  qed
qed

lemma set_cells_ins:
  assumes "inj (c_key c)"
  shows "map_of (set_cells c v (finsert k s)) = (map_of (set_cells c v s))((c_prefix c, c_key c k) \<mapsto> v)"
proof (rule ext, clarify)
  fix p j
  show "map_of (set_cells c v (finsert k s)) (p, j) = ((map_of (set_cells c v s))((c_prefix c, c_key c k) \<mapsto> v)) (p, j)"
  proof (cases "\<exists>i. p = c_prefix c \<and> j = c_key c i")
    case True
    then show ?thesis using assms by (auto simp: map_of_set_cells inj_def)
  next
    case False
    then have "map_of (set_cells c v s') (p, j) = None" for s'
      using map_of_cells_Some(2) [of c v s' p j] by fastforce
    then show ?thesis using False by auto
  qed
qed

lemma encodable_cells_simps [simp]:
  "encodable_cells enc (xs @ ys) \<longleftrightarrow> encodable_cells enc xs \<and> encodable_cells enc ys"
  "encodable_cells enc (item_cells c mk i) \<longleftrightarrow> (i \<noteq> None \<longrightarrow> enc (c_key c ()) \<noteq> None)"
  by (simp_all add: encodable_cells_def item_cells_def split: option.split)

lemma encodable_map_cells [simp]:
  "encodable_cells enc (map_cells c mk m) \<longleftrightarrow> (\<forall>k v. fmlookup m k = Some v \<longrightarrow> enc (c_key c k) \<noteq> None)"
proof -
  have "(\<lambda>((p, k), v). enc k \<noteq> None) \<circ> (\<lambda>(k, v). ((c_prefix c, c_key c k), mk v)) = (\<lambda>(k, v). enc (c_key c k) \<noteq> None)"
    by auto
  then have "encodable_cells enc (map_cells c mk m) \<longleftrightarrow> (\<forall>(k, v) \<in> set (entries m). enc (c_key c k) \<noteq> None)"
    unfolding encodable_cells_def map_cells_def list.pred_map by (simp only: list_all_iff)
  then show ?thesis by (simp only: entries_ball)
qed

lemma encodable_set_cells [simp]:
  "encodable_cells enc (set_cells c v s) \<longleftrightarrow> (\<forall>k. k |\<in>| s \<longrightarrow> enc (c_key c k) \<noteq> None)"
  by (auto simp: encodable_cells_def set_cells_def list_all_iff)

lemma item_cells_set: "map_of (item_cells c mk (Some v)) = (map_of (item_cells c mk i))((c_prefix c, c_key c ()) \<mapsto> mk v)"
  by (rule ext, clarify) auto

lemma codecs_inj [simp]:
  "inj StringKey" "inj Uint64Key" "inj ItemKey" "inj (PairKeyCodec StringKey StringKey)"
  "inj (PairKeyCodec StringKey Uint64Key)" "inj (PairKeyCodec Uint64Key Uint64Key)"
  by (auto simp: inj_def StringKey_def Uint64Key_def ItemKey_def PairKeyCodec_def)


section \<open>The stores of the modules\<close>

text \<open>
  The cells of a module's state, collection by collection with the handles of its keeper.  The value
  of a \<^verbatim>\<open>KeySet\<close> entry is empty.
\<close>

datatype energy_val = EVParams energy_Params | EVSeq uint64 | EVData EnergyData | EVIndex | EVBatch BatchSubmission

definition energy_cells :: "energy_state \<Rightarrow> energy_val cell list" where
  "energy_cells st =
     item_cells energy_coll_params EVParams (es_Params st) @
     map_cells energy_coll_data EVData (es_EnergyData st) @
     set_cells energy_coll_by_category EVIndex (es_ByCategory st) @
     set_cells energy_coll_by_submitter EVIndex (es_BySubmitter st) @
     map_cells energy_coll_batches EVBatch (es_Batches st) @
     item_cells energy_coll_sequence EVSeq (es_IDSequence st)"

definition energy_layout :: "(nat \<times> key_shape) list" where
  "energy_layout =
     [(c_prefix energy_coll_params, SUnit), (c_prefix energy_coll_data, SStr),
      (c_prefix energy_coll_by_category, SPair SStr SStr), (c_prefix energy_coll_by_submitter, SPair SStr SStr),
      (c_prefix energy_coll_batches, SStr), (c_prefix energy_coll_sequence, SUnit)]"

definition energy_raw :: "codec \<Rightarrow> energy_state \<Rightarrow> bytes \<rightharpoonup> energy_val" where
  "energy_raw enc st = raw_of enc (energy_cells st)"

lemmas energy_colls = energy_coll_params_def energy_coll_sequence_def energy_coll_data_def energy_coll_by_category_def
  energy_coll_by_submitter_def energy_coll_batches_def

lemma laid_out_append [simp]: "laid_out L (xs @ ys) \<longleftrightarrow> laid_out L xs \<and> laid_out L ys"
  by (simp add: laid_out_def)

lemma laid_out_item: "(c_prefix c, shape_of (c_key c ())) \<in> set L \<Longrightarrow> laid_out L (item_cells c mk i)"
  by (simp add: laid_out_def item_cells_def split: option.split)

lemma laid_out_map: "(\<And>k. (c_prefix c, shape_of (c_key c k)) \<in> set L) \<Longrightarrow> laid_out L (map_cells c mk m)"
  by (auto simp: laid_out_def map_cells_def list_all_iff)

lemma laid_out_set: "(\<And>k. (c_prefix c, shape_of (c_key c k)) \<in> set L) \<Longrightarrow> laid_out L (set_cells c v s)"
  by (auto simp: laid_out_def set_cells_def list_all_iff)

lemma energy_laid_out: "laid_out energy_layout (energy_cells st)"
  unfolding energy_cells_def
  by (simp add: laid_out_item laid_out_map laid_out_set energy_layout_def energy_colls ItemKey_def StringKey_def PairKeyCodec_def)

interpretation energy_lay: store_layout energy_layout
  by unfold_locales (simp_all add: energy_layout_def energy_colls)


datatype oracle_val = OVParams oracle_Params | OVInfo OracleInfo | OVData OracleData

definition oracle_cells :: "oracle_state \<Rightarrow> oracle_val cell list" where
  "oracle_cells st =
     item_cells oracle_coll_params OVParams (os_Params st) @
     map_cells oracle_coll_data OVData (os_Data st) @
     map_cells oracle_coll_oracles OVInfo (os_Oracles st) @
     map_cells oracle_coll_latest OVData (os_LatestData st)"

definition oracle_layout :: "(nat \<times> key_shape) list" where
  "oracle_layout =
     [(c_prefix oracle_coll_params, SUnit), (c_prefix oracle_coll_data, SPair SStr SU64),
      (c_prefix oracle_coll_oracles, SStr), (c_prefix oracle_coll_latest, SStr)]"

datatype identity_val = IVParams identity_Params | IVIdentity Identity | IVIndex

definition identity_cells :: "identity_state \<Rightarrow> identity_val cell list" where
  "identity_cells st =
     item_cells identity_coll_params IVParams (is_Params st) @
     map_cells identity_coll_identities IVIdentity (is_Identities st) @
     set_cells identity_coll_by_role IVIndex (is_ByRole st)"

definition identity_layout :: "(nat \<times> key_shape) list" where
  "identity_layout =
     [(c_prefix identity_coll_params, SUnit), (c_prefix identity_coll_identities, SStr),
      (c_prefix identity_coll_by_role, SPair SStr SStr)]"

datatype audit_val = AVParams audit_Params | AVSeq uint64 | AVLog AuditLog | AVIndex

definition audit_cells :: "audit_state \<Rightarrow> audit_val cell list" where
  "audit_cells st =
     item_cells audit_coll_params AVParams (as_Params st) @
     map_cells audit_coll_logs AVLog (as_Logs st) @
     set_cells audit_coll_by_actor AVIndex (as_ByActor st) @
     set_cells audit_coll_by_event_type AVIndex (as_ByEventType st) @
     item_cells audit_coll_sequence AVSeq (as_IDSequence st) @
     set_cells audit_coll_by_time AVIndex (as_ByTime st)"

definition audit_layout :: "(nat \<times> key_shape) list" where
  "audit_layout =
     [(c_prefix audit_coll_params, SUnit), (c_prefix audit_coll_logs, SU64),
      (c_prefix audit_coll_by_actor, SPair SStr SU64), (c_prefix audit_coll_by_event_type, SPair SStr SU64),
      (c_prefix audit_coll_sequence, SUnit), (c_prefix audit_coll_by_time, SPair SU64 SU64)]"

definition oracle_raw :: "codec \<Rightarrow> oracle_state \<Rightarrow> bytes \<rightharpoonup> oracle_val" where
  "oracle_raw enc st = raw_of enc (oracle_cells st)"
definition identity_raw :: "codec \<Rightarrow> identity_state \<Rightarrow> bytes \<rightharpoonup> identity_val" where
  "identity_raw enc st = raw_of enc (identity_cells st)"
definition audit_raw :: "codec \<Rightarrow> audit_state \<Rightarrow> bytes \<rightharpoonup> audit_val" where
  "audit_raw enc st = raw_of enc (audit_cells st)"

lemmas oracle_colls = oracle_coll_params_def oracle_coll_data_def oracle_coll_oracles_def oracle_coll_latest_def
lemmas identity_colls = identity_coll_params_def identity_coll_identities_def identity_coll_by_role_def
lemmas audit_colls = audit_coll_params_def audit_coll_sequence_def audit_coll_logs_def audit_coll_by_actor_def
  audit_coll_by_event_type_def audit_coll_by_time_def
lemmas key_codec_defs = ItemKey_def StringKey_def Uint64Key_def PairKeyCodec_def

interpretation oracle_lay: store_layout oracle_layout
  by unfold_locales (simp_all add: oracle_layout_def oracle_colls)
interpretation identity_lay: store_layout identity_layout
  by unfold_locales (simp_all add: identity_layout_def identity_colls)
interpretation audit_lay: store_layout audit_layout
  by unfold_locales (simp_all add: audit_layout_def audit_colls)

lemma oracle_laid_out: "laid_out oracle_layout (oracle_cells st)"
  unfolding oracle_cells_def
  by (simp add: laid_out_item laid_out_map laid_out_set oracle_layout_def oracle_colls key_codec_defs)
lemma identity_laid_out: "laid_out identity_layout (identity_cells st)"
  unfolding identity_cells_def
  by (simp add: laid_out_item laid_out_map laid_out_set identity_layout_def identity_colls key_codec_defs)
lemma audit_laid_out: "laid_out audit_layout (audit_cells st)"
  unfolding audit_cells_def
  by (simp add: laid_out_item laid_out_map laid_out_set audit_layout_def audit_colls key_codec_defs)

lemma coll_prefixes [simp]:
  "c_prefix energy_coll_params = 0" "c_prefix energy_coll_data = 1" "c_prefix energy_coll_by_category = 2"
  "c_prefix energy_coll_by_submitter = 3" "c_prefix energy_coll_batches = 4" "c_prefix energy_coll_sequence = 5"
  "c_prefix oracle_coll_params = 0" "c_prefix oracle_coll_data = 1" "c_prefix oracle_coll_oracles = 2" "c_prefix oracle_coll_latest = 3"
  "c_prefix identity_coll_params = 0" "c_prefix identity_coll_identities = 1" "c_prefix identity_coll_by_role = 2"
  "c_prefix audit_coll_params = 0" "c_prefix audit_coll_logs = 1" "c_prefix audit_coll_by_actor = 2"
  "c_prefix audit_coll_by_event_type = 3" "c_prefix audit_coll_sequence = 4" "c_prefix audit_coll_by_time = 5"
  by (simp_all add: energy_colls oracle_colls identity_colls audit_colls)

lemma coll_keys_inj [simp]:
  "inj (c_key energy_coll_data)" "inj (c_key energy_coll_by_category)" "inj (c_key energy_coll_by_submitter)"
  "inj (c_key energy_coll_batches)" "inj (c_key oracle_coll_data)" "inj (c_key oracle_coll_oracles)"
  "inj (c_key oracle_coll_latest)" "inj (c_key identity_coll_identities)" "inj (c_key identity_coll_by_role)"
  "inj (c_key audit_coll_logs)" "inj (c_key audit_coll_by_actor)" "inj (c_key audit_coll_by_event_type)"
  "inj (c_key audit_coll_by_time)"
  by (simp_all add: energy_colls oracle_colls identity_colls audit_colls)

text \<open>The cells of a state are its collections.\<close>

lemma energy_cells_lookup [simp]:
  "map_of (energy_cells st) (0, c_key energy_coll_params ()) = map_option EVParams (es_Params st)"
  "map_of (energy_cells st) (1, c_key energy_coll_data i) = map_option EVData (fmlookup (es_EnergyData st) i)"
  "map_of (energy_cells st) (2, c_key energy_coll_by_category c) = (if c |\<in>| es_ByCategory st then Some EVIndex else None)"
  "map_of (energy_cells st) (3, c_key energy_coll_by_submitter c) = (if c |\<in>| es_BySubmitter st then Some EVIndex else None)"
  "map_of (energy_cells st) (4, c_key energy_coll_batches i) = map_option EVBatch (fmlookup (es_Batches st) i)"
  "map_of (energy_cells st) (5, c_key energy_coll_sequence ()) = map_option EVSeq (es_IDSequence st)"
  using map_of_map_cells [of energy_coll_data EVData "es_EnergyData st" i] map_of_set_cells [of energy_coll_by_category EVIndex "es_ByCategory st" c]
    map_of_set_cells [of energy_coll_by_submitter EVIndex "es_BySubmitter st" c] map_of_map_cells [of energy_coll_batches EVBatch "es_Batches st" i]
  by (simp_all add: energy_cells_def map_add_def split: option.splits)


lemma oracle_cells_lookup [simp]:
  "map_of (oracle_cells st) (0, c_key oracle_coll_params ()) = map_option OVParams (os_Params st)"
  "map_of (oracle_cells st) (1, c_key oracle_coll_data j) = map_option OVData (fmlookup (os_Data st) j)"
  "map_of (oracle_cells st) (2, c_key oracle_coll_oracles i) = map_option OVInfo (fmlookup (os_Oracles st) i)"
  "map_of (oracle_cells st) (3, c_key oracle_coll_latest i) = map_option OVData (fmlookup (os_LatestData st) i)"
  using map_of_map_cells [of oracle_coll_data OVData "os_Data st" j] map_of_map_cells [of oracle_coll_oracles OVInfo "os_Oracles st" i]
    map_of_map_cells [of oracle_coll_latest OVData "os_LatestData st" i]
  by (simp_all add: oracle_cells_def map_add_def split: option.splits)

lemma identity_cells_lookup [simp]:
  "map_of (identity_cells st) (0, c_key identity_coll_params ()) = map_option IVParams (is_Params st)"
  "map_of (identity_cells st) (1, c_key identity_coll_identities i) = map_option IVIdentity (fmlookup (is_Identities st) i)"
  "map_of (identity_cells st) (2, c_key identity_coll_by_role r) = (if r |\<in>| is_ByRole st then Some IVIndex else None)"
  using map_of_map_cells [of identity_coll_identities IVIdentity "is_Identities st" i]
    map_of_set_cells [of identity_coll_by_role IVIndex "is_ByRole st" r]
  by (simp_all add: identity_cells_def map_add_def split: option.splits)

lemma audit_cells_lookup [simp]:
  "map_of (audit_cells st) (0, c_key audit_coll_params ()) = map_option AVParams (as_Params st)"
  "map_of (audit_cells st) (1, c_key audit_coll_logs i) = map_option AVLog (fmlookup (as_Logs st) i)"
  "map_of (audit_cells st) (2, c_key audit_coll_by_actor a) = (if a |\<in>| as_ByActor st then Some AVIndex else None)"
  "map_of (audit_cells st) (3, c_key audit_coll_by_event_type a) = (if a |\<in>| as_ByEventType st then Some AVIndex else None)"
  "map_of (audit_cells st) (4, c_key audit_coll_sequence ()) = map_option AVSeq (as_IDSequence st)"
  "map_of (audit_cells st) (5, c_key audit_coll_by_time t) = (if t |\<in>| as_ByTime st then Some AVIndex else None)"
  using map_of_map_cells [of audit_coll_logs AVLog "as_Logs st" i] map_of_set_cells [of audit_coll_by_actor AVIndex "as_ByActor st" a]
    map_of_set_cells [of audit_coll_by_event_type AVIndex "as_ByEventType st" a] map_of_set_cells [of audit_coll_by_time AVIndex "as_ByTime st" t]
  by (simp_all add: audit_cells_def map_add_def split: option.splits)

lemma map_option_eq_inj: "map_option f x = map_option f y \<Longrightarrow> inj f \<Longrightarrow> x = y"
  by (cases x; cases y) (auto simp: inj_def)

lemma fmap_eq_at: "(\<And>i. map_option f (fmlookup m i) = map_option f (fmlookup m' i)) \<Longrightarrow> inj f \<Longrightarrow> m = m'"
  by (rule fmap_ext) (rule map_option_eq_inj)

lemma fset_eq_at: "(\<And>i. (if i |\<in>| s then Some u else None) = (if i |\<in>| s' then Some u else None)) \<Longrightarrow> s = s'"
  by (rule fset_eqI) (metis option.distinct(1))

lemma energy_cells_determine:
  assumes "map_of (energy_cells a) = map_of (energy_cells b)"
  shows "es_Params a = es_Params b \<and> es_EnergyData a = es_EnergyData b \<and> es_ByCategory a = es_ByCategory b \<and>
    es_BySubmitter a = es_BySubmitter b \<and> es_Batches a = es_Batches b \<and> es_IDSequence a = es_IDSequence b"
proof (intro conjI)
  note at = fun_cong [OF assms]
  show "es_Params a = es_Params b"
    using at [of "(0, c_key energy_coll_params ())"] by (auto simp: inj_def dest: map_option_eq_inj)
  show "es_IDSequence a = es_IDSequence b"
    using at [of "(5, c_key energy_coll_sequence ())"] by (auto simp: inj_def dest: map_option_eq_inj)
  show "es_EnergyData a = es_EnergyData b"
    by (rule fmap_eq_at [of EVData]) (use at [of "(1, c_key energy_coll_data i)" for i] in \<open>simp_all add: inj_def del: One_nat_def\<close>)
  show "es_Batches a = es_Batches b"
    by (rule fmap_eq_at [of EVBatch]) (use at [of "(4, c_key energy_coll_batches i)" for i] in \<open>simp_all add: inj_def del: One_nat_def\<close>)
  show "es_ByCategory a = es_ByCategory b"
    by (rule fset_eq_at [where u = EVIndex]) (use at [of "(2, c_key energy_coll_by_category i)" for i] in simp)
  show "es_BySubmitter a = es_BySubmitter b"
    by (rule fset_eq_at [where u = EVIndex]) (use at [of "(3, c_key energy_coll_by_submitter i)" for i] in simp)
qed

lemma oracle_cells_determine:
  assumes "map_of (oracle_cells a) = map_of (oracle_cells b)"
  shows "os_Params a = os_Params b \<and> os_Data a = os_Data b \<and> os_Oracles a = os_Oracles b \<and> os_LatestData a = os_LatestData b"
proof (intro conjI)
  note at = fun_cong [OF assms]
  show "os_Params a = os_Params b"
    using at [of "(0, c_key oracle_coll_params ())"] by (auto simp: inj_def dest: map_option_eq_inj)
  show "os_Data a = os_Data b"
    by (rule fmap_eq_at [of OVData]) (use at [of "(1, c_key oracle_coll_data i)" for i] in \<open>simp_all add: inj_def del: One_nat_def\<close>)
  show "os_Oracles a = os_Oracles b"
    by (rule fmap_eq_at [of OVInfo]) (use at [of "(2, c_key oracle_coll_oracles i)" for i] in \<open>simp_all add: inj_def del: One_nat_def\<close>)
  show "os_LatestData a = os_LatestData b"
    by (rule fmap_eq_at [of OVData]) (use at [of "(3, c_key oracle_coll_latest i)" for i] in \<open>simp_all add: inj_def del: One_nat_def\<close>)
qed

lemma identity_cells_determine:
  assumes "map_of (identity_cells a) = map_of (identity_cells b)"
  shows "is_Params a = is_Params b \<and> is_Identities a = is_Identities b \<and> is_ByRole a = is_ByRole b"
proof (intro conjI)
  note at = fun_cong [OF assms]
  show "is_Params a = is_Params b"
    using at [of "(0, c_key identity_coll_params ())"] by (auto simp: inj_def dest: map_option_eq_inj)
  show "is_Identities a = is_Identities b"
    by (rule fmap_eq_at [of IVIdentity]) (use at [of "(1, c_key identity_coll_identities i)" for i] in \<open>simp_all add: inj_def del: One_nat_def\<close>)
  show "is_ByRole a = is_ByRole b"
    by (rule fset_eq_at [where u = IVIndex]) (use at [of "(2, c_key identity_coll_by_role i)" for i] in simp)
qed

lemma audit_cells_determine:
  assumes "map_of (audit_cells a) = map_of (audit_cells b)"
  shows "as_Params a = as_Params b \<and> as_Logs a = as_Logs b \<and> as_ByActor a = as_ByActor b \<and>
    as_ByEventType a = as_ByEventType b \<and> as_ByTime a = as_ByTime b \<and> as_IDSequence a = as_IDSequence b"
proof (intro conjI)
  note at = fun_cong [OF assms]
  show "as_Params a = as_Params b"
    using at [of "(0, c_key audit_coll_params ())"] by (auto simp: inj_def dest: map_option_eq_inj)
  show "as_IDSequence a = as_IDSequence b"
    using at [of "(4, c_key audit_coll_sequence ())"] by (auto simp: inj_def dest: map_option_eq_inj)
  show "as_Logs a = as_Logs b"
    by (rule fmap_eq_at [of AVLog]) (use at [of "(1, c_key audit_coll_logs i)" for i] in \<open>simp_all add: inj_def del: One_nat_def\<close>)
  show "as_ByActor a = as_ByActor b"
    by (rule fset_eq_at [where u = AVIndex]) (use at [of "(2, c_key audit_coll_by_actor i)" for i] in simp)
  show "as_ByEventType a = as_ByEventType b"
    by (rule fset_eq_at [where u = AVIndex]) (use at [of "(3, c_key audit_coll_by_event_type i)" for i] in simp)
  show "as_ByTime a = as_ByTime b"
    by (rule fset_eq_at [where u = AVIndex]) (use at [of "(5, c_key audit_coll_by_time i)" for i] in simp)
qed

section \<open>Writes and reads on the bytes\<close>

definition raw_key :: "codec \<Rightarrow> 'k coll \<Rightarrow> 'k \<Rightarrow> bytes" where
  "raw_key enc c k = char_of (c_prefix c) # the (enc (c_key c k))"

lemma energy_write_cells:
  "map_of (energy_cells (st\<lparr>es_EnergyData := fmupd i d (es_EnergyData st)\<rparr>)) =
     (map_of (energy_cells st))((1, c_key energy_coll_data i) \<mapsto> EVData d)"
  "map_of (energy_cells (st\<lparr>es_ByCategory := finsert c (es_ByCategory st)\<rparr>)) =
     (map_of (energy_cells st))((2, c_key energy_coll_by_category c) \<mapsto> EVIndex)"
  "map_of (energy_cells (st\<lparr>es_BySubmitter := finsert c (es_BySubmitter st)\<rparr>)) =
     (map_of (energy_cells st))((3, c_key energy_coll_by_submitter c) \<mapsto> EVIndex)"
  by (simp_all add: energy_cells_def map_cells_upd set_cells_ins map_add_upd_left domIff del: fmupd.rep_eq)

lemma audit_write_cells:
  "map_of (audit_cells (st\<lparr>as_Logs := fmupd n l (as_Logs st)\<rparr>)) =
     (map_of (audit_cells st))((1, c_key audit_coll_logs n) \<mapsto> AVLog l)"
  "map_of (audit_cells (st\<lparr>as_ByActor := finsert c (as_ByActor st)\<rparr>)) =
     (map_of (audit_cells st))((2, c_key audit_coll_by_actor c) \<mapsto> AVIndex)"
  "map_of (audit_cells (st\<lparr>as_ByEventType := finsert c (as_ByEventType st)\<rparr>)) =
     (map_of (audit_cells st))((3, c_key audit_coll_by_event_type c) \<mapsto> AVIndex)"
  "map_of (audit_cells (st\<lparr>as_ByTime := finsert t (as_ByTime st)\<rparr>)) =
     (map_of (audit_cells st))((5, c_key audit_coll_by_time t) \<mapsto> AVIndex)"
  by (simp_all add: audit_cells_def map_cells_upd set_cells_ins map_add_upd_left domIff del: fmupd.rep_eq)


lemma energy_in_layout:
  "(1, shape_of (c_key energy_coll_data i)) \<in> set energy_layout"
  "(2, shape_of (c_key energy_coll_by_category c)) \<in> set energy_layout"
  "(3, shape_of (c_key energy_coll_by_submitter c)) \<in> set energy_layout"
  by (simp_all add: energy_layout_def energy_colls key_codec_defs)

lemma audit_in_layout:
  "(1, shape_of (c_key audit_coll_logs n)) \<in> set audit_layout"
  "(2, shape_of (c_key audit_coll_by_actor c)) \<in> set audit_layout"
  "(3, shape_of (c_key audit_coll_by_event_type c)) \<in> set audit_layout"
  "(5, shape_of (c_key audit_coll_by_time t)) \<in> set audit_layout"
  by (simp_all add: audit_layout_def audit_colls key_codec_defs)

lemmas energy_raw_update = energy_lay.raw_update [OF _ energy_laid_out energy_laid_out, folded energy_raw_def]
lemmas audit_raw_update = audit_lay.raw_update [OF _ audit_laid_out audit_laid_out, folded audit_raw_def]

lemma stored_key:
  assumes "rejects_unencodable enc E" and "write_fault E c k = None"
  shows "(case enc k of None \<Rightarrow> a | Some b \<Rightarrow> f b) = f (the (enc k))"
proof -
  have "enc k \<noteq> None" using assms unfolding rejects_unencodable_def by blast
  then show ?thesis by auto
qed

lemma energy_raw_writes:
  assumes "key_codec enc" and "rejects_unencodable enc E"
  shows "write_fault E (c_name energy_coll_data) (c_key energy_coll_data i) = None \<Longrightarrow> s0 = es_EnergyData st \<Longrightarrow>
      energy_raw enc (st\<lparr>es_EnergyData := fmupd i d s0\<rparr>) =
      (energy_raw enc st)(raw_key enc energy_coll_data i \<mapsto> EVData d)"
    and "write_fault E (c_name energy_coll_by_category) (c_key energy_coll_by_category c) = None \<Longrightarrow> s1 = es_ByCategory st \<Longrightarrow>
      energy_raw enc (st\<lparr>es_ByCategory := finsert c s1\<rparr>) =
      (energy_raw enc st)(raw_key enc energy_coll_by_category c \<mapsto> EVIndex)"
    and "write_fault E (c_name energy_coll_by_submitter) (c_key energy_coll_by_submitter c) = None \<Longrightarrow> s2 = es_BySubmitter st \<Longrightarrow>
      energy_raw enc (st\<lparr>es_BySubmitter := finsert c s2\<rparr>) =
      (energy_raw enc st)(raw_key enc energy_coll_by_submitter c \<mapsto> EVIndex)"
  by (simp_all only: energy_raw_update [OF assms(1) energy_in_layout(1) energy_write_cells(1)]
    energy_raw_update [OF assms(1) energy_in_layout(2) energy_write_cells(2)]
    energy_raw_update [OF assms(1) energy_in_layout(3) energy_write_cells(3)]
    stored_key [OF assms(2)] raw_key_def coll_prefixes)

lemma audit_raw_writes:
  assumes "key_codec enc" and "rejects_unencodable enc E"
  shows "write_fault E (c_name audit_coll_logs) (c_key audit_coll_logs n) = None \<Longrightarrow> s3 = as_Logs st \<Longrightarrow>
      audit_raw enc (st\<lparr>as_Logs := fmupd n l s3\<rparr>) = (audit_raw enc st)(raw_key enc audit_coll_logs n \<mapsto> AVLog l)"
    and "write_fault E (c_name audit_coll_by_actor) (c_key audit_coll_by_actor c) = None \<Longrightarrow> s4 = as_ByActor st \<Longrightarrow>
      audit_raw enc (st\<lparr>as_ByActor := finsert c s4\<rparr>) = (audit_raw enc st)(raw_key enc audit_coll_by_actor c \<mapsto> AVIndex)"
    and "write_fault E (c_name audit_coll_by_event_type) (c_key audit_coll_by_event_type c) = None \<Longrightarrow> s5 = as_ByEventType st \<Longrightarrow>
      audit_raw enc (st\<lparr>as_ByEventType := finsert c s5\<rparr>) =
      (audit_raw enc st)(raw_key enc audit_coll_by_event_type c \<mapsto> AVIndex)"
    and "write_fault E (c_name audit_coll_by_time) (c_key audit_coll_by_time t) = None \<Longrightarrow> s6 = as_ByTime st \<Longrightarrow>
      audit_raw enc (st\<lparr>as_ByTime := finsert t s6\<rparr>) = (audit_raw enc st)(raw_key enc audit_coll_by_time t \<mapsto> AVIndex)"
  by (simp_all only: audit_raw_update [OF assms(1) audit_in_layout(1) audit_write_cells(1)]
    audit_raw_update [OF assms(1) audit_in_layout(2) audit_write_cells(2)]
    audit_raw_update [OF assms(1) audit_in_layout(3) audit_write_cells(3)]
    audit_raw_update [OF assms(1) audit_in_layout(4) audit_write_cells(4)]
    stored_key [OF assms(2)] raw_key_def coll_prefixes)

lemma energy_read_bytes:
  assumes "key_codec enc" and "enc (c_key energy_coll_data i) \<noteq> None"
  shows "energy_GetEnergyData E st i =
    (case energy_raw enc st (raw_key enc energy_coll_data i) of
       Some (EVData d) \<Rightarrow> if decode_fault E (c_name energy_coll_data) (c_key energy_coll_data i) then (zero_EnergyData, False) else (d, True)
     | _ \<Rightarrow> (zero_EnergyData, False))"
proof -
  obtain b where b: "enc (c_key energy_coll_data i) = Some b" using assms(2) by blast
  have "energy_raw enc st (raw_key enc energy_coll_data i) = map_option EVData (fmlookup (es_EnergyData st) i)"
    using energy_lay.raw_lookup [OF assms(1) energy_laid_out energy_in_layout(1) b]
    by (simp only: energy_raw_def raw_key_def b option.sel coll_prefixes energy_cells_lookup)
  then show ?thesis by (simp add: energy_GetEnergyData_def map_Get_def split: option.split)
qed

section \<open>A codec\<close>

text \<open>
  The laws can hold: strings as they are, numbers as eight big-endian bytes, a unit key empty, and
  in a pair the first component closed by a zero byte, which it must not hold.
\<close>

fun sample_codec :: codec where
  "sample_codec KUnit = Some []"
| "sample_codec (KStr s) = Some s"
| "sample_codec (KU64 n) = Some (PutUint64 n)"
| "sample_codec (KPair (KStr s) k) = (if CHR 0x00 \<in> set s then None else map_option (\<lambda>b. s @ CHR 0x00 # b) (sample_codec k))"
| "sample_codec (KPair (KU64 n) k) = map_option (\<lambda>b. PutUint64 n @ b) (sample_codec k)"
| "sample_codec (KPair _ k) = None"

lemma split_at_zero:
  "s @ CHR 0x00 # b = s' @ CHR 0x00 # b' \<Longrightarrow> CHR 0x00 \<notin> set s \<Longrightarrow> CHR 0x00 \<notin> set s' \<Longrightarrow> s = s' \<and> b = b'"
  by (induction s arbitrary: s') (auto simp: Cons_eq_append_conv append_eq_Cons_conv)

lemma sample_codec_inject:
  "shape_of k = shape_of k' \<Longrightarrow> sample_codec k = Some b \<Longrightarrow> sample_codec k' = Some b \<Longrightarrow> k = k'"
proof (induction k arbitrary: k' b rule: sample_codec.induct)
  case 1
  then show ?case by (cases k') auto
next
  case (2 s)
  then show ?case by (cases k') auto
next
  case (3 n)
  then show ?case by (cases k') (auto dest: arg_cong [where f = BE_Uint64])
next
  case (4 s k)
  then obtain s' j where k': "k' = KPair (KStr s') j" and sh: "shape_of k = shape_of j"
    by (cases k' rule: sample_codec.cases) auto
  obtain c c' where c: "sample_codec k = Some c" "sample_codec j = Some c'" "s @ CHR 0x00 # c = s' @ CHR 0x00 # c'"
      "CHR 0x00 \<notin> set s" "CHR 0x00 \<notin> set s'"
    using 4(3,4) k' by (auto split: if_splits)
  have "s = s' \<and> c = c'" by (rule split_at_zero [OF c(3-5)])
  then show ?case using 4(1) [OF c(4) sh c(1)] c(2) k' by simp
next
  case (5 n k)
  then obtain n' j where k': "k' = KPair (KU64 n') j" and sh: "shape_of k = shape_of j"
    by (cases k' rule: sample_codec.cases) auto
  obtain c c' where c: "sample_codec k = Some c" "sample_codec j = Some c'" "PutUint64 n @ c = PutUint64 n' @ c'"
    using 5(3,4) k' by auto
  have "n = n' \<and> c = c'"
    using c(3) by (auto simp: append_eq_append_conv dest: arg_cong [where f = BE_Uint64])
  then show ?case using 5(1) [OF sh c(1)] c(2) k' by simp
qed auto

lemma sample_key_codec: "key_codec sample_codec"
  unfolding key_codec_def using sample_codec_inject by blast

text \<open>A storage layer that rejects exactly the keys the codec rejects.\<close>

definition strict_env :: env where
  "strict_env = sample_env\<lparr>write_fault := \<lambda>c k. if sample_codec k = None then Some ''encoding'' else None\<rparr>"

lemma strict_rejects: "rejects_unencodable sample_codec strict_env"
  by (simp add: rejects_unencodable_def strict_env_def)

end
