(* ===== verification/StoreEncodable.thy ===== *)
theory StoreEncodable
  imports StoreLayout ChainClaims
begin

text \<open>
  Every key in the stores can be encoded, on every history: a collection refuses a key its codec
  rejects, and the modules write through collections only.  An operation that returns its outcome with
  the state it leaves keeps an invariant when that state has it, whatever the outcome; the rules follow
  the shape of the code, so a handler is settled by the operations it calls.
\<close>

section \<open>Operations that keep an invariant\<close>

definition keeps :: "('s \<Rightarrow> bool) \<Rightarrow> 'r \<times> 's \<Rightarrow> bool" where
  "keeps I x \<longleftrightarrow> I (snd x)"

lemma keeps_pair: "I s \<Longrightarrow> keeps I (r, s)"
  by (simp add: keeps_def)

lemma keeps_bind: "keeps J x \<Longrightarrow> (\<And>r s. J s \<Longrightarrow> keeps I (f r s)) \<Longrightarrow> keeps I (case x of (r, s) \<Rightarrow> f r s)"
  by (cases x) (simp add: keeps_def)

lemma keeps_if: "(b \<Longrightarrow> keeps I x) \<Longrightarrow> (\<not> b \<Longrightarrow> keeps I y) \<Longrightarrow> keeps I (if b then x else y)"
  by simp

lemma keeps_option: "keeps I a \<Longrightarrow> (\<And>e. keeps I (f e)) \<Longrightarrow> keeps I (case r of None \<Rightarrow> a | Some e \<Rightarrow> f e)"
  by (cases r) simp_all

lemma keeps_sum: "(\<And>e. keeps I (f e)) \<Longrightarrow> (\<And>v. keeps I (g v)) \<Longrightarrow> keeps I (case r of Inl e \<Rightarrow> f e | Inr v \<Rightarrow> g v)"
  by (cases r) simp_all

lemmas keeps_rules = keeps_pair keeps_bind keeps_if keeps_option keeps_sum

lemma keeps_commit_if: "keeps I x \<Longrightarrow> I st \<Longrightarrow> I (commit_if x st)"
  by (cases x; cases "fst x") (simp_all add: keeps_def commit_if_def)

text \<open>A lookup returns no state.\<close>

lemma keeps_lookup:
  "keeps (\<lambda>_. True) (GetIdentity E st a)" "keeps (\<lambda>_. True) (GetOracle E so a)"
  by (simp_all add: keeps_def)


section \<open>Collections\<close>

definition item_ok :: "codec \<Rightarrow> unit coll \<Rightarrow> 'v option \<Rightarrow> bool" where
  "item_ok enc c i \<longleftrightarrow> (i \<noteq> None \<longrightarrow> enc (c_key c ()) \<noteq> None)"

definition map_ok :: "codec \<Rightarrow> 'k coll \<Rightarrow> ('k, 'v) fmap \<Rightarrow> bool" where
  "map_ok enc c m \<longleftrightarrow> (\<forall>k v. fmlookup m k = Some v \<longrightarrow> enc (c_key c k) \<noteq> None)"

definition set_ok :: "codec \<Rightarrow> 'k coll \<Rightarrow> 'k fset \<Rightarrow> bool" where
  "set_ok enc c s \<longleftrightarrow> (\<forall>k. k |\<in>| s \<longrightarrow> enc (c_key c k) \<noteq> None)"

lemmas coll_ok_defs = item_ok_def map_ok_def set_ok_def

lemma map_Set_keeps: "rejects_unencodable enc E \<Longrightarrow> map_ok enc c m \<Longrightarrow> keeps (map_ok enc c) (map_Set E c m k v)"
  by (auto simp: keeps_def map_Set_def map_ok_def rejects_unencodable_def split: option.split)

lemma map_Remove_keeps: "map_ok enc c m \<Longrightarrow> keeps (map_ok enc c) (map_Remove E c m k)"
  by (auto simp: keeps_def map_Remove_def map_ok_def split: option.split)

lemma set_Set_keeps: "rejects_unencodable enc E \<Longrightarrow> set_ok enc c s \<Longrightarrow> keeps (set_ok enc c) (set_Set E c s k)"
  by (auto simp: keeps_def set_Set_def set_ok_def rejects_unencodable_def split: option.split)

lemma set_Remove_keeps: "set_ok enc c s \<Longrightarrow> keeps (set_ok enc c) (set_Remove E c s k)"
  by (auto simp: keeps_def set_Remove_def set_ok_def split: option.split)

lemma item_Set_keeps: "rejects_unencodable enc E \<Longrightarrow> item_ok enc c i \<Longrightarrow> keeps (item_ok enc c) (item_Set E c i v)"
  by (auto simp: keeps_def item_Set_def item_ok_def rejects_unencodable_def split: option.split)

lemma seq_Next_keeps: "rejects_unencodable enc E \<Longrightarrow> item_ok enc c i \<Longrightarrow> keeps (item_ok enc c) (seq_Next E c i)"
  unfolding seq_Next_def by (rule keeps_rules item_Set_keeps | assumption)+

lemmas writes_keep = map_Set_keeps set_Set_keeps item_Set_keeps seq_Next_keeps


section \<open>Energy\<close>

definition energy_enc :: "codec \<Rightarrow> energy_state \<Rightarrow> bool" where
  "energy_enc enc st \<longleftrightarrow>
     item_ok enc energy_coll_params (es_Params st) \<and>
     map_ok enc energy_coll_data (es_EnergyData st) \<and>
     set_ok enc energy_coll_by_category (es_ByCategory st) \<and>
     set_ok enc energy_coll_by_submitter (es_BySubmitter st) \<and>
     map_ok enc energy_coll_batches (es_Batches st) \<and>
     item_ok enc energy_coll_sequence (es_IDSequence st)"

lemma energy_enc_cells: "energy_enc enc st \<longleftrightarrow> encodable_cells enc (energy_cells st)"
  by (simp add: energy_enc_def energy_cells_def coll_ok_defs)

lemma energy_enc_update [simp]:
  "energy_enc enc (st\<lparr>es_events := evs\<rparr>) = energy_enc enc st"
  "energy_enc enc (st\<lparr>es_transient := t\<rparr>) = energy_enc enc st"
  "energy_enc enc (emit_energy ev st) = energy_enc enc st"
  by (simp_all add: energy_enc_def emit_energy_def)

lemma energy_enc_fields:
  "energy_enc enc st \<Longrightarrow> item_ok enc energy_coll_params (es_Params st)"
  "energy_enc enc st \<Longrightarrow> map_ok enc energy_coll_data (es_EnergyData st)"
  "energy_enc enc st \<Longrightarrow> set_ok enc energy_coll_by_category (es_ByCategory st)"
  "energy_enc enc st \<Longrightarrow> set_ok enc energy_coll_by_submitter (es_BySubmitter st)"
  "energy_enc enc st \<Longrightarrow> map_ok enc energy_coll_batches (es_Batches st)"
  "energy_enc enc st \<Longrightarrow> item_ok enc energy_coll_sequence (es_IDSequence st)"
  by (simp_all add: energy_enc_def)

lemma energy_GenerateID_keeps:
  assumes "rejects_unencodable enc E"
  shows "energy_enc enc st \<Longrightarrow> keeps (energy_enc enc) (energy_GenerateID E st)"
  unfolding energy_GenerateID_def
  by (rule keeps_rules writes_keep [OF assms] | simp add: energy_enc_def)+

lemma energy_SetCurrentID_keeps:
  assumes "rejects_unencodable enc E"
  shows "energy_enc enc st \<Longrightarrow> keeps (energy_enc enc) (energy_SetCurrentID E n st)"
  unfolding energy_SetCurrentID_def
  by (rule keeps_rules writes_keep [OF assms] | simp add: energy_enc_def)+

lemma keeper_SubmitEnergyData_keeps:
  assumes "rejects_unencodable enc E"
  shows "energy_enc enc st \<Longrightarrow> keeps (energy_enc enc) (keeper_SubmitEnergyData E d st)"
  unfolding keeper_SubmitEnergyData_def Let_def
  by (rule keeps_rules writes_keep [OF assms] | simp add: energy_enc_def)+

lemma keeper_SubmitBatch_keeps:
  assumes "rejects_unencodable enc E"
  shows "energy_enc enc st \<Longrightarrow> keeps (energy_enc enc) (keeper_SubmitBatch E b st)"
  unfolding keeper_SubmitBatch_def
  by (rule keeps_rules writes_keep [OF assms] | simp add: energy_enc_def)+

lemma energy_SetParams_keeps:
  assumes "rejects_unencodable enc E"
  shows "energy_enc enc st \<Longrightarrow> keeps (energy_enc enc) (energy_SetParams E p st)"
  unfolding energy_SetParams_def
  by (rule keeps_rules writes_keep [OF assms] | simp add: energy_enc_def)+

lemma CheckAndIncrSubmitCount_keeps: "energy_enc enc st \<Longrightarrow> keeps (energy_enc enc) (CheckAndIncrSubmitCount E a st)"
  unfolding CheckAndIncrSubmitCount_def Let_def by (rule keeps_rules | simp)+

lemmas energy_keepers_keep = energy_GenerateID_keeps energy_SetCurrentID_keeps keeper_SubmitEnergyData_keeps
  keeper_SubmitBatch_keeps energy_SetParams_keeps

lemma store_items_keeps:
  assumes "rejects_unencodable enc E"
  shows "energy_enc enc st \<Longrightarrow> keeps (energy_enc enc) (store_items E ctx m i items st)"
proof (induction items arbitrary: i st)
  case (Cons it items)
  show ?case
    unfolding store_items.simps Let_def
    by (rule keeps_rules energy_keepers_keep [OF assms] Cons.IH Cons.prems | assumption)+
qed (simp add: keeps_pair)

lemma energy_restore_data_keeps:
  assumes "rejects_unencodable enc E"
  shows "energy_enc enc st \<Longrightarrow> keeps (energy_enc enc) (energy_restore_data E i ds st)"
proof (induction ds arbitrary: i st)
  case (Cons d ds)
  show ?case
    unfolding energy_restore_data.simps
    by (rule keeps_rules energy_keepers_keep [OF assms] Cons.IH Cons.prems | assumption)+
qed (simp add: keeps_pair)

lemma energy_restore_batches_keeps:
  assumes "rejects_unencodable enc E"
  shows "energy_enc enc st \<Longrightarrow> keeps (energy_enc enc) (energy_restore_batches E i bs st)"
proof (induction bs arbitrary: i st)
  case (Cons b bs)
  show ?case
    unfolding energy_restore_batches.simps
    by (rule keeps_rules energy_keepers_keep [OF assms] Cons.IH Cons.prems | assumption)+
qed (simp add: keeps_pair)

lemmas energy_restore_keeps = energy_restore_data_keeps energy_restore_batches_keeps

lemma energy_InitGenesis_keeps:
  assumes "rejects_unencodable enc E"
  shows "energy_enc enc st \<Longrightarrow> keeps (energy_enc enc) (energy_InitGenesis E gs st)"
  unfolding energy_InitGenesis_def Let_def
  by (rule keeps_rules energy_keepers_keep [OF assms] energy_restore_keeps [OF assms] | assumption)+

lemma energy_messages_keep:
  assumes "rejects_unencodable enc E"
  shows "energy_enc enc st \<Longrightarrow> keeps (energy_enc enc) (msg_SubmitEnergyData E ctx ms st)"
    and "energy_enc enc st \<Longrightarrow> keeps (energy_enc enc) (msg_BatchSubmit E ctx mb st)"
    and "energy_enc enc st \<Longrightarrow> keeps (energy_enc enc) (energy_UpdateParams E auth mu st)"
  unfolding msg_SubmitEnergyData_def msg_BatchSubmit_def energy_UpdateParams_def Let_def
  by (rule keeps_rules energy_keepers_keep [OF assms] store_items_keeps [OF assms] CheckAndIncrSubmitCount_keeps
      | simp)+

lemma energy_deliver_encodable:
  "rejects_unencodable enc E \<Longrightarrow> energy_enc enc st \<Longrightarrow> energy_enc enc (energy_deliver E auth ctx tx st)"
  by (cases tx) (simp_all add: keeps_commit_if energy_messages_keep)



section \<open>Oracle\<close>

definition oracle_enc :: "codec \<Rightarrow> oracle_state \<Rightarrow> bool" where
  "oracle_enc enc st \<longleftrightarrow>
     item_ok enc oracle_coll_params (os_Params st) \<and>
     map_ok enc oracle_coll_data (os_Data st) \<and>
     map_ok enc oracle_coll_oracles (os_Oracles st) \<and>
     map_ok enc oracle_coll_latest (os_LatestData st)"

lemma oracle_enc_cells: "oracle_enc enc st \<longleftrightarrow> encodable_cells enc (oracle_cells st)"
  by (simp add: oracle_enc_def oracle_cells_def coll_ok_defs)

lemma oracle_enc_update [simp]:
  "oracle_enc enc (st\<lparr>os_events := evs\<rparr>) = oracle_enc enc st"
  "oracle_enc enc (emit_oracle ev st) = oracle_enc enc st"
  by (simp_all add: oracle_enc_def emit_oracle_def)

lemma SetOracleData_keeps:
  assumes "rejects_unencodable enc E"
  shows "oracle_enc enc st \<Longrightarrow> keeps (oracle_enc enc) (SetOracleData E d st)"
  unfolding SetOracleData_def Let_def
  by (rule keeps_rules writes_keep [OF assms] | simp add: oracle_enc_def)+

lemma oracle_SetParams_keeps:
  assumes "rejects_unencodable enc E"
  shows "oracle_enc enc st \<Longrightarrow> keeps (oracle_enc enc) (oracle_SetParams E p st)"
  unfolding oracle_SetParams_def Let_def
  by (rule keeps_rules writes_keep [OF assms] | simp add: oracle_enc_def)+

lemma keeper_AddOracle_keeps:
  assumes "rejects_unencodable enc E"
  shows "oracle_enc enc st \<Longrightarrow> keeps (oracle_enc enc) (keeper_AddOracle E info st)"
  unfolding keeper_AddOracle_def Let_def
  by (rule keeps_rules writes_keep [OF assms] | simp add: oracle_enc_def)+

lemma keeper_RemoveOracle_keeps: "oracle_enc enc st \<Longrightarrow> oracle_enc enc (keeper_RemoveOracle E a st)"
  using map_Remove_keeps [of enc oracle_coll_oracles "os_Oracles st" E a]
  by (auto simp: keeper_RemoveOracle_def oracle_enc_def keeps_def split: prod.split)

lemmas oracle_keepers_keep = SetOracleData_keeps oracle_SetParams_keeps keeper_AddOracle_keeps

lemma oracle_restore_oracles_keeps:
  assumes "rejects_unencodable enc E"
  shows "oracle_enc enc st \<Longrightarrow> keeps (oracle_enc enc) (oracle_restore_oracles E i xs st)"
proof (induction xs arbitrary: i st)
  case (Cons x xs)
  show ?case
    unfolding oracle_restore_oracles.simps
    by (rule keeps_rules oracle_keepers_keep [OF assms] Cons.IH Cons.prems | assumption)+
qed (simp add: keeps_pair)

lemma oracle_restore_data_keeps:
  assumes "rejects_unencodable enc E"
  shows "oracle_enc enc st \<Longrightarrow> keeps (oracle_enc enc) (oracle_restore_data E i xs st)"
proof (induction xs arbitrary: i st)
  case (Cons x xs)
  show ?case
    unfolding oracle_restore_data.simps
    by (rule keeps_rules oracle_keepers_keep [OF assms] Cons.IH Cons.prems | assumption)+
qed (simp add: keeps_pair)

lemma oracle_InitGenesis_keeps:
  assumes "rejects_unencodable enc E"
  shows "oracle_enc enc st \<Longrightarrow> keeps (oracle_enc enc) (oracle_InitGenesis E gs st)"
  unfolding oracle_InitGenesis_def Let_def
  by (rule keeps_rules oracle_keepers_keep [OF assms] oracle_restore_oracles_keeps [OF assms] oracle_restore_data_keeps [OF assms] | assumption)+

lemma oracle_messages_keep:
  assumes "rejects_unencodable enc E"
  shows "oracle_enc enc st \<Longrightarrow> keeps (oracle_enc enc) (msg_SubmitData E ctx ms st)"
    and "oracle_enc enc st \<Longrightarrow> keeps (oracle_enc enc) (msg_AddOracle E auth ma st)"
    and "oracle_enc enc st \<Longrightarrow> keeps (oracle_enc enc) (msg_RemoveOracle E auth mr st)"
    and "oracle_enc enc st \<Longrightarrow> keeps (oracle_enc enc) (oracle_UpdateParams E auth mu st)"
  unfolding msg_SubmitData_def msg_AddOracle_def msg_RemoveOracle_def oracle_UpdateParams_def Let_def
  by (rule keeps_rules oracle_keepers_keep [OF assms] | simp add: keeper_RemoveOracle_keeps)+

lemma oracle_handle_keeps:
  "rejects_unencodable enc E \<Longrightarrow> oracle_enc enc st \<Longrightarrow> keeps (oracle_enc enc) (oracle_handle E auth ctx tx st)"
  by (cases tx) (simp_all add: oracle_messages_keep)

lemma oracle_deliver_encodable:
  "rejects_unencodable enc E \<Longrightarrow> oracle_enc enc st \<Longrightarrow> oracle_enc enc (oracle_deliver E auth ctx tx st)"
  by (simp add: oracle_deliver_def keeps_commit_if oracle_handle_keeps)


section \<open>Identity\<close>

definition identity_enc :: "codec \<Rightarrow> identity_state \<Rightarrow> bool" where
  "identity_enc enc st \<longleftrightarrow>
     item_ok enc identity_coll_params (is_Params st) \<and>
     map_ok enc identity_coll_identities (is_Identities st) \<and>
     set_ok enc identity_coll_by_role (is_ByRole st)"

lemma identity_enc_cells: "identity_enc enc st \<longleftrightarrow> encodable_cells enc (identity_cells st)"
  by (simp add: identity_enc_def identity_cells_def coll_ok_defs)

lemma identity_enc_update [simp]:
  "identity_enc enc (st\<lparr>is_events := evs\<rparr>) = identity_enc enc st"
  "identity_enc enc (emit_identity ev st) = identity_enc enc st"
  by (simp_all add: identity_enc_def emit_identity_def)

lemma identity_SetParams_keeps:
  assumes "rejects_unencodable enc E"
  shows "identity_enc enc st \<Longrightarrow> keeps (identity_enc enc) (identity_SetParams E p st)"
  unfolding identity_SetParams_def Let_def
  by (rule keeps_rules writes_keep [OF assms] | simp add: identity_enc_def)+

lemma SetIdentity_keeps:
  assumes "rejects_unencodable enc E"
  shows "identity_enc enc st \<Longrightarrow> keeps (identity_enc enc) (SetIdentity E d st)"
  unfolding SetIdentity_def Let_def
  by (rule keeps_rules writes_keep [OF assms] | simp add: identity_enc_def)+

lemmas identity_keepers_keep = identity_SetParams_keeps SetIdentity_keeps

lemma identity_restore_keeps:
  assumes "rejects_unencodable enc E"
  shows "identity_enc enc st \<Longrightarrow> keeps (identity_enc enc) (identity_restore E xs st)"
proof (induction xs arbitrary: st)
  case (Cons x xs)
  show ?case
    unfolding identity_restore.simps
    by (rule keeps_rules identity_keepers_keep [OF assms] Cons.IH Cons.prems | assumption)+
qed (simp add: keeps_pair)

lemma identity_InitGenesis_keeps:
  assumes "rejects_unencodable enc E"
  shows "identity_enc enc st \<Longrightarrow> keeps (identity_enc enc) (identity_InitGenesis E gs st)"
  unfolding identity_InitGenesis_def Let_def
  by (rule keeps_rules identity_keepers_keep [OF assms] identity_restore_keeps [OF assms] | assumption)+

lemma identity_messages_keep:
  assumes "rejects_unencodable enc E"
  shows "identity_enc enc st \<Longrightarrow> keeps (identity_enc enc) (msg_RegisterIdentity E auth ctx mg st)"
    and "identity_enc enc st \<Longrightarrow> keeps (identity_enc enc) (msg_UpdateIdentity E auth ctx mu st)"
    and "identity_enc enc st \<Longrightarrow> keeps (identity_enc enc) (msg_RevokeIdentity E auth ctx mr st)"
    and "identity_enc enc st \<Longrightarrow> keeps (identity_enc enc) (identity_UpdateParams E auth mp st)"
  unfolding msg_RegisterIdentity_def msg_UpdateIdentity_def msg_RevokeIdentity_def identity_UpdateParams_def Let_def
  by (rule identity_keepers_keep [OF assms] keeps_pair keeps_if keeps_option keeps_lookup keeps_bind | simp)+

lemma identity_handle_keeps:
  "rejects_unencodable enc E \<Longrightarrow> identity_enc enc st \<Longrightarrow> keeps (identity_enc enc) (identity_handle E auth ctx tx st)"
  by (cases tx) (simp_all add: identity_messages_keep)

lemma identity_deliver_encodable:
  "rejects_unencodable enc E \<Longrightarrow> identity_enc enc st \<Longrightarrow> identity_enc enc (identity_deliver E auth ctx tx st)"
  by (simp add: identity_deliver_def keeps_commit_if identity_handle_keeps)


section \<open>Audit\<close>

definition audit_enc :: "codec \<Rightarrow> audit_state \<Rightarrow> bool" where
  "audit_enc enc st \<longleftrightarrow>
     item_ok enc audit_coll_params (as_Params st) \<and>
     map_ok enc audit_coll_logs (as_Logs st) \<and>
     set_ok enc audit_coll_by_actor (as_ByActor st) \<and>
     set_ok enc audit_coll_by_event_type (as_ByEventType st) \<and>
     item_ok enc audit_coll_sequence (as_IDSequence st) \<and>
     set_ok enc audit_coll_by_time (as_ByTime st)"

lemma audit_enc_cells: "audit_enc enc st \<longleftrightarrow> encodable_cells enc (audit_cells st)"
  by (simp add: audit_enc_def audit_cells_def coll_ok_defs)

lemma audit_enc_update [simp]:
  "audit_enc enc (st\<lparr>as_events := evs\<rparr>) = audit_enc enc st"
  "audit_enc enc (st\<lparr>as_transient := t\<rparr>) = audit_enc enc st"
  "audit_enc enc (emit_audit ev st) = audit_enc enc st"
  by (simp_all add: audit_enc_def emit_audit_def)

lemma audit_SetParams_keeps:
  assumes "rejects_unencodable enc E"
  shows "audit_enc enc st \<Longrightarrow> keeps (audit_enc enc) (audit_SetParams E p st)"
  unfolding audit_SetParams_def Let_def
  by (rule keeps_rules writes_keep [OF assms] | simp add: audit_enc_def)+

lemma IncrementCounter_keeps:
  assumes "rejects_unencodable enc E"
  shows "audit_enc enc st \<Longrightarrow> keeps (audit_enc enc) (IncrementCounter E n st)"
  unfolding IncrementCounter_def Let_def
  by (rule keeps_rules writes_keep [OF assms] | simp add: audit_enc_def)+

lemma RecordAuditLog_keeps:
  assumes "rejects_unencodable enc E"
  shows "audit_enc enc st \<Longrightarrow> keeps (audit_enc enc) (RecordAuditLog E l st)"
  unfolding RecordAuditLog_def Let_def
  by (rule keeps_rules writes_keep [OF assms] | simp add: audit_enc_def)+

lemma CheckAndIncrAuditCount_keeps: "audit_enc enc st \<Longrightarrow> keeps (audit_enc enc) (CheckAndIncrAuditCount E a st)"
  unfolding CheckAndIncrAuditCount_def Let_def by (rule keeps_rules | simp)+

lemmas audit_keepers_keep = audit_SetParams_keeps IncrementCounter_keeps RecordAuditLog_keeps

lemma audit_restore_keeps:
  assumes "rejects_unencodable enc E"
  shows "audit_enc enc st \<Longrightarrow> keeps (audit_enc enc) (audit_restore E i xs st)"
proof (induction xs arbitrary: i st)
  case (Cons x xs)
  show ?case
    unfolding audit_restore.simps
    by (rule keeps_rules audit_keepers_keep [OF assms] Cons.IH Cons.prems | assumption)+
qed (simp add: keeps_pair)

lemma audit_InitGenesis_keeps:
  assumes "rejects_unencodable enc E"
  shows "audit_enc enc st \<Longrightarrow> keeps (audit_enc enc) (audit_InitGenesis E gs st)"
  unfolding audit_InitGenesis_def Let_def
  by (rule keeps_rules audit_keepers_keep [OF assms] audit_restore_keeps [OF assms] | assumption)+

lemma audit_messages_keep:
  assumes "rejects_unencodable enc E"
  shows "audit_enc enc st \<Longrightarrow> keeps (audit_enc enc) (msg_RecordAudit E ctx mr st)"
    and "audit_enc enc st \<Longrightarrow> keeps (audit_enc enc) (audit_UpdateParams E auth mu st)"
  unfolding msg_RecordAudit_def audit_UpdateParams_def Let_def
  by (rule keeps_rules audit_keepers_keep [OF assms] CheckAndIncrAuditCount_keeps | simp)+

lemma audit_deliver_encodable:
  "rejects_unencodable enc E \<Longrightarrow> audit_enc enc st \<Longrightarrow> audit_enc enc (audit_deliver E auth ctx tx st)"
  by (cases tx) (simp_all add: keeps_commit_if audit_messages_keep)


section \<open>The whole chain\<close>

definition chain_encodable :: "codec \<Rightarrow> chain_state \<Rightarrow> bool" where
  "chain_encodable enc st \<longleftrightarrow>
     encodable_cells enc (energy_cells (ch_energy st)) \<and>
     encodable_cells enc (oracle_cells (ch_oracle st)) \<and>
     encodable_cells enc (identity_cells (ch_identity st)) \<and>
     encodable_cells enc (audit_cells (ch_audit st))"

lemma chain_encodable_parts:
  "chain_encodable enc st \<longleftrightarrow> energy_enc enc (ch_energy st) \<and> oracle_enc enc (ch_oracle st) \<and>
     identity_enc enc (ch_identity st) \<and> audit_enc enc (ch_audit st)"
  by (simp add: chain_encodable_def energy_enc_cells oracle_enc_cells identity_enc_cells audit_enc_cells)

lemma chain_empty_encodable: "chain_encodable enc chain_empty"
  by (simp add: chain_encodable_parts chain_empty_def energy_enc_def oracle_enc_def identity_enc_def audit_enc_def coll_ok_defs
      energy_empty_def oracle_empty_def identity_empty_def audit_empty_def)

lemma init_json_keeps: "(\<And>gs. keeps I (init gs st)) \<Longrightarrow> I st \<Longrightarrow> keeps I (init_json name J init data st)"
  unfolding init_json_def by (rule keeps_sum keeps_bind keeps_option keeps_pair | assumption | blast)+

lemma modules_InitGenesis_keep:
  assumes "rejects_unencodable enc E" and "chain_encodable enc st"
  shows "keeps (energy_enc enc) (energy_module_InitGenesis Je E data (ch_energy st))"
    and "keeps (oracle_enc enc) (oracle_module_InitGenesis Jo E data (ch_oracle st))"
    and "keeps (identity_enc enc) (identity_module_InitGenesis Ji E data (ch_identity st))"
    and "keeps (audit_enc enc) (audit_module_InitGenesis Ja E data (ch_audit st))"
  unfolding energy_module_InitGenesis_def oracle_module_InitGenesis_def identity_module_InitGenesis_def audit_module_InitGenesis_def
  using assms by (auto intro!: init_json_keeps simp: chain_encodable_parts energy_InitGenesis_keeps oracle_InitGenesis_keeps
      identity_InitGenesis_keeps audit_InitGenesis_keeps)

lemma init_module_keeps:
  assumes "rejects_unencodable enc E" and "chain_encodable enc st"
  shows "keeps (chain_encodable enc) (init_module J E m data st)"
proof -
  have st: "keeps (chain_encodable enc) (None, st)" using assms(2) by (rule keeps_pair)
  have parts: "energy_enc enc (ch_energy st)" "oracle_enc enc (ch_oracle st)" "identity_enc enc (ch_identity st)"
      "audit_enc enc (ch_audit st)"
    using assms(2) by (simp_all add: chain_encodable_parts)
  show ?thesis
    unfolding init_module_def
    by (cases m) (simp_all add: st, (rule keeps_bind, rule modules_InitGenesis_keep [OF assms],
      rule keeps_pair, simp add: chain_encodable_parts parts)+)
qed

lemma manager_InitGenesis_keeps:
  assumes "rejects_unencodable enc E"
  shows "chain_encodable enc st \<Longrightarrow> keeps (chain_encodable enc) (manager_InitGenesis J E ms genesis st)"
proof (induction ms arbitrary: st)
  case (Cons m ms)
  show ?case
    unfolding manager_InitGenesis.simps
    by (rule keeps_rules init_module_keeps [OF assms] Cons.IH Cons.prems | assumption)+
qed (simp add: keeps_pair)

lemma InitChainer_keeps:
  assumes "rejects_unencodable enc E"
  shows "chain_encodable enc st \<Longrightarrow> keeps (chain_encodable enc) (InitChainer J E Unmarshal V req st)"
  unfolding InitChainer_def
  by (rule keeps_sum keeps_option keeps_pair keeps_bind manager_InitGenesis_keeps [OF assms] | assumption)+

lemma event_deliver_encodable:
  "rejects_unencodable enc E \<Longrightarrow> chain_encodable enc st \<Longrightarrow> chain_encodable enc (event_deliver E auth ctx e st)"
  by (cases e rule: event_cases)
    (auto simp: chain_encodable_parts energy_deliver_encodable oracle_deliver_encodable identity_deliver_encodable
      audit_deliver_encodable end_block_def simp del: energy_deliver.simps audit_deliver.simps)

lemma chain_run_encodable:
  assumes "rejects_unencodable enc E" and "atomic_runner E auth R" and "chain_encodable enc st"
  shows "chain_encodable enc (chain_run E auth R bs st)"
  unfolding chain_run_replay [OF assms(2)]
  by (rule chain_hist.run_inv [where P = "chain_encodable enc"]) (use assms(1,3) event_deliver_encodable in auto)

text \<open>A chain that starts from a genesis, whatever it holds, and runs blocks.\<close>

lemma started_encodable:
  assumes "rejects_unencodable enc E" and "atomic_runner E auth R"
  shows "chain_encodable enc (chain_run E auth R bs (snd (InitChainer J E Unmarshal V req chain_empty)))"
  by (rule chain_run_encodable [OF assms]) (rule InitChainer_keeps [OF assms(1) chain_empty_encodable, unfolded keeps_def])

end
