(* ===== verification/StoreClaims.thy ===== *)
theory StoreClaims
  imports StoreEncodable AppWiring
begin

text \<open>
  What the byte layout means for the chain: the keepers' writes byte by byte, the bytes of the
  multistore as a complete description of the state between blocks, and the bytes of records, logs
  and index entries as permanent.
\<close>

section \<open>The writes of the keepers\<close>

text \<open>
  On the bytes of the energy store, storing a record that the handler has built is three writes
  in order, the record under its identifier and an empty value under the category and submitter
  keys, all on distinct bytes; when a write fails, exactly the ones before it have happened.  Reading
  a record back is reading its bytes.
\<close>

theorem energy_store_bytes:
  assumes "key_codec enc" and "rejects_unencodable enc E"
  shows "case keeper_SubmitEnergyData E d st of
      (None, st') \<Rightarrow> energy_raw enc st' = (energy_raw enc st)
        (raw_key enc energy_coll_data (ed_ID d) \<mapsto> EVData d,
         raw_key enc energy_coll_by_category (ed_Category d, ed_ID d) \<mapsto> EVIndex,
         raw_key enc energy_coll_by_submitter (ed_Submitter d, ed_ID d) \<mapsto> EVIndex) \<and>
        energy_GetEnergyData E st' (ed_ID d) =
          (if decode_fault E (c_name energy_coll_data) (c_key energy_coll_data (ed_ID d)) then (zero_EnergyData, False) else (d, True))
    | (Some (EIndexSubmitter e), st') \<Rightarrow> energy_raw enc st' = (energy_raw enc st)
        (raw_key enc energy_coll_data (ed_ID d) \<mapsto> EVData d,
         raw_key enc energy_coll_by_category (ed_Category d, ed_ID d) \<mapsto> EVIndex)
    | (Some (EIndexCategory e), st') \<Rightarrow> energy_raw enc st' = (energy_raw enc st)
        (raw_key enc energy_coll_data (ed_ID d) \<mapsto> EVData d)
    | (Some (EStoreData e), st') \<Rightarrow> energy_raw enc st' = energy_raw enc st
    | _ \<Rightarrow> False"
  unfolding keeper_SubmitEnergyData_def map_Set_def set_Set_def Let_def
  by (simp add: energy_raw_writes [OF assms] energy_GetEnergyData_def map_Get_def split: option.split)

text \<open>The same for an audit log: four writes in order.\<close>

theorem audit_store_bytes:
  assumes "key_codec enc" and "rejects_unencodable enc E" and "RecordAuditLog E l st = (None, st')"
  shows "audit_raw enc st' = (audit_raw enc st)
    (raw_key enc audit_coll_logs (al_ID l) \<mapsto> AVLog l,
     raw_key enc audit_coll_by_actor (al_Actor l, al_ID l) \<mapsto> AVIndex,
     raw_key enc audit_coll_by_event_type (al_EventType l, al_ID l) \<mapsto> AVIndex,
     raw_key enc audit_coll_by_time (audit_timestampToKey (al_Timestamp l), al_ID l) \<mapsto> AVIndex)"
  using assms(3) unfolding RecordAuditLog_def map_Set_def set_Set_def Let_def
  by (auto simp: audit_raw_writes [OF assms(1,2)] split: option.splits)


section \<open>The bytes along a history\<close>

lemma energy_cell_cases:
  assumes "((p, k), v) \<in> set (energy_cells st)"
  obtains "p = 0" | "p = 5"
  | d i where "p = 1" "k = c_key energy_coll_data i" "v = EVData d" "fmlookup (es_EnergyData st) i = Some d"
  | c where "p = 2" "k = c_key energy_coll_by_category c" "v = EVIndex" "c |\<in>| es_ByCategory st"
  | c where "p = 3" "k = c_key energy_coll_by_submitter c" "v = EVIndex" "c |\<in>| es_BySubmitter st"
  | b i where "p = 4" "k = c_key energy_coll_batches i" "v = EVBatch b" "fmlookup (es_Batches st) i = Some b"
  using assms by (auto simp: energy_cells_def item_cells_def map_cells_def set_cells_def set_entries split: option.splits)

lemma audit_cell_cases:
  assumes "((p, k), v) \<in> set (audit_cells st)"
  obtains "p = 0" | "p = 4"
  | n l where "p = 1" "k = c_key audit_coll_logs n" "v = AVLog l" "fmlookup (as_Logs st) n = Some l"
  | c where "p = 2" "k = c_key audit_coll_by_actor c" "v = AVIndex" "c |\<in>| as_ByActor st"
  | c where "p = 3" "k = c_key audit_coll_by_event_type c" "v = AVIndex" "c |\<in>| as_ByEventType st"
  | t where "p = 5" "k = c_key audit_coll_by_time t" "v = AVIndex" "t |\<in>| as_ByTime st"
  using assms by (auto simp: audit_cells_def item_cells_def map_cells_def set_cells_def set_entries split: option.splits)

lemma energy_raw_le:
  assumes "key_codec enc" and "energy_extends st st'" and "es_ByCategory st |\<subseteq>| es_ByCategory st'"
    and "es_BySubmitter st |\<subseteq>| es_BySubmitter st'"
    and "b1 \<noteq> char_of (c_prefix energy_coll_params)" and "b1 \<noteq> char_of (c_prefix energy_coll_sequence)"
    and "energy_raw enc st (b1 # b2) = Some v"
  shows "energy_raw enc st' (b1 # b2) = Some v"
  unfolding energy_raw_def
proof (rule energy_lay.raw_le [OF assms(1) energy_laid_out energy_laid_out])
  show "raw_of enc (energy_cells st) (b1 # b2) = Some v" using assms(7) by (simp add: energy_raw_def)
  fix p k v
  assume p: "char_of p = b1" and "map_of (energy_cells st) (p, k) = Some v"
  then have "((p, k), v) \<in> set (energy_cells st)" by (intro map_of_SomeD)
  then show "map_of (energy_cells st') (p, k) = Some v"
    by (cases rule: energy_cell_cases)
      (use assms(2-6) p in \<open>auto simp: energy_extends_def fsubset_iff simp del: One_nat_def\<close>)
qed

lemma audit_raw_le:
  assumes "key_codec enc" and "audit_keeps st st'" and "as_ByActor st |\<subseteq>| as_ByActor st'"
    and "as_ByEventType st |\<subseteq>| as_ByEventType st'" and "as_ByTime st |\<subseteq>| as_ByTime st'"
    and "b1 \<noteq> char_of (c_prefix audit_coll_params)" and "b1 \<noteq> char_of (c_prefix audit_coll_sequence)"
    and "audit_raw enc st (b1 # b2) = Some v"
  shows "audit_raw enc st' (b1 # b2) = Some v"
  unfolding audit_raw_def
proof (rule audit_lay.raw_le [OF assms(1) audit_laid_out audit_laid_out])
  show "raw_of enc (audit_cells st) (b1 # b2) = Some v" using assms(8) by (simp add: audit_raw_def)
  fix p k v
  assume p: "char_of p = b1" and "map_of (audit_cells st) (p, k) = Some v"
  then have "((p, k), v) \<in> set (audit_cells st)" by (intro map_of_SomeD)
  then show "map_of (audit_cells st') (p, k) = Some v"
    by (cases rule: audit_cell_cases)
      (use assms(2-7) p in \<open>auto simp: audit_keeps_def fsubset_iff simp del: One_nat_def\<close>)
qed

text \<open>No transaction removes an index entry.\<close>

definition energy_index_le :: "energy_state \<Rightarrow> energy_state \<Rightarrow> bool" where
  "energy_index_le st st' \<longleftrightarrow> es_ByCategory st |\<subseteq>| es_ByCategory st' \<and> es_BySubmitter st |\<subseteq>| es_BySubmitter st'"

definition audit_index_le :: "audit_state \<Rightarrow> audit_state \<Rightarrow> bool" where
  "audit_index_le st st' \<longleftrightarrow> as_ByActor st |\<subseteq>| as_ByActor st' \<and> as_ByEventType st |\<subseteq>| as_ByEventType st' \<and> as_ByTime st |\<subseteq>| as_ByTime st'"

lemma put_new_index_le: "energy_index_le st (put_new mk st)"
  by (auto simp: energy_index_le_def put_new_def energy_store_def bump_seq_def)

lemma energy_index_le_trans: "energy_index_le a b \<Longrightarrow> energy_index_le b c \<Longrightarrow> energy_index_le a c"
  by (auto simp: energy_index_le_def)

lemma audit_index_le_trans: "audit_index_le a b \<Longrightarrow> audit_index_le b c \<Longrightarrow> audit_index_le a c"
  by (auto simp: audit_index_le_def)

lemma put_items_index_le: "energy_index_le st (put_items ctx m items st)"
  unfolding put_items_def
proof (induction items arbitrary: st)
  case (Cons it items)
  then show ?case using put_new_index_le energy_index_le_trans by (simp, blast)
qed (simp add: energy_index_le_def)

lemma put_batch_index_le: "energy_index_le st (put_batch ctx m st)"
proof -
  let ?st = "(bump_seq st)\<lparr>es_Batches := fmupd (next_id st) (batch_record ctx m (next_id st)) (es_Batches st)\<rparr>"
  have "energy_index_le st ?st" by (simp add: energy_index_le_def bump_seq_def)
  then show ?thesis using put_items_index_le [of ?st] energy_index_le_trans by (auto simp: put_batch_def)
qed

lemma energy_deliver_index_le: "energy_index_le st (energy_deliver E auth ctx tx st)"
proof (cases rule: energy_deliver_cases [of E auth ctx tx st])
  case (submit m ev)
  have "energy_index_le (counted E (ms_Submitter m) (st\<lparr>es_events := []\<rparr>)) (energy_deliver E auth ctx tx st)"
    using put_new_index_le submit(4) by (simp add: energy_index_le_def emit_energy_def)
  then show ?thesis by (simp add: energy_index_le_def counted_def split: if_splits)
next
  case (batch m ev)
  have "energy_index_le ((counted E (mb_Submitter m) (st\<lparr>es_events := []\<rparr>))) (energy_deliver E auth ctx tx st)"
    using put_batch_index_le batch(4) by (simp add: energy_index_le_def emit_energy_def)
  then show ?thesis by (simp add: energy_index_le_def counted_def split: if_splits)
qed (simp_all add: energy_index_le_def)

lemma audit_deliver_index_le: "audit_index_le st (audit_deliver E auth ctx tx st)"
proof (cases rule: audit_deliver_cases [of E auth ctx tx st])
  case (rec m ev)
  then show ?thesis by (auto simp: audit_index_le_def emit_audit_def recorded_def audit_put_def audit_counted_def)
qed (simp_all add: audit_index_le_def)

lemma energy_run_index_le: "energy_index_le st (energy_run E auth txs st)"
  by (rule energy_hist.run_related [where P = "\<lambda>_. True"])
    (auto simp: energy_deliver_index_le reflp_def energy_index_le_def [of s s for s] intro: transpI energy_index_le_trans)

lemma audit_run_index_le: "audit_index_le st (audit_run E auth txs st)"
  by (rule audit_hist.run_related [where P = "\<lambda>_. True"])
    (auto simp: audit_deliver_index_le reflp_def audit_index_le_def [of s s for s] intro: transpI audit_index_le_trans)


section \<open>The whole chain\<close>

datatype chain_val = CVEnergy energy_val | CVOracle oracle_val | CVIdentity identity_val | CVAudit audit_val

text \<open>The multistore: a module's bytes stand under its store key.\<close>

fun chain_raw :: "codec \<Rightarrow> chain_state \<Rightarrow> store_key \<times> bytes \<Rightarrow> chain_val option" where
  "chain_raw enc st (KVKey EnergyM, b) = map_option CVEnergy (energy_raw enc (ch_energy st) b)"
| "chain_raw enc st (KVKey OracleM, b) = map_option CVOracle (oracle_raw enc (ch_oracle st) b)"
| "chain_raw enc st (KVKey IdentityM, b) = map_option CVIdentity (identity_raw enc (ch_identity st) b)"
| "chain_raw enc st (KVKey AuditM, b) = map_option CVAudit (audit_raw enc (ch_audit st) b)"
| "chain_raw enc st (_, b) = None"

text \<open>
  The part of a state that is in the persistent stores: the counters of the block live in transient
  stores, and the events of the last transaction in its context.
\<close>

definition energy_settled :: "energy_state \<Rightarrow> energy_state" where
  "energy_settled st = st\<lparr>es_transient := fmempty, es_events := []\<rparr>"

definition audit_settled :: "audit_state \<Rightarrow> audit_state" where
  "audit_settled st = st\<lparr>as_transient := fmempty, as_events := []\<rparr>"

definition settled :: "chain_state \<Rightarrow> chain_state" where
  "settled st = \<lparr>ch_energy = energy_settled (ch_energy st), ch_oracle = (ch_oracle st)\<lparr>os_events := []\<rparr>,
     ch_identity = (ch_identity st)\<lparr>is_events := []\<rparr>, ch_audit = audit_settled (ch_audit st)\<rparr>"

lemma energy_cells_settled: "energy_cells (energy_settled st) = energy_cells st"
  by (simp add: energy_settled_def energy_cells_def)

lemma oracle_cells_settled: "oracle_cells (st\<lparr>os_events := []\<rparr>) = oracle_cells st"
  by (simp add: oracle_cells_def)

lemma identity_cells_settled: "identity_cells (st\<lparr>is_events := []\<rparr>) = identity_cells st"
  by (simp add: identity_cells_def)

lemma audit_cells_settled: "audit_cells (audit_settled st) = audit_cells st"
  by (simp add: audit_settled_def audit_cells_def)

lemma chain_raw_settled: "chain_raw enc (settled st) = chain_raw enc st"
proof (rule ext, clarify)
  fix s b
  show "chain_raw enc (settled st) (s, b) = chain_raw enc st (s, b)"
    by (cases "(enc, st, s, b)" rule: chain_raw.cases)
      (simp_all add: settled_def energy_raw_def oracle_raw_def identity_raw_def audit_raw_def
        energy_cells_settled oracle_cells_settled identity_cells_settled audit_cells_settled)
qed

lemmas energy_raw_determines = energy_lay.raw_determines [OF _ energy_laid_out energy_laid_out, folded energy_raw_def]
lemmas oracle_raw_determines = oracle_lay.raw_determines [OF _ oracle_laid_out oracle_laid_out, folded oracle_raw_def]
lemmas identity_raw_determines = identity_lay.raw_determines [OF _ identity_laid_out identity_laid_out, folded identity_raw_def]
lemmas audit_raw_determines = audit_lay.raw_determines [OF _ audit_laid_out audit_laid_out, folded audit_raw_def]

lemma map_option_ext: "(\<And>b. map_option f (m b) = map_option f (m' b)) \<Longrightarrow> inj f \<Longrightarrow> m = m'"
  by (rule ext) (rule map_option_eq_inj)

lemma module_raws: "chain_raw enc st = chain_raw enc st' \<Longrightarrow>
    energy_raw enc (ch_energy st) = energy_raw enc (ch_energy st') \<and>
    oracle_raw enc (ch_oracle st) = oracle_raw enc (ch_oracle st') \<and>
    identity_raw enc (ch_identity st) = identity_raw enc (ch_identity st') \<and>
    audit_raw enc (ch_audit st) = audit_raw enc (ch_audit st')"
proof (intro conjI)
  assume eq: "chain_raw enc st = chain_raw enc st'"
  note at = fun_cong [OF eq, of "(KVKey M, b)" for M b]
  show "energy_raw enc (ch_energy st) = energy_raw enc (ch_energy st')"
    by (rule map_option_ext [of CVEnergy]) (use at [of EnergyM] in \<open>simp_all add: inj_def\<close>)
  show "oracle_raw enc (ch_oracle st) = oracle_raw enc (ch_oracle st')"
    by (rule map_option_ext [of CVOracle]) (use at [of OracleM] in \<open>simp_all add: inj_def\<close>)
  show "identity_raw enc (ch_identity st) = identity_raw enc (ch_identity st')"
    by (rule map_option_ext [of CVIdentity]) (use at [of IdentityM] in \<open>simp_all add: inj_def\<close>)
  show "audit_raw enc (ch_audit st) = audit_raw enc (ch_audit st')"
    by (rule map_option_ext [of CVAudit]) (use at [of AuditM] in \<open>simp_all add: inj_def\<close>)
qed

lemma encodable_bytes_determine:
  assumes "key_codec enc" and "chain_encodable enc st" and "chain_encodable enc st'"
  shows "chain_raw enc st = chain_raw enc st' \<longleftrightarrow> settled st = settled st'"
proof
  assume "chain_raw enc st = chain_raw enc st'"
  note raw = module_raws [OF this]
  have "energy_settled (ch_energy st) = energy_settled (ch_energy st')"
    using energy_cells_determine [OF energy_raw_determines [OF assms(1) _ _ raw [THEN conjunct1]]] assms(2,3)
    by (intro energy_state.equality) (simp_all add: chain_encodable_def energy_settled_def)
  moreover have "(ch_oracle st)\<lparr>os_events := []\<rparr> = (ch_oracle st')\<lparr>os_events := []\<rparr>"
    using oracle_cells_determine [OF oracle_raw_determines [OF assms(1)]] raw assms(2,3)
    by (intro oracle_state.equality) (simp_all add: chain_encodable_def)
  moreover have "(ch_identity st)\<lparr>is_events := []\<rparr> = (ch_identity st')\<lparr>is_events := []\<rparr>"
    using identity_cells_determine [OF identity_raw_determines [OF assms(1)]] raw assms(2,3)
    by (intro identity_state.equality) (simp_all add: chain_encodable_def)
  moreover have "audit_settled (ch_audit st) = audit_settled (ch_audit st')"
    using audit_cells_determine [OF audit_raw_determines [OF assms(1)]] raw assms(2,3)
    by (intro audit_state.equality) (simp_all add: chain_encodable_def audit_settled_def)
  ultimately show "settled st = settled st'" by (simp add: settled_def)
qed (metis chain_raw_settled)


text \<open>The bytes under a prefix that only grows: all of the energy and audit stores but parameters and sequence.\<close>

fun record_prefix :: "store_key \<Rightarrow> char \<Rightarrow> bool" where
  "record_prefix (KVKey EnergyM) p \<longleftrightarrow> p \<noteq> char_of (c_prefix energy_coll_params) \<and> p \<noteq> char_of (c_prefix energy_coll_sequence)"
| "record_prefix (KVKey AuditM) p \<longleftrightarrow> p \<noteq> char_of (c_prefix audit_coll_params) \<and> p \<noteq> char_of (c_prefix audit_coll_sequence)"
| "record_prefix _ p \<longleftrightarrow> False"

lemma record_prefix_iff:
  "record_prefix s p \<longleftrightarrow>
     s = KVKey EnergyM \<and> p \<noteq> char_of (c_prefix energy_coll_params) \<and> p \<noteq> char_of (c_prefix energy_coll_sequence) \<or>
     s = KVKey AuditM \<and> p \<noteq> char_of (c_prefix audit_coll_params) \<and> p \<noteq> char_of (c_prefix audit_coll_sequence)"
  by (cases "(s, p)" rule: record_prefix.cases) (simp_all del: coll_prefixes)

text \<open>
  C6: Whatever blocks a chain runs, under any runner that commits a transaction whole or not at all,
  no byte of an energy record, batch, audit log or index entry ever changes or disappears: a key of
  the multistore that once held a value holds that value forever.
\<close>

theorem chain_bytes_append_only:
  assumes "healthy E" and "chain_wf st" and "chain_room bs st" and "atomic_runner E auth R" and "key_codec enc"
    and "chain_raw enc st (s, p # b) = Some v"
    and "record_prefix s p"
  shows "chain_raw enc (chain_run E auth R bs st) (s, p # b) = Some v"
proof -
  let ?es = "committed E auth R bs st" and ?st = "chain_run E auth R bs st"
  note keep = replay_wf [OF assms(1-3) committed_subseq [of E auth R bs st], of auth, folded chain_run_replay [OF assms(4)]]
  have le: "energy_index_le (ch_energy st) (ch_energy ?st)" "audit_index_le (ch_audit st) (ch_audit ?st)"
    unfolding chain_run_replay [OF assms(4)] chain_projections by (rule energy_run_index_le audit_run_index_le)+
  show ?thesis
    using assms(6,7) [unfolded record_prefix_iff] keep(2,3) le energy_raw_le [OF assms(5)] audit_raw_le [OF assms(5)]
    unfolding energy_index_le_def audit_index_le_def by (auto simp del: coll_prefixes)
qed


section \<open>Examples\<close>

definition stored_record :: EnergyData where
  "stored_record = submit_record sample_ctx sample_submit ''energy-1''"

definition stored_chain :: chain_state where
  "stored_chain = chain_empty\<lparr>ch_energy := put_new (submit_record sample_ctx sample_submit) energy_empty\<rparr>"

lemma stored_fields [simp]:
  "ed_ID stored_record = ''energy-1''" "ed_Category stored_record = ''solar''" "ed_Submitter stored_record = ''alice''"
  by (simp_all add: stored_record_def submit_record_def sample_submit_def NewMsgSubmitEnergyData_def)

lemma stored_energy:
  "put_new (submit_record sample_ctx sample_submit) energy_empty = energy_store stored_record (energy_empty\<lparr>es_IDSequence := Some 1\<rparr>)"
  by (simp add: put_new_def next_id_def bump_seq_def stored_record_def energy_empty_def energy_seq_def Sprint_d_examples)

lemma stored_chain_simps [simp]:
  "ch_energy stored_chain = energy_store stored_record (energy_empty\<lparr>es_IDSequence := Some 1\<rparr>)"
  "ch_oracle stored_chain = oracle_empty" "ch_identity stored_chain = identity_empty" "ch_audit stored_chain = audit_empty"
  by (simp_all add: stored_chain_def stored_energy chain_empty_def)

lemma stored_chain_wf: "chain_wf stored_chain"
proof -
  have "energy_wf (put_new (submit_record sample_ctx sample_submit) energy_empty)"
    by (rule put_new_wf) (use energy_wf_empty in \<open>simp_all add: submit_record_def energy_seq_def\<close>, simp add: energy_empty_def)
  then show ?thesis using chain_wf_empty by (simp add: chain_wf_def stored_energy chain_empty_def)
qed

lemma energy_store_bytes_witness:
  "energy_GetEnergyData strict_env (snd (keeper_SubmitEnergyData strict_env stored_record energy_empty)) ''energy-1'' = (stored_record, True)"
  using energy_store_bytes [OF sample_key_codec strict_rejects, where d = stored_record and st = energy_empty]
  by (simp add: keeper_SubmitEnergyData_def coll_defs strict_env_def sample_env_def energy_colls key_codec_defs)

definition strict_runner :: runner where
  "strict_runner c tx st =
     (if list_all (msg_valid strict_env) (snd tx) then run_msgs strict_env ''gov'' (tx_ctx c tx) (snd tx) st else None)"

lemma strict_runner_atomic: "atomic_runner strict_env ''gov'' strict_runner"
  by (simp add: atomic_runner_def strict_runner_def)


lemma chain_bytes_append_only_witness:
  "chain_raw sample_codec (chain_run sample_env ''gov'' plain_runner [sample_block] stored_chain)
     (KVKey EnergyM, raw_key sample_codec energy_coll_data ''energy-1'') = Some (CVEnergy (EVData stored_record))"
proof -
  have b: "sample_codec (c_key energy_coll_data ''energy-1'') = Some ''energy-1''"
    by (simp add: energy_colls StringKey_def)
  have "energy_raw sample_codec (ch_energy stored_chain) (char_of (1 :: nat) # ''energy-1'') =
      map_of (energy_cells (ch_energy stored_chain)) (1, c_key energy_coll_data ''energy-1'')"
    unfolding energy_raw_def by (rule energy_lay.raw_lookup [OF sample_key_codec energy_laid_out energy_in_layout(1) b])
  also have "\<dots> = Some (EVData stored_record)" by (simp only: energy_cells_lookup) (simp add: energy_store_def)
  finally have "energy_raw sample_codec (ch_energy stored_chain) (char_of (1 :: nat) # ''energy-1'') = Some (EVData stored_record)" .
  then have r: "chain_raw sample_codec stored_chain (KVKey EnergyM, char_of (1 :: nat) # ''energy-1'') = Some (CVEnergy (EVData stored_record))"
    by simp
  have room: "chain_room [sample_block] stored_chain"
    by (simp add: chain_room_def energy_seq_def energy_store_def audit_seq_def audit_empty_def)
  have "record_prefix (KVKey EnergyM) (char_of (1 :: nat))" by simp
  from chain_bytes_append_only [OF sample_healthy stored_chain_wf room plain_runner_atomic sample_key_codec r this]
  show ?thesis by (simp only: raw_key_def b option.sel coll_prefixes)
qed

end
