(* ===== verification/ModuleSetup.thy ===== *)
theory ModuleSetup
  imports ChainGenesis AutoCli Upgrade
begin

text \<open>
  What a module is to the application besides its genesis code: the basics the codecs are built from,
  the module instance around its keeper, the invariant routes and the consensus version
  (\<^verbatim>\<open>module.go\<close> of the four modules), the basic manager with its overrides and the auto-CLI options
  (\<^verbatim>\<open>app.go\<close>), and what the versions mean for the v1.0.1 upgrade.
\<close>

section \<open>Basics and instances\<close>

text \<open>
  \<open>mb_Amino\<close> and \<open>mb_Interfaces\<close> are what \<^verbatim>\<open>RegisterLegacyAminoCodec\<close> and \<^verbatim>\<open>RegisterInterfaces\<close> add
  to the codec and the registry.
\<close>

record module_basic =
  mb_Name :: string
  mb_Amino :: "(string \<times> string) list"
  mb_Interfaces :: "string list"

record 'k module_instance =
  mi_Basic :: module_basic
  mi_keeper :: 'k

definition energy_AppModuleBasic :: module_basic where
  "energy_AppModuleBasic = \<lparr>mb_Name = ''energy'', mb_Amino = energy_RegisterCodec, mb_Interfaces = energy_RegisterInterfaces\<rparr>"

definition energy_NewAppModule :: "'k \<Rightarrow> 'k module_instance" where
  "energy_NewAppModule keeper = \<lparr>mi_Basic = energy_AppModuleBasic, mi_keeper = keeper\<rparr>"

definition energy_ConsensusVersion :: uint64 where
  "energy_ConsensusVersion = 1"

definition oracle_AppModuleBasic :: module_basic where
  "oracle_AppModuleBasic = \<lparr>mb_Name = ''oracle'', mb_Amino = oracle_RegisterCodec, mb_Interfaces = oracle_RegisterInterfaces\<rparr>"

definition oracle_NewAppModule :: "'k \<Rightarrow> 'k module_instance" where
  "oracle_NewAppModule keeper = \<lparr>mi_Basic = oracle_AppModuleBasic, mi_keeper = keeper\<rparr>"

definition oracle_ConsensusVersion :: uint64 where
  "oracle_ConsensusVersion = 1"

definition identity_AppModuleBasic :: module_basic where
  "identity_AppModuleBasic = \<lparr>mb_Name = ''identity'', mb_Amino = identity_RegisterCodec, mb_Interfaces = identity_RegisterInterfaces\<rparr>"

definition identity_NewAppModule :: "'k \<Rightarrow> 'k module_instance" where
  "identity_NewAppModule keeper = \<lparr>mi_Basic = identity_AppModuleBasic, mi_keeper = keeper\<rparr>"

definition identity_ConsensusVersion :: uint64 where
  "identity_ConsensusVersion = 1"

definition audit_AppModuleBasic :: module_basic where
  "audit_AppModuleBasic = \<lparr>mb_Name = ''audit'', mb_Amino = audit_RegisterCodec, mb_Interfaces = audit_RegisterInterfaces\<rparr>"

definition audit_NewAppModule :: "'k \<Rightarrow> 'k module_instance" where
  "audit_NewAppModule keeper = \<lparr>mi_Basic = audit_AppModuleBasic, mi_keeper = keeper\<rparr>"

definition audit_ConsensusVersion :: uint64 where
  "audit_ConsensusVersion = 1"

text \<open>
  An invariant registry keeps routes in order of registration under the module's name; each module adds
  the routes of its keeper.
\<close>

type_synonym 'r routes = "(string \<times> string \<times> 'r) list"

definition energy_module_RegisterInvariants :: "env \<Rightarrow> (energy_broken option \<Rightarrow> 'r) \<Rightarrow> energy_state module_instance \<Rightarrow> 'r routes \<Rightarrow> 'r routes" where
  "energy_module_RegisterInvariants E rep am ir =
     ir @ map (\<lambda>(route, broken). (mb_Name (mi_Basic am), route, rep broken)) (energy_RegisterInvariants E (mi_keeper am))"

definition oracle_module_RegisterInvariants :: "env \<Rightarrow> (oracle_broken option \<Rightarrow> 'r) \<Rightarrow> oracle_state module_instance \<Rightarrow> 'r routes \<Rightarrow> 'r routes" where
  "oracle_module_RegisterInvariants E rep am ir =
     ir @ map (\<lambda>(route, broken). (mb_Name (mi_Basic am), route, rep broken)) (oracle_RegisterInvariants E (mi_keeper am))"

definition identity_module_RegisterInvariants :: "env \<Rightarrow> (identity_broken option \<Rightarrow> 'r) \<Rightarrow> identity_state module_instance \<Rightarrow> 'r routes \<Rightarrow> 'r routes" where
  "identity_module_RegisterInvariants E rep am ir =
     ir @ map (\<lambda>(route, broken). (mb_Name (mi_Basic am), route, rep broken)) (identity_RegisterInvariants E (mi_keeper am))"

definition audit_module_RegisterInvariants :: "env \<Rightarrow> (audit_broken option \<Rightarrow> 'r) \<Rightarrow> audit_state module_instance \<Rightarrow> 'r routes \<Rightarrow> 'r routes" where
  "audit_module_RegisterInvariants E rep am ir =
     ir @ map (\<lambda>(route, broken). (mb_Name (mi_Basic am), route, rep broken)) (audit_RegisterInvariants E (mi_keeper am))"

definition register_all_invariants :: "env \<Rightarrow> chain_state \<Rightarrow> bool routes" where
  "register_all_invariants E st =
     audit_module_RegisterInvariants E (\<lambda>b. b = None) (audit_NewAppModule (ch_audit st))
       (identity_module_RegisterInvariants E (\<lambda>b. b = None) (identity_NewAppModule (ch_identity st))
         (oracle_module_RegisterInvariants E (\<lambda>b. b = None) (oracle_NewAppModule (ch_oracle st))
           (energy_module_RegisterInvariants E (\<lambda>b. b = None) (energy_NewAppModule (ch_energy st)) [])))"

text \<open>No two routes of the application have the same name, and they hold together when the modules' \<open>AllInvariants\<close> do.\<close>

lemma invariant_routes:
  "distinct (map (\<lambda>(m, r, b). (m, r)) (register_all_invariants E st)) \<and>
   (list_all (\<lambda>(m, r, ok). ok) (register_all_invariants E st) \<longleftrightarrow>
      energy_AllInvariants E (ch_energy st) = None \<and> oracle_AllInvariants E (ch_oracle st) = None \<and>
      identity_AllInvariants E (ch_identity st) = None \<and> audit_AllInvariants E (ch_audit st) = None)"
  by (simp add: register_all_invariants_def energy_module_RegisterInvariants_def oracle_module_RegisterInvariants_def
      identity_module_RegisterInvariants_def audit_module_RegisterInvariants_def energy_RegisterInvariants_def
      oracle_RegisterInvariants_def identity_RegisterInvariants_def audit_RegisterInvariants_def energy_NewAppModule_def
      oracle_NewAppModule_def identity_NewAppModule_def audit_NewAppModule_def energy_AppModuleBasic_def
      oracle_AppModuleBasic_def identity_AppModuleBasic_def audit_AppModuleBasic_def AllInvariants_are_registered split: option.split)

section \<open>The managers\<close>

text \<open>
  \<^verbatim>\<open>NewBasicManagerFromManager\<close> takes the basics of every module of the manager, or the override given
  for its name; the overridden ones and the four custom ones are the repository's choice, the rest are
  the libraries'.
\<close>

definition basic_overrides :: "app_module list" where
  "basic_overrides = [GenutilM, StakingM, GovM, TransferM]"

definition BasicModuleManager :: "(app_module \<Rightarrow> module_basic) \<Rightarrow> (app_module \<Rightarrow> module_basic) \<Rightarrow> app_module \<rightharpoonup> module_basic" where
  "BasicModuleManager own override m =
     (if m \<notin> set module_manager then None
      else if m \<in> set basic_overrides then Some (override m)
      else Some (case m of EnergyM \<Rightarrow> energy_AppModuleBasic | OracleM \<Rightarrow> oracle_AppModuleBasic
        | IdentityM \<Rightarrow> identity_AppModuleBasic | AuditM \<Rightarrow> audit_AppModuleBasic | _ \<Rightarrow> own m))"

text \<open>What the two registrations after it put into the amino codec and the interface registry.\<close>

definition registered_amino :: "(app_module \<rightharpoonup> module_basic) \<Rightarrow> (string \<times> string) set" where
  "registered_amino bm = \<Union> ((\<lambda>b. set (mb_Amino b)) ` ran bm)"

definition registered_interfaces :: "(app_module \<rightharpoonup> module_basic) \<Rightarrow> string set" where
  "registered_interfaces bm = \<Union> ((\<lambda>b. set (mb_Interfaces b)) ` ran bm)"

text \<open>
  \<^verbatim>\<open>AutoCliOpts\<close>: the modules that have a name and are application modules, under their names.  Go
  ranges over the manager's map in any order.
\<close>

definition AutoCliOpts_Modules :: "('m \<Rightarrow> string option) \<Rightarrow> ('m \<Rightarrow> bool) \<Rightarrow> 'm list \<Rightarrow> string \<rightharpoonup> 'm" where
  "AutoCliOpts_Modules name_of is_app_module ms =
     fold (\<lambda>m modules. case name_of m of
         None \<Rightarrow> modules
       | Some moduleName \<Rightarrow> if is_app_module m then modules(moduleName \<mapsto> m) else modules) ms Map.empty"

lemma AutoCliOpts_lookup:
  assumes "inj_on name_of {m \<in> set ms. name_of m \<noteq> None \<and> is_app m}"
  shows "AutoCliOpts_Modules name_of is_app ms n = Some m \<longleftrightarrow> m \<in> set ms \<and> name_of m = Some n \<and> is_app m"
  using assms unfolding AutoCliOpts_Modules_def
proof (induction ms rule: rev_induct)
  case (snoc x ms)
  have inj: "inj_on name_of {m \<in> set ms. name_of m \<noteq> None \<and> is_app m}"
    by (rule inj_on_subset [OF snoc.prems]) auto
  have "y = x" if "y \<in> set ms" "name_of y = name_of x" "name_of x \<noteq> None" "is_app y" "is_app x" for y
    using snoc.prems that by (auto simp: inj_on_def)
  then show ?case using snoc.IH [OF inj] by (auto split: option.splits)
qed simp

text \<open>The options do not depend on the order in which the map is read.\<close>

lemma AutoCliOpts_order:
  assumes "inj_on name_of {m \<in> set ms. name_of m \<noteq> None \<and> is_app m}" and "set ms = set ms'"
  shows "AutoCliOpts_Modules name_of is_app ms = AutoCliOpts_Modules name_of is_app ms'"
proof
  fix n
  have "AutoCliOpts_Modules name_of is_app ms n = Some m \<longleftrightarrow> AutoCliOpts_Modules name_of is_app ms' n = Some m" for m
    using AutoCliOpts_lookup [OF assms(1)] AutoCliOpts_lookup [OF assms(1) [unfolded assms(2)]] assms(2) by simp
  then show "AutoCliOpts_Modules name_of is_app ms n = AutoCliOpts_Modules name_of is_app ms' n"
    by (metis not_None_eq)
qed

text \<open>The messages of every custom module reach the codec and the registry.\<close>

lemma custom_messages_registered:
  "set energy_RegisterCodec \<union> set oracle_RegisterCodec \<union> set identity_RegisterCodec \<union> set audit_RegisterCodec
     \<subseteq> registered_amino (BasicModuleManager own override) \<and>
   set energy_RegisterInterfaces \<union> set oracle_RegisterInterfaces \<union> set identity_RegisterInterfaces \<union> set audit_RegisterInterfaces
     \<subseteq> registered_interfaces (BasicModuleManager own override)"
proof -
  have "BasicModuleManager own override EnergyM = Some energy_AppModuleBasic"
    "BasicModuleManager own override OracleM = Some oracle_AppModuleBasic"
    "BasicModuleManager own override IdentityM = Some identity_AppModuleBasic"
    "BasicModuleManager own override AuditM = Some audit_AppModuleBasic"
    by (simp_all add: BasicModuleManager_def module_manager_def basic_overrides_def)
  then have "{energy_AppModuleBasic, oracle_AppModuleBasic, identity_AppModuleBasic, audit_AppModuleBasic}
      \<subseteq> ran (BasicModuleManager own override)"
    by (auto simp: ran_def)
  then show ?thesis
    unfolding registered_amino_def registered_interfaces_def
    by (force simp: energy_AppModuleBasic_def oracle_AppModuleBasic_def identity_AppModuleBasic_def audit_AppModuleBasic_def)
qed

section \<open>Versions and the upgrade\<close>

text \<open>
  \<^verbatim>\<open>GetVersionMap\<close>, which \<^verbatim>\<open>InitChainer\<close> stores on the chain: the consensus version of every module of
  the manager.  \<open>lib\<close> gives those of the libraries' modules.
\<close>

type_synonym version_map = "app_module \<rightharpoonup> uint64"

definition GetVersionMap :: "(app_module \<Rightarrow> uint64) \<Rightarrow> version_map" where
  "GetVersionMap lib m =
     (if m \<notin> set module_manager then None
      else Some (case m of EnergyM \<Rightarrow> energy_ConsensusVersion | OracleM \<Rightarrow> oracle_ConsensusVersion
        | IdentityM \<Rightarrow> identity_ConsensusVersion | AuditM \<Rightarrow> audit_ConsensusVersion | _ \<Rightarrow> lib m))"

text \<open>
  Documented behaviour of \<^verbatim>\<open>RunMigrations\<close>: a module whose stored version is the current one is not
  migrated, and only a module without a stored version is initialised.  So when the stored map is the
  current one, nothing happens.
\<close>

definition skips_current :: "version_map \<Rightarrow> (version_map \<Rightarrow> energy_state \<Rightarrow> (string + version_map) \<times> energy_state) \<Rightarrow> bool" where
  "skips_current vm RunMigrations \<longleftrightarrow> (\<forall>st. RunMigrations vm st = (Inr vm, st))"


text \<open>
  C40: The v1.0.1 upgrade on a chain that this binary started, whose stored versions are the current
  ones: when the plan on disk names it and its height is not skipped, registration installs a store
  loader that adds, renames and deletes no store, and the handler under the upgrade's name.  The
  handler succeeds and returns the versions unchanged; it raises the metadata cap to 8 KiB or leaves it
  where it was higher, and changes nothing else of the energy module's state, whose registered
  invariants hold afterwards.
\<close>

theorem upgrade_v1_0_1_safe:
  assumes "healthy E" and "energy_wf st" and "cap_ok E st" and "skips_current (GetVersionMap lib) RunMigrations" and "\<not> skip height"
  shows "\<exists>app handler st'.
    RegisterUpgradeHandlers (registerUpgrades E RunMigrations) (Inr (UpgradeName, height)) skip
      \<lparr>ua_handlers = Map.empty, ua_storeLoader = None\<rparr> = Inr app \<and>
    ua_storeLoader app = Some (height, \<lparr>su_Added = [], su_Renamed = [], su_Deleted = []\<rparr>) \<and>
    ua_handlers app UpgradeName = Some handler \<and>
    handler st (GetVersionMap lib) = ((GetVersionMap lib, None), st') \<and>
    cap_of E st' = max newCap (cap_of E st) \<and>
    energy_GetParams E st' = (energy_GetParams E st)\<lparr>ep_MaxMetadataSize := cap_of E st'\<rparr> \<and>
    st' = st\<lparr>es_Params := es_Params st'\<rparr> \<and> energy_AllInvariants E st' = None"
proof -
  let ?us = "registerUpgrades E RunMigrations" and ?empty = "\<lparr>ua_handlers = Map.empty, ua_storeLoader = None\<rparr>"
  let ?app = "install_loader skip UpgradeName height ?us (SetUpgradeHandlers ?us ?empty)"
  obtain st' where b: "bumpEnergyMetadataCap E st = (None, st')" "cap_of E st \<le> cap_of E st'" "newCap \<le> cap_of E st'"
      "energy_GetParams E st' = (energy_GetParams E st)\<lparr>ep_MaxMetadataSize := cap_of E st'\<rparr>"
      "st' = st\<lparr>es_Params := es_Params st'\<rparr>" "energy_AllInvariants E st' = None"
    using bump_outcome [OF assms(1-3)] by blast
  have valid: "energy_Params_Validate (energy_GetParams E st) = None" using assms(3) by (simp add: cap_ok_def)
  have "st' = (if cap_of E st \<ge> newCap then st else st\<lparr>es_Params := Some ((energy_GetParams E st)\<lparr>ep_MaxMetadataSize := newCap\<rparr>)\<rparr>)"
    using bump_healthy [OF assms(1) valid] b(1) by simp
  then have cap: "cap_of E st' = max newCap (cap_of E st)"
    using assms(1) by (auto simp: cap_of_def max_def split: if_splits)
  have "RegisterUpgradeHandlers ?us (Inr (UpgradeName, height)) skip ?empty = Inr ?app"
    by (simp add: RegisterUpgradeHandlers_def UpgradeName_def)
  moreover have "ua_storeLoader ?app = Some (height, StoreUpgrades)" using assms(5) by (simp add: registerUpgrades_def)
  moreover have "ua_handlers ?app UpgradeName = Some (CreateUpgradeHandler E RunMigrations)"
    by (simp add: registerUpgrades_def SetUpgradeHandlers_def)
  moreover have "CreateUpgradeHandler E RunMigrations st (GetVersionMap lib) = ((GetVersionMap lib, None), st')"
    using assms(4) b(1) by (simp add: CreateUpgradeHandler_def skips_current_def)
  ultimately show ?thesis using b cap unfolding StoreUpgrades_def by blast
qed

theorem upgrade_v1_0_1_safe_witness:
  "\<exists>app handler. RegisterUpgradeHandlers (registerUpgrades sample_env (\<lambda>(vm :: version_map) st. (Inr vm, st))) (Inr (UpgradeName, 500)) (\<lambda>_. False)
      \<lparr>ua_handlers = Map.empty, ua_storeLoader = None\<rparr> = Inr app \<and> ua_handlers app UpgradeName = Some handler"
proof -
  have ok: "cap_ok sample_env energy_empty" by (simp add: cap_ok_def cap_of_def energy_DefaultParams_valid)
  have "skips_current (GetVersionMap (\<lambda>_. 1)) (\<lambda>vm st. (Inr vm, st))" by (simp add: skips_current_def)
  from upgrade_v1_0_1_safe [OF sample_healthy energy_wf_empty ok this, of "\<lambda>_. False" 500] show ?thesis by fastforce
qed

end
