(* ===== verification/AppAccess.thy ===== *)
theory AppAccess
  imports AppKeepers
begin

text \<open>
  What the application hands out after construction, \<^verbatim>\<open>app.go\<close>: the keeper getters of the IBC testing
  interface, the IBC transfer stack and the way packets take through it, the custom precompiles as the
  EVM keeper finds them, and the routes of the API server.
\<close>

section \<open>Getters\<close>

text \<open>Each getter is the operand it returns: a copy, a pointer, a dereferenced pointer or an address.\<close>

definition GetStakingKeeperSDK :: operand where "GetStakingKeeperSDK = Deref StakingKeeper"
definition GetIBCKeeper :: operand where "GetIBCKeeper = Value IBCKeeper"
definition GetEVMKeeper :: operand where "GetEVMKeeper = Value EVMKeeper"
definition GetErc20Keeper :: operand where "GetErc20Keeper = Address Erc20Keeper"
definition GetGovKeeper :: operand where "GetGovKeeper = Value GovKeeper"
definition GetEvidenceKeeper :: operand where "GetEvidenceKeeper = Address EvidenceKeeper"
definition GetSlashingKeeper :: operand where "GetSlashingKeeper = Value SlashingKeeper"
definition GetBankKeeper :: operand where "GetBankKeeper = Value BankKeeper"
definition GetFeeMarketKeeper :: operand where "GetFeeMarketKeeper = Address FeeMarketKeeper"
definition GetFeeGrantKeeper :: operand where "GetFeeGrantKeeper = Value FeeGrantKeeper"
definition GetConsensusParamsKeeper :: operand where "GetConsensusParamsKeeper = Value ConsensusParamsKeeper"
definition GetAccountKeeper :: operand where "GetAccountKeeper = Value AccountKeeper"
definition GetDistrKeeper :: operand where "GetDistrKeeper = Value DistrKeeper"
definition GetStakingKeeper :: operand where "GetStakingKeeper = Value StakingKeeper"
definition GetMintKeeper :: operand where "GetMintKeeper = Value MintKeeper"
definition GetCallbackKeeper :: operand where "GetCallbackKeeper = Value CallbackKeeper"
definition GetTransferKeeper :: operand where "GetTransferKeeper = Value TransferKeeper"

definition keeper_getters :: "operand list" where
  "keeper_getters =
     [GetStakingKeeperSDK, GetIBCKeeper, GetEVMKeeper, GetErc20Keeper, GetGovKeeper, GetEvidenceKeeper, GetSlashingKeeper, GetBankKeeper, GetFeeMarketKeeper, GetFeeGrantKeeper, GetConsensusParamsKeeper, GetAccountKeeper, GetDistrKeeper, GetStakingKeeper, GetMintKeeper, GetCallbackKeeper, GetTransferKeeper]"

lemmas getter_defs =
  GetStakingKeeperSDK_def GetIBCKeeper_def GetEVMKeeper_def GetErc20Keeper_def GetGovKeeper_def GetEvidenceKeeper_def GetSlashingKeeper_def GetBankKeeper_def GetFeeMarketKeeper_def GetFeeGrantKeeper_def GetConsensusParamsKeeper_def GetAccountKeeper_def GetDistrKeeper_def GetStakingKeeper_def GetMintKeeper_def GetCallbackKeeper_def GetTransferKeeper_def keeper_getters_def

text \<open>A statement that replaces a field, and one that changes it.\<close>

fun replaces :: "keeper_field \<Rightarrow> stmt \<Rightarrow> bool" where
  "replaces f (Assign g ks auth ops) = (g = f)"
| "replaces f _ = False"

fun changes :: "keeper_field \<Rightarrow> stmt \<Rightarrow> bool" where
  "changes f (Assign g ks auth ops) = (g = f)"
| "changes f (Mutate g ks) = (g = f)"
| "changes f (Pass h ops) = False"

text \<open>When what was taken stays current: an address always, a pointer until the field is replaced, a copy until it changes.\<close>

fun stays_current :: "operand \<Rightarrow> stmt list \<Rightarrow> bool" where
  "stays_current (Address f) ss = True"
| "stays_current (Deref f) ss = list_all (\<lambda>s. \<not> changes f s) ss"
| "stays_current (Value f) ss = (if pointer_field f then list_all (\<lambda>s. \<not> replaces f s) ss else list_all (\<lambda>s. \<not> changes f s) ss)"
| "stays_current (Member f) ss = (if pointer_field f then list_all (\<lambda>s. \<not> replaces f s) ss else list_all (\<lambda>s. \<not> changes f s) ss)"

lemma exec_stmt_counts:
  assumes "exec_stmt s a = Some b"
  shows "af_assigned b f = af_assigned a f + (if replaces f s then 1 else 0)"
    and "af_version b f = af_version a f + (if changes f s then 1 else 0)"
  using assms take_operands_some by (cases s; fastforce split: if_splits)+

lemma exec_stmts_counts:
  "exec_stmts ss a = Some b \<Longrightarrow> af_assigned b f = af_assigned a f + length (filter (replaces f) ss) \<and>
     af_version b f = af_version a f + length (filter (changes f) ss)"
proof (induction ss arbitrary: a)
  case (Cons s ss)
  then obtain c where c: "exec_stmt s a = Some c" "exec_stmts ss c = Some b" by (auto split: option.splits)
  then show ?case using Cons.IH [OF c(2)] exec_stmt_counts [OF c(1), of f] by auto
qed simp

lemma none_of: "length (filter P xs) = 0 \<longleftrightarrow> list_all (\<lambda>x. \<not> P x) xs"
  by (induction xs) auto

lemma taken_fresh:
  assumes "exec_stmts ss a = Some b" and "\<forall>f. 0 < af_assigned a f"
  shows "fresh b (h, p, af_assigned a (field_of p), af_version a (field_of p)) \<longleftrightarrow> stays_current p ss"
  using exec_stmts_counts [OF assms(1), of "field_of p"] assms(2) none_of [of "replaces (field_of p)" ss] none_of [of "changes (field_of p)" ss]
  by (cases p) (auto split: if_splits)

text \<open>
  Right after construction the getters return without a panic, and what they return is current; after
  both setters of the testing interface only the transfer keeper's pointer is not: the ERC-20 keeper is
  handed out by address, the other fields are not touched.
\<close>

lemma fresh_held: "fresh (a\<lparr>af_held := hs\<rparr>) = fresh a"
proof
  fix x show "fresh (a\<lparr>af_held := hs\<rparr>) x = fresh a x" by (cases x; cases "fst (snd x)") auto
qed

lemma getters_after_construction:
  "\<exists>a b. exec_stmts construct_keepers zero_app = Some a \<and> take_operands IBCTesting keeper_getters a = Some b \<and> list_all (fresh b) (af_held b)"
proof -
  obtain a where a: "exec_stmts construct_keepers zero_app = Some a" "list_all (fresh a) (af_held a)"
      "list_all (\<lambda>f. 0 < af_assigned a f) keeper_fields"
    using construction_current by blast
  have set_all: "\<forall>f. 0 < af_assigned a f" using a(3) keeper_fields_all by (auto simp: list_all_iff)
  have ok: "list_all (operand_ok a) keeper_getters" using set_all by (simp add: getter_defs)
  let ?taken = "map (\<lambda>p. (IBCTesting, p, af_assigned a (field_of p), af_version a (field_of p))) keeper_getters"
  have "list_all (fresh a) ?taken"
    using taken_fresh [of "[]" a a IBCTesting] set_all by (simp add: list_all_iff getter_defs)
  then show ?thesis using a ok by (simp add: take_operands_def fresh_held)
qed

lemma getters_after_setters:
  "filter (\<lambda>p. \<not> stays_current p [SetErc20Keeper, SetTransferKeeper]) keeper_getters = [GetTransferKeeper]"
  by (simp add: getter_defs SetErc20Keeper_def SetTransferKeeper_def)

section \<open>The transfer stack\<close>

text \<open>
  An IBC application is the transfer module, or a middleware around another application; the callbacks
  middleware is made empty and gets its two parts from setters.  An ICS4 wrapper is what an application
  sends packets to: the channel keeper, or a middleware.
\<close>

datatype ibc_module = IBCTransfer | IBCErc20 ibc_module | IBCCallbacks "ics4_wrapper option" "ibc_module option"
  and ics4_wrapper = ChannelKeeper | Through ibc_module

fun SetICS4Wrapper :: "ics4_wrapper \<Rightarrow> ibc_module \<Rightarrow> ibc_module" where
  "SetICS4Wrapper w (IBCCallbacks _ app) = IBCCallbacks (Some w) app"
| "SetICS4Wrapper w m = m"

fun SetUnderlyingApplication :: "ibc_module \<Rightarrow> ibc_module \<Rightarrow> ibc_module" where
  "SetUnderlyingApplication app (IBCCallbacks w _) = IBCCallbacks w (Some app)"
| "SetUnderlyingApplication app m = m"

definition transferStack :: ibc_module where
  "transferStack =
     (let stack = IBCErc20 IBCTransfer;
          callbacksMiddleware = IBCCallbacks None None;
          callbacksMiddleware = SetICS4Wrapper ChannelKeeper callbacksMiddleware
      in SetUnderlyingApplication stack callbacksMiddleware)"

definition transferStackV2 :: ibc_module where
  "transferStackV2 = IBCErc20 IBCTransfer"

text \<open>The transfer keeper is built with the channel keeper as its wrapper, and nothing replaces it.\<close>

definition transfer_ics4 :: ics4_wrapper where
  "transfer_ics4 = ChannelKeeper"

datatype ibc_layer = ChannelLayer | CallbacksLayer | Erc20Layer | TransferLayer

text \<open>
  A packet received by the channel is handed to the routed application and from a middleware to what it
  wraps (\<open>None\<close> is the nil application of an unfinished middleware); a packet sent by the transfer
  keeper goes to its wrapper and from a middleware to the middleware's own wrapper.
\<close>

fun recv_path :: "ibc_module \<Rightarrow> ibc_layer list option" where
  "recv_path IBCTransfer = Some [TransferLayer]"
| "recv_path (IBCErc20 app) = map_option (Cons Erc20Layer) (recv_path app)"
| "recv_path (IBCCallbacks w app) = (case app of None \<Rightarrow> None | Some a \<Rightarrow> map_option (Cons CallbacksLayer) (recv_path a))"

fun send_path :: "ics4_wrapper \<Rightarrow> ibc_layer list option" where
  "send_path ChannelKeeper = Some [ChannelLayer]"
| "send_path (Through IBCTransfer) = None"
| "send_path (Through (IBCErc20 app)) = map_option (Cons Erc20Layer) (send_path (Through app))"
| "send_path (Through (IBCCallbacks w app)) = (case w of None \<Rightarrow> None | Some v \<Rightarrow> map_option (Cons CallbacksLayer) (send_path v))"

text \<open>
  Received packets pass the callbacks and the ERC-20 middleware before the transfer module, over the
  second protocol version only the ERC-20 one; sent packets pass neither.
\<close>

lemma transfer_paths:
  "recv_path transferStack = Some [CallbacksLayer, Erc20Layer, TransferLayer]"
  "recv_path transferStackV2 = Some [Erc20Layer, TransferLayer]"
  "send_path transfer_ics4 = Some [ChannelLayer]"
  by (simp_all add: transferStack_def transferStackV2_def transfer_ics4_def Let_def)

section \<open>Package initialisation and the custom precompiles\<close>

text \<open>The library's \<^verbatim>\<open>GetNodeHomeDirectory\<close> and \<^verbatim>\<open>abi.JSON\<close> are arguments; \<open>Inl\<close> is a panic.\<close>

definition MustGetDefaultNodeHome :: "(string \<Rightarrow> string + string) \<Rightarrow> string + string" where
  "MustGetDefaultNodeHome GetNodeHomeDirectory = GetNodeHomeDirectory ''.energychaind''"

definition app_init :: "'pr \<Rightarrow> (string \<Rightarrow> string + string) \<Rightarrow> string + 'pr \<times> string" where
  "app_init AttoPowerReduction GetNodeHomeDirectory =
     map_sum id (Pair AttoPowerReduction) (MustGetDefaultNodeHome GetNodeHomeDirectory)"

definition energy_init :: "(bytes \<Rightarrow> string + abi_method list) \<Rightarrow> bytes \<Rightarrow> string + abi_method list" where
  "energy_init parse_ABI abiJSON =
     (case parse_ABI abiJSON of Inl e \<Rightarrow> Inl (''energy precompile: parse ABI: '' @ e) | Inr parsed \<Rightarrow> Inr parsed)"

definition identity_init :: "(bytes \<Rightarrow> string + abi_method list) \<Rightarrow> bytes \<Rightarrow> string + abi_method list" where
  "identity_init parse_ABI abiJSON =
     (case parse_ABI abiJSON of Inl e \<Rightarrow> Inl (''identity precompile: parse ABI: '' @ e) | Inr parsed \<Rightarrow> Inr parsed)"

record ('gas, 'k) precompile_contract =
  pc_KvGasConfig :: 'gas
  pc_TransientKVGasConfig :: 'gas
  pc_ContractAddress :: bytes
  pc_ABI :: "abi_method list"
  pc_keeper :: 'k

definition energy_NewPrecompile ::
  "'gas \<Rightarrow> 'gas \<Rightarrow> (string \<Rightarrow> bytes) \<Rightarrow> abi_method list \<Rightarrow> 'k \<Rightarrow> ('gas, 'k) precompile_contract" where
  "energy_NewPrecompile KVGasConfig TransientGasConfig HexToAddress ABI keeper =
     \<lparr>pc_KvGasConfig = KVGasConfig, pc_TransientKVGasConfig = TransientGasConfig,
      pc_ContractAddress = HexToAddress energy_PrecompileAddress, pc_ABI = ABI, pc_keeper = keeper\<rparr>"

definition identity_NewPrecompile ::
  "'gas \<Rightarrow> 'gas \<Rightarrow> (string \<Rightarrow> bytes) \<Rightarrow> abi_method list \<Rightarrow> 'k \<Rightarrow> ('gas, 'k) precompile_contract" where
  "identity_NewPrecompile KVGasConfig TransientGasConfig HexToAddress ABI keeper =
     \<lparr>pc_KvGasConfig = KVGasConfig, pc_TransientKVGasConfig = TransientGasConfig,
      pc_ContractAddress = HexToAddress identity_PrecompileAddress, pc_ABI = ABI, pc_keeper = keeper\<rparr>"

text \<open>The EVM keeper's table after the two registrations of the constructor.\<close>

datatype ('gas, 'lib) static_precompile =
    LibraryPrecompile 'lib
  | EnergyContract "('gas, energy_state) precompile_contract"
  | IdentityContract "('gas, identity_state) precompile_contract"

definition register_custom_precompiles ::
  "(string \<Rightarrow> bytes) \<Rightarrow> ('gas, energy_state) precompile_contract \<Rightarrow> ('gas, identity_state) precompile_contract \<Rightarrow>
     (bytes \<rightharpoonup> ('gas, 'lib) static_precompile) \<Rightarrow> bytes \<rightharpoonup> ('gas, 'lib) static_precompile" where
  "register_custom_precompiles HexToAddress ep ip defaults =
     (defaults(HexToAddress energy_PrecompileAddress \<mapsto> EnergyContract ep))(HexToAddress identity_PrecompileAddress \<mapsto> IdentityContract ip)"

text \<open>
  Each contract is registered under the address it reports, the two do not overwrite each other, and the
  library's precompiles stay reachable at every other address.
\<close>

lemma custom_precompiles_reachable:
  assumes "HexToAddress energy_PrecompileAddress \<noteq> HexToAddress identity_PrecompileAddress"
    and "ep = energy_NewPrecompile kv tr HexToAddress eabi ek" and "ip = identity_NewPrecompile kv tr HexToAddress iabi ik"
  shows "register_custom_precompiles HexToAddress ep ip defaults (pc_ContractAddress ep) = Some (EnergyContract ep) \<and>
    register_custom_precompiles HexToAddress ep ip defaults (pc_ContractAddress ip) = Some (IdentityContract ip) \<and>
    (\<forall>a. a \<noteq> pc_ContractAddress ep \<longrightarrow> a \<noteq> pc_ContractAddress ip \<longrightarrow>
       register_custom_precompiles HexToAddress ep ip defaults a = defaults a)"
  using assms(1) by (simp add: assms(2,3) register_custom_precompiles_def energy_NewPrecompile_def identity_NewPrecompile_def)

section \<open>Routes of the API server\<close>

datatype api_route = TxRoutes | CometRoutes | NodeRoutes | ModuleRoutes | SwaggerRoutes

text \<open>The first component is the panic when the Swagger routes cannot be registered.\<close>

definition RegisterAPIRoutes :: "string option \<Rightarrow> api_route list \<Rightarrow> string option \<times> api_route list" where
  "RegisterAPIRoutes RegisterSwaggerAPI routes =
     (let routes = routes @ [TxRoutes];
          routes = routes @ [CometRoutes];
          routes = routes @ [NodeRoutes];
          routes = routes @ [ModuleRoutes]
      in case RegisterSwaggerAPI of Some e \<Rightarrow> (Some e, routes) | None \<Rightarrow> (None, routes @ [SwaggerRoutes]))"

lemma api_routes_complete:
  "set [TxRoutes, CometRoutes, NodeRoutes, ModuleRoutes] \<subseteq> set (snd (RegisterAPIRoutes swagger []))"
  by (simp add: RegisterAPIRoutes_def Let_def split: option.split)

end
