(* ===== verification/Spec2Isabelle.thy ===== *)
theory Spec2Isabelle
  imports EnergyClaims OracleClaims IdentityClaims AuditClaims
    PrecompileClaims Upgrade BroadcasterClaims MempoolSetup
    ModuleGlue AppWiring ChainGenesis ZeroHeight ClientCli
    ServerStartClaims EvmSupervisor TestnetClaims NodeConfig ChainBoot
    ParallelRunner CommandTree StartFlags
    StoreClaims ModuleSetup AppAccess
begin

text \<open>
  A verification library for the EnergyChain node, the Go program under \<^verbatim>\<open>src/chain\<close>: a Cosmos SDK
  chain with an EVM, four modules of its own (energy records, oracle data, identities, audit log), two
  read-only precompiles over them, and the application, export and command code around them.

  \<^bold>\<open>Parts and how they interact.\<close>  Each of the four modules has a keeper over typed collections of
  one key-value store, a message server that checks a transaction and calls the keeper, a query server,
  registered invariants and genesis code.  The energy and audit keepers also count per block in a
  transient store.  The precompiles read the energy and identity keepers.  The upgrade handler rewrites
  the energy parameters.  The application mounts one store per module, orders the modules, configures
  the mempool, owns the broadcaster of promoted transactions, boots from and exports to genesis, and is
  started and closed by the node's start command, which also supervises the EVM services.

  \<^bold>\<open>Theories and sources.\<close>
  \<^item> \<open>GoPrelude\<close>, \<open>GoStrings\<close>: Go integers as words, big-endian encoding, events, the environment \<open>env\<close>
    (hash functions, the bech32 decoder, storage faults), hexadecimal and decimal text, trimming.
  \<^item> \<open>CollStore\<close>: \<^verbatim>\<open>cosmossdk.io/collections\<close> as the keepers use it: items, sequences, maps and key
    sets in key order, ranges and walks; the locale of a secondary index.  \<open>RateLimit\<close>: the interface
    of a per-block counter.  \<open>StoreLayout\<close>, \<open>StoreEncodable\<close>, \<open>StoreClaims\<close>: the
    bytes behind the collections, from the prefixes of \<^verbatim>\<open>types/keys.go\<close> and the key codecs of
    \<^verbatim>\<open>NewKeeper\<close>, over the whole chain.  \<open>TxHistory\<close>: the interfaces of a module that runs transactions, of
    a bound that only updates move, and of a component of a larger machine.  \<open>SampleEnv\<close>: the environment of the witnesses.
  \<^item> \<open>EnergyTypes\<close>, \<open>EnergyKeeper\<close>, \<open>EnergyMsgServer\<close>, \<open>EnergyInvariants\<close>, \<open>Merkle\<close>: \<^verbatim>\<open>x/energy/types\<close> and
    \<^verbatim>\<open>x/energy/keeper\<close>.  \<open>EnergyCorrect\<close>, \<open>EnergyRun\<close>, \<open>EnergyLedger\<close>, \<open>EnergyHistory\<close>,
    \<open>EnergyGenesis\<close> hold the lemmas, \<open>EnergyClaims\<close> the properties.
  \<^item> \<open>OracleTypes\<close>, \<open>OracleKeeper\<close>, \<open>OracleCorrect\<close>, \<open>OracleClaims\<close>: \<^verbatim>\<open>x/oracle\<close>.
    \<open>IdentityTypes\<close>, \<open>IdentityKeeper\<close>, \<open>IdentityClaims\<close>: \<^verbatim>\<open>x/identity\<close>.
    \<open>AuditTypes\<close>, \<open>AuditKeeper\<close>, \<open>AuditCorrect\<close>, \<open>AuditHistory\<close>, \<open>AuditClaims\<close>: \<^verbatim>\<open>x/audit\<close>.
  \<^item> \<open>ModuleGlue\<close>: the \<^verbatim>\<open>module.go\<close> files and \<^verbatim>\<open>RegisterInvariants\<close> of the four modules.
    \<open>ModuleSetup\<close>: the rest of those files (basics, instances, invariant routes, versions), the basic manager and
    auto-CLI options of \<^verbatim>\<open>app.go\<close>, and the v1.0.1 upgrade on the stored versions.
  \<^item> \<open>Precompiles\<close>, \<open>PrecompileClaims\<close>: \<^verbatim>\<open>precompiles/energy\<close> and \<^verbatim>\<open>precompiles/identity\<close>.
  \<^item> \<open>Upgrade\<close>: \<^verbatim>\<open>upgrades.go\<close> and \<^verbatim>\<open>upgrades/v1_0_1\<close>.
  \<^item> \<open>BoundedChannel\<close>, \<open>Broadcaster\<close>, \<open>BroadcasterClaims\<close>: \<^verbatim>\<open>mempool_broadcast.go\<close>, the goroutine as a step
    relation.  \<open>MempoolSetup\<close>: \<^verbatim>\<open>mempool.go\<close> and \<^verbatim>\<open>tx_verifier.go\<close>.
  \<^item> \<open>AppWiring\<close>: stores, module orders, precompile activation, default genesis, listeners and shutdown of
    \<^verbatim>\<open>app.go\<close>, \<^verbatim>\<open>genesis.go\<close> and \<^verbatim>\<open>config/permissions.go\<close>.  \<open>ChainGenesis\<close>: \<^verbatim>\<open>InitChainer\<close> and the
    export over all four modules.  \<open>ChainHistory\<close>, \<open>ChainClaims\<close>, \<open>ChainBoot\<close>: message routing
    (\<^verbatim>\<open>RegisterServices\<close>), blocks of multi-message transactions, and chains from genesis on.  \<open>ZeroHeight\<close>: \<^verbatim>\<open>prepForZeroHeightGenesis\<close> of \<^verbatim>\<open>export.go\<close>.
  \<^item> \<open>ClientCli\<close>: the transaction commands in \<^verbatim>\<open>x/*/client/cli\<close>.
  \<^item> \<open>ServerStart\<close>, \<open>ServerStartClaims\<close>, \<open>EvmSupervisor\<close>: \<^verbatim>\<open>cmd/energychaind/cmd/evm_server.go\<close>.
    \<open>TestnetUtils\<close>, \<open>TestnetClaims\<close>: \<^verbatim>\<open>cmd/energychaind/cmd/testnet_utils.go\<close>.
    \<open>NodeConfig\<close>: \<^verbatim>\<open>config/config.go\<close>, the constructors and pre-run handler of \<^verbatim>\<open>root.go\<close>, \<^verbatim>\<open>creator.go\<close>.
    \<open>StartFlags\<close>: the flags of the start command.  \<open>CommandTree\<close>: \<^verbatim>\<open>main.go\<close>, \<^verbatim>\<open>config/bech32.go\<close>, the command tree of \<^verbatim>\<open>root.go\<close>.  \<open>AutoCli\<close>: \<^verbatim>\<open>autocli.go\<close> and
    \<^verbatim>\<open>types/codec.go\<close> of the modules against their \<^verbatim>\<open>.proto\<close> services.
  \<^item> \<open>AppKeepers\<close>, \<open>AppBuild\<close>: \<^verbatim>\<open>NewEnergyChainApp\<close>, first as statements on the keeper fields, which Go copies
    or shares, then as the stages that can stop the construction.  \<open>ParallelRunner\<close>: what a parallel block
    runner may rely on, the independence of the modules and the stores it is told to track.  \<open>AppAccess\<close>: what
    the application hands out, namely the keeper getters, the IBC transfer stack, the custom precompile
    instances and the API routes.

  \<^bold>\<open>How the code is modelled.\<close>  A Go struct is a record, an error an element of an error datatype, a
  handler a function from the state to a result and a state.  A failing handler returns the state as it
  left it; a transaction keeps that state only on success (\<open>commit_if\<close>), as the SDK does.  Integers are
  64 and 32 bit words where the code computes with them.  Histories are lists of transactions, each with
  its block context; transient counters are cleared when the height changes.  Storage can fail on any
  write or decode through \<open>env\<close>; \<open>healthy E\<close> says it does not, \<open>rejects_empty E\<close> that the address decoder
  refuses the empty string.  Goroutines are step relations (\<open>loop_step\<close>, \<open>bstep\<close>), the endless supervisor
  loop a recursion over what its rounds meet, and starting the node a trace of effects with its deferred
  releases.  JSON, the ABI layer, pagination, the transaction libraries, the distribution keeper and
  reflection's duration parser are arguments; the hypotheses on them are stated where they are used
  (\<open>evm_lib_ok\<close>, \<open>json_faithful\<close>, \<open>paginates\<close>).

  \<^bold>\<open>What the lemmas show.\<close>  For each module: preservation of a well-formedness invariant by every
  transaction, exact outcomes of the handlers, the registered invariants along every history, and genesis
  restoring what was exported.  For energy and audit: refinement of an append-only ledger, the per-block
  rate limit, and the Merkle check against a reference tree and up to hash collisions.  For identity:
  the life cycle and the confinement of senders without the admin role.  For oracle: exact history
  queries.  Across components: under any runner that is
  atomic (\<open>atomic_runner\<close>) every block history of multi-message transactions projects to histories of the
  four modules, so their results carry over; a validated genesis boots and stays within the invariants;
  the precompiles answer from the same states along histories, the upgrade
  keeps the invariants, one export and import of the application restores all four modules, every
  key a chain stores is encodable, so the bytes of the multistore determine its persistent state, and
  those of records, logs and index entries never change, the command line's normalisation agrees with the chain's check, the broadcaster is first in, first out and
  settles, starting and closing the node releases what it acquired, the supervisor keeps restarting.

  \<^bold>\<open>Bounds.\<close>  Statements on histories assume room in the 64 bit sequence for the identifiers the
  history draws; the wrap at \<open>2 ^ 64\<close> is shown separately to overwrite.  Listings stop at 1000 results,
  the broadcaster's queue at 10000.  The recursion of the Merkle root carries fuel, and is shown to
  return on every batch.

  \<^bold>\<open>Not modelled.\<close>  Generated protobuf code (only its records), the library keepers and modules
  themselves, ante and post handlers, and the block handlers of \<^verbatim>\<open>app.go\<close>, which only call the module
  manager.  The bytes of stored values: the codecs of keys are a parameter (\<open>key_codec\<close>), values are kept
  as they are.  Strings are byte strings; case folding and trimming are modelled on ASCII.  Gas metering
  and block execution are the SDK's.
\<close>

end
